(* ===== verification/Prelude.thy ===== *)
theory Prelude
  imports Main "HOL-Library.Word"
begin

text \<open>
  Shared vocabulary of the development: the fixed-width integers of \<^verbatim>\<open>primitives/src/lib.rs\<close>, the
  result of a dispatchable call, FRAME storage maps as association lists, the saturating
  operations of Rust's unsigned integers and the binary search of Rust's slices, with the lemmas
  every component uses. A bare \<open>+\<close>, \<open>-\<close> or \<open>*\<close> on machine integers wraps around: the workspace
  sets no overflow checks for its release profile, which is the profile the runtime is built with.
\<close>

named_theorems smap_simps \<open>equations of the storage maps\<close>
named_theorems ledger_simps \<open>equations of the staking ledgers\<close>

section \<open>Machine integers and chain types\<close>

type_synonym u8 = "8 word"
type_synonym u16 = "16 word"
type_synonym u32 = "32 word"
type_synonym u64 = "64 word"
type_synonym u128 = "128 word"

type_synonym BlockNumber = u32
type_synonym Moment = u64
type_synonym AccountIndex = u32
type_synonym ChainId = u32
type_synonym Index = u32
type_synonym Nonce = u32
type_synonym Balance = u128

section \<open>Origins and results of dispatchable calls\<close>

text \<open>
  A dispatchable receives the origin of the call. It succeeds, fails with an error, or panics.
  Storage written before an error stays written, so a call returns the new state beside its
  outcome, also when the outcome is an error.
\<close>

datatype 'acc raw_origin = Root | Signed 'acc | NoneOrigin

datatype 'e dispatch_error = BadOrigin | Module 'e

datatype 'e outcome = Ok | Err "'e dispatch_error" | Panic

definition ensure_signed :: "'acc raw_origin \<Rightarrow> 'acc option" where
  "ensure_signed o' = (case o' of Signed who \<Rightarrow> Some who | _ \<Rightarrow> None)"

definition ensure_root :: "'acc raw_origin \<Rightarrow> bool" where
  "ensure_root o' = (case o' of Root \<Rightarrow> True | _ \<Rightarrow> False)"

definition ensure_none :: "'acc raw_origin \<Rightarrow> bool" where
  "ensure_none o' = (case o' of NoneOrigin \<Rightarrow> True | _ \<Rightarrow> False)"

lemma ensure_signed_simps [simp]:
  "ensure_signed (Signed who) = Some who" "ensure_signed Root = None"
  "ensure_signed NoneOrigin = None"
  by (simp_all add: ensure_signed_def)

lemma ensure_signed_Some_iff [simp]: "ensure_signed o' = Some who \<longleftrightarrow> o' = Signed who"
  by (cases o') auto

lemma ensure_root_iff [simp]: "ensure_root o' \<longleftrightarrow> o' = Root"
  by (cases o') (auto simp: ensure_root_def)

lemma ensure_none_iff [simp]: "ensure_none o' \<longleftrightarrow> o' = NoneOrigin"
  by (cases o') (auto simp: ensure_none_def)

section \<open>Saturating arithmetic\<close>

definition saturating_add :: "'a::len word \<Rightarrow> 'a word \<Rightarrow> 'a word" where
  "saturating_add a b = (if unat a + unat b < 2 ^ LENGTH('a) then a + b else - 1)"

definition saturating_sub :: "'a::len word \<Rightarrow> 'a word \<Rightarrow> 'a word" where
  "saturating_sub a b = (if b \<le> a then a - b else 0)"

definition saturating_mul :: "'a::len word \<Rightarrow> 'a word \<Rightarrow> 'a word" where
  "saturating_mul a b = (if unat a * unat b < 2 ^ LENGTH('a) then a * b else - 1)"

lemma unat_max_word: "unat (- 1 :: 'a::len word) = 2 ^ LENGTH('a) - 1"
  by (simp add: unat_eq_nat_uint unsigned_minus_1_eq_mask mask_eq_exp_minus_1 nat_diff_distrib nat_power_eq)

lemma unat_saturating_add:
  "unat (saturating_add a b) = min (unat a + unat b) (2 ^ LENGTH('a) - 1)" for a b :: "'a::len word"
  by (auto simp: saturating_add_def unat_word_ariths unat_max_word min_def)

lemma unat_saturating_sub: "unat (saturating_sub a b) = unat a - unat b"
  by (auto simp: saturating_sub_def unat_sub_if' word_le_nat_alt)

lemma unat_saturating_mul:
  "unat (saturating_mul a b) = min (unat a * unat b) (2 ^ LENGTH('a) - 1)" for a b :: "'a::len word"
proof (cases "unat a * unat b < 2 ^ LENGTH('a)")
  case True
  then show ?thesis by (simp add: saturating_mul_def unat_word_ariths)
next
  case False
  then have "2 ^ LENGTH('a) - 1 \<le> unat a * unat b" by linarith
  with False show ?thesis by (simp add: saturating_mul_def unat_max_word)
qed

lemma saturating_add_exact:
  "unat a + unat b < 2 ^ LENGTH('a) \<Longrightarrow> saturating_add a b = a + b" for a b :: "'a::len word"
  by (simp add: saturating_add_def)

section \<open>Sums over lists\<close>

lemma sum_list_filter_split:
  fixes f :: "'a \<Rightarrow> 'b::comm_monoid_add"
  shows "sum_list (map f (filter P xs)) + sum_list (map f (filter (\<lambda>x. \<not> P x) xs)) = sum_list (map f xs)"
  by (induction xs) (auto simp: algebra_simps)

lemma sum_list_filter_not:
  fixes f :: "'a \<Rightarrow> 'b::ab_group_add"
  shows "sum_list (map f (filter (\<lambda>x. \<not> P x) xs)) = sum_list (map f xs) - sum_list (map f (filter P xs))"
  using sum_list_filter_split [of f P xs] by (simp add: algebra_simps)

lemma unat_sum_list:
  fixes ws :: "'a::len word list"
  assumes "sum_list (map unat ws) < 2 ^ LENGTH('a)"
  shows "unat (sum_list ws) = sum_list (map unat ws)"
  using assms
proof (induction ws)
  case Nil
  then show ?case by simp
next
  case (Cons w ws)
  then have "unat (sum_list ws) = sum_list (map unat ws)" by simp
  with Cons.prems show ?case by (simp add: unat_word_ariths)
qed

section \<open>Storage maps\<close>

text \<open>
  A FRAME \<^verbatim>\<open>StorageMap\<close> that the code iterates is an association list: its keys in the order the
  iteration visits them. That order is the order of the hashed keys, which the code does not
  fix: \<open>before\<close> says which of two keys comes first and is a parameter with no law.
\<close>

type_synonym ('k, 'v) smap = "('k \<times> 'v) list"

abbreviation keys :: "('k, 'v) smap \<Rightarrow> 'k list" where
  "keys m \<equiv> map fst m"

fun sm_place :: "('k \<Rightarrow> 'k \<Rightarrow> bool) \<Rightarrow> 'k \<Rightarrow> 'v \<Rightarrow> ('k, 'v) smap \<Rightarrow> ('k, 'v) smap" where
  "sm_place before k v [] = [(k, v)]"
| "sm_place before k v ((k', v') # m) =
     (if before k k' then (k, v) # (k', v') # m else (k', v') # sm_place before k v m)"

definition sm_insert :: "('k \<Rightarrow> 'k \<Rightarrow> bool) \<Rightarrow> 'k \<Rightarrow> 'v \<Rightarrow> ('k, 'v) smap \<Rightarrow> ('k, 'v) smap" where
  "sm_insert before k v m =
     (if k \<in> set (keys m) then map (\<lambda>(k', v'). (k', if k' = k then v else v')) m
      else sm_place before k v m)"

definition sm_remove :: "'k \<Rightarrow> ('k, 'v) smap \<Rightarrow> ('k, 'v) smap" where
  "sm_remove k m = filter (\<lambda>(k', v'). k' \<noteq> k) m"

abbreviation sm_get :: "('k, 'v) smap \<Rightarrow> 'k \<Rightarrow> 'v option" where
  "sm_get m k \<equiv> map_of m k"

lemma sm_place_get: "k \<notin> set (keys m) \<Longrightarrow> sm_get (sm_place before k v m) j = (if j = k then Some v else sm_get m j)"
  by (induction m) auto

lemma set_sm_place: "set (sm_place before k v m) = insert (k, v) (set m)"
  by (induction m rule: list.induct) (auto split: if_splits)

lemma set_keys_sm_place: "set (keys (sm_place before k v m)) = insert k (set (keys m))"
  using arg_cong [OF set_sm_place, of "image fst"] by simp

lemma distinct_sm_place:
  "k \<notin> set (keys m) \<Longrightarrow> distinct (keys (sm_place before k v m)) = distinct (keys m)"
proof (induction m)
  case Nil
  then show ?case by simp
next
  case (Cons p m)
  obtain k' v' where p: "p = (k', v')" by (cases p)
  have "set (keys (sm_place before k v m)) = insert k (set (keys m))"
    by (rule set_keys_sm_place)
  with Cons p show ?case by (auto simp del: set_map)
qed

lemma map_of_map_snd:
  "map_of (map (\<lambda>(k', v'). (k', f k' v')) m) j = map_option (f j) (map_of m j)"
  by (induction m) auto

lemma sm_get_insert [simp, smap_simps]:
  "sm_get (sm_insert before k v m) j = (if j = k then Some v else sm_get m j)"
proof (cases "k \<in> set (keys m)")
  case True
  then obtain v0 where "sm_get m k = Some v0"
    by (metis domD dom_map_of_conv_image_fst set_map)
  with True show ?thesis
    by (cases "sm_get m j")
      (auto simp: sm_insert_def map_of_map_snd [where f = "\<lambda>k' v'. if k' = k then v else v'"])
next
  case False
  then show ?thesis by (simp add: sm_insert_def sm_place_get)
qed

lemma keys_sm_insert_old: "k \<in> set (keys m) \<Longrightarrow> keys (sm_insert before k v m) = keys m"
  by (simp add: sm_insert_def comp_def case_prod_beta)

lemma set_keys_sm_insert [simp, smap_simps]:
  "fst ` set (sm_insert before k v m) = insert k (fst ` set m)"
proof (cases "k \<in> set (keys m)")
  case True
  then have "set (keys (sm_insert before k v m)) = set (keys m)" by (simp only: keys_sm_insert_old)
  with True show ?thesis by auto
next
  case False
  then show ?thesis using set_keys_sm_place [of before k v m] by (simp add: sm_insert_def)
qed

lemma distinct_sm_insert [simp, smap_simps]:
  "distinct (keys (sm_insert before k v m)) = distinct (keys m)"
proof (cases "k \<in> set (keys m)")
  case True
  then show ?thesis by (simp only: keys_sm_insert_old)
next
  case False
  then show ?thesis by (simp add: sm_insert_def distinct_sm_place)
qed

lemma set_sm_insert_subset: "set (sm_insert before k v m) \<subseteq> insert (k, v) (set m)"
  by (auto simp: sm_insert_def set_sm_place split: if_splits)

lemma ball_sm_insert [intro]:
  "P k v \<Longrightarrow> \<forall>(j, w) \<in> set m. P j w \<Longrightarrow> \<forall>(j, w) \<in> set (sm_insert before k v m). P j w"
  using set_sm_insert_subset [of before k v m] by auto

lemma sm_get_remove [simp, smap_simps]:
  "sm_get (sm_remove k m) j = (if j = k then None else sm_get m j)"
  by (induction m) (auto simp: sm_remove_def)

lemma set_sm_remove: "set (sm_remove k m) = {(j, w) \<in> set m. j \<noteq> k}"
  by (auto simp: sm_remove_def)

lemma distinct_sm_remove [simp, smap_simps]: "distinct (keys m) \<Longrightarrow> distinct (keys (sm_remove k m))"
  unfolding sm_remove_def by (induction m) (auto simp: case_prod_beta)

lemma ball_sm_remove [intro]:
  "\<forall>(j, w) \<in> set m. P j w \<Longrightarrow> \<forall>(j, w) \<in> set (sm_remove k m). P j w"
  by (auto simp: set_sm_remove)

lemma ball_sm_get: "\<forall>(j, w) \<in> set m. P j w \<Longrightarrow> sm_get m k = Some v \<Longrightarrow> P k v"
  by (auto dest: map_of_SomeD)

lemma sm_get_in_set: "sm_get m k = Some v \<Longrightarrow> (k, v) \<in> set m"
  by (rule map_of_SomeD)

text \<open>
  A loop over a map that rewrites the entry it visits is a map over the entries: the keys and
  their order stay, and every entry is rewritten once.
\<close>

lemma fold_sm_insert_aux:
  assumes "distinct (keys (pre @ suf))"
  shows "fold (\<lambda>(k, v) m. sm_insert before k (f k v) m) suf (pre @ suf) = pre @ map (\<lambda>(k, v). (k, f k v)) suf"
  using assms
proof (induction suf arbitrary: pre)
  case Nil
  then show ?case by simp
next
  case (Cons p suf)
  obtain k v where p: "p = (k, v)" by (cases p)
  have "map (\<lambda>(k', v'). (k', if k' = k then f k v else v')) pre = pre"
    using Cons.prems p by (intro map_idI) (auto simp: image_iff)
  moreover have "map (\<lambda>(k', v'). (k', if k' = k then f k v else v')) suf = suf"
    using Cons.prems p by (intro map_idI) (auto simp: image_iff)
  ultimately have "sm_insert before k (f k v) (pre @ p # suf) = (pre @ [(k, f k v)]) @ suf"
    using p by (simp add: sm_insert_def)
  with Cons.IH [of "pre @ [(k, f k v)]"] Cons.prems p show ?case by simp
qed

lemma fold_sm_insert:
  "distinct (keys m) \<Longrightarrow>
   fold (\<lambda>(k, v) m. sm_insert before k (f k v) m) m m = map (\<lambda>(k, v). (k, f k v)) m"
  using fold_sm_insert_aux [of "[]" m] by simp

lemma fold_sm_replace_aux:
  assumes "distinct (keys (pre @ suf))"
  shows "fold (\<lambda>(k, v) m. case f k v of Some w \<Rightarrow> sm_insert before k w m | None \<Rightarrow> sm_remove k m) suf (pre @ suf) =
    pre @ List.map_filter (\<lambda>(k, v). map_option (Pair k) (f k v)) suf"
  using assms
proof (induction suf arbitrary: pre)
  case Nil
  then show ?case by (simp add: List.map_filter_def)
next
  case (Cons p suf)
  obtain k v where p: "p = (k, v)" by (cases p)
  have keep: "map (\<lambda>(k', v'). (k', if k' = k then w else v')) xs = xs" "filter (\<lambda>(k', v'). k' \<noteq> k) xs = xs"
    if "xs = pre \<or> xs = suf" for xs w
    using that Cons.prems p by (auto intro!: map_idI filter_True simp: image_iff)
  show ?case
  proof (cases "f k v")
    case None
    have "sm_remove k (pre @ p # suf) = pre @ suf" using p keep(2) by (simp add: sm_remove_def)
    with None Cons.IH [of pre] Cons.prems p show ?thesis by (simp add: List.map_filter_simps)
  next
    case (Some w)
    have "sm_insert before k w (pre @ p # suf) = (pre @ [(k, w)]) @ suf"
      using p keep(1) by (simp add: sm_insert_def)
    with Some Cons.IH [of "pre @ [(k, w)]"] Cons.prems p show ?thesis by (simp add: List.map_filter_simps)
  qed
qed

lemma fold_sm_replace:
  "distinct (keys m) \<Longrightarrow>
   fold (\<lambda>(k, v) m. case f k v of Some w \<Rightarrow> sm_insert before k w m | None \<Rightarrow> sm_remove k m) m m =
     List.map_filter (\<lambda>(k, v). map_option (Pair k) (f k v)) m"
  using fold_sm_replace_aux [of "[]" m] by simp

lemma keys_map_snd [simp]: "keys (map (\<lambda>(k, v). (k, f k v)) m) = keys m"
  by (simp add: comp_def case_prod_beta)

lemma sum_sm_place:
  fixes g :: "'k \<Rightarrow> 'v \<Rightarrow> 'a::comm_monoid_add"
  shows "(\<Sum>(k, v) \<leftarrow> sm_place before k v m. g k v) = g k v + (\<Sum>(k, v) \<leftarrow> m. g k v)"
  by (induction m rule: list.induct) (auto simp: algebra_simps)

lemma sum_sm_replace:
  fixes g :: "'k \<Rightarrow> 'v \<Rightarrow> 'a::ab_group_add"
  assumes "distinct (keys m)" and "sm_get m k = Some w"
  shows "(\<Sum>(k, v) \<leftarrow> map (\<lambda>(k', v'). (k', if k' = k then v else v')) m. g k v) = (\<Sum>(k, v) \<leftarrow> m. g k v) - g k w + g k v"
  using assms
proof (induction m)
  case Nil
  then show ?case by simp
next
  case (Cons p m)
  obtain k' v' where p: "p = (k', v')" by (cases p)
  show ?case
  proof (cases "k' = k")
    case True
    have "map (\<lambda>(k', v'). (k', if k' = k then v else v')) m = m"
      using Cons.prems p True by (intro map_idI) (auto simp: image_iff)
    with True p Cons.prems show ?thesis by (simp add: algebra_simps)
  next
    case False
    with p Cons show ?thesis by (simp add: algebra_simps)
  qed
qed

lemma sum_sm_insert:
  fixes g :: "'k \<Rightarrow> 'v \<Rightarrow> 'a::ab_group_add"
  assumes "distinct (keys m)"
  shows "(\<Sum>(k, v) \<leftarrow> sm_insert before k v m. g k v) =
    (\<Sum>(k, v) \<leftarrow> m. g k v) - (case sm_get m k of Some w \<Rightarrow> g k w | None \<Rightarrow> 0) + g k v"
proof (cases "sm_get m k")
  case None
  then have "k \<notin> set (keys m)" by (simp add: map_of_eq_None_iff)
  with None sum_sm_place [of g before k v m] show ?thesis by (simp add: sm_insert_def algebra_simps)
next
  case (Some w)
  then have "k \<in> set (keys m)" by (force dest: map_of_SomeD)
  with Some sum_sm_replace [OF assms Some, of g v] show ?thesis by (simp add: sm_insert_def)
qed

lemma sum_sm_remove:
  fixes g :: "'k \<Rightarrow> 'v \<Rightarrow> 'a::ab_group_add"
  assumes "distinct (keys m)"
  shows "(\<Sum>(k, v) \<leftarrow> sm_remove k m. g k v) =
    (\<Sum>(k, v) \<leftarrow> m. g k v) - (case sm_get m k of Some w \<Rightarrow> g k w | None \<Rightarrow> 0)"
  using assms
proof (induction m)
  case Nil
  then show ?case by (simp add: sm_remove_def)
next
  case (Cons p m)
  obtain k' v' where p: "p = (k', v')" by (cases p)
  show ?case
  proof (cases "k' = k")
    case True
    then have "sm_remove k m = m"
      using Cons.prems p unfolding sm_remove_def by (intro filter_True) (auto simp: image_iff)
    with True p show ?thesis by (simp add: sm_remove_def)
  next
    case False
    with p Cons show ?thesis by (simp add: sm_remove_def algebra_simps)
  qed
qed

section \<open>Reachable states and invariants\<close>

inductive reachable :: "('s \<Rightarrow> bool) \<Rightarrow> ('s \<Rightarrow> 's \<Rightarrow> bool) \<Rightarrow> 's \<Rightarrow> bool" for init step where
  reachable_init: "init s \<Longrightarrow> reachable init step s"
| reachable_step: "reachable init step s \<Longrightarrow> step s s' \<Longrightarrow> reachable init step s'"

text \<open>The contract of an inductive invariant: it holds initially and every step keeps it.\<close>

locale inductive_invariant =
  fixes init :: "'s \<Rightarrow> bool" and step :: "'s \<Rightarrow> 's \<Rightarrow> bool" and inv :: "'s \<Rightarrow> bool"
  assumes inv_init: "init s \<Longrightarrow> inv s"
    and inv_step: "inv s \<Longrightarrow> step s s' \<Longrightarrow> inv s'"
begin

lemma reachable_inv: "reachable init step s \<Longrightarrow> inv s"
  by (induction rule: reachable.induct) (auto intro: inv_init inv_step)

lemma steps_inv: "step\<^sup>*\<^sup>* s s' \<Longrightarrow> inv s \<Longrightarrow> inv s'"
  by (induction rule: rtranclp_induct) (auto intro: inv_step)

end

text \<open>
  The contract of a refinement: from a concrete state that satisfies the invariant, every concrete
  step is an abstract step between the abstractions of its states. Reachability then carries over,
  and with it every invariant of the abstract machine.
\<close>

locale simulation = concrete: inductive_invariant init step inv
  for init :: "'s \<Rightarrow> bool" and step :: "'s \<Rightarrow> 's \<Rightarrow> bool" and inv :: "'s \<Rightarrow> bool" +
  fixes abs_state :: "'s \<Rightarrow> 'a" and abs_init :: "'a \<Rightarrow> bool" and abs_step :: "'a \<Rightarrow> 'a \<Rightarrow> bool"
  assumes sim_init: "init s \<Longrightarrow> abs_init (abs_state s)"
    and sim_step: "inv s \<Longrightarrow> step s s' \<Longrightarrow> abs_step (abs_state s) (abs_state s')"
begin

lemma reachable_abs: "reachable init step s \<Longrightarrow> reachable abs_init abs_step (abs_state s)"
proof (induction rule: reachable.induct)
  case (reachable_init s)
  then show ?case by (intro reachable.reachable_init sim_init)
next
  case (reachable_step s s')
  then show ?case by (blast intro: reachable.reachable_step sim_step concrete.reachable_inv)
qed

lemma abs_steps: "step\<^sup>*\<^sup>* s s' \<Longrightarrow> inv s \<Longrightarrow> abs_step\<^sup>*\<^sup>* (abs_state s) (abs_state s')"
proof (induction rule: rtranclp_induct)
  case base
  show ?case by simp
next
  case (step s' s'')
  then have "inv s'" by (blast intro: concrete.steps_inv)
  with step show ?case by (meson rtranclp.rtrancl_into_rtrancl sim_step)
qed

lemma transfer_invariant:
  assumes "reachable init step s" and "inductive_invariant abs_init abs_step J"
  shows "J (abs_state s)"
  using inductive_invariant.reachable_inv [OF assms(2) reachable_abs [OF assms(1)]] .

end

section \<open>Comparison and binary search in slices\<close>

datatype ordering = Less | Equal | Greater

definition cmp :: "'a::linorder \<Rightarrow> 'a \<Rightarrow> ordering" where
  "cmp a b = (if a < b then Less else if a = b then Equal else Greater)"

lemma cmp_Equal_iff [simp]: "cmp a b = Equal \<longleftrightarrow> a = b"
  by (auto simp: cmp_def)

instantiation ordering :: linorder
begin

definition less_eq_ordering :: "ordering \<Rightarrow> ordering \<Rightarrow> bool" where
  "less_eq_ordering a b = (a = Less \<or> b = Greater \<or> a = b)"

definition less_ordering :: "ordering \<Rightarrow> ordering \<Rightarrow> bool" where
  "less_ordering a b = ((a :: ordering) \<le> b \<and> a \<noteq> b)"

instance
proof
  fix x y z :: ordering
  show "(x < y) = (x \<le> y \<and> \<not> y \<le> x)"
    by (cases x; cases y) (auto simp: less_eq_ordering_def less_ordering_def)
  show "x \<le> x" by (simp add: less_eq_ordering_def)
  show "x \<le> y \<Longrightarrow> y \<le> z \<Longrightarrow> x \<le> z"
    by (cases x; cases y; cases z) (auto simp: less_eq_ordering_def)
  show "x \<le> y \<Longrightarrow> y \<le> x \<Longrightarrow> x = y"
    by (cases x; cases y) (auto simp: less_eq_ordering_def)
  show "x \<le> y \<or> y \<le> x"
    by (cases x; cases y) (auto simp: less_eq_ordering_def)
qed

end

text \<open>
  What Rust documents of a binary search with a comparator: a hit is an element that compares
  equal, and on a slice sorted for the comparator a miss means that no element compares equal.
  On an unsorted slice a miss says nothing.
\<close>

locale slice_search =
  fixes search :: "('a \<Rightarrow> ordering) \<Rightarrow> 'a list \<Rightarrow> nat + nat"
  assumes hit: "search f xs = Inr i \<Longrightarrow> i < length xs \<and> f (xs ! i) = Equal"
    and miss: "sorted (map f xs) \<Longrightarrow> search f xs = Inl i \<Longrightarrow> \<forall>x \<in> set xs. f x \<noteq> Equal"
begin

lemma hit_in_set: "search f xs = Inr i \<Longrightarrow> \<exists>x \<in> set xs. f x = Equal"
  using hit nth_mem by blast

lemma search_sorted_iff:
  "sorted (map f xs) \<Longrightarrow> (\<exists>i. search f xs = Inr i) \<longleftrightarrow> (\<exists>x \<in> set xs. f x = Equal)"
  using hit_in_set miss by (metis sum.exhaust)

end

text \<open>The loop of \<^verbatim>\<open>binary_search_by\<close> in Rust's core library: \<open>Inr\<close> is its \<^verbatim>\<open>Ok\<close>, \<open>Inl\<close> its \<^verbatim>\<open>Err\<close>.\<close>

function binary_search_loop :: "('a \<Rightarrow> ordering) \<Rightarrow> 'a list \<Rightarrow> nat \<Rightarrow> nat \<Rightarrow> nat + nat" where
  "binary_search_loop f xs left right =
     (if left < right then
        let mid = left + (right - left) div 2 in
        (case f (xs ! mid) of
           Less \<Rightarrow> binary_search_loop f xs (mid + 1) right
         | Greater \<Rightarrow> binary_search_loop f xs left mid
         | Equal \<Rightarrow> Inr mid)
      else Inl left)"
  by pat_completeness auto
termination
  by (relation "measure (\<lambda>(f, xs, left, right). right - left)") auto

declare binary_search_loop.simps [simp del]

definition binary_search_by :: "('a \<Rightarrow> ordering) \<Rightarrow> 'a list \<Rightarrow> nat + nat" where
  "binary_search_by f xs = binary_search_loop f xs 0 (length xs)"

lemma binary_search_loop_hit:
  "right \<le> length xs \<Longrightarrow> binary_search_loop f xs left right = Inr i \<Longrightarrow> i < length xs \<and> f (xs ! i) = Equal"
proof (induction f xs left right rule: binary_search_loop.induct)
  case (1 f xs left right)
  then show ?case
    by (subst (asm) (3) binary_search_loop.simps) (auto simp: Let_def split: if_splits ordering.splits)
qed

lemma sorted_map_below:
  "sorted (map f xs) \<Longrightarrow> i \<le> j \<Longrightarrow> j < length xs \<Longrightarrow> f (xs ! i) \<le> f (xs ! j)"
  using sorted_nth_mono [of "map f xs" i j] by simp

lemma binary_search_loop_miss:
  "sorted (map f xs) \<Longrightarrow> right \<le> length xs \<Longrightarrow>
   \<forall>i < left. f (xs ! i) = Less \<Longrightarrow> \<forall>i. right \<le> i \<longrightarrow> i < length xs \<longrightarrow> f (xs ! i) = Greater \<Longrightarrow>
   binary_search_loop f xs left right = Inl j \<Longrightarrow> \<forall>i < length xs. f (xs ! i) \<noteq> Equal"
proof (induction f xs left right rule: binary_search_loop.induct)
  case (1 f xs left right)
  define mid where "mid = left + (right - left) div 2"
  show ?case
  proof (cases "left < right")
    case False
    show ?thesis
    proof (intro allI impI)
      fix i assume i: "i < length xs"
      show "f (xs ! i) \<noteq> Equal"
        using i False "1.prems"(3,4) by (cases "i < left") auto
    qed
  next
    case True
    then have mid: "mid < right" "mid < length xs" using "1.prems"(2) by (auto simp: mid_def)
    have step: "binary_search_loop f xs left right =
        (case f (xs ! mid) of Less \<Rightarrow> binary_search_loop f xs (mid + 1) right
         | Greater \<Rightarrow> binary_search_loop f xs left mid | Equal \<Rightarrow> Inr mid)"
      unfolding mid_def using True by (subst binary_search_loop.simps) (simp add: Let_def)
    show ?thesis
    proof (cases "f (xs ! mid)")
      case Less
      have "\<forall>i < mid + 1. f (xs ! i) = Less"
        using sorted_map_below [OF "1.prems"(1) _ mid(2)] Less
        by (auto simp: less_eq_ordering_def less_Suc_eq_le)
      then show ?thesis using "1.IH"(1) [OF True mid_def Less] "1.prems" step Less by simp
    next
      case Equal
      then show ?thesis using step "1.prems" by simp
    next
      case Greater
      have "\<forall>i. mid \<le> i \<longrightarrow> i < length xs \<longrightarrow> f (xs ! i) = Greater"
        using sorted_map_below [OF "1.prems"(1), of mid] Greater
        by (fastforce simp: less_eq_ordering_def)
      then show ?thesis using "1.IH"(2) [OF True mid_def Greater] "1.prems" step Greater mid by simp
    qed
  qed
qed

interpretation rust_search: slice_search binary_search_by
proof unfold_locales
  fix f :: "'a \<Rightarrow> ordering" and xs :: "'a list" and i
  show "binary_search_by f xs = Inr i \<Longrightarrow> i < length xs \<and> f (xs ! i) = Equal"
    unfolding binary_search_by_def by (rule binary_search_loop_hit [OF order_refl])
  assume "sorted (map f xs)" and "binary_search_by f xs = Inl i"
  then have "\<forall>i < length xs. f (xs ! i) \<noteq> Equal"
    unfolding binary_search_by_def by (intro binary_search_loop_miss) auto
  then show "\<forall>x \<in> set xs. f x \<noteq> Equal" by (metis in_set_conv_nth)
qed

end
