(* ===== verification/Inflation.thy ===== *)
theory Inflation
  imports Prelude
begin

text \<open>
  The inflation curve of the staking pallet: \<^verbatim>\<open>pallets/polkafoundry-staking/src/taylor_series.rs\<close> and
  \<^verbatim>\<open>inflation.rs\<close>. Both are written against the \<^verbatim>\<open>sp_arithmetic\<close> library, which is not part of the
  repository: the \<^verbatim>\<open>PerThing\<close> type \<^verbatim>\<open>P\<close> and the big integers \<^verbatim>\<open>BigUint\<close> are records of operations that
  the definitions take as arguments, and \<open>perthing_documented\<close> and \<open>biguint_documented\<close> state what the
  library documents of them. \<open>perbill\<close> and \<open>nat_biguint\<close> are concrete instances for the witnesses.
\<close>

section \<open>The arithmetic library\<close>

record 'p perthing_ops =
  pt_accuracy :: nat
  pt_deconstruct :: "'p \<Rightarrow> nat"
  pt_from_parts :: "nat \<Rightarrow> 'p"
  pt_from_rational :: "nat \<Rightarrow> nat \<Rightarrow> 'p"
  pt_from_percent :: "nat \<Rightarrow> 'p"
  pt_zero :: 'p
  pt_mul :: "'p \<Rightarrow> 'p \<Rightarrow> 'p"
  pt_div :: "'p \<Rightarrow> 'p \<Rightarrow> 'p"
  pt_saturating_add :: "'p \<Rightarrow> 'p \<Rightarrow> 'p"
  pt_saturating_sub :: "'p \<Rightarrow> 'p \<Rightarrow> 'p"
  pt_mul_balance :: "'p \<Rightarrow> Balance \<Rightarrow> Balance"

definition perthing_documented :: "'p perthing_ops \<Rightarrow> bool" where
  "perthing_documented pt \<longleftrightarrow>
     0 < pt_accuracy pt \<and>
     (\<forall>a. pt_deconstruct pt a \<le> pt_accuracy pt) \<and>
     (\<forall>n. pt_deconstruct pt (pt_from_parts pt n) = min n (pt_accuracy pt)) \<and>
     (\<forall>p q. 0 < q \<longrightarrow> pt_deconstruct pt (pt_from_rational pt p q) = min p q * pt_accuracy pt div q) \<and>
     (\<forall>n. pt_deconstruct pt (pt_from_percent pt n) = min n 100 * pt_accuracy pt div 100) \<and>
     pt_deconstruct pt (pt_zero pt) = 0 \<and>
     (\<forall>a b. pt_deconstruct pt (pt_mul pt a b) \<le> min (pt_deconstruct pt a) (pt_deconstruct pt b)) \<and>
     (\<forall>a b. pt_deconstruct pt b = pt_accuracy pt \<longrightarrow> pt_deconstruct pt (pt_mul pt a b) = pt_deconstruct pt a) \<and>
     (\<forall>a b. pt_div pt a b = pt_from_rational pt (pt_deconstruct pt a) (pt_deconstruct pt b)) \<and>
     (\<forall>a b. pt_deconstruct pt (pt_saturating_add pt a b) =
        min (pt_deconstruct pt a + pt_deconstruct pt b) (pt_accuracy pt)) \<and>
     (\<forall>a b. pt_deconstruct pt (pt_saturating_sub pt a b) = pt_deconstruct pt a - pt_deconstruct pt b) \<and>
     (\<forall>a x. unat (pt_mul_balance pt a x) \<le> unat x)"

record 'b biguint_ops =
  bu_from :: "nat \<Rightarrow> 'b"
  bu_zero :: 'b
  bu_len :: "'b \<Rightarrow> nat"
  bu_checked_get :: "'b \<Rightarrow> nat \<Rightarrow> u32 option"
  bu_lstrip :: "'b \<Rightarrow> 'b"
  bu_add :: "'b \<Rightarrow> 'b \<Rightarrow> 'b"
  bu_sub :: "'b \<Rightarrow> 'b \<Rightarrow> 'b + 'b"
  bu_mul :: "'b \<Rightarrow> 'b \<Rightarrow> 'b"
  bu_div_unit :: "'b \<Rightarrow> u32 \<Rightarrow> 'b"
  bu_div :: "'b \<Rightarrow> 'b \<Rightarrow> bool \<Rightarrow> ('b \<times> 'b) option"
  bu_is_zero :: "'b \<Rightarrow> bool"
  bu_ge :: "'b \<Rightarrow> 'b \<Rightarrow> bool"
  bu_to_u128 :: "'b \<Rightarrow> nat option"

text \<open>
  A \<^verbatim>\<open>BigUint\<close> is a list of 32-bit limbs with a value; \<^verbatim>\<open>lstrip\<close> removes leading zero limbs but keeps
  one limb. \<^verbatim>\<open>div\<close> needs stripped operands, at least two limbs in the divisor and more limbs in the
  dividend, and returns \<^verbatim>\<open>None\<close> otherwise.
\<close>

definition biguint_documented :: "'b biguint_ops \<Rightarrow> ('b \<Rightarrow> nat) \<Rightarrow> bool" where
  "biguint_documented bu val \<longleftrightarrow>
     (\<forall>n. n < 2 ^ 128 \<longrightarrow> val (bu_from bu n) = n) \<and>
     val (bu_zero bu) = 0 \<and>
     (\<forall>a. val a < 2 ^ (32 * bu_len bu a)) \<and>
     (\<forall>a. bu_lstrip bu a = a \<longrightarrow> 1 < bu_len bu a \<longrightarrow> 2 ^ (32 * (bu_len bu a - 1)) \<le> val a) \<and>
     (\<forall>a. bu_len bu a = 1 \<longrightarrow> bu_checked_get bu a 0 = Some (of_nat (val a))) \<and>
     (\<forall>a. val (bu_lstrip bu a) = val a) \<and>
     (\<forall>a. bu_lstrip bu (bu_lstrip bu a) = bu_lstrip bu a) \<and>
     (\<forall>a b. val (bu_add bu a b) = val a + val b) \<and>
     (\<forall>a b. val b \<le> val a \<longrightarrow> (\<exists>c. bu_sub bu a b = Inr c \<and> val c = val a - val b)) \<and>
     (\<forall>a b. val a < val b \<longrightarrow> (\<exists>c. bu_sub bu a b = Inl c)) \<and>
     (\<forall>a b. val (bu_mul bu a b) = val a * val b) \<and>
     (\<forall>a k. k \<noteq> 0 \<longrightarrow> val (bu_div_unit bu a k) = val a div unat k) \<and>
     (\<forall>a b rem. bu_lstrip bu a = a \<longrightarrow> bu_lstrip bu b = b \<longrightarrow> 1 < bu_len bu b \<longrightarrow> bu_len bu b < bu_len bu a \<longrightarrow>
        (\<exists>q r. bu_div bu a b rem = Some (q, r) \<and> val q = val a div val b)) \<and>
     (\<forall>a. bu_is_zero bu a \<longleftrightarrow> val a = 0) \<and>
     (\<forall>a b. bu_ge bu a b \<longleftrightarrow> val b \<le> val a) \<and>
     (\<forall>a. bu_to_u128 bu a = (if val a < 2 ^ 128 then Some (val a) else None))"

section \<open>taylor_series.rs\<close>

definition div_by_stripped :: "'b biguint_ops \<Rightarrow> 'b \<Rightarrow> 'b \<Rightarrow> 'b" where
  "div_by_stripped bu a b =
     (let a = bu_lstrip bu a in
      if bu_len bu b = 0 then bu_zero bu
      else if bu_len bu b = 1
        then bu_div_unit bu a (case bu_checked_get bu b 0 of Some x \<Rightarrow> x | None \<Rightarrow> 1)
      else if bu_len bu b > bu_len bu a then bu_zero bu
      else if bu_len bu b = bu_len bu a
        then (let new_a = bu_lstrip bu (bu_mul bu a (bu_from bu (100000 ^ 2))) in
              bu_div_unit bu (bu_div_unit bu
                (case bu_div bu new_a b False of Some res \<Rightarrow> fst res | None \<Rightarrow> bu_zero bu)
                100000) 100000)
      else (case bu_div bu a b False of Some res \<Rightarrow> fst res | None \<Rightarrow> bu_zero bu))"

record 'b INPoSParam =
  ip_ln2_div_d :: 'b
  ip_x_ideal :: 'b
  ip_x :: 'b
  ip_accuracy :: 'b

definition compute_taylor_term :: "'b biguint_ops \<Rightarrow> u32 \<Rightarrow> 'b \<Rightarrow> 'b INPoSParam \<Rightarrow> 'b" where
  "compute_taylor_term bu k previous_taylor_term p =
     (let x_minus_x_ideal = (case bu_sub bu (ip_x p) (ip_x_ideal p) of Inr d \<Rightarrow> d | Inl _ \<Rightarrow> bu_zero bu);
          res = bu_div_unit bu
                  (bu_mul bu (bu_mul bu previous_taylor_term x_minus_x_ideal) (ip_ln2_div_d p)) k;
          res = div_by_stripped bu res (ip_accuracy p);
          res = div_by_stripped bu res (ip_accuracy p)
      in bu_lstrip bu res)"

definition sub_or_error :: "'b biguint_ops \<Rightarrow> 'b \<Rightarrow> 'b \<Rightarrow> 'b" where
  "sub_or_error bu a b = (case bu_sub bu a b of Inr d \<Rightarrow> d | Inl e \<Rightarrow> e)"

fun taylor_loop ::
    "'b biguint_ops \<Rightarrow> 'b INPoSParam \<Rightarrow> nat list \<Rightarrow> 'b \<Rightarrow> bool \<Rightarrow> 'b \<Rightarrow> bool \<times> 'b" where
  "taylor_loop bu p [] last_taylor_term taylor_sum_positive taylor_sum = (taylor_sum_positive, taylor_sum)"
| "taylor_loop bu p (k # ks) last_taylor_term taylor_sum_positive taylor_sum =
     (let last_taylor_term = compute_taylor_term bu (of_nat k) last_taylor_term p in
      if bu_is_zero bu last_taylor_term then (taylor_sum_positive, taylor_sum)
      else let last_taylor_term_positive = (k mod 2 = 0) in
        if taylor_sum_positive = last_taylor_term_positive
        then taylor_loop bu p ks last_taylor_term taylor_sum_positive (bu_add bu taylor_sum last_taylor_term)
        else if bu_ge bu taylor_sum last_taylor_term
        then taylor_loop bu p ks last_taylor_term taylor_sum_positive (sub_or_error bu taylor_sum last_taylor_term)
        else taylor_loop bu p ks last_taylor_term (\<not> taylor_sum_positive) (sub_or_error bu last_taylor_term taylor_sum))"

definition compute_taylor_serie_part :: "'b biguint_ops \<Rightarrow> 'b INPoSParam \<Rightarrow> 'b" where
  "compute_taylor_serie_part bu p =
     (let (taylor_sum_positive, taylor_sum) =
            taylor_loop bu p [1..<300] (ip_accuracy p) True (ip_accuracy p)
      in if \<not> taylor_sum_positive then bu_zero bu else bu_lstrip bu taylor_sum)"

text \<open>\<^verbatim>\<open>LN2\<close> is given in parts of \<^verbatim>\<open>Perquintill::ACCURACY\<close>, \<open>10\<^sup>1\<^sup>8\<close>.\<close>

definition LN2 :: nat where
  "LN2 = 0693147180559945309"

definition perquintill_accuracy :: nat where
  "perquintill_accuracy = 1000000000000000000"

definition compute_inflation :: "'p perthing_ops \<Rightarrow> 'b biguint_ops \<Rightarrow> 'p \<Rightarrow> 'p \<Rightarrow> 'p \<Rightarrow> 'p" where
  "compute_inflation pt bu stake ideal_stake falloff =
     (if pt_deconstruct pt stake \<le> pt_deconstruct pt ideal_stake then pt_div pt stake ideal_stake
      else if pt_deconstruct pt falloff < pt_deconstruct pt (pt_from_percent pt 1) then pt_zero pt
      else
        let accuracy = bu_lstrip bu (bu_from bu (pt_accuracy pt));
            falloff = bu_lstrip bu (bu_from bu (pt_deconstruct pt falloff));
            ln2 = bu_from bu (pt_deconstruct pt (pt_from_rational pt LN2 perquintill_accuracy));
            ln2_div_d = div_by_stripped bu (bu_mul bu ln2 accuracy) falloff;
            inpos_param = \<lparr>ip_ln2_div_d = ln2_div_d,
                           ip_x_ideal = bu_from bu (pt_deconstruct pt ideal_stake),
                           ip_x = bu_from bu (pt_deconstruct pt stake),
                           ip_accuracy = accuracy\<rparr>;
            res = compute_taylor_serie_part bu inpos_param
        in case bu_to_u128 bu res of
             Some r \<Rightarrow> if r \<le> pt_accuracy pt then pt_from_parts pt r else pt_zero pt
           | None \<Rightarrow> pt_zero pt)"

section \<open>inflation.rs\<close>

definition compute_i_npos ::
    "'p perthing_ops \<Rightarrow> 'b biguint_ops \<Rightarrow> 'p \<Rightarrow> 'p \<Rightarrow> 'p \<Rightarrow> 'p \<Rightarrow> 'p \<Rightarrow> 'p" where
  "compute_i_npos pt bu i_0 i_ideal x x_ideal d =
     (let i_npos_ideal = pt_mul pt i_ideal x_ideal in
      pt_saturating_add pt i_0
        (pt_mul pt (pt_saturating_sub pt i_npos_ideal i_0) (compute_inflation pt bu x x_ideal d)))"

definition MILLISECONDS_PER_YEAR :: nat where
  "MILLISECONDS_PER_YEAR = 1000 * 3600 * 24 * 36525 div 100"

definition compute_total_payout ::
    "'p perthing_ops \<Rightarrow> 'b biguint_ops \<Rightarrow> Balance \<Rightarrow> Balance \<Rightarrow> u32 \<Rightarrow> u32 \<Rightarrow> u32 \<Rightarrow> u32 \<Rightarrow> u64 \<Rightarrow> Balance" where
  "compute_total_payout pt bu npos_token_staked total_tokens i_0 i_ideal x_ideal d round_duration =
     (let i_0 = pt_from_rational pt (unat i_0) 1000;
          i_ideal = pt_from_rational pt (unat i_ideal) 100;
          x = pt_from_rational pt (unat npos_token_staked) (unat total_tokens);
          x_ideal = pt_from_rational pt (unat x_ideal) 100;
          d = pt_from_rational pt (unat d) 100;
          portion = pt_from_rational pt (unat round_duration) MILLISECONDS_PER_YEAR
      in pt_mul_balance pt portion (pt_mul_balance pt (compute_i_npos pt bu i_0 i_ideal x x_ideal d) total_tokens))"

section \<open>Concrete instances\<close>

definition perbill :: "nat perthing_ops" where
  "perbill =
     \<lparr>pt_accuracy = 1000000000,
      pt_deconstruct = (\<lambda>a. min a 1000000000),
      pt_from_parts = (\<lambda>n. min n 1000000000),
      pt_from_rational = (\<lambda>p q. min p (max q 1) * 1000000000 div max q 1),
      pt_from_percent = (\<lambda>n. min n 100 * 10000000),
      pt_zero = 0,
      pt_mul = (\<lambda>a b. min a 1000000000 * min b 1000000000 div 1000000000),
      pt_div = (\<lambda>a b. min (min a 1000000000) (max (min b 1000000000) 1) * 1000000000 div max (min b 1000000000) 1),
      pt_saturating_add = (\<lambda>a b. min (min a 1000000000 + min b 1000000000) 1000000000),
      pt_saturating_sub = (\<lambda>a b. min a 1000000000 - min b 1000000000),
      pt_mul_balance = (\<lambda>a x. of_nat ((unat x * min a 1000000000 + 499999999) div 1000000000))\<rparr>"

lemma perbill_simps:
  "pt_accuracy perbill = 1000000000"
  "pt_deconstruct perbill a = min a 1000000000"
  "pt_from_parts perbill a = min a 1000000000"
  "pt_from_rational perbill a b = min a (max b 1) * 1000000000 div max b 1"
  "pt_from_percent perbill a = min a 100 * 10000000"
  "pt_zero perbill = 0"
  "pt_mul perbill a b = min a 1000000000 * min b 1000000000 div 1000000000"
  "pt_div perbill a b = min (min a 1000000000) (max (min b 1000000000) 1) * 1000000000 div max (min b 1000000000) 1"
  "pt_saturating_add perbill a b = min (min a 1000000000 + min b 1000000000) 1000000000"
  "pt_saturating_sub perbill a b = min a 1000000000 - min b 1000000000"
  "pt_mul_balance perbill a x = of_nat ((unat x * min a 1000000000 + 499999999) div 1000000000)"
  by (simp_all add: perbill_def)

fun limbs :: "nat \<Rightarrow> nat" where
  "limbs n = (if n < 2 ^ 32 then 1 else Suc (limbs (n div 2 ^ 32)))"

declare limbs.simps [simp del]

definition nat_biguint :: "nat biguint_ops" where
  "nat_biguint =
     \<lparr>bu_from = (\<lambda>n. n), bu_zero = 0, bu_len = limbs,
      bu_checked_get = (\<lambda>a i. if i < limbs a then Some (of_nat (a div 2 ^ (32 * i))) else None),
      bu_lstrip = (\<lambda>a. a), bu_add = (+), bu_sub = (\<lambda>a b. if b \<le> a then Inr (a - b) else Inl a),
      bu_mul = (*), bu_div_unit = (\<lambda>a k. a div unat k),
      bu_div = (\<lambda>a b rem. if limbs b \<le> 1 \<or> limbs a \<le> limbs b then None else Some (a div b, a mod b)),
      bu_is_zero = (\<lambda>a. a = 0), bu_ge = (\<lambda>a b. b \<le> a),
      bu_to_u128 = (\<lambda>a. if a < 2 ^ 128 then Some a else None)\<rparr>"

end
