(* ===== verification/Inflation_Correct.thy ===== *)
theory Inflation_Correct
  imports Inflation
begin

text \<open>
  Correctness of the inflation curve. The limb-level division \<^verbatim>\<open>div_by_stripped\<close> is floor division; the
  big-integer Taylor loop computes the signed series \<open>taylor_ref\<close> over unbounded integers; the
  yearly rate stays between the minimum and the ideal inflation and is exact at the ideal stake;
  a payout never exceeds the issuance it is computed from.
\<close>

section \<open>The documented facts, one by one\<close>

lemma biguintD:
  assumes "biguint_documented bu val"
  shows "n < 2 ^ 128 \<Longrightarrow> val (bu_from bu n) = n"
    and "val (bu_zero bu) = 0"
    and "val a < 2 ^ (32 * bu_len bu a)"
    and "bu_lstrip bu a = a \<Longrightarrow> 1 < bu_len bu a \<Longrightarrow> 2 ^ (32 * (bu_len bu a - 1)) \<le> val a"
    and "bu_len bu a = 1 \<Longrightarrow> bu_checked_get bu a 0 = Some (of_nat (val a))"
    and "val (bu_lstrip bu a) = val a"
    and "bu_lstrip bu (bu_lstrip bu a) = bu_lstrip bu a"
    and "val (bu_add bu a b) = val a + val b"
    and "val b \<le> val a \<Longrightarrow> \<exists>c. bu_sub bu a b = Inr c \<and> val c = val a - val b"
    and "val (bu_mul bu a b) = val a * val b"
    and "k \<noteq> 0 \<Longrightarrow> val (bu_div_unit bu a k) = val a div unat k"
    and "bu_lstrip bu a = a \<Longrightarrow> bu_lstrip bu b = b \<Longrightarrow> 1 < bu_len bu b \<Longrightarrow> bu_len bu b < bu_len bu a \<Longrightarrow>
      \<exists>q r. bu_div bu a b rem = Some (q, r) \<and> val q = val a div val b"
    and "bu_is_zero bu a \<longleftrightarrow> val a = 0"
    and "bu_ge bu a b \<longleftrightarrow> val b \<le> val a"
    and "bu_to_u128 bu a = (if val a < 2 ^ 128 then Some (val a) else None)"
  using assms unfolding biguint_documented_def by simp_all

lemma perthingD:
  assumes "perthing_documented pt"
  shows "0 < pt_accuracy pt"
    and "pt_deconstruct pt a \<le> pt_accuracy pt"
    and "pt_deconstruct pt (pt_from_parts pt n) = min n (pt_accuracy pt)"
    and "0 < q \<Longrightarrow> pt_deconstruct pt (pt_from_rational pt p q) = min p q * pt_accuracy pt div q"
    and "pt_deconstruct pt (pt_zero pt) = 0"
    and "pt_deconstruct pt (pt_mul pt a b) \<le> min (pt_deconstruct pt a) (pt_deconstruct pt b)"
    and "pt_deconstruct pt b = pt_accuracy pt \<Longrightarrow> pt_deconstruct pt (pt_mul pt a b) = pt_deconstruct pt a"
    and "pt_div pt a b = pt_from_rational pt (pt_deconstruct pt a) (pt_deconstruct pt b)"
    and "pt_deconstruct pt (pt_saturating_add pt a b) =
      min (pt_deconstruct pt a + pt_deconstruct pt b) (pt_accuracy pt)"
    and "pt_deconstruct pt (pt_saturating_sub pt a b) = pt_deconstruct pt a - pt_deconstruct pt b"
    and "unat (pt_mul_balance pt a v) \<le> unat v"
  using assms unfolding perthing_documented_def by blast+

section \<open>Division\<close>

lemma sub_or_error_val:
  "biguint_documented bu val \<Longrightarrow> val b \<le> val a \<Longrightarrow> val (sub_or_error bu a b) = val a - val b"
  using biguintD(9) [of bu val b a] by (auto simp: sub_or_error_def)

lemma val_less_by_len:
  assumes "biguint_documented bu val" and "bu_lstrip bu b = b" and "1 < bu_len bu b" and "bu_len bu a < bu_len bu b"
  shows "val a < val b"
proof -
  have "val a < 2 ^ (32 * bu_len bu a)" using assms(1) by (rule biguintD(3))
  also have "\<dots> \<le> 2 ^ (32 * (bu_len bu b - 1))" using assms(4) by (intro power_increasing) auto
  also have "\<dots> \<le> val b" using biguintD(4) [OF assms(1-3)] .
  finally show ?thesis .
qed

lemma scaled_longer:
  assumes doc: "biguint_documented bu val" and "bu_lstrip bu a = a" and "1 < bu_len bu a"
  shows "bu_len bu a < bu_len bu (bu_lstrip bu (bu_mul bu a (bu_from bu (100000 ^ 2))))" (is "_ < bu_len bu ?n")
proof (rule ccontr)
  assume "\<not> bu_len bu a < bu_len bu ?n"
  then have le: "bu_len bu ?n \<le> bu_len bu a" by simp
  have val_n: "val ?n = val a * 100000 ^ 2" using doc by (simp add: biguintD)
  have "2 ^ (32 * bu_len bu a) = 2 ^ (32 * (bu_len bu a - 1)) * (2 ^ 32 :: nat)"
    using assms(3) by (cases "bu_len bu a") (simp_all add: power_add)
  also have "\<dots> \<le> val a * 100000 ^ 2" using biguintD(4) [OF assms] by (intro mult_le_mono) auto
  also have "\<dots> < 2 ^ (32 * bu_len bu ?n)" using biguintD(3) [OF doc, of ?n] val_n by simp
  also have "\<dots> \<le> 2 ^ (32 * bu_len bu a)" using le by (intro power_increasing) auto
  finally show False by simp
qed

lemma div_by_stripped_val:
  assumes doc: "biguint_documented bu val" and strip: "bu_lstrip bu b = b" and pos: "0 < val b"
  shows "val (div_by_stripped bu a b) = val a div val b"
proof -
  let ?a = "bu_lstrip bu a"
  have a: "val ?a = val a" "bu_lstrip bu ?a = ?a" using doc by (simp_all add: biguintD)
  have len: "bu_len bu b \<noteq> 0" using biguintD(3) [OF doc, of b] pos by (intro notI) simp
  then consider (one) "bu_len bu b = 1" | (short) "1 < bu_len bu b" "bu_len bu ?a < bu_len bu b"
    | (equal) "1 < bu_len bu b" "bu_len bu ?a = bu_len bu b" | (long) "1 < bu_len bu b" "bu_len bu b < bu_len bu ?a"
    by linarith
  then show ?thesis
  proof cases
    case one
    then have "val b < 2 ^ 32" using biguintD(3) [OF doc, of b] by simp
    then have "unat (of_nat (val b) :: u32) = val b" by (simp add: unat_of_nat)
    moreover from this pos have "(of_nat (val b) :: u32) \<noteq> 0" by auto
    ultimately show ?thesis using one doc by (simp add: div_by_stripped_def Let_def biguintD)
  next
    case short
    then have "val a < val b" using val_less_by_len [OF doc strip, of ?a] a by simp
    with short show ?thesis using doc by (simp add: div_by_stripped_def Let_def biguintD)
  next
    case equal
    let ?n = "bu_lstrip bu (bu_mul bu ?a (bu_from bu (100000 ^ 2)))"
    have n: "val ?n = val a * 100000 ^ 2" "bu_lstrip bu ?n = ?n" using doc by (simp_all add: biguintD)
    have "bu_len bu b < bu_len bu ?n" using scaled_longer [OF doc a(2)] equal by simp
    from biguintD(12) [OF doc n(2) strip equal(1) this, of False] n(1) obtain q r
      where "bu_div bu ?n b False = Some (q, r)" and "val q = val a * 100000 ^ 2 div val b" by auto
    then have "val (div_by_stripped bu a b) = val a * 100000 ^ 2 div val b div 100000 div 100000"
      using equal doc by (simp add: div_by_stripped_def Let_def biguintD)
    also have "\<dots> = val a div val b" by (simp add: div_mult2_eq [symmetric] mult.commute)
    finally show ?thesis .
  next
    case long
    from biguintD(12) [OF doc a(2) strip long, of False] a(1) obtain q r
      where "bu_div bu ?a b False = Some (q, r)" and "val q = val a div val b" by auto
    with long show ?thesis by (simp add: div_by_stripped_def Let_def)
  qed
qed

section \<open>The series\<close>

fun taylor_ref :: "nat \<Rightarrow> nat \<Rightarrow> nat \<Rightarrow> nat list \<Rightarrow> nat \<Rightarrow> int \<Rightarrow> int" where
  "taylor_ref y l acc [] term s = s"
| "taylor_ref y l acc (k # ks) term s =
     (let term' = term * y * l div k div acc div acc in
      if term' = 0 then s
      else taylor_ref y l acc ks term' (s + (if even k then int term' else - int term')))"

definition signed_val :: "bool \<Rightarrow> nat \<Rightarrow> int" where
  "signed_val pos n = (if pos then int n else - int n)"

lemma compute_taylor_term_val:
  assumes doc: "biguint_documented bu val"
    and "bu_lstrip bu (ip_accuracy p) = ip_accuracy p" "0 < val (ip_accuracy p)"
    and "val (ip_x_ideal p) \<le> val (ip_x p)" and k: "0 < k" "k < 2 ^ 32"
  shows "val (compute_taylor_term bu (of_nat k) prev p) =
    val prev * (val (ip_x p) - val (ip_x_ideal p)) * val (ip_ln2_div_d p) div k div val (ip_accuracy p) div val (ip_accuracy p)"
proof -
  obtain d where d: "bu_sub bu (ip_x p) (ip_x_ideal p) = Inr d" "val d = val (ip_x p) - val (ip_x_ideal p)"
    using biguintD(9) [OF doc assms(4)] by auto
  have kk: "unat (of_nat k :: u32) = k" using k by (simp add: unat_of_nat)
  with k(1) have "(of_nat k :: u32) \<noteq> 0" by auto
  then show ?thesis
    by (simp add: compute_taylor_term_def Let_def d biguintD [OF doc] div_by_stripped_val [OF assms(1-3)] kk)
qed

lemma taylor_loop_signed:
  assumes doc: "biguint_documented bu val"
    and acc: "bu_lstrip bu (ip_accuracy p) = ip_accuracy p" "0 < val (ip_accuracy p)"
    and "val (ip_x_ideal p) \<le> val (ip_x p)" and "\<forall>k \<in> set ks. 0 < k \<and> k < 2 ^ 32"
  shows "(case taylor_loop bu p ks term pos tot of (b, t) \<Rightarrow> signed_val b (val t)) =
    taylor_ref (val (ip_x p) - val (ip_x_ideal p)) (val (ip_ln2_div_d p)) (val (ip_accuracy p)) ks (val term)
      (signed_val pos (val tot))"
  using assms(5)
proof (induction ks arbitrary: "term" pos tot)
  case Nil
  then show ?case by simp
next
  case (Cons k ks)
  let ?t = "compute_taylor_term bu (of_nat k) term p"
  have t: "val ?t = val term * (val (ip_x p) - val (ip_x_ideal p)) * val (ip_ln2_div_d p) div k
      div val (ip_accuracy p) div val (ip_accuracy p)"
    using Cons.prems by (intro compute_taylor_term_val [OF assms(1-4)]) auto
  have IH: "(case taylor_loop bu p ks ?t pos' sum' of (b, t) \<Rightarrow> signed_val b (val t)) =
      taylor_ref (val (ip_x p) - val (ip_x_ideal p)) (val (ip_ln2_div_d p)) (val (ip_accuracy p)) ks (val ?t)
        (signed_val pos' (val sum'))" for pos' sum'
    by (rule Cons.IH) (use Cons.prems in simp)
  have z: "bu_is_zero bu ?t \<longleftrightarrow> val ?t = 0" using doc by (rule biguintD)
  consider (zero) "val ?t = 0" | (same) "val ?t \<noteq> 0" "pos = even k"
    | (sub) "val ?t \<noteq> 0" "pos \<noteq> even k" "val ?t \<le> val tot"
    | (flip) "val ?t \<noteq> 0" "pos \<noteq> even k" "val tot < val ?t" by linarith
  then show ?case
  proof cases
    case zero
    then show ?thesis by (simp add: z t [symmetric] Let_def)
  next
    case same
    then have "signed_val pos (val (bu_add bu tot ?t)) =
        signed_val pos (val tot) + (if even k then int (val ?t) else - int (val ?t))"
      by (simp add: signed_val_def biguintD [OF doc])
    with same show ?thesis by (simp add: z t [symmetric] Let_def IH even_iff_mod_2_eq_zero)
  next
    case sub
    then have "signed_val pos (val (sub_or_error bu tot ?t)) =
        signed_val pos (val tot) + (if even k then int (val ?t) else - int (val ?t))"
      by (auto simp: signed_val_def sub_or_error_val [OF doc])
    with sub show ?thesis
      by (simp add: z t [symmetric] Let_def IH even_iff_mod_2_eq_zero biguintD(14) [OF doc])
  next
    case flip
    then have "signed_val (\<not> pos) (val (sub_or_error bu ?t tot)) =
        signed_val pos (val tot) + (if even k then int (val ?t) else - int (val ?t))"
      by (auto simp: signed_val_def sub_or_error_val [OF doc])
    with flip show ?thesis
      by (simp add: z t [symmetric] Let_def IH even_iff_mod_2_eq_zero biguintD(14) [OF doc])
  qed
qed

lemma compute_taylor_serie_part_val:
  assumes doc: "biguint_documented bu val"
    and acc: "bu_lstrip bu (ip_accuracy p) = ip_accuracy p" "0 < val (ip_accuracy p)"
    and "val (ip_x_ideal p) \<le> val (ip_x p)"
  shows "val (compute_taylor_serie_part bu p) =
    nat (taylor_ref (val (ip_x p) - val (ip_x_ideal p)) (val (ip_ln2_div_d p)) (val (ip_accuracy p)) [1..<300]
      (val (ip_accuracy p)) (int (val (ip_accuracy p))))"
proof -
  obtain pos tot where l: "taylor_loop bu p [1..<300] (ip_accuracy p) True (ip_accuracy p) = (pos, tot)"
    by (cases "taylor_loop bu p [1..<300] (ip_accuracy p) True (ip_accuracy p)")
  have "\<forall>k \<in> set [1..<300]. 0 < k \<and> k < 2 ^ 32" by auto
  from taylor_loop_signed [OF assms this, of "ip_accuracy p" True "ip_accuracy p"] l
  have "signed_val pos (val tot) = taylor_ref (val (ip_x p) - val (ip_x_ideal p)) (val (ip_ln2_div_d p))
      (val (ip_accuracy p)) [1..<300] (val (ip_accuracy p)) (int (val (ip_accuracy p)))"
    by (simp add: signed_val_def)
  moreover have "val (compute_taylor_serie_part bu p) = nat (signed_val pos (val tot))"
    unfolding compute_taylor_serie_part_def l by (simp add: signed_val_def biguintD [OF doc])
  ultimately show ?thesis by simp
qed

section \<open>The rate\<close>

lemma compute_i_npos_at_least: "perthing_documented pt \<Longrightarrow>
   pt_deconstruct pt i_0 \<le> pt_deconstruct pt (compute_i_npos pt bu i_0 i_ideal x x_ideal d)"
  by (simp add: compute_i_npos_def Let_def perthingD)

lemma compute_i_npos_at_most:
  assumes "perthing_documented pt"
  shows "pt_deconstruct pt (compute_i_npos pt bu i_0 i_ideal x x_ideal d)
    \<le> max (pt_deconstruct pt i_0) (pt_deconstruct pt (pt_mul pt i_ideal x_ideal))"
proof -
  let ?i = "pt_mul pt i_ideal x_ideal"
  let ?m = "pt_mul pt (pt_saturating_sub pt ?i i_0) (compute_inflation pt bu x x_ideal d)"
  have "pt_deconstruct pt ?m \<le> pt_deconstruct pt ?i - pt_deconstruct pt i_0"
    using perthingD(6) [OF assms, of "pt_saturating_sub pt ?i i_0"] by (simp add: perthingD(10) [OF assms])
  moreover have "pt_deconstruct pt (compute_i_npos pt bu i_0 i_ideal x x_ideal d) \<le> pt_deconstruct pt i_0 + pt_deconstruct pt ?m"
    by (simp add: compute_i_npos_def Let_def perthingD(9) [OF assms])
  ultimately show ?thesis by linarith
qed

lemma compute_inflation_at_ideal:
  assumes "perthing_documented pt" and "pt_deconstruct pt x = pt_deconstruct pt x_ideal" and "0 < pt_deconstruct pt x_ideal"
  shows "pt_deconstruct pt (compute_inflation pt bu x x_ideal d) = pt_accuracy pt"
  using assms by (simp add: compute_inflation_def perthingD)

section \<open>The concrete instances satisfy the documented facts\<close>

lemma mult_div_le: "b \<le> m \<Longrightarrow> a * b div m \<le> a" for a b m :: nat
  by (metis div_le_mono div_le_dividend div_mult_self_is_m le_trans mult_le_mono2 not_gr_zero div_by_0 le0)

lemma perbill_mul_balance_le: "unat (pt_mul_balance perbill a x) \<le> unat x"
proof -
  have "unat x * min a 1000000000 + 499999999 \<le> unat x * 1000000000 + 499999999" by simp
  then have "(unat x * min a 1000000000 + 499999999) div 1000000000 \<le>
      (unat x * 1000000000 + 499999999) div 1000000000" by (rule div_le_mono)
  then have "(unat x * min a 1000000000 + 499999999) div 1000000000 \<le> unat x" by simp
  moreover have "unat (of_nat m :: Balance) \<le> m" for m by (simp add: unat_of_nat)
  ultimately show ?thesis unfolding perbill_simps by (meson le_trans)
qed

lemma perbill_from_rational:
  "0 < q \<Longrightarrow> pt_deconstruct perbill (pt_from_rational perbill p q) = min p q * pt_accuracy perbill div q"
proof -
  assume q: "0 < q"
  then have m: "max q 1 = q" by simp
  show ?thesis using mult_div_le [of "min p q" q 1000000000] q
    unfolding perbill_simps m by (simp add: mult.commute)
qed

lemma perbill_mul:
  "pt_deconstruct perbill (pt_mul perbill a b) \<le> min (pt_deconstruct perbill a) (pt_deconstruct perbill b)"
  using mult_div_le [of "min b 1000000000" 1000000000 "min a 1000000000"]
    mult_div_le [of "min a 1000000000" 1000000000 "min b 1000000000"]
  by (simp add: perbill_simps mult.commute min.coboundedI1)

lemma perbill_documented: "perthing_documented perbill"
  unfolding perthing_documented_def
  using perbill_mul_balance_le perbill_from_rational perbill_mul
  by (simp add: perbill_simps)

lemma limbs_pos: "0 < limbs n"
  by (subst limbs.simps) simp

lemma limbs_upper: "n < 2 ^ (32 * limbs n)"
proof (induction n rule: limbs.induct)
  case (1 n)
  show ?case
  proof (cases "n < 2 ^ 32")
    case True
    then show ?thesis by (subst limbs.simps) simp
  next
    case False
    with 1 have "n div 2 ^ 32 < 2 ^ (32 * limbs (n div 2 ^ 32))" by blast
    then have "n < 2 ^ (32 * limbs (n div 2 ^ 32)) * 2 ^ 32" by (simp add: div_less_iff_less_mult)
    with False show ?thesis by (subst limbs.simps) (simp add: power_add)
  qed
qed

lemma limbs_lower: "1 < limbs n \<Longrightarrow> 2 ^ (32 * (limbs n - 1)) \<le> n"
proof (induction n rule: limbs.induct)
  case (1 n)
  show ?case
  proof (cases "n < 2 ^ 32")
    case True
    with "1.prems" show ?thesis by (subst (asm) limbs.simps) simp
  next
    case False
    let ?m = "n div 2 ^ 32"
    have "2 ^ (32 * (limbs ?m - 1)) \<le> ?m"
    proof (cases "1 < limbs ?m")
      case True
      with 1 False show ?thesis by blast
    next
      case lim: False
      then have "limbs ?m = 1" using limbs_pos [of ?m] by linarith
      moreover have "1 \<le> ?m" using False by (simp add: Suc_le_eq div_greater_zero_iff)
      ultimately show ?thesis by simp
    qed
    then have "2 ^ (32 * (limbs ?m - 1)) * 2 ^ 32 \<le> n" by (metis mult.commute mult_le_mono2 order_trans times_div_less_eq_dividend)
    moreover have "limbs n = Suc (limbs ?m)" using False by (subst limbs.simps) simp
    ultimately show ?thesis using limbs_pos [of ?m] by (cases "limbs ?m") (simp_all add: power_add)
  qed
qed

lemma nat_biguint_documented: "biguint_documented nat_biguint (\<lambda>n. n)"
  unfolding biguint_documented_def nat_biguint_def
  by (simp add: limbs_upper limbs_lower [simplified])

section \<open>Properties\<close>

text \<open>C26: \<^verbatim>\<open>div_by_stripped\<close> is floor division for every dividend and every stripped, non-zero divisor,
  whatever the numbers of limbs (one-limb divisor, divisor longer than the dividend, equal lengths,
  which are scaled by \<open>10\<^sup>1\<^sup>0\<close> and back, or a longer dividend).\<close>
theorem div_by_stripped_floor:
  assumes "biguint_documented bu val" and "bu_lstrip bu b = b" and "0 < val b"
  shows "val (div_by_stripped bu a b) = val a div val b"
  using assms by (rule div_by_stripped_val)

theorem div_by_stripped_floor_witness:
  "div_by_stripped nat_biguint (2 ^ 64) (2 ^ 40 + 1) = 2 ^ 64 div (2 ^ 40 + 1)"
  using div_by_stripped_floor [OF nat_biguint_documented, of "2 ^ 40 + 1" "2 ^ 64"]
  by (simp add: nat_biguint_def)

text \<open>C23: Above the ideal stake (and for a falloff of at least 1%), \<^verbatim>\<open>compute_inflation\<close> is the integer
  Taylor series of \<open>2 powr ((x_ideal - x) / d)\<close>: the big-integer code with its sign bookkeeping and
  early exit computes the signed sum \<open>taylor_ref\<close>, clipped to zero when it is out of range.\<close>
theorem compute_inflation_series:
  assumes doc: "perthing_documented pt" "biguint_documented bu val" and acc: "pt_accuracy pt < 2 ^ 128"
    and above: "pt_deconstruct pt ideal < pt_deconstruct pt stake"
    and falloff: "pt_deconstruct pt (pt_from_percent pt 1) \<le> pt_deconstruct pt d" "0 < pt_deconstruct pt d"
  shows "pt_deconstruct pt (compute_inflation pt bu stake ideal d) =
    (let ln2 = pt_deconstruct pt (pt_from_rational pt LN2 perquintill_accuracy);
         s = nat (taylor_ref (pt_deconstruct pt stake - pt_deconstruct pt ideal)
                    (ln2 * pt_accuracy pt div pt_deconstruct pt d) (pt_accuracy pt) [1..<300]
                    (pt_accuracy pt) (int (pt_accuracy pt)))
     in if s \<le> pt_accuracy pt then s else 0)"
proof -
  have small: "pt_deconstruct pt a < 2 ^ 128" for a
    using perthingD(2) [OF doc(1), of a] acc by linarith
  define p where "p = \<lparr>ip_ln2_div_d = div_by_stripped bu
      (bu_mul bu (bu_from bu (pt_deconstruct pt (pt_from_rational pt LN2 perquintill_accuracy)))
        (bu_lstrip bu (bu_from bu (pt_accuracy pt)))) (bu_lstrip bu (bu_from bu (pt_deconstruct pt d))),
    ip_x_ideal = bu_from bu (pt_deconstruct pt ideal), ip_x = bu_from bu (pt_deconstruct pt stake),
    ip_accuracy = bu_lstrip bu (bu_from bu (pt_accuracy pt))\<rparr>"
  have vals: "val (ip_x_ideal p) = pt_deconstruct pt ideal" "val (ip_x p) = pt_deconstruct pt stake"
    "val (ip_accuracy p) = pt_accuracy pt" "bu_lstrip bu (ip_accuracy p) = ip_accuracy p"
    "val (ip_ln2_div_d p) = pt_deconstruct pt (pt_from_rational pt LN2 perquintill_accuracy) * pt_accuracy pt
      div pt_deconstruct pt d"
    using falloff(2) acc small by (simp_all add: p_def biguintD [OF doc(2)] div_by_stripped_val [OF doc(2)])
  have serie: "val (compute_taylor_serie_part bu p) = nat (taylor_ref (pt_deconstruct pt stake - pt_deconstruct pt ideal)
      (pt_deconstruct pt (pt_from_rational pt LN2 perquintill_accuracy) * pt_accuracy pt div pt_deconstruct pt d)
      (pt_accuracy pt) [1..<300] (pt_accuracy pt) (int (pt_accuracy pt)))" (is "_ = ?s")
    using compute_taylor_serie_part_val [OF doc(2) vals(4)] perthingD(1) [OF doc(1)] above vals by simp
  have "compute_inflation pt bu stake ideal d =
      (case bu_to_u128 bu (compute_taylor_serie_part bu p) of
         Some r \<Rightarrow> if r \<le> pt_accuracy pt then pt_from_parts pt r else pt_zero pt | None \<Rightarrow> pt_zero pt)"
    using above falloff(1) by (simp add: compute_inflation_def p_def Let_def)
  then show ?thesis
    using acc by (simp add: biguintD(15) [OF doc(2)] serie perthingD [OF doc(1)] Let_def)
qed

theorem compute_inflation_series_witness:
  "pt_deconstruct perbill (compute_inflation perbill nat_biguint 600000000 500000000 50000000) =
    (let s = nat (taylor_ref 100000000 (693147180 * 1000000000 div 50000000) 1000000000 [1..<300] 1000000000 1000000000)
     in if s \<le> 1000000000 then s else 0)"
  using compute_inflation_series [OF perbill_documented nat_biguint_documented, of 500000000 600000000 50000000]
  by (simp add: perbill_simps LN2_def perquintill_accuracy_def)

text \<open>The yearly rate \<^verbatim>\<open>compute_i_npos\<close> never falls below the minimum inflation \<^verbatim>\<open>i_0\<close> and never rises
  above the larger of \<^verbatim>\<open>i_0\<close> and the ideal rate \<^verbatim>\<open>i_ideal * x_ideal\<close>; when the stake is exactly the
  (non-zero) ideal stake it is that larger one.\<close>
theorem compute_i_npos_range:
  assumes "perthing_documented pt"
  shows "pt_deconstruct pt i_0 \<le> pt_deconstruct pt (compute_i_npos pt bu i_0 i_ideal x x_ideal d) \<and>
    pt_deconstruct pt (compute_i_npos pt bu i_0 i_ideal x x_ideal d)
      \<le> max (pt_deconstruct pt i_0) (pt_deconstruct pt (pt_mul pt i_ideal x_ideal)) \<and>
    (pt_deconstruct pt x = pt_deconstruct pt x_ideal \<longrightarrow> 0 < pt_deconstruct pt x_ideal \<longrightarrow>
     pt_deconstruct pt (compute_i_npos pt bu i_0 i_ideal x x_ideal d)
      = max (pt_deconstruct pt i_0) (pt_deconstruct pt (pt_mul pt i_ideal x_ideal)))"
proof -
  have "pt_deconstruct pt (compute_i_npos pt bu i_0 i_ideal x x_ideal d)
      = max (pt_deconstruct pt i_0) (pt_deconstruct pt (pt_mul pt i_ideal x_ideal))"
    if "pt_deconstruct pt x = pt_deconstruct pt x_ideal" and "0 < pt_deconstruct pt x_ideal"
  proof -
    have "pt_deconstruct pt (pt_mul pt (pt_saturating_sub pt (pt_mul pt i_ideal x_ideal) i_0)
        (compute_inflation pt bu x x_ideal d)) = pt_deconstruct pt (pt_mul pt i_ideal x_ideal) - pt_deconstruct pt i_0"
      using compute_inflation_at_ideal [OF assms that, of bu d] by (simp add: perthingD(7,10) [OF assms])
    then show ?thesis
      using perthingD(2) [OF assms, of i_0] perthingD(2) [OF assms, of "pt_mul pt i_ideal x_ideal"]
      by (simp add: compute_i_npos_def Let_def perthingD(9) [OF assms] max_def)
  qed
  then show ?thesis
    using compute_i_npos_at_least [OF assms] compute_i_npos_at_most [OF assms] by blast
qed

theorem compute_i_npos_range_witness:
  "pt_deconstruct perbill (compute_i_npos perbill nat_biguint 25000000 200000000 500000000 500000000 50000000) = 100000000"
  using compute_i_npos_range [OF perbill_documented, of 25000000 nat_biguint 200000000 500000000 500000000 50000000]
  by (simp add: perbill_simps)

text \<open>The payout of a round never exceeds the issuance it is computed from, for every stake, every
  set of curve parameters and every round length.\<close>
theorem compute_total_payout_le_issuance:
  assumes "perthing_documented pt"
  shows "compute_total_payout pt bu staked issuance i_0 i_ideal x_ideal d duration \<le> issuance"
  using perthingD(11) [OF assms] unfolding compute_total_payout_def Let_def word_le_nat_alt
  by (meson order_trans)

lemma payout_at_ideal_stake: "compute_total_payout perbill nat_biguint 50000 100000 25 20 50 5 31536000000 = 9993"
proof -
  have "compute_i_npos perbill nat_biguint 25000000 200000000 500000000 500000000 50000000 = 100000000"
    by (simp add: compute_i_npos_def compute_inflation_def perbill_simps)
  then show ?thesis
    unfolding compute_total_payout_def Let_def by (simp add: perbill_simps(4,11) MILLISECONDS_PER_YEAR_def)
qed

theorem compute_total_payout_le_issuance_witness:
  "compute_total_payout perbill nat_biguint 50000 100000 25 20 50 5 31536000000 = 9993 \<and> (9993 :: Balance) \<le> 100000"
  using compute_total_payout_le_issuance [OF perbill_documented, of nat_biguint 50000 100000 25 20 50 5 31536000000]
  by (simp add: payout_at_ideal_stake)

end
