(* ===== verification/Inflation_Accuracy.thy ===== *)
theory Inflation_Accuracy
  imports Complex_Main Inflation_Correct
begin

text \<open>
  How good the inflation curve is. The Taylor loop of \<^verbatim>\<open>taylor_series.rs\<close> rounds every term down and is cut
  off after 299 terms. For every accuracy up to that of \<^verbatim>\<open>Perquintill\<close> and every falloff the code accepts, the
  terms reach zero before the cut, so the cut never changes the result, and the rounded alternating sum
  differs from the exponential by less than one part per term.
\<close>

section \<open>The remainder of the exponential series\<close>

definition exp_rem :: "real \<Rightarrow> nat \<Rightarrow> real" where
  "exp_rem y n = exp (- y) - (\<Sum>m<n. (- y) ^ m / fact m)"

definition exp_share :: "real \<Rightarrow> nat \<Rightarrow> real" where
  "exp_share y n = (if y = 0 then 1 else exp_rem y n * fact n / (- y) ^ n)"

lemma exp_share_0: "exp_share y 0 = exp (- y)"
  by (simp add: exp_share_def exp_rem_def)

lemma exp_share_Suc: "exp_share y n = 1 - y / real (Suc n) * exp_share y (Suc n)"
proof (cases "y = 0")
  case False
  let ?r = "exp_rem y (Suc n)"
  have "exp_rem y n = (- y) ^ n / fact n + ?r" by (simp add: exp_rem_def)
  then have "exp_share y n = 1 + ?r * fact n / (- y) ^ n" using False by (simp add: exp_share_def add_divide_distrib distrib_right)
  moreover have "y / real (Suc n) * exp_share y (Suc n) = - (?r * fact n / (- y) ^ n)"
  proof -
    have "y / real (Suc n) * exp_share y (Suc n) = (y / (- y)) * (real (Suc n) / real (Suc n)) * (?r * fact n / (- y) ^ n)"
      using False by (simp add: exp_share_def)
    then show ?thesis using False by simp
  qed
  ultimately show ?thesis by simp
qed (simp add: exp_share_def)

lemma exp_share_range:
  assumes "0 \<le> y"
  shows "0 \<le> exp_share y n \<and> exp_share y n \<le> 1"
proof (cases "y = 0 \<or> n = 0")
  case True
  then show ?thesis using assms by (auto simp: exp_share_def exp_rem_def)
next
  case False
  then have y: "- y < 0" and n: "0 < n" using assms by auto
  have "\<forall>m t. m < n \<and> - y \<le> t \<and> t \<le> 0 \<longrightarrow> (exp has_real_derivative exp t) (at t)"
    by (auto intro: DERIV_exp)
  from Maclaurin_minus [OF y, of n "\<lambda>_. exp" exp, OF n _ this] obtain t
    where t: "- y < t" "t < 0" "exp (- y) = (\<Sum>m<n. exp 0 / fact m * (- y) ^ m) + exp t / fact n * (- y) ^ n" by auto
  then have "exp_rem y n = exp t / fact n * (- y) ^ n" by (simp add: exp_rem_def)
  with False have "exp_share y n = exp t" by (simp add: exp_share_def)
  with t(2) show ?thesis by simp
qed

section \<open>The rounded terms\<close>

text \<open>
  \<open>y * l\<close> stands for \<open>(x - x_ideal) * ln2_div_d\<close>, in parts of the squared accuracy. The integer term is the exact
  step from the term before it, rounded down.
\<close>

lemma floor_division: "0 < m \<Longrightarrow> \<exists>\<delta>. 0 \<le> \<delta> \<and> \<delta> < 1 \<and> real n / real m = real (n div m) + \<delta>"
  by (rule exI [of _ "real (n mod m) / real m"]) (simp add: of_nat_of_nat_div_aux [symmetric])

lemma taylor_step_floor:
  assumes "0 < acc" "0 < k"
  shows "\<exists>\<delta>. 0 \<le> \<delta> \<and> \<delta> < 1 \<and>
    real t * (real y * real l / (real acc)\<^sup>2) / real k = real (t * y * l div k div acc div acc) + \<delta>"
proof -
  have "t * y * l div k div acc div acc = t * y * l div (k * acc * acc)" by (simp add: div_mult2_eq [symmetric] mult.assoc)
  moreover have "real t * (real y * real l / (real acc)\<^sup>2) / real k = real (t * y * l) / real (k * acc * acc)"
    by (simp add: power2_eq_square mult_ac)
  ultimately show ?thesis using floor_division [of "k * acc * acc" "t * y * l"] assms by simp
qed

lemma taylor_step_fact:
  fixes b c :: nat
  assumes "0 < k" and "y * l \<le> c * acc\<^sup>2" and "t * fact (k - 1) \<le> b * c ^ (k - 1)"
  shows "(t * y * l div k div acc div acc) * fact k \<le> b * c ^ k"
proof (cases "acc = 0")
  case False
  let ?q = "t * y * l div k div acc div acc"
  have "?q = t * y * l div (k * acc * acc)" by (simp add: div_mult2_eq [symmetric] mult.assoc)
  then have "?q * (k * acc * acc) \<le> t * y * l" by simp
  also have "\<dots> \<le> t * (c * acc\<^sup>2)" using assms(2) by (simp add: mult.assoc)
  finally have "(?q * k) * acc\<^sup>2 \<le> (t * c) * acc\<^sup>2" by (simp add: power2_eq_square mult_ac)
  then have "?q * k \<le> t * c" using False by simp
  then have "?q * k * fact (k - 1) \<le> t * c * fact (k - 1)" by simp
  also have "\<dots> \<le> b * c ^ (k - 1) * c" using assms(3) by (metis mult.commute mult.left_commute mult_le_mono1)
  finally show ?thesis using assms(1) by (simp add: fact_reduce [of k] power_eq_if mult_ac)
qed simp

lemma taylor_ref_error:
  assumes acc: "0 < acc" and yl: "y * l \<le> c * acc\<^sup>2"
    and big: "b * c ^ (n - 1) < fact (n - 1)" and "k < n" and "t * fact k \<le> b * c ^ k"
  shows "\<bar>real_of_int (taylor_ref y l acc [Suc k..<n] t s) -
      (real_of_int s + (- 1) ^ k * real t * (exp_share (real y * real l / (real acc)\<^sup>2) k - 1))\<bar> \<le> real (n - 1 - k)"
  using assms(4,5)
proof (induction "n - 1 - k" arbitrary: k t s)
  case 0
  then have "k = n - 1" by simp
  with 0(3) big have "t * fact k < fact k" by (metis le_less_trans)
  then have "t = 0" by (metis mult.left_neutral mult_less_cancel2 less_one)
  with 0 show ?case by simp
next
  case (Suc m)
  let ?Y = "real y * real l / (real acc)\<^sup>2"
  let ?t = "t * y * l div Suc k div acc div acc"
  let ?h = "exp_share ?Y"
  from Suc.hyps(2) have k: "Suc k < n" "[Suc k..<n] = Suc k # [Suc (Suc k)..<n]" by (auto simp: upt_conv_Cons)
  obtain \<delta> where d: "0 \<le> \<delta>" "\<delta> < 1" "real t * ?Y / real (Suc k) = real ?t + \<delta>"
    using taylor_step_floor [OF acc, of "Suc k" t y l] by auto
  have h: "0 \<le> ?h (Suc k)" "?h (Suc k) \<le> 1" using exp_share_range [of ?Y "Suc k"] by simp_all
  have e: "real t * (?h k - 1) = - ((real ?t + \<delta>) * ?h (Suc k))"
    unfolding d(3) [symmetric] by (subst exp_share_Suc) simp
  have dh: "\<bar>\<delta> * ?h (Suc k)\<bar> \<le> 1" using d(1,2) h mult_mono [of \<delta> 1 "?h (Suc k)" 1] by simp
  have pw: "\<bar>(- 1) ^ k * x\<bar> = \<bar>x\<bar>" for x :: real by (cases "even k") simp_all
  have m: "m = n - 1 - Suc k" using Suc.hyps(2) by simp
  show ?case
  proof (cases "?t = 0")
    case True
    then have "\<bar>(- 1) ^ k * real t * (?h k - 1)\<bar> \<le> 1" using dh e by (simp add: pw mult.assoc)
    also have "1 \<le> real (n - 1 - k)" using k(1) by simp
    finally show ?thesis using True k by (simp add: Let_def)
  next
    case False
    let ?s = "s + (if even (Suc k) then int ?t else - int ?t)"
    have "?t * fact (Suc k) \<le> b * c ^ Suc k"
      using taylor_step_fact [of "Suc k" y l c acc t b, OF _ yl] Suc.prems(2) by simp
    from Suc.hyps(1) [OF m k(1) this, of ?s]
    have IH: "\<bar>real_of_int (taylor_ref y l acc [Suc (Suc k)..<n] ?t ?s) -
      (real_of_int ?s + (- 1) ^ Suc k * real ?t * (?h (Suc k) - 1))\<bar> \<le> real m" using m by simp
    have "real_of_int ?s + (- 1) ^ Suc k * real ?t * (?h (Suc k) - 1) =
        real_of_int s + (- 1) ^ k * (- (real ?t * ?h (Suc k)))" by (simp add: algebra_simps)
    also have "\<dots> = real_of_int s + (- 1) ^ k * real t * (?h k - 1) + (- 1) ^ k * (\<delta> * ?h (Suc k))"
      by (simp add: mult.assoc e) (simp add: algebra_simps)
    finally have "\<bar>real_of_int (taylor_ref y l acc [Suc (Suc k)..<n] ?t ?s) -
      (real_of_int s + (- 1) ^ k * real t * (?h k - 1) + (- 1) ^ k * (\<delta> * ?h (Suc k)))\<bar> \<le> real m" using IH by simp
    moreover have "\<bar>(- 1) ^ k * (\<delta> * ?h (Suc k))\<bar> \<le> 1" using dh by (simp add: pw)
    ultimately have "\<bar>real_of_int (taylor_ref y l acc [Suc (Suc k)..<n] ?t ?s) -
      (real_of_int s + (- 1) ^ k * real t * (?h k - 1))\<bar> \<le> real m + 1" by linarith
    moreover have "real m + 1 = real (n - 1 - k)" using Suc.hyps(2) by simp
    ultimately show ?thesis using False k by (simp add: Let_def)
  qed
qed

text \<open>As long as the exponent is at most one the terms decrease and the partial sums never leave the range of the first.\<close>

lemma taylor_ref_alternating:
  assumes "y * l \<le> acc\<^sup>2"
  shows "if even k then taylor_ref y l acc [Suc k..<n] t s \<le> s \<and> s - int t \<le> taylor_ref y l acc [Suc k..<n] t s
    else s \<le> taylor_ref y l acc [Suc k..<n] t s \<and> taylor_ref y l acc [Suc k..<n] t s \<le> s + int t"
proof (induction "n - Suc k" arbitrary: k t s)
  case (Suc m)
  let ?t = "t * y * l div Suc k div acc div acc"
  have k: "[Suc k..<n] = Suc k # [Suc (Suc k)..<n]" using Suc.hyps(2) by (simp add: upt_conv_Cons)
  have "?t \<le> t * y * l div (acc * acc)" unfolding div_mult2_eq by (intro div_le_mono div_le_dividend)
  also have "\<dots> \<le> t"
  proof (cases "acc = 0")
    case False
    have "t * y * l \<le> t * (acc * acc)" using assms by (simp add: power2_eq_square mult.assoc)
    then have "t * y * l div (acc * acc) \<le> t * (acc * acc) div (acc * acc)" by (rule div_le_mono)
    then show ?thesis using False by simp
  qed simp
  finally have le: "int ?t \<le> int t" by simp
  have m: "m = n - Suc (Suc k)" using Suc.hyps(2) by simp
  show ?case
    using Suc.hyps(1) [OF m, of ?t "s + (if even (Suc k) then int ?t else - int ?t)"] le
    by (simp add: k Let_def split: if_splits)
qed simp

section \<open>The parameters of the series\<close>

definition inflation_param :: "'p perthing_ops \<Rightarrow> 'b biguint_ops \<Rightarrow> 'p \<Rightarrow> 'p \<Rightarrow> 'p \<Rightarrow> 'b INPoSParam" where
  "inflation_param pt bu stake ideal_stake falloff =
     \<lparr>ip_ln2_div_d = div_by_stripped bu
        (bu_mul bu (bu_from bu (pt_deconstruct pt (pt_from_rational pt LN2 perquintill_accuracy)))
          (bu_lstrip bu (bu_from bu (pt_accuracy pt)))) (bu_lstrip bu (bu_from bu (pt_deconstruct pt falloff))),
      ip_x_ideal = bu_from bu (pt_deconstruct pt ideal_stake), ip_x = bu_from bu (pt_deconstruct pt stake),
      ip_accuracy = bu_lstrip bu (bu_from bu (pt_accuracy pt))\<rparr>"

lemma compute_inflation_param:
  assumes "pt_deconstruct pt ideal < pt_deconstruct pt stake" and "pt_deconstruct pt (pt_from_percent pt 1) \<le> pt_deconstruct pt d"
  shows "compute_inflation pt bu stake ideal d =
      (case bu_to_u128 bu (compute_taylor_serie_part bu (inflation_param pt bu stake ideal d)) of
         Some r \<Rightarrow> if r \<le> pt_accuracy pt then pt_from_parts pt r else pt_zero pt | None \<Rightarrow> pt_zero pt)"
  using assms by (simp add: compute_inflation_def inflation_param_def Let_def)

definition ln2_over :: "'p perthing_ops \<Rightarrow> 'p \<Rightarrow> nat" where
  "ln2_over pt d = pt_deconstruct pt (pt_from_rational pt LN2 perquintill_accuracy) * pt_accuracy pt div pt_deconstruct pt d"

lemma inflation_param_val:
  assumes doc: "perthing_documented pt" "biguint_documented bu val"
    and acc: "10 ^ 4 \<le> pt_accuracy pt" "pt_accuracy pt \<le> 10 ^ 18"
    and fall: "pt_deconstruct pt (pt_from_percent pt 1) \<le> pt_deconstruct pt d"
  shows "val (ip_x (inflation_param pt bu x xi d)) = pt_deconstruct pt x"
    and "val (ip_x_ideal (inflation_param pt bu x xi d)) = pt_deconstruct pt xi"
    and "val (ip_accuracy (inflation_param pt bu x xi d)) = pt_accuracy pt"
    and "bu_lstrip bu (ip_accuracy (inflation_param pt bu x xi d)) = ip_accuracy (inflation_param pt bu x xi d)"
    and "val (ip_ln2_div_d (inflation_param pt bu x xi d)) = ln2_over pt d"
    and "ln2_over pt d \<le> 71 * pt_accuracy pt"
proof -
  have "pt_accuracy pt < 2 ^ 128" using acc(2) by (rule le_less_trans) simp
  then have small: "pt_deconstruct pt a < 2 ^ 128" "pt_accuracy pt < 2 ^ 128" for a
    using perthingD(2) [OF doc(1), of a] by linarith+
  have d: "pt_accuracy pt div 100 \<le> pt_deconstruct pt d" using fall doc(1) by (simp add: perthing_documented_def)
  moreover have "10000 \<le> pt_accuracy pt" using acc(1) by simp
  ultimately have falloff: "pt_accuracy pt \<le> 101 * pt_deconstruct pt d" by arith
  then have pos: "0 < pt_deconstruct pt d" using acc(1) by (intro Nat.gr0I) simp
  show "val (ip_x (inflation_param pt bu x xi d)) = pt_deconstruct pt x"
    "val (ip_x_ideal (inflation_param pt bu x xi d)) = pt_deconstruct pt xi"
    "val (ip_accuracy (inflation_param pt bu x xi d)) = pt_accuracy pt"
    "bu_lstrip bu (ip_accuracy (inflation_param pt bu x xi d)) = ip_accuracy (inflation_param pt bu x xi d)"
    "val (ip_ln2_div_d (inflation_param pt bu x xi d)) = ln2_over pt d"
    using pos small by (simp_all add: inflation_param_def ln2_over_def biguintD [OF doc(2)] div_by_stripped_val [OF doc(2)])
  let ?n = "pt_deconstruct pt (pt_from_rational pt LN2 perquintill_accuracy)"
  have "?n = LN2 * pt_accuracy pt div perquintill_accuracy"
    by (simp add: perthingD(4) [OF doc(1)] LN2_def perquintill_accuracy_def)
  then have "?n * 10 ^ 18 \<le> LN2 * pt_accuracy pt" by (simp add: perquintill_accuracy_def)
  then have n: "101 * ?n \<le> 71 * pt_accuracy pt" unfolding LN2_def by simp
  have "?n * pt_accuracy pt \<le> ?n * (101 * pt_deconstruct pt d)" using falloff by simp
  then have "ln2_over pt d \<le> ?n * 101 * pt_deconstruct pt d div pt_deconstruct pt d"
    unfolding ln2_over_def by (metis div_le_mono mult.assoc)
  with pos n show "ln2_over pt d \<le> 71 * pt_accuracy pt" by (simp add: mult.commute)
qed

lemma fact_growth: "fact m * Suc m ^ j \<le> (fact (m + j) :: nat)"
proof (induction j)
  case (Suc j)
  have "fact m * Suc m ^ Suc j = Suc m * (fact m * Suc m ^ j)" by (simp only: power_Suc mult_ac)
  also have "\<dots> \<le> (m + Suc j) * fact (m + j)" by (rule mult_le_mono [OF _ Suc.IH]) simp
  finally show ?case by simp
qed simp

text \<open>Factors of \<open>299!\<close> from 71, 142 and 213 on are at least one, two and three times 71.\<close>

lemma fact_299: "10 ^ 18 * 71 ^ 299 < (fact 299 :: nat)"
proof -
  have "fact 70 * 71 ^ 71 \<le> (fact 141 :: nat)" using fact_growth [of 70 71] by simp
  then have "fact 70 * 71 ^ 71 * 142 ^ 71 \<le> fact 141 * (142 ^ 71 :: nat)" by (rule mult_le_mono1)
  also have "\<dots> \<le> fact 212" using fact_growth [of 141 71] by simp
  finally have "fact 70 * 71 ^ 71 * 142 ^ 71 * 213 ^ 87 \<le> fact 212 * (213 ^ 87 :: nat)" by (rule mult_le_mono1)
  also have "\<dots> \<le> fact 299" using fact_growth [of 212 87] by simp
  finally have f: "fact 70 * 71 ^ 71 * 142 ^ 71 * 213 ^ 87 \<le> (fact 299 :: nat)" .
  have "(10 ^ 18 * 71 ^ 299 :: nat) = 10 ^ 18 * 71 ^ 70 * 71 ^ 229"
    unfolding mult.assoc power_add [symmetric] by (simp only: add_num_simps numeral_plus_numeral)
  also have "\<dots> < fact 70 * 2 ^ 71 * 3 ^ 87 * 71 ^ 229"
    by (rule mult_less_mono1) (simp_all add: fact_numeral)
  also have "\<dots> = fact 70 * 2 ^ 71 * 3 ^ 87 * 71 ^ (71 + (71 + 87))"
    by (simp only: add_num_simps numeral_plus_numeral)
  also have "\<dots> = fact 70 * 71 ^ 71 * (2 * 71) ^ 71 * (3 * 71) ^ 87"
    unfolding power_add by (simp only: power_mult_distrib mult_ac)
  also have "\<dots> = fact 70 * 71 ^ 71 * 142 ^ 71 * 213 ^ 87"
    by (simp only: numeral_times_numeral mult_num_simps add_num_simps)
  also note f
  finally show ?thesis .
qed

lemma index_299: "300 - 1 = (299 :: nat)"
  by simp

lemma taylor_ref_sum_error:
  assumes "0 < acc" and "acc \<le> 10 ^ 18" and "y \<le> acc" and "l \<le> 71 * acc"
  shows "\<bar>real_of_int (taylor_ref y l acc [1..<300] acc (int acc)) - real acc * exp (- (real y * real l / (real acc)\<^sup>2))\<bar> \<le> 299"
proof -
  have yl: "y * l \<le> 71 * acc\<^sup>2" using mult_le_mono [OF assms(3,4)] by (simp add: power2_eq_square mult_ac)
  have "acc * 71 ^ (300 - 1) \<le> 10 ^ 18 * 71 ^ (300 - 1)" using assms(2) by (rule mult_le_mono1)
  also have "\<dots> < (fact (300 - 1) :: nat)" unfolding index_299 by (rule fact_299)
  finally have big: "acc * 71 ^ (300 - 1) < fact (300 - 1)" .
  from taylor_ref_error [OF assms(1) yl big, of 0 acc "int acc"] show ?thesis
    by (simp add: exp_share_0 algebra_simps)
qed

lemma taylor_loop_cut:
  assumes doc: "biguint_documented bu val"
    and acc: "bu_lstrip bu (ip_accuracy p) = ip_accuracy p" "0 < val (ip_accuracy p)" "val (ip_accuracy p) \<le> 10 ^ 18"
    and x: "val (ip_x_ideal p) \<le> val (ip_x p)" "val (ip_x p) \<le> val (ip_accuracy p)"
    and l: "val (ip_ln2_div_d p) \<le> 71 * val (ip_accuracy p)"
    and n: "300 \<le> n" "n < 2 ^ 32" and "k < 300" and "val t * fact k \<le> val (ip_accuracy p) * 71 ^ k"
  shows "taylor_loop bu p [Suc k..<n] t pos s = taylor_loop bu p [Suc k..<300] t pos s"
  using assms(10,11)
proof (induction "299 - k" arbitrary: k t pos s)
  case 0
  then have k: "k = 299" by simp
  have "val t * fact 299 \<le> val (ip_accuracy p) * 71 ^ 299" using 0(3) unfolding k .
  also have "\<dots> \<le> 10 ^ 18 * 71 ^ 299" using acc(3) by (rule mult_le_mono1)
  also note fact_299
  finally have "val t * fact 299 < 1 * fact 299" by (simp only: mult_1)
  then have t: "val t = 0" by (metis mult_less_cancel2 less_one)
  show ?case
  proof (cases "n = 300")
    case False
    then have "[300..<n] = 300 # [301..<n]" using n by (simp add: upt_conv_Cons)
    moreover have "val (compute_taylor_term bu (of_nat 300) t p) = 0"
      using compute_taylor_term_val [OF doc acc(1,2) x(1), of 300 t] t by simp
    ultimately show ?thesis using k biguintD(13) [OF doc] by simp
  qed (simp add: k)
next
  case (Suc m)
  let ?t = "compute_taylor_term bu (of_nat (Suc k)) t p"
  have k: "[Suc k..<n] = Suc k # [Suc (Suc k)..<n]" "[Suc k..<300] = Suc k # [Suc (Suc k)..<300]" "Suc k < 300" "m = 299 - Suc k"
    using Suc.hyps(2) n by (simp_all add: upt_conv_Cons)
  have yl: "(val (ip_x p) - val (ip_x_ideal p)) * val (ip_ln2_div_d p) \<le> 71 * (val (ip_accuracy p))\<^sup>2"
    using mult_le_mono [OF _ l, of "val (ip_x p) - val (ip_x_ideal p)" "val (ip_accuracy p)"] x(2)
    by (simp add: power2_eq_square mult_ac)
  have "val ?t = val t * (val (ip_x p) - val (ip_x_ideal p)) * val (ip_ln2_div_d p) div Suc k
      div val (ip_accuracy p) div val (ip_accuracy p)"
    using k(3) by (intro compute_taylor_term_val [OF doc acc(1,2) x(1)]) simp_all
  then have "val ?t * fact (Suc k) \<le> val (ip_accuracy p) * 71 ^ Suc k"
    using taylor_step_fact [OF _ yl, of "Suc k" "val t" "val (ip_accuracy p)"] Suc.prems(2) by (metis diff_Suc_1 zero_less_Suc)
  note IH = Suc.hyps(1) [OF k(4,3) this]
  show ?case by (simp only: k(1,2) taylor_loop.simps Let_def IH)
qed

section \<open>Properties\<close>

text \<open>C24: The cut of the Taylor loop after 299 terms never takes effect: for every accuracy from \<open>10\<^sup>4\<close> to that of
  \<^verbatim>\<open>Perquintill\<close>, every stake above the ideal one and every falloff of at least 1%, the loop reaches a zero term and
  breaks before, so any larger number of iterations gives the same sum.\<close>

theorem taylor_loop_terminates:
  assumes "perthing_documented pt" and "biguint_documented bu val" and "10 ^ 4 \<le> pt_accuracy pt" and "pt_accuracy pt \<le> 10 ^ 18"
    and "pt_deconstruct pt (pt_from_percent pt 1) \<le> pt_deconstruct pt d" and "pt_deconstruct pt ideal < pt_deconstruct pt stake"
    and "300 \<le> n" and "n < 2 ^ 32" and "p = inflation_param pt bu stake ideal d"
  shows "taylor_loop bu p [1..<n] (ip_accuracy p) True (ip_accuracy p) =
    taylor_loop bu p [1..<300] (ip_accuracy p) True (ip_accuracy p)"
proof -
  note v = inflation_param_val(1-5) [OF assms(1-5), of stake ideal, folded assms(9)]
  note l = inflation_param_val(6) [OF assms(1-5)]
  have "0 < pt_accuracy pt" using assms(3) by (intro Nat.gr0I) simp
  then show ?thesis using taylor_loop_cut [OF assms(2) v(4), of n 0 "ip_accuracy p"] v(1-3,5) l assms(4,6-8) perthingD(2) [OF assms(1), of stake]
    by simp
qed

theorem taylor_loop_terminates_witness:
  "let p = inflation_param perbill nat_biguint 900000000 100000000 10000000 in
   taylor_loop nat_biguint p [1..<1000] (ip_accuracy p) True (ip_accuracy p) =
   taylor_loop nat_biguint p [1..<300] (ip_accuracy p) True (ip_accuracy p)"
  unfolding Let_def
  by (rule taylor_loop_terminates [OF perbill_documented nat_biguint_documented]) (simp_all add: perbill_simps)

text \<open>C25: The inflation curve is accurate: above the ideal stake, for every accuracy from \<open>10\<^sup>4\<close> to that of \<^verbatim>\<open>Perquintill\<close>
  and every falloff of at least 1%, \<^verbatim>\<open>compute_inflation\<close> differs from the exponential decay \<open>exp (- (x - x_ideal) * (ln 2 / d))\<close>,
  with the constants in the rounding of the code, by at most 299 parts. In particular the error
  branch for a result out of range is never taken.\<close>

theorem compute_inflation_accurate:
  assumes "perthing_documented pt" and "biguint_documented bu val" and "10 ^ 4 \<le> pt_accuracy pt" and "pt_accuracy pt \<le> 10 ^ 18"
    and "pt_deconstruct pt (pt_from_percent pt 1) \<le> pt_deconstruct pt d" and "pt_deconstruct pt ideal < pt_deconstruct pt stake"
  shows "\<bar>real (pt_deconstruct pt (compute_inflation pt bu stake ideal d)) -
      real (pt_accuracy pt) * exp (- (real (pt_deconstruct pt stake - pt_deconstruct pt ideal) * real (ln2_over pt d)
        / (real (pt_accuracy pt))\<^sup>2))\<bar> \<le> 299"
proof -
  let ?a = "pt_accuracy pt" and ?y = "pt_deconstruct pt stake - pt_deconstruct pt ideal" and ?l = "ln2_over pt d"
  let ?Y = "real ?y * real ?l / (real ?a)\<^sup>2" and ?s = "taylor_ref ?y ?l ?a [1..<300] ?a (int ?a)"
  note v = inflation_param_val(1-5) [OF assms(1-5), of stake ideal]
  note l = inflation_param_val(6) [OF assms(1-5)]
  have a: "10000 \<le> ?a" "0 < ?a" using assms(3) by simp_all
  have y: "?y \<le> ?a" using perthingD(2) [OF assms(1), of stake] by simp
  have err: "\<bar>real_of_int ?s - real ?a * exp (- ?Y)\<bar> \<le> 299"
    by (rule taylor_ref_sum_error [OF a(2) assms(4) y l])
  have le: "?s \<le> int ?a"
  proof (cases "?y * ?l \<le> ?a\<^sup>2")
    case True
    then show ?thesis using taylor_ref_alternating [OF True, of 0 300 ?a "int ?a"] by simp
  next
    case False
    then have "real (?a\<^sup>2) \<le> real (?y * ?l)" by (intro of_nat_mono) simp
    then have "1 \<le> ?Y" using a(2) by (simp add: field_simps)
    then have "exp (- ?Y) \<le> exp (- 1)" by (simp only: exp_le_cancel_iff neg_le_iff_le)
    also have "exp (- 1) \<le> (1 / 2 :: real)" using exp_ge_add_one_self [of "1 :: real"] by (simp add: exp_minus field_simps)
    finally have "real ?a * exp (- ?Y) \<le> real ?a * (1 / 2)" by (rule mult_left_mono) simp
    moreover have "10000 \<le> real ?a" using a(1) by simp
    ultimately have "real_of_int ?s \<le> real ?a" using err by linarith
    then show ?thesis by linarith
  qed
  have "val (compute_taylor_serie_part bu (inflation_param pt bu stake ideal d)) = nat ?s"
    using compute_taylor_serie_part_val [OF assms(2) v(4)] v(1-3,5) assms(6) a(2) by simp
  moreover have "nat ?s \<le> ?a" "nat ?s < 2 ^ 128" using le assms(4) by simp_all
  ultimately have r: "pt_deconstruct pt (compute_inflation pt bu stake ideal d) = nat ?s"
    using compute_inflation_param [OF assms(6,5), of bu] by (simp add: biguintD(15) [OF assms(2)] perthingD(3) [OF assms(1)])
  have "0 \<le> real ?a * exp (- ?Y)" by simp
  with err have "\<bar>real (nat ?s) - real ?a * exp (- ?Y)\<bar> \<le> 299" by (cases "0 \<le> ?s") auto
  then show ?thesis unfolding r .
qed

theorem compute_inflation_accurate_witness:
  "\<bar>real (pt_deconstruct perbill (compute_inflation perbill nat_biguint 600000000 500000000 50000000)) -
     1000000000 * exp (- (100000000 * 13862943600 / 1000000000\<^sup>2))\<bar> \<le> 299"
  using compute_inflation_accurate [OF perbill_documented nat_biguint_documented, of 50000000 500000000 600000000]
  by (simp add: perbill_simps ln2_over_def LN2_def perquintill_accuracy_def)

end
