(* ===== verification/Inflation_Tests.thy ===== *)
theory Inflation_Tests
  imports Inflation_Accuracy
begin

text \<open>
  The tests of \<^verbatim>\<open>inflation.rs\<close>, replayed on the model with the concrete \<^verbatim>\<open>Perbill\<close> and big integers: the
  expected payouts below, at and above the ideal stake and for different round lengths. Above the
  ideal stake the Taylor loop is unrolled until its terms vanish.
\<close>

section \<open>Unrolling the series\<close>

lemma taylor_ref_first:
  "1 < n \<Longrightarrow> taylor_ref y l acc [Suc 0..<n] t s =
     (let t' = t * y * l div acc div acc in if t' = 0 then s else taylor_ref y l acc [2..<n] t' (s - int t'))"
  by (simp add: upt_conv_Cons numeral_2_eq_2 Let_def)

lemma taylor_ref_next:
  "numeral k < n \<Longrightarrow> taylor_ref y l acc [numeral k..<n] t s =
     (let t' = t * y * l div numeral k div acc div acc in
      if t' = 0 then s else taylor_ref y l acc [numeral (k + num.One)..<n] t'
        (s + (if even (numeral k :: nat) then int t' else - int t')))"
  by (simp add: upt_conv_Cons)

lemma perbill_inflation:
  assumes "ideal < stake" and "stake \<le> 1000000000" and "10000000 \<le> d" and "d \<le> 1000000000"
  shows "compute_inflation perbill nat_biguint stake ideal d =
    (let s = nat (taylor_ref (stake - ideal) (693147180 * 1000000000 div d) 1000000000 [1..<300] 1000000000 1000000000)
     in if s \<le> 1000000000 then s else 0)"
proof -
  let ?p = "inflation_param perbill nat_biguint stake ideal d"
  have v: "ip_x ?p = stake" "ip_x_ideal ?p = ideal" "ip_accuracy ?p = 1000000000"
    "bu_lstrip nat_biguint (ip_accuracy ?p) = ip_accuracy ?p" "ip_ln2_div_d ?p = 693147180 * 1000000000 div d"
    using inflation_param_val(1-5) [OF perbill_documented nat_biguint_documented, of d stake ideal] assms
    by (simp_all add: perbill_simps ln2_over_def LN2_def perquintill_accuracy_def)
  let ?s = "nat (taylor_ref (stake - ideal) (693147180 * 1000000000 div d) 1000000000 [1..<300] 1000000000 1000000000)"
  have s: "compute_taylor_serie_part nat_biguint ?p = ?s"
    using compute_taylor_serie_part_val [OF nat_biguint_documented v(4)] v(1-3,5) assms(1) by simp
  have "compute_inflation perbill nat_biguint stake ideal d =
      (case bu_to_u128 nat_biguint ?s of
         Some r \<Rightarrow> if r \<le> pt_accuracy perbill then pt_from_parts perbill r else pt_zero perbill | None \<Rightarrow> pt_zero perbill)"
    using compute_inflation_param [of perbill ideal stake d nat_biguint] assms by (simp add: perbill_simps s)
  then show ?thesis by (simp add: perbill_simps nat_biguint_def Let_def)
qed

lemmas series_eval = taylor_ref_first taylor_ref_next

section \<open>The expected payouts\<close>

text \<open>The curve of the tests: 2.5% minimum, 20% ideal interest, 50% ideal stake, 5% falloff.\<close>

abbreviation test_payout :: "Balance \<Rightarrow> Balance \<Rightarrow> u64 \<Rightarrow> Balance" where
  "test_payout staked issuance duration \<equiv> compute_total_payout perbill nat_biguint staked issuance 25 20 50 5 duration"

lemma test_rate_below:
  "x \<le> 500000000 \<Longrightarrow>
   compute_i_npos perbill nat_biguint 25000000 200000000 x 500000000 50000000 = 25000000 + 75000000 * (x * 2) div 1000000000"
  by (simp add: compute_i_npos_def compute_inflation_def perbill_simps)

lemma test_rate_above:
  assumes "500000000 < x" and "x \<le> 1000000000"
    and "nat (taylor_ref (x - 500000000) 13862943600 1000000000 [1..<300] 1000000000 1000000000) = s" and "s \<le> 1000000000"
  shows "compute_i_npos perbill nat_biguint 25000000 200000000 x 500000000 50000000 = 25000000 + 75000000 * s div 1000000000"
  using assms by (simp add: compute_i_npos_def perbill_inflation perbill_simps)

lemma test_series_tenth:
  "nat (taylor_ref 100000000 13862943600 1000000000 [1..<300] 1000000000 1000000000) = 250000002"
  by (simp add: series_eval)

lemma test_series_quarter:
  "nat (taylor_ref 250000000 13862943600 1000000000 [1..<300] 1000000000 1000000000) = 31249999"
  by (simp add: series_eval)

lemma test_series_most:
  "nat (taylor_ref 450000000 13862943600 1000000000 [1..<300] 1000000000 1000000000) = 1953126"
  by (simp add: series_eval)

lemma test_series_half:
  "nat (taylor_ref 500000000 13862943600 1000000000 [1..<300] 1000000000 1000000000) = 976564"
  by (simp add: series_eval)

lemmas test_series = test_series_tenth test_series_quarter test_series_most test_series_half

lemma test_rates:
  "compute_i_npos perbill nat_biguint 25000000 200000000 600000000 500000000 50000000 = 43750000"
  "compute_i_npos perbill nat_biguint 25000000 200000000 750000000 500000000 50000000 = 27343749"
  "compute_i_npos perbill nat_biguint 25000000 200000000 950000000 500000000 50000000 = 25146484"
  "compute_i_npos perbill nat_biguint 25000000 200000000 1000000000 500000000 50000000 = 25073242"
  using test_rate_above [of 600000000 250000002] test_rate_above [of 750000000 31249999]
    test_rate_above [of 950000000 1953126] test_rate_above [of 1000000000 976564] test_series
  by simp_all

lemma test_payout_eq:
  "test_payout staked issuance duration =
     pt_mul_balance perbill (pt_from_rational perbill (unat duration) 31557600000)
       (pt_mul_balance perbill (compute_i_npos perbill nat_biguint 25000000 200000000
          (pt_from_rational perbill (unat staked) (unat issuance)) 500000000 50000000) issuance)"
  by (simp add: compute_total_payout_def MILLISECONDS_PER_YEAR_def perbill_simps(4))

lemma perbill_share: "staked \<le> 100000 \<Longrightarrow> pt_from_rational perbill staked 100000 = staked * 10000"
  by (simp add: perbill_simps)

text \<open>The assertions of the test, by round length: a year of 365 days, a day, six hours, an hour.\<close>

lemma compute_total_payout_year:
  "test_payout 0 100000 31536000000 = 2498"
  "test_payout 5000 100000 31536000000 = 3248"
  "test_payout 25000 100000 31536000000 = 6246"
  "test_payout 40000 100000 31536000000 = 8494"
  "test_payout 50000 100000 31536000000 = 9993"
  "test_payout 60000 100000 31536000000 = 4372"
  "test_payout 75000 100000 31536000000 = 2732"
  "test_payout 95000 100000 31536000000 = 2513"
  "test_payout 100000 100000 31536000000 = 2505"
  by (simp_all add: test_payout_eq perbill_share test_rate_below test_rates perbill_simps(4,11))

lemma compute_total_payout_day:
  "test_payout 0 100000 86400000 = 7"
  "test_payout 25000 100000 86400000 = 17"
  "test_payout 50000 100000 86400000 = 27"
  "test_payout 100000 100000 86400000 = 7"
  by (simp_all add: test_payout_eq perbill_share test_rate_below test_rates perbill_simps(4,11))

lemma compute_total_payout_six_hours:
  "test_payout 0 100000 21600000 = 2"
  "test_payout 25000 100000 21600000 = 4"
  "test_payout 50000 100000 21600000 = 7"
  "test_payout 100000 100000 21600000 = 2"
  by (simp_all add: test_payout_eq perbill_share test_rate_below test_rates perbill_simps(4,11))

lemma compute_total_payout_hour:
  "test_payout 2500000000000000000000000000 5000000000000000000000000000 3600000 = 57038500000000000000000"
  by (simp add: test_payout_eq test_rate_below perbill_simps(4,11))

end
