(* ===== verification/Currency.thy ===== *)
theory Currency
  imports Prelude
begin

text \<open>
  The currency the pallets are configured with (\<^verbatim>\<open>T::Currency\<close>, a \<^verbatim>\<open>Currency + ReservableCurrency\<close> of
  the FRAME library, which is not part of this repository). Its state has the abstract type
  \<open>'c\<close> and its operations are the fields of a record that every definition using them takes as an
  argument. What the library documents of the operations is stated by the predicates
  \<open>reserve_documented\<close>, \<open>unreserve_documented\<close>, \<open>transfer_documented\<close> and \<open>deposit_documented\<close>.
  \<open>ledger_currency\<close> is a concrete currency that satisfies them, used by the witnesses.
\<close>

record ('acc, 'c) currency_ops =
  total_issuance :: "'c \<Rightarrow> Balance"
  minimum_balance :: Balance
  free_balance :: "'c \<Rightarrow> 'acc \<Rightarrow> Balance"
  reserved_balance :: "'c \<Rightarrow> 'acc \<Rightarrow> Balance"
  reserve :: "'c \<Rightarrow> 'acc \<Rightarrow> Balance \<Rightarrow> 'c \<times> bool"
  unreserve :: "'c \<Rightarrow> 'acc \<Rightarrow> Balance \<Rightarrow> 'c \<times> Balance"
  deposit_into_existing :: "'c \<Rightarrow> 'acc \<Rightarrow> Balance \<Rightarrow> 'c \<times> Balance option"
  transfer_allow_death :: "'c \<Rightarrow> 'acc \<Rightarrow> 'acc \<Rightarrow> Balance \<Rightarrow> 'c \<times> bool"

text \<open>
  \<^verbatim>\<open>reserve\<close> moves the value from the free to the reserved balance. If the free balance is lower than
  the value, no funds are moved and an error is returned (\<open>False\<close>).
\<close>

definition reserve_documented :: "('acc, 'c) currency_ops \<Rightarrow> bool" where
  "reserve_documented cur \<longleftrightarrow>
     (\<forall>c a v. free_balance cur c a < v \<longrightarrow> reserve cur c a v = (c, False)) \<and>
     (\<forall>c a v c'. reserve cur c a v = (c', False) \<longrightarrow> c' = c) \<and>
     (\<forall>c a v c'. reserve cur c a v = (c', True) \<longrightarrow>
        reserved_balance cur c' = (reserved_balance cur c)(a := reserved_balance cur c a + v) \<and>
        free_balance cur c' = (free_balance cur c)(a := free_balance cur c a - v) \<and>
        total_issuance cur c' = total_issuance cur c)"

text \<open>\<^verbatim>\<open>unreserve\<close> moves up to the value back and returns what could not be moved. It cannot fail.\<close>

definition unreserve_documented :: "('acc, 'c) currency_ops \<Rightarrow> bool" where
  "unreserve_documented cur \<longleftrightarrow>
     (\<forall>c a v c' left. unreserve cur c a v = (c', left) \<longrightarrow>
        (let moved = min v (reserved_balance cur c a) in
         reserved_balance cur c' = (reserved_balance cur c)(a := reserved_balance cur c a - moved) \<and>
         free_balance cur c' = (free_balance cur c)(a := free_balance cur c a + moved) \<and>
         total_issuance cur c' = total_issuance cur c \<and> left = v - moved))"

text \<open>
  \<^verbatim>\<open>transfer\<close> moves free balance or returns an error and changes nothing. With \<^verbatim>\<open>AllowDeath\<close> the sender's
  account may be reaped, so the sender keeps at most what is left.
\<close>

definition transfer_documented :: "('acc, 'c) currency_ops \<Rightarrow> bool" where
  "transfer_documented cur \<longleftrightarrow>
     (\<forall>c a b v c'. transfer_allow_death cur c a b v = (c', False) \<longrightarrow> c' = c) \<and>
     (\<forall>c a b v c'. transfer_allow_death cur c a b v = (c', True) \<longrightarrow> a \<noteq> b \<longrightarrow>
        v \<le> free_balance cur c a \<and> free_balance cur c' a \<le> free_balance cur c a - v \<and>
        free_balance cur c' b = free_balance cur c b + v \<and>
        (\<forall>x. x \<noteq> a \<longrightarrow> x \<noteq> b \<longrightarrow> free_balance cur c' x = free_balance cur c x))"

text \<open>
  \<^verbatim>\<open>deposit_into_existing\<close> mints the value into the free balance of an existing account; for an account
  that does not exist nothing is done and an error (\<open>None\<close>) is returned.
\<close>

definition deposit_documented :: "('acc, 'c) currency_ops \<Rightarrow> bool" where
  "deposit_documented cur \<longleftrightarrow>
     (\<forall>c a v c'. deposit_into_existing cur c a v = (c', None) \<longrightarrow> c' = c) \<and>
     (\<forall>c a v c' x. deposit_into_existing cur c a v = (c', Some x) \<longrightarrow>
        x = v \<and> free_balance cur c' = (free_balance cur c)(a := free_balance cur c a + v) \<and>
        reserved_balance cur c' = reserved_balance cur c \<and>
        total_issuance cur c' = total_issuance cur c + v)"

lemma reserve_fails:
  "reserve_documented cur \<Longrightarrow> free_balance cur c a < v \<Longrightarrow> reserve cur c a v = (c, False)"
  by (simp add: reserve_documented_def)

lemma reserve_False: "reserve_documented cur \<Longrightarrow> reserve cur c a v = (c', False) \<Longrightarrow> c' = c"
  unfolding reserve_documented_def by blast

lemma reserve_True:
  assumes "reserve_documented cur" and "reserve cur c a v = (c', True)"
  shows "reserved_balance cur c' = (reserved_balance cur c)(a := reserved_balance cur c a + v)"
    and "free_balance cur c' = (free_balance cur c)(a := free_balance cur c a - v)"
  using assms unfolding reserve_documented_def by blast+

lemma unreserve_reserved:
  assumes "unreserve_documented cur"
  shows "reserved_balance cur (fst (unreserve cur c a v)) =
    (reserved_balance cur c)(a := reserved_balance cur c a - min v (reserved_balance cur c a))"
  using assms unfolding unreserve_documented_def Let_def by (metis prod.collapse)

lemma unreserve_free:
  assumes "unreserve_documented cur"
  shows "free_balance cur (fst (unreserve cur c a v)) =
    (free_balance cur c)(a := free_balance cur c a + min v (reserved_balance cur c a))"
  using assms unfolding unreserve_documented_def Let_def by (metis prod.collapse)

lemma unreserve_issuance:
  "unreserve_documented cur \<Longrightarrow> total_issuance cur (fst (unreserve cur c a v)) = total_issuance cur c"
  unfolding unreserve_documented_def Let_def by (metis prod.collapse)

lemma transfer_False:
  "transfer_documented cur \<Longrightarrow> transfer_allow_death cur c a b v = (c', False) \<Longrightarrow> c' = c"
  unfolding transfer_documented_def by blast

lemma transfer_True:
  assumes "transfer_documented cur" and "transfer_allow_death cur c a b v = (c', True)" and "a \<noteq> b"
  shows "v \<le> free_balance cur c a" and "free_balance cur c' a \<le> free_balance cur c a - v"
    and "free_balance cur c' b = free_balance cur c b + v"
    and "x \<noteq> a \<Longrightarrow> x \<noteq> b \<Longrightarrow> free_balance cur c' x = free_balance cur c x"
  using assms unfolding transfer_documented_def by blast+

lemma deposit_None:
  "deposit_documented cur \<Longrightarrow> deposit_into_existing cur c a v = (c', None) \<Longrightarrow> c' = c"
  unfolding deposit_documented_def by blast

lemma deposit_Some:
  assumes "deposit_documented cur" and "deposit_into_existing cur c a v = (c', Some x)"
  shows "x = v" and "total_issuance cur c' = total_issuance cur c + v" and "reserved_balance cur c' = reserved_balance cur c"
  using assms unfolding deposit_documented_def by blast+

section \<open>A concrete currency\<close>

record ledger =
  led_free :: "nat \<Rightarrow> Balance"
  led_reserved :: "nat \<Rightarrow> Balance"
  led_issuance :: Balance

definition ledger_currency :: "Balance \<Rightarrow> (nat, ledger) currency_ops" where
  "ledger_currency ed =
     \<lparr>total_issuance = led_issuance,
      minimum_balance = ed,
      free_balance = led_free,
      reserved_balance = led_reserved,
      reserve = (\<lambda>c a v. if led_free c a < v then (c, False)
        else (c\<lparr>led_free := (led_free c)(a := led_free c a - v),
                led_reserved := (led_reserved c)(a := led_reserved c a + v)\<rparr>, True)),
      unreserve = (\<lambda>c a v. let m = min v (led_reserved c a) in
        (c\<lparr>led_free := (led_free c)(a := led_free c a + m),
           led_reserved := (led_reserved c)(a := led_reserved c a - m)\<rparr>, v - m)),
      deposit_into_existing = (\<lambda>c a v. if led_free c a = 0 then (c, None)
        else (c\<lparr>led_free := (led_free c)(a := led_free c a + v),
                led_issuance := led_issuance c + v\<rparr>, Some v)),
      transfer_allow_death = (\<lambda>c a b v. if led_free c a < v then (c, False)
        else (let f = (led_free c)(a := led_free c a - v) in (c\<lparr>led_free := f(b := f b + v)\<rparr>, True)))\<rparr>"

lemma ledger_currency_reserve: "reserve_documented (ledger_currency ed)"
  by (auto simp: reserve_documented_def ledger_currency_def split: if_splits)

lemma ledger_currency_unreserve: "unreserve_documented (ledger_currency ed)"
  by (auto simp: unreserve_documented_def ledger_currency_def Let_def)

lemma ledger_currency_transfer: "transfer_documented (ledger_currency ed)"
  by (auto simp: transfer_documented_def ledger_currency_def Let_def not_less split: if_splits)

lemma ledger_currency_deposit: "deposit_documented (ledger_currency ed)"
  by (auto simp: deposit_documented_def ledger_currency_def split: if_splits)

definition ledger_of :: "(nat \<times> Balance) list \<Rightarrow> ledger" where
  "ledger_of bs =
     \<lparr>led_free = (\<lambda>a. case map_of bs a of Some v \<Rightarrow> v | None \<Rightarrow> 0), led_reserved = (\<lambda>_. 0),
      led_issuance = sum_list (map snd bs)\<rparr>"

end
