(* ===== verification/Staking_Types.thy ===== *)
theory Staking_Types
  imports Currency
begin

text \<open>
  The data types of the staking pallet (\<^verbatim>\<open>pallets/polkafoundry-staking/src/lib.rs\<close>) and their methods:
  the ledger of a collator, the ledger of a nominator, the exit record of a leaving collator and
  the round counter. Balances and round numbers have the widths of the runtime (\<open>u128\<close>, \<open>u32\<close>).
  A method that takes \<^verbatim>\<open>&mut self\<close> returns the new value beside its result.
\<close>

section \<open>Data\<close>

type_synonym RoundIndex = u32
type_synonym RewardPoint = u32

record SettingStruct =
  bond_duration :: u32
  blocks_per_round :: u32
  desired_target :: u32

record UnlockChunk =
  ul_value :: Balance
  ul_round :: RoundIndex

record UnBondChunk =
  ub_value :: Balance
  ub_round :: RoundIndex

record 'acc Bond =
  owner :: 'acc
  amount :: Balance

datatype StakerStatus = Validator | Nominator | Active | Onboarding | Idle | LeavingStatus

definition StakerStatus_default :: StakerStatus where
  "StakerStatus_default = Onboarding"

record 'acc StakingCollators =
  co_total :: Balance
  co_active :: Balance
  co_nominations :: "'acc Bond list"
  co_unlocking :: "UnlockChunk list"
  co_unbonding :: "UnBondChunk list"
  co_status :: StakerStatus
  co_claimed_rewards :: "RoundIndex list"

record Leaving =
  lv_remaining :: Balance
  lv_unbonding :: "UnBondChunk list"
  lv_when :: RoundIndex

record 'acc StakingNominators =
  no_nominations :: "'acc Bond list"
  no_total :: Balance
  no_unbonding :: "UnBondChunk list"
  no_claimed_rewards :: "RoundIndex list"

record RoundInfo =
  ri_index :: RoundIndex
  ri_start_in :: BlockNumber
  ri_length :: u32

datatype Releases = V1_0_0

definition Releases_default :: Releases where
  "Releases_default = V1_0_0"

record 'acc IndividualExposure =
  ie_who :: 'acc
  ie_value :: Balance

record 'acc Exposure =
  ex_total :: Balance
  ex_own :: Balance
  ex_others :: "'acc IndividualExposure list"

section \<open>Bonds are compared by their owner\<close>

definition Bond_eq :: "'acc::linorder Bond \<Rightarrow> 'acc Bond \<Rightarrow> bool" where
  "Bond_eq self other = (owner self = owner other)"

definition Bond_cmp :: "'acc::linorder Bond \<Rightarrow> 'acc Bond \<Rightarrow> ordering" where
  "Bond_cmp self other = cmp (owner self) (owner other)"

definition Bond_partial_cmp :: "'acc::linorder Bond \<Rightarrow> 'acc Bond \<Rightarrow> ordering option" where
  "Bond_partial_cmp self other = Some (Bond_cmp self other)"

definition bond_search :: "'acc::linorder Bond list \<Rightarrow> 'acc Bond \<Rightarrow> nat + nat" where
  "bond_search bonds b = binary_search_by (\<lambda>x. Bond_cmp x b) bonds"

text \<open>The two loops over \<^verbatim>\<open>nominations\<close> that the collator and the nominator ledgers share.\<close>

fun bonds_extra :: "'acc Bond \<Rightarrow> 'acc Bond list \<Rightarrow> 'acc Bond list \<times> Balance option" where
  "bonds_extra extra [] = ([], None)"
| "bonds_extra extra (bond # bonds) =
     (if owner bond = owner extra
      then (bond\<lparr>amount := amount bond + amount extra\<rparr> # bonds, Some (amount bond + amount extra))
      else let (bonds', r) = bonds_extra extra bonds in (bond # bonds', r))"

fun bonds_less :: "'acc Bond \<Rightarrow> 'acc Bond list \<Rightarrow> 'acc Bond list \<times> Balance option option" where
  "bonds_less lss [] = ([], None)"
| "bonds_less lss (bond # bonds) =
     (if owner bond = owner lss
      then (if amount bond > amount lss
            then (bond\<lparr>amount := amount bond - amount lss\<rparr> # bonds, Some (Some (amount bond - amount lss)))
            else (bond # bonds, Some None))
      else let (bonds', r) = bonds_less lss bonds in (bond # bonds', r))"

text \<open>\<^verbatim>\<open>filter_map\<close> over the bonds, remembering the amount of the last bond it drops.\<close>

fun bonds_remove :: "'acc \<Rightarrow> Balance option \<Rightarrow> 'acc Bond list \<Rightarrow> 'acc Bond list \<times> Balance option" where
  "bonds_remove who lss [] = ([], lss)"
| "bonds_remove who lss (n # ns) =
     (if owner n = who then bonds_remove who (Some (amount n)) ns
      else let (ns', less') = bonds_remove who lss ns in (n # ns', less'))"

section \<open>The collator ledger\<close>

definition StakingCollators_new :: "Balance \<Rightarrow> RoundIndex \<Rightarrow> 'acc StakingCollators" where
  "StakingCollators_new amt next_round =
     \<lparr>co_total = amt, co_active = 0, co_nominations = [],
      co_unlocking = [\<lparr>ul_value = amt, ul_round = next_round\<rparr>], co_unbonding = [],
      co_status = StakerStatus_default, co_claimed_rewards = []\<rparr>"

definition StakingCollators_is_active :: "'acc StakingCollators \<Rightarrow> bool" where
  "StakingCollators_is_active self = (co_status self = Active)"

definition StakingCollators_active_onboard :: "'acc StakingCollators \<Rightarrow> 'acc StakingCollators" where
  "StakingCollators_active_onboard self =
     (if co_status self = Onboarding then self\<lparr>co_status := Active\<rparr> else self)"

definition StakingCollators_bond_extra ::
    "'acc StakingCollators \<Rightarrow> Balance \<Rightarrow> RoundIndex \<Rightarrow> 'acc StakingCollators" where
  "StakingCollators_bond_extra self extra next_round =
     self\<lparr>co_total := co_total self + extra,
          co_unlocking := co_unlocking self @ [\<lparr>ul_value = extra, ul_round = next_round\<rparr>]\<rparr>"

definition StakingCollators_bond_less ::
    "'acc StakingCollators \<Rightarrow> Balance \<Rightarrow> RoundIndex \<Rightarrow> 'acc StakingCollators \<times> Balance option" where
  "StakingCollators_bond_less self lss can_withdraw_round =
     (if co_active self > lss
      then let self' = self\<lparr>co_active := co_active self - lss,
             co_unbonding := co_unbonding self @ [\<lparr>ub_value = lss, ub_round = can_withdraw_round\<rparr>]\<rparr>
           in (self', Some (co_active self'))
      else (self, None))"

definition StakingCollators_consolidate_active ::
    "'acc StakingCollators \<Rightarrow> RoundIndex \<Rightarrow> 'acc StakingCollators" where
  "StakingCollators_consolidate_active self current_round =
     self\<lparr>co_active := fold (\<lambda>chunk active. if ul_round chunk > current_round then active
                                            else active + ul_value chunk)
                        (co_unlocking self) (co_active self),
          co_unlocking := filter (\<lambda>chunk. ul_round chunk > current_round) (co_unlocking self)\<rparr>"

definition StakingCollators_consolidate_unbonded ::
    "'acc StakingCollators \<Rightarrow> RoundIndex \<Rightarrow> 'acc StakingCollators" where
  "StakingCollators_consolidate_unbonded self current_round =
     self\<lparr>co_total := fold (\<lambda>chunk total. if ub_round chunk > current_round then total
                                           else total - ub_value chunk)
                       (co_unbonding self) (co_total self),
          co_unbonding := filter (\<lambda>chunk. ub_round chunk > current_round) (co_unbonding self)\<rparr>"

definition StakingCollators_add_nomination ::
    "'acc::linorder StakingCollators \<Rightarrow> 'acc Bond \<Rightarrow> 'acc StakingCollators \<times> bool" where
  "StakingCollators_add_nomination self nomination =
     (case bond_search (co_nominations self) nomination of
        Inr _ \<Rightarrow> (self, False)
      | Inl _ \<Rightarrow> (self\<lparr>co_nominations := co_nominations self @ [nomination]\<rparr>, True))"

definition StakingCollators_nominate_extra ::
    "'acc StakingCollators \<Rightarrow> 'acc Bond \<Rightarrow> 'acc StakingCollators \<times> Balance option" where
  "StakingCollators_nominate_extra self extra =
     (let (bonds, r) = bonds_extra extra (co_nominations self) in (self\<lparr>co_nominations := bonds\<rparr>, r))"

definition StakingCollators_nominate_less ::
    "'acc StakingCollators \<Rightarrow> 'acc Bond \<Rightarrow> 'acc StakingCollators \<times> Balance option option" where
  "StakingCollators_nominate_less self lss =
     (let (bonds, r) = bonds_less lss (co_nominations self) in (self\<lparr>co_nominations := bonds\<rparr>, r))"

definition StakingCollators_force_bond :: "'acc StakingCollators \<Rightarrow> 'acc StakingCollators" where
  "StakingCollators_force_bond self =
     self\<lparr>co_active := co_total self, co_unlocking := [], co_status := Active\<rparr>"

definition StakingCollators_rm_nomination ::
    "'acc StakingCollators \<Rightarrow> 'acc \<Rightarrow> 'acc StakingCollators \<times> Balance option" where
  "StakingCollators_rm_nomination self nominator =
     (let (nominations, lss) = bonds_remove nominator None (co_nominations self) in
      (case lss of
         Some _ \<Rightarrow> (self\<lparr>co_nominations := nominations\<rparr>, Some (co_active self))
       | None \<Rightarrow> (self, None)))"

definition Leaving_new :: "Balance \<Rightarrow> UnBondChunk list \<Rightarrow> RoundIndex \<Rightarrow> Leaving" where
  "Leaving_new remaining unbonding when' =
     \<lparr>lv_remaining = remaining, lv_unbonding = unbonding, lv_when = when'\<rparr>"

section \<open>The nominator ledger\<close>

definition StakingNominators_new :: "'acc Bond list \<Rightarrow> Balance \<Rightarrow> 'acc StakingNominators" where
  "StakingNominators_new nominations amt =
     \<lparr>no_nominations = nominations, no_total = amt, no_unbonding = [], no_claimed_rewards = []\<rparr>"

definition StakingNominators_add_nomination ::
    "'acc::linorder StakingNominators \<Rightarrow> 'acc Bond \<Rightarrow> 'acc StakingNominators \<times> bool" where
  "StakingNominators_add_nomination self nomination =
     (case bond_search (no_nominations self) nomination of
        Inr _ \<Rightarrow> (self, False)
      | Inl _ \<Rightarrow> (self\<lparr>no_total := no_total self + amount nomination,
                       no_nominations := no_nominations self @ [nomination]\<rparr>, True))"

definition StakingNominators_nominate_extra ::
    "'acc StakingNominators \<Rightarrow> 'acc Bond \<Rightarrow> 'acc StakingNominators \<times> Balance option" where
  "StakingNominators_nominate_extra self extra =
     (let (bonds, r) = bonds_extra extra (no_nominations self) in
      (case r of
         Some _ \<Rightarrow> (self\<lparr>no_total := no_total self + amount extra, no_nominations := bonds\<rparr>, r)
       | None \<Rightarrow> (self, None)))"

definition StakingNominators_nominate_less ::
    "'acc StakingNominators \<Rightarrow> 'acc Bond \<Rightarrow> RoundIndex \<Rightarrow>
     'acc StakingNominators \<times> Balance option option" where
  "StakingNominators_nominate_less self lss can_withdraw_round =
     (let (bonds, r) = bonds_less lss (no_nominations self) in
      (case r of
         Some (Some _) \<Rightarrow>
           (self\<lparr>no_nominations := bonds,
                 no_unbonding := no_unbonding self @ [\<lparr>ub_value = amount lss, ub_round = can_withdraw_round\<rparr>]\<rparr>, r)
       | _ \<Rightarrow> (self, r)))"

definition StakingNominators_consolidate_unbonded ::
    "'acc StakingNominators \<Rightarrow> RoundIndex \<Rightarrow> 'acc StakingNominators" where
  "StakingNominators_consolidate_unbonded self current_round =
     self\<lparr>no_total := fold (\<lambda>chunk total. if ub_round chunk > current_round then total
                                           else total - ub_value chunk)
                       (no_unbonding self) (no_total self),
          no_unbonding := filter (\<lambda>chunk. ub_round chunk > current_round) (no_unbonding self)\<rparr>"

definition StakingNominators_rm_nomination ::
    "'acc StakingNominators \<Rightarrow> 'acc \<Rightarrow> RoundIndex \<Rightarrow> 'acc StakingNominators \<times> Balance option" where
  "StakingNominators_rm_nomination self candidate can_withdraw_round =
     (let (nominations, lss) = bonds_remove candidate None (no_nominations self) in
      (case lss of
         Some v \<Rightarrow>
           (self\<lparr>no_nominations := nominations,
                 no_unbonding := no_unbonding self @ [\<lparr>ub_value = v, ub_round = can_withdraw_round\<rparr>]\<rparr>,
            Some (no_total self))
       | None \<Rightarrow> (self, None)))"

section \<open>The round counter\<close>

definition RoundInfo_new :: "u32 \<Rightarrow> BlockNumber \<Rightarrow> u32 \<Rightarrow> RoundInfo" where
  "RoundInfo_new index start_in len = \<lparr>ri_index = index, ri_start_in = start_in, ri_length = len\<rparr>"

definition RoundInfo_next_round_index :: "RoundInfo \<Rightarrow> u32" where
  "RoundInfo_next_round_index self = ri_index self + 1"

definition RoundInfo_update :: "RoundInfo \<Rightarrow> BlockNumber \<Rightarrow> u32 \<Rightarrow> RoundInfo" where
  "RoundInfo_update self now len =
     self\<lparr>ri_index := ri_index self + 1, ri_start_in := now, ri_length := len\<rparr>"

definition RoundInfo_should_goto_next_round :: "RoundInfo \<Rightarrow> BlockNumber \<Rightarrow> bool" where
  "RoundInfo_should_goto_next_round self now = (now - ri_start_in self \<ge> ri_length self)"

definition RoundInfo_next_election_prediction :: "RoundInfo \<Rightarrow> BlockNumber" where
  "RoundInfo_next_election_prediction self = ri_start_in self + ri_length self"

end
