(* ===== verification/Staking_Ledger.thy ===== *)
theory Staking_Ledger
  imports Staking_Types
begin

text \<open>
  What the ledgers of \<^verbatim>\<open>StakingCollators\<close> and \<^verbatim>\<open>StakingNominators\<close> promise. Both record stake that is
  still backing something and stake that was withdrawn and waits for its round; \<open>unbonding_ledger\<close>
  is the contract they share (a withdrawal moves stake into the waiting list, consolidation drops
  the chunks whose round has come and takes exactly their value off the total), and its client
  lemmas are proved once and used through the interpretations at the end.
\<close>

section \<open>Sums over chunks and bonds\<close>

abbreviation unbonding_sum :: "UnBondChunk list \<Rightarrow> Balance" where
  "unbonding_sum chunks \<equiv> sum_list (map ub_value chunks)"

abbreviation unlocking_sum :: "UnlockChunk list \<Rightarrow> Balance" where
  "unlocking_sum chunks \<equiv> sum_list (map ul_value chunks)"

abbreviation bonds_sum :: "'acc Bond list \<Rightarrow> Balance" where
  "bonds_sum bonds \<equiv> sum_list (map amount bonds)"

abbreviation matured :: "RoundIndex \<Rightarrow> UnBondChunk list \<Rightarrow> UnBondChunk list" where
  "matured r chunks \<equiv> filter (\<lambda>c. ub_round c \<le> r) chunks"

lemma fold_add_unless:
  fixes f :: "'a \<Rightarrow> 'b::comm_monoid_add"
  shows "fold (\<lambda>c a. if P c then a else a + f c) xs a = a + sum_list (map f (filter (\<lambda>c. \<not> P c) xs))"
  by (induction xs arbitrary: a) (auto simp: algebra_simps)

lemma fold_sub_unless:
  fixes f :: "'a \<Rightarrow> 'b::ab_group_add"
  shows "fold (\<lambda>c a. if P c then a else a - f c) xs a = a - sum_list (map f (filter (\<lambda>c. \<not> P c) xs))"
  by (induction xs arbitrary: a) (auto simp: algebra_simps)

lemma consolidate_active_simps [ledger_simps]:
  "co_active (StakingCollators_consolidate_active c r) =
     co_active c + unlocking_sum (filter (\<lambda>x. ul_round x \<le> r) (co_unlocking c))"
  "co_unlocking (StakingCollators_consolidate_active c r) = filter (\<lambda>x. r < ul_round x) (co_unlocking c)"
  "co_total (StakingCollators_consolidate_active c r) = co_total c"
  "co_unbonding (StakingCollators_consolidate_active c r) = co_unbonding c"
  "co_nominations (StakingCollators_consolidate_active c r) = co_nominations c"
  "co_status (StakingCollators_consolidate_active c r) = co_status c"
  by (simp_all add: StakingCollators_consolidate_active_def fold_add_unless not_less)

lemma collator_consolidate_unbonded_simps [ledger_simps]:
  "co_total (StakingCollators_consolidate_unbonded c r) = co_total c - unbonding_sum (matured r (co_unbonding c))"
  "co_unbonding (StakingCollators_consolidate_unbonded c r) = filter (\<lambda>x. r < ub_round x) (co_unbonding c)"
  "co_active (StakingCollators_consolidate_unbonded c r) = co_active c"
  "co_unlocking (StakingCollators_consolidate_unbonded c r) = co_unlocking c"
  "co_nominations (StakingCollators_consolidate_unbonded c r) = co_nominations c"
  "co_status (StakingCollators_consolidate_unbonded c r) = co_status c"
  by (simp_all add: StakingCollators_consolidate_unbonded_def fold_sub_unless not_less)

lemma nominator_consolidate_unbonded_simps [ledger_simps]:
  "no_total (StakingNominators_consolidate_unbonded n r) = no_total n - unbonding_sum (matured r (no_unbonding n))"
  "no_unbonding (StakingNominators_consolidate_unbonded n r) = filter (\<lambda>x. r < ub_round x) (no_unbonding n)"
  "no_nominations (StakingNominators_consolidate_unbonded n r) = no_nominations n"
  by (simp_all add: StakingNominators_consolidate_unbonded_def fold_sub_unless not_less)

lemma active_onboard_simps [ledger_simps]:
  "co_total (StakingCollators_active_onboard c) = co_total c"
  "co_active (StakingCollators_active_onboard c) = co_active c"
  "co_unlocking (StakingCollators_active_onboard c) = co_unlocking c"
  "co_unbonding (StakingCollators_active_onboard c) = co_unbonding c"
  "co_nominations (StakingCollators_active_onboard c) = co_nominations c"
  "co_status (StakingCollators_active_onboard c) = (if co_status c = Onboarding then Active else co_status c)"
  by (simp_all add: StakingCollators_active_onboard_def)

section \<open>The bond loops\<close>

lemma bonds_extra_None: "snd (bonds_extra e bs) = None \<longleftrightarrow> owner e \<notin> owner ` set bs"
  by (induction bs) (auto split: prod.splits)

lemma bonds_extra_unchanged: "snd (bonds_extra e bs) = None \<Longrightarrow> fst (bonds_extra e bs) = bs"
  by (induction bs) (auto split: prod.splits if_splits)

lemma bonds_extra_sum:
  "snd (bonds_extra e bs) = Some v \<Longrightarrow> bonds_sum (fst (bonds_extra e bs)) = bonds_sum bs + amount e"
  by (induction bs) (auto split: prod.splits if_splits simp: algebra_simps)

lemma bonds_extra_owners: "map owner (fst (bonds_extra e bs)) = map owner bs"
  by (induction bs) (auto split: prod.splits)

lemma bonds_less_None: "snd (bonds_less e bs) = None \<longleftrightarrow> owner e \<notin> owner ` set bs"
  by (induction bs) (auto split: prod.splits)

lemma bonds_less_unchanged: "\<forall>v. snd (bonds_less e bs) \<noteq> Some (Some v) \<Longrightarrow> fst (bonds_less e bs) = bs"
  by (induction bs) (auto split: prod.splits if_splits)

lemma bonds_less_sum:
  "snd (bonds_less e bs) = Some (Some v) \<Longrightarrow> bonds_sum (fst (bonds_less e bs)) = bonds_sum bs - amount e"
  by (induction bs) (auto split: prod.splits if_splits simp: algebra_simps)

lemma bonds_less_owners: "map owner (fst (bonds_less e bs)) = map owner bs"
  by (induction bs) (auto split: prod.splits)

lemma bonds_remove_fst: "fst (bonds_remove a l bs) = filter (\<lambda>b. owner b \<noteq> a) bs"
  by (induction bs arbitrary: l) (auto simp: case_prod_beta)

lemma bonds_remove_snd:
  "snd (bonds_remove a l bs) =
     (case filter (\<lambda>b. owner b = a) bs of [] \<Rightarrow> l | x # xs \<Rightarrow> Some (amount (last (x # xs))))"
  by (induction bs arbitrary: l) (auto simp: case_prod_beta split: list.splits)

lemma bonds_remove_member:
  assumes "snd (bonds_remove a None bs) = Some v"
  shows "\<lparr>owner = a, amount = v\<rparr> \<in> set bs"
proof -
  obtain x xs where xs: "filter (\<lambda>b. owner b = a) bs = x # xs" and v: "v = amount (last (x # xs))"
    using assms by (auto simp: bonds_remove_snd split: list.splits)
  have "last (x # xs) \<in> set (filter (\<lambda>b. owner b = a) bs)" unfolding xs by (rule last_in_set) simp
  then have "last (x # xs) \<in> set bs" "owner (last (x # xs)) = a" by auto
  then show ?thesis using v by (metis (full_types) Bond.surjective old.unit.exhaust)
qed

lemma bonds_remove_sum:
  assumes "distinct (map owner bs)" and "snd (bonds_remove a None bs) = Some v"
  shows "bonds_sum (fst (bonds_remove a None bs)) = bonds_sum bs - v"
  using assms(2)
proof -
  have "length (filter (\<lambda>b. owner b = a) bs) \<le> 1"
    using assms(1) by (induction bs) (auto simp: filter_empty_conv image_iff)
  then obtain xs where xs: "filter (\<lambda>b. owner b = a) bs = xs" and "xs = [] \<or> (\<exists>x. xs = [x])"
    by (cases "filter (\<lambda>b. owner b = a) bs") auto
  then have "bonds_sum (filter (\<lambda>b. owner b = a) bs) = v"
    using assms(2) by (auto simp: bonds_remove_snd)
  then show ?thesis
    by (simp add: bonds_remove_fst sum_list_filter_not [where P = "\<lambda>b. owner b = a" and f = amount])
qed

section \<open>The contract of an unbonding ledger\<close>

locale unbonding_ledger =
  fixes total :: "'s \<Rightarrow> Balance"
    and backing :: "'s \<Rightarrow> Balance"
    and unbonding :: "'s \<Rightarrow> UnBondChunk list"
    and consolidate :: "'s \<Rightarrow> RoundIndex \<Rightarrow> 's"
    and unbond :: "'s \<Rightarrow> Balance \<Rightarrow> RoundIndex \<Rightarrow> 's option"
  assumes total_consolidate: "total (consolidate s r) = total s - unbonding_sum (matured r (unbonding s))"
    and unbonding_consolidate: "unbonding (consolidate s r) = filter (\<lambda>c. r < ub_round c) (unbonding s)"
    and backing_consolidate: "backing (consolidate s r) = backing s"
    and total_unbond: "unbond s v r = Some s' \<Longrightarrow> total s' = total s"
    and backing_unbond: "unbond s v r = Some s' \<Longrightarrow> backing s' = backing s - v"
    and unbonding_unbond:
      "unbond s v r = Some s' \<Longrightarrow> unbonding s' = unbonding s @ [\<lparr>ub_value = v, ub_round = r\<rparr>]"
begin

lemma balanced_consolidate:
  assumes "total s = backing s + unbonding_sum (unbonding s)"
  shows "total (consolidate s r) = backing (consolidate s r) + unbonding_sum (unbonding (consolidate s r))"
  using assms sum_list_filter_split [of ub_value "\<lambda>c. ub_round c \<le> r" "unbonding s"]
  by (simp add: total_consolidate unbonding_consolidate backing_consolidate not_le algebra_simps)

lemma balanced_unbond:
  assumes "total s = backing s + unbonding_sum (unbonding s)" and "unbond s v r = Some s'"
  shows "total s' = backing s' + unbonding_sum (unbonding s')"
  using assms by (simp add: total_unbond [OF assms(2)] backing_unbond [OF assms(2)] unbonding_unbond [OF assms(2)])

lemma released: "total s - total (consolidate s r) = unbonding_sum (matured r (unbonding s))"
  by (simp add: total_consolidate)

lemma nothing_matured:
  "\<forall>c \<in> set (unbonding s). r < ub_round c \<Longrightarrow>
   total (consolidate s r) = total s \<and> unbonding (consolidate s r) = unbonding s"
  by (auto simp: total_consolidate unbonding_consolidate filter_empty_conv not_le [symmetric])

lemma unbond_locked_until:
  assumes "unbond s v w = Some s'" and "r < w"
  shows "total s' - total (consolidate s' r) = total s - total (consolidate s r)"
    and "\<lparr>ub_value = v, ub_round = w\<rparr> \<in> set (unbonding (consolidate s' r))"
  using assms by (auto simp: released unbonding_consolidate unbonding_unbond [OF assms(1)])

lemma unbond_released_at:
  assumes "unbond s v w = Some s'" and "w \<le> r"
  shows "total s' - total (consolidate s' r) = total s - total (consolidate s r) + v"
  using assms by (simp add: released unbonding_unbond [OF assms(1)])

lemma consolidate_consolidate:
  assumes "r \<le> r'"
  shows "total (consolidate (consolidate s r) r') = total (consolidate s r')"
    and "unbonding (consolidate (consolidate s r) r') = unbonding (consolidate s r')"
proof -
  have cong: "(r < x \<and> x \<le> r') = (\<not> x \<le> r \<and> x \<le> r')" "(x \<le> r) = (x \<le> r \<and> x \<le> r')" for x :: RoundIndex
    using assms by auto
  have "unbonding_sum (matured r' (unbonding s)) =
      unbonding_sum (matured r (unbonding s)) +
      unbonding_sum (matured r' (filter (\<lambda>c. r < ub_round c) (unbonding s)))"
    using sum_list_filter_split [of ub_value "\<lambda>c. ub_round c \<le> r" "matured r' (unbonding s)"]
    by (simp add: cong(2) [symmetric] not_le conj_commute)
  then show "total (consolidate (consolidate s r) r') = total (consolidate s r')"
    by (simp add: total_consolidate unbonding_consolidate algebra_simps)
  show "unbonding (consolidate (consolidate s r) r') = unbonding (consolidate s r')"
    using assms by (auto simp: unbonding_consolidate intro!: filter_cong)
qed

end

section \<open>The collator ledger implements it\<close>

definition collator_backing :: "'acc StakingCollators \<Rightarrow> Balance" where
  "collator_backing c = co_active c + unlocking_sum (co_unlocking c)"

definition collator_withdraw :: "'acc StakingCollators \<Rightarrow> Balance \<Rightarrow> RoundIndex \<Rightarrow> 'acc StakingCollators option" where
  "collator_withdraw c v r = (case StakingCollators_bond_less c v r of (c', Some _) \<Rightarrow> Some c' | _ \<Rightarrow> None)"

lemma bond_less_Some:
  "StakingCollators_bond_less c v r = (c', Some w) \<longleftrightarrow>
     v < co_active c \<and> w = co_active c - v \<and>
     c' = c\<lparr>co_active := co_active c - v, co_unbonding := co_unbonding c @ [\<lparr>ub_value = v, ub_round = r\<rparr>]\<rparr>"
  by (auto simp: StakingCollators_bond_less_def Let_def)

lemma collator_withdraw_Some:
  "collator_withdraw c v r = Some c' \<longleftrightarrow>
     v < co_active c \<and>
     c' = c\<lparr>co_active := co_active c - v, co_unbonding := co_unbonding c @ [\<lparr>ub_value = v, ub_round = r\<rparr>]\<rparr>"
  by (auto simp: collator_withdraw_def StakingCollators_bond_less_def Let_def)

interpretation collator_ledger: unbonding_ledger co_total collator_backing co_unbonding
    StakingCollators_consolidate_unbonded collator_withdraw
  by unfold_locales (auto simp: ledger_simps collator_backing_def collator_withdraw_Some)

section \<open>The nominator ledger implements it\<close>

definition nominator_backing :: "'acc StakingNominators \<Rightarrow> Balance" where
  "nominator_backing n = bonds_sum (no_nominations n)"

definition nominator_withdraw ::
    "'acc \<Rightarrow> 'acc StakingNominators \<Rightarrow> Balance \<Rightarrow> RoundIndex \<Rightarrow> 'acc StakingNominators option" where
  "nominator_withdraw cand n v r =
     (case StakingNominators_nominate_less n \<lparr>owner = cand, amount = v\<rparr> r of
        (n', Some (Some _)) \<Rightarrow> Some n' | _ \<Rightarrow> None)"

lemma nominator_withdraw_Some:
  "nominator_withdraw cand n v r = Some n' \<Longrightarrow>
     no_total n' = no_total n \<and> bonds_sum (no_nominations n') = bonds_sum (no_nominations n) - v \<and>
     no_unbonding n' = no_unbonding n @ [\<lparr>ub_value = v, ub_round = r\<rparr>] \<and>
     map owner (no_nominations n') = map owner (no_nominations n)"
  using bonds_less_sum [of "\<lparr>owner = cand, amount = v\<rparr>" "no_nominations n"]
    bonds_less_owners [of "\<lparr>owner = cand, amount = v\<rparr>" "no_nominations n"]
  by (auto simp: nominator_withdraw_def StakingNominators_nominate_less_def split: prod.splits option.splits)

interpretation nominator_ledger: unbonding_ledger no_total nominator_backing no_unbonding
    StakingNominators_consolidate_unbonded "nominator_withdraw cand" for cand
  by unfold_locales (auto simp: ledger_simps nominator_backing_def dest: nominator_withdraw_Some)

end
