(* ===== verification/Staking_Pallet.thy ===== *)
theory Staking_Pallet
  imports Staking_Ledger Inflation
begin

text \<open>
  The staking pallet (\<^verbatim>\<open>pallets/polkafoundry-staking/src/lib.rs\<close>): its storage as the record
  \<open>staking_state\<close>, its configuration trait as the record \<open>staking_config\<close>, and one definition per
  dispatchable, hook and helper. A dispatchable returns the state it leaves beside its outcome;
  calls are not transactional, so on an error the storage written so far is kept. The currency, the
  conversion to votes, the arithmetic library, the order of storage iteration and the result of the
  election provider are parameters.
\<close>

section \<open>Errors, events, storage and configuration\<close>

datatype staking_error =
    AlreadyBonded | AlreadyInQueue | BondNotExist | Underflow | BondBelowMin | NominateBelowMin
  | CandidateNotExist | TooManyCandidates | NominationNotExist | AlreadyNominatedCollator
  | TooManyNominations | CandidateNotActive | AlreadyLeaving

datatype 'acc staking_event =
    Bonded 'acc Balance
  | BondExtra 'acc Balance
  | BondLess 'acc Balance
  | Nominate 'acc Balance
  | NominateExtra 'acc Balance
  | NominateLess 'acc Balance
  | CandidateOnboard 'acc
  | CandidateLeaving 'acc RoundIndex
  | NominatorLeaveCollator 'acc 'acc
  | CollatorChoosen RoundIndex 'acc Balance
  | Rewarded 'acc Balance
  | SettingChanged SettingStruct
  | NewRoundStart RoundIndex RoundIndex

type_synonym Weight = u64
type_synonym VoteWeight = u64
type_synonym ExtendedBalance = u128

text \<open>
  \<open>events\<close> lists the deposited events, newest last, and \<open>registered_weight\<close> the weights registered
  with \<^verbatim>\<open>frame_system\<close>. Double maps are functions of their first key; a \<^verbatim>\<open>ValueQuery\<close> item is read with
  the default value when it is absent.
\<close>

record ('acc, 'c) staking_state =
  CurrentRound :: RoundInfo
  Collators :: "('acc, 'acc StakingCollators) smap"
  ExitQueue :: "('acc, Leaving) smap"
  TotalStaked :: Balance
  Settings :: SettingStruct
  TotalStakedAt :: "RoundIndex \<Rightarrow> Balance"
  TotalIssuanceAt :: "RoundIndex \<Rightarrow> Balance"
  Nominators :: "('acc, 'acc StakingNominators) smap"
  RoundStakerClipped :: "RoundIndex \<Rightarrow> ('acc, 'acc Exposure) smap"
  StorageVersion :: Releases
  TotalPoints :: "RoundIndex \<Rightarrow> RewardPoint"
  CollatorPoints :: "RoundIndex \<Rightarrow> ('acc, RewardPoint) smap"
  currency :: 'c
  events :: "'acc staking_event list"
  registered_weight :: "Weight list"

record ('acc, 'c, 'p, 'b) staking_config =
  Currency :: "('acc, 'c) currency_ops"
  BlocksPerRound :: u32
  MAX_COLLATORS_PER_NOMINATOR :: u32
  MaxNominationsPerCollator :: u32
  BondDuration :: RoundIndex
  MinCollatorStake :: Balance
  MinNominatorStake :: Balance
  PayoutDuration :: RoundIndex
  to_vote :: "Balance \<Rightarrow> Balance \<Rightarrow> VoteWeight"
  to_currency :: "ExtendedBalance \<Rightarrow> Balance \<Rightarrow> Balance"
  DesiredTarget :: u32
  key_before :: "'acc \<Rightarrow> 'acc \<Rightarrow> bool"
  Perbill :: "'p perthing_ops"
  BigUint :: "'b biguint_ops"
  db_reads :: "u64 \<Rightarrow> Weight"

type_synonym 'r staking_result = "'r \<times> staking_error outcome"

abbreviation fail :: "'s \<Rightarrow> staking_error \<Rightarrow> 's staking_result" where
  "fail s e \<equiv> (s, Err (Module e))"

definition deposit_event :: "'acc staking_event \<Rightarrow> ('acc, 'c) staking_state \<Rightarrow> ('acc, 'c) staking_state" where
  "deposit_event e s = s\<lparr>events := events s @ [e]\<rparr>"

text \<open>The three storage writes and the two currency calls the operations are made of.\<close>

definition put_collator ::
    "('acc, 'c, 'p, 'b) staking_config \<Rightarrow> 'acc \<Rightarrow> 'acc StakingCollators \<Rightarrow> ('acc, 'c) staking_state \<Rightarrow> ('acc, 'c) staking_state" where
  "put_collator cfg who c s = s\<lparr>Collators := sm_insert (key_before cfg) who c (Collators s)\<rparr>"

definition put_nominator ::
    "('acc, 'c, 'p, 'b) staking_config \<Rightarrow> 'acc \<Rightarrow> 'acc StakingNominators \<Rightarrow> ('acc, 'c) staking_state \<Rightarrow> ('acc, 'c) staking_state" where
  "put_nominator cfg who n s = s\<lparr>Nominators := sm_insert (key_before cfg) who n (Nominators s)\<rparr>"

definition put_exit ::
    "('acc, 'c, 'p, 'b) staking_config \<Rightarrow> 'acc \<Rightarrow> Leaving \<Rightarrow> ('acc, 'c) staking_state \<Rightarrow> ('acc, 'c) staking_state" where
  "put_exit cfg who x s = s\<lparr>ExitQueue := sm_insert (key_before cfg) who x (ExitQueue s)\<rparr>"

definition do_reserve ::
    "('acc, 'c, 'p, 'b) staking_config \<Rightarrow> 'acc \<Rightarrow> Balance \<Rightarrow> ('acc, 'c) staking_state \<Rightarrow> ('acc, 'c) staking_state" where
  "do_reserve cfg who v s = s\<lparr>currency := fst (reserve (Currency cfg) (currency s) who v)\<rparr>"

definition do_unreserve ::
    "('acc, 'c, 'p, 'b) staking_config \<Rightarrow> 'acc \<Rightarrow> Balance \<Rightarrow> ('acc, 'c) staking_state \<Rightarrow> ('acc, 'c) staking_state" where
  "do_unreserve cfg who v s = s\<lparr>currency := fst (unreserve (Currency cfg) (currency s) who v)\<rparr>"

section \<open>Dispatchables of collators\<close>

definition config :: "'acc raw_origin \<Rightarrow> SettingStruct \<Rightarrow> ('acc, 'c) staking_state \<Rightarrow> ('acc, 'c) staking_state staking_result" where
  "config origin settings s =
     (if \<not> ensure_root origin then (s, Err BadOrigin)
      else (deposit_event (SettingChanged settings) (s\<lparr>Settings := settings\<rparr>), Ok))"

definition bond ::
    "('acc, 'c, 'p, 'b) staking_config \<Rightarrow> 'acc raw_origin \<Rightarrow> Balance \<Rightarrow> ('acc, 'c) staking_state \<Rightarrow> ('acc, 'c) staking_state staking_result" where
  "bond cfg origin amt s =
     (case ensure_signed origin of
        None \<Rightarrow> (s, Err BadOrigin)
      | Some who \<Rightarrow>
          if sm_get (Collators s) who \<noteq> None then fail s AlreadyBonded
          else if amt < MinCollatorStake cfg then fail s BondBelowMin
          else
            let staker = StakingCollators_new amt (RoundInfo_next_round_index (CurrentRound s));
                s1 = put_collator cfg who staker s;
                s2 = s1\<lparr>TotalStaked := TotalStaked s1 + amt\<rparr>;
                s3 = do_reserve cfg who amt s2
            in (deposit_event (Bonded who amt) s3, Ok))"

definition force_onboard ::
    "('acc, 'c, 'p, 'b) staking_config \<Rightarrow> 'acc raw_origin \<Rightarrow> 'acc \<Rightarrow> ('acc, 'c) staking_state \<Rightarrow> ('acc, 'c) staking_state staking_result" where
  "force_onboard cfg origin candidate s =
     (if \<not> ensure_root origin then (s, Err BadOrigin)
      else case sm_get (Collators s) candidate of
        None \<Rightarrow> fail s CandidateNotExist
      | Some collator \<Rightarrow>
          if StakingCollators_is_active collator then fail s CandidateNotActive
          else
            let s1 = put_collator cfg candidate (StakingCollators_force_bond collator) s
            in (deposit_event (CandidateOnboard candidate) s1, Ok))"

definition bond_extra ::
    "('acc, 'c, 'p, 'b) staking_config \<Rightarrow> 'acc raw_origin \<Rightarrow> Balance \<Rightarrow> ('acc, 'c) staking_state \<Rightarrow> ('acc, 'c) staking_state staking_result" where
  "bond_extra cfg origin extra s =
     (case ensure_signed origin of
        None \<Rightarrow> (s, Err BadOrigin)
      | Some who \<Rightarrow>
          (case sm_get (Collators s) who of
             None \<Rightarrow> fail s BondNotExist
           | Some collator \<Rightarrow>
               if \<not> StakingCollators_is_active collator then fail s CandidateNotActive
               else
                 let collator = StakingCollators_bond_extra collator extra (RoundInfo_next_round_index (CurrentRound s));
                     s1 = put_collator cfg who collator s;
                     s2 = s1\<lparr>TotalStaked := TotalStaked s1 + extra\<rparr>;
                     s3 = do_reserve cfg who extra s2
                 in (deposit_event (BondExtra who extra) s3, Ok)))"

definition withdraw_round :: "('acc, 'c) staking_state \<Rightarrow> RoundIndex" where
  "withdraw_round s = ri_index (CurrentRound s) + bond_duration (Settings s)"

definition bond_less ::
    "('acc, 'c, 'p, 'b) staking_config \<Rightarrow> 'acc raw_origin \<Rightarrow> Balance \<Rightarrow> ('acc, 'c) staking_state \<Rightarrow> ('acc, 'c) staking_state staking_result" where
  "bond_less cfg origin lss s =
     (case ensure_signed origin of
        None \<Rightarrow> (s, Err BadOrigin)
      | Some who \<Rightarrow>
          (case sm_get (Collators s) who of
             None \<Rightarrow> fail s BondNotExist
           | Some collator \<Rightarrow>
               if \<not> StakingCollators_is_active collator then fail s CandidateNotActive
               else case StakingCollators_bond_less collator lss (withdraw_round s) of
                 (_, None) \<Rightarrow> fail s Underflow
               | (collator, Some after) \<Rightarrow>
                   if \<not> after \<ge> MinCollatorStake cfg then fail s BondBelowMin
                   else (deposit_event (BondLess who lss) (put_collator cfg who collator s), Ok)))"

definition collator_unbond ::
    "('acc, 'c, 'p, 'b) staking_config \<Rightarrow> 'acc raw_origin \<Rightarrow> ('acc, 'c) staking_state \<Rightarrow> ('acc, 'c) staking_state staking_result" where
  "collator_unbond cfg origin s =
     (case ensure_signed origin of
        None \<Rightarrow> (s, Err BadOrigin)
      | Some who \<Rightarrow>
          (case sm_get (Collators s) who of
             None \<Rightarrow> fail s BondNotExist
           | Some collator \<Rightarrow>
               let when' = withdraw_round s;
                   s1 = fold (\<lambda>nomination. do_unreserve cfg (owner nomination) (amount nomination)) (co_nominations collator) s;
                   exit = Leaving_new (co_active collator) (co_unbonding collator) when';
                   s2 = put_exit cfg who exit s1;
                   s3 = s2\<lparr>Collators := sm_remove who (Collators s2)\<rparr>
               in (deposit_event (CandidateLeaving who when') s3, Ok)))"

section \<open>Dispatchables of nominators\<close>

definition nominate ::
    "('acc::linorder, 'c, 'p, 'b) staking_config \<Rightarrow> 'acc raw_origin \<Rightarrow> 'acc \<Rightarrow> Balance \<Rightarrow> ('acc, 'c) staking_state \<Rightarrow> ('acc, 'c) staking_state staking_result" where
  "nominate cfg origin candidate amt s =
     (case ensure_signed origin of
        None \<Rightarrow> (s, Err BadOrigin)
      | Some who \<Rightarrow>
          if \<not> amt \<ge> MinNominatorStake cfg then fail s NominateBelowMin
          else case sm_get (Collators s) candidate of
            None \<Rightarrow> fail s CandidateNotExist
          | Some collator \<Rightarrow>
              if \<not> StakingCollators_is_active collator then fail s CandidateNotActive
              else if \<not> length (co_nominations collator) < unat (MaxNominationsPerCollator cfg)
              then fail s TooManyNominations
              else
                let noted = (case sm_get (Nominators s) who of
                       Some nominator \<Rightarrow> StakingNominators_add_nomination nominator \<lparr>owner = candidate, amount = amt\<rparr>
                     | None \<Rightarrow> (StakingNominators_new [\<lparr>owner = candidate, amount = amt\<rparr>] amt, True))
                in if \<not> snd noted then fail s AlreadyNominatedCollator
                else
                  let s1 = put_nominator cfg who (fst noted) s
                  in case StakingCollators_add_nomination collator \<lparr>owner = who, amount = amt\<rparr> of
                       (_, False) \<Rightarrow> fail s1 NominationNotExist
                     | (collator, True) \<Rightarrow>
                         let s2 = put_collator cfg candidate collator s1;
                             s3 = do_reserve cfg who amt s2;
                             s4 = s3\<lparr>TotalStaked := TotalStaked s3 + amt\<rparr>
                         in (deposit_event (Nominate candidate amt) s4, Ok))"

definition nominate_extra ::
    "('acc, 'c, 'p, 'b) staking_config \<Rightarrow> 'acc raw_origin \<Rightarrow> 'acc \<Rightarrow> Balance \<Rightarrow> ('acc, 'c) staking_state \<Rightarrow> ('acc, 'c) staking_state staking_result" where
  "nominate_extra cfg origin candidate extra s =
     (case ensure_signed origin of
        None \<Rightarrow> (s, Err BadOrigin)
      | Some who \<Rightarrow>
          (case sm_get (Collators s) candidate of
             None \<Rightarrow> fail s CandidateNotExist
           | Some collator \<Rightarrow>
               if \<not> StakingCollators_is_active collator then fail s CandidateNotActive
               else case sm_get (Nominators s) who of
                 None \<Rightarrow> fail s NominationNotExist
               | Some nominator \<Rightarrow>
                   (case StakingNominators_nominate_extra nominator \<lparr>owner = candidate, amount = extra\<rparr> of
                      (_, None) \<Rightarrow> fail s CandidateNotExist
                    | (nominator, Some _) \<Rightarrow>
                        (case StakingCollators_nominate_extra collator \<lparr>owner = who, amount = extra\<rparr> of
                           (_, None) \<Rightarrow> fail s NominationNotExist
                         | (collator, Some _) \<Rightarrow>
                             let s1 = put_collator cfg candidate collator s;
                                 s2 = put_nominator cfg who nominator s1;
                                 s3 = do_reserve cfg who extra s2;
                                 s4 = s3\<lparr>TotalStaked := TotalStaked s3 + extra\<rparr>
                             in (deposit_event (NominateExtra candidate extra) s4, Ok)))))"

definition nominate_less ::
    "('acc, 'c, 'p, 'b) staking_config \<Rightarrow> 'acc raw_origin \<Rightarrow> 'acc \<Rightarrow> Balance \<Rightarrow> ('acc, 'c) staking_state \<Rightarrow> ('acc, 'c) staking_state staking_result" where
  "nominate_less cfg origin candidate lss s =
     (case ensure_signed origin of
        None \<Rightarrow> (s, Err BadOrigin)
      | Some who \<Rightarrow>
          (case sm_get (Collators s) candidate of
             None \<Rightarrow> fail s CandidateNotExist
           | Some collator \<Rightarrow>
               if \<not> StakingCollators_is_active collator then fail s CandidateNotActive
               else case sm_get (Nominators s) who of
                 None \<Rightarrow> fail s NominationNotExist
               | Some nominator \<Rightarrow>
                   (case StakingNominators_nominate_less nominator \<lparr>owner = candidate, amount = lss\<rparr> (withdraw_round s) of
                      (_, None) \<Rightarrow> fail s CandidateNotExist
                    | (_, Some None) \<Rightarrow> fail s Underflow
                    | (nominator, Some (Some after)) \<Rightarrow>
                        if \<not> after \<ge> MinNominatorStake cfg then fail s NominateBelowMin
                        else case StakingCollators_nominate_less collator \<lparr>owner = who, amount = lss\<rparr> of
                          (_, None) \<Rightarrow> fail s NominationNotExist
                        | (_, Some None) \<Rightarrow> fail s Underflow
                        | (collator, Some (Some after)) \<Rightarrow>
                            if \<not> after \<ge> MinNominatorStake cfg then fail s NominateBelowMin
                            else
                              let s1 = put_collator cfg candidate collator s;
                                  s2 = put_nominator cfg who nominator s1
                              in (deposit_event (NominateLess candidate lss) s2, Ok))))"

definition nominator_leave_collator ::
    "('acc, 'c, 'p, 'b) staking_config \<Rightarrow> 'acc raw_origin \<Rightarrow> 'acc \<Rightarrow> ('acc, 'c) staking_state \<Rightarrow> ('acc, 'c) staking_state staking_result" where
  "nominator_leave_collator cfg origin candidate s =
     (case ensure_signed origin of
        None \<Rightarrow> (s, Err BadOrigin)
      | Some who \<Rightarrow>
          (case sm_get (Nominators s) who of
             None \<Rightarrow> fail s NominationNotExist
           | Some nomination \<Rightarrow>
               (case sm_get (Collators s) candidate of
                  None \<Rightarrow> fail s CandidateNotExist
                | Some collator \<Rightarrow>
                    (case StakingNominators_rm_nomination nomination candidate (withdraw_round s) of
                       (_, None) \<Rightarrow> fail s CandidateNotExist
                     | (nomination, Some _) \<Rightarrow>
                         (case StakingCollators_rm_nomination collator who of
                            (_, None) \<Rightarrow> fail s NominationNotExist
                          | (collator, Some _) \<Rightarrow>
                              let s1 = put_collator cfg candidate collator s;
                                  s2 = put_nominator cfg who nomination s1
                              in (deposit_event (NominatorLeaveCollator who candidate) s2, Ok))))))"

text \<open>The call enum the pallet macro generates from the dispatchables, and its dispatch.\<close>

datatype 'acc staking_call =
    Call_config SettingStruct
  | Call_bond Balance
  | Call_force_onboard 'acc
  | Call_bond_extra Balance
  | Call_bond_less Balance
  | Call_collator_unbond
  | Call_nominate 'acc Balance
  | Call_nominate_extra 'acc Balance
  | Call_nominate_less 'acc Balance
  | Call_nominator_leave_collator 'acc

fun staking_dispatch ::
    "('acc::linorder, 'c, 'p, 'b) staking_config \<Rightarrow> 'acc raw_origin \<Rightarrow> 'acc staking_call \<Rightarrow>
     ('acc, 'c) staking_state \<Rightarrow> ('acc, 'c) staking_state staking_result" where
  "staking_dispatch cfg origin (Call_config settings) s = config origin settings s"
| "staking_dispatch cfg origin (Call_bond amt) s = bond cfg origin amt s"
| "staking_dispatch cfg origin (Call_force_onboard c) s = force_onboard cfg origin c s"
| "staking_dispatch cfg origin (Call_bond_extra v) s = bond_extra cfg origin v s"
| "staking_dispatch cfg origin (Call_bond_less v) s = bond_less cfg origin v s"
| "staking_dispatch cfg origin Call_collator_unbond s = collator_unbond cfg origin s"
| "staking_dispatch cfg origin (Call_nominate c v) s = nominate cfg origin c v s"
| "staking_dispatch cfg origin (Call_nominate_extra c v) s = nominate_extra cfg origin c v s"
| "staking_dispatch cfg origin (Call_nominate_less c v) s = nominate_less cfg origin c v s"
| "staking_dispatch cfg origin (Call_nominator_leave_collator c) s = nominator_leave_collator cfg origin c s"

end
