(* ===== verification/Staking_Rounds.thy ===== *)
theory Staking_Rounds
  imports Staking_Pallet
begin

text \<open>
  The round change of the staking pallet: genesis, the \<^verbatim>\<open>on_finalize\<close> hook and everything it calls
  (rewards, collator and nominator updates, the exit queue, the election), the data the pallet gives
  to the election provider, and the hooks of block authorship. What the election provider returns
  in a round is an argument of the hook; a loop over a storage map visits the entries the map has
  when the loop starts, since its body writes only the entry it visits.
\<close>

section \<open>Rewards\<close>

definition mint ::
    "('acc, 'c, 'p, 'b) staking_config \<Rightarrow> Balance \<Rightarrow> 'acc \<Rightarrow> ('acc, 'c) staking_state \<Rightarrow> ('acc, 'c) staking_state" where
  "mint cfg amt to s =
     (if amt > minimum_balance (Currency cfg)
      then (case deposit_into_existing (Currency cfg) (currency s) to amt of
              (c, Some imb) \<Rightarrow> deposit_event (Rewarded to imb) (s\<lparr>currency := c\<rparr>)
            | (c, None) \<Rightarrow> s\<lparr>currency := c\<rparr>)
      else s)"

definition round_payout :: "('acc, 'c, 'p, 'b) staking_config \<Rightarrow> Balance \<Rightarrow> Balance \<Rightarrow> Balance" where
  "round_payout cfg total_stake issuance =
     compute_total_payout (Perbill cfg) (BigUint cfg) total_stake issuance 25 20 50 5
       (ucast (BlocksPerRound cfg * 6000))"

definition points_of :: "('acc, 'c) staking_state \<Rightarrow> RoundIndex \<Rightarrow> 'acc \<Rightarrow> RewardPoint" where
  "points_of s r acc = (case sm_get (CollatorPoints s r) acc of Some p \<Rightarrow> p | None \<Rightarrow> 0)"

definition collator_reward ::
    "('acc, 'c, 'p, 'b) staking_config \<Rightarrow> Balance \<Rightarrow> Balance \<Rightarrow> RewardPoint \<Rightarrow> RewardPoint \<Rightarrow> Balance \<Rightarrow> Balance" where
  "collator_reward cfg payout total_stake point total_points own =
     (let pt = Perbill cfg;
          commission_point = pt_from_rational pt 50 100;
          stake_point = pt_from_rational pt 50 100;
          collator_exposure_part = pt_mul pt stake_point (pt_from_rational pt (unat own) (unat total_stake));
          collator_commission_part = pt_mul pt commission_point (pt_from_rational pt (unat point) (unat total_points))
      in pt_mul_balance pt collator_exposure_part payout + pt_mul_balance pt collator_commission_part payout)"

definition nominator_reward ::
    "('acc, 'c, 'p, 'b) staking_config \<Rightarrow> Balance \<Rightarrow> Balance \<Rightarrow> Balance \<Rightarrow> Balance" where
  "nominator_reward cfg payout total_stake value =
     pt_mul_balance (Perbill cfg) (pt_from_rational (Perbill cfg) (unat value) (unat total_stake)) payout"

definition pay_collator ::
    "('acc, 'c, 'p, 'b) staking_config \<Rightarrow> RoundIndex \<Rightarrow> Balance \<Rightarrow> Balance \<Rightarrow> RewardPoint \<Rightarrow> 'acc \<times> 'acc Exposure \<Rightarrow>
     ('acc, 'c) staking_state \<Rightarrow> ('acc, 'c) staking_state" where
  "pay_collator cfg payout_round payout total_stake total_points entry s =
     (case entry of (acc, exposure) \<Rightarrow>
        let point = points_of s payout_round acc;
            s1 = mint cfg (collator_reward cfg payout total_stake point total_points (ex_own exposure)) acc s
        in fold (\<lambda>nominator. mint cfg (nominator_reward cfg payout total_stake (ie_value nominator)) (ie_who nominator))
             (ex_others exposure) s1)"

definition payout_stakers ::
    "('acc, 'c, 'p, 'b) staking_config \<Rightarrow> RoundIndex \<Rightarrow> ('acc, 'c) staking_state \<Rightarrow> ('acc, 'c) staking_state" where
  "payout_stakers cfg current_round s =
     (let duration = PayoutDuration cfg in
      if current_round > duration then
        let payout_round = current_round - duration;
            total_stake = TotalStakedAt s payout_round;
            issuance = TotalIssuanceAt s payout_round;
            payout = round_payout cfg total_stake issuance;
            total_points = TotalPoints s payout_round;
            entries = RoundStakerClipped s payout_round;
            s1 = s\<lparr>RoundStakerClipped := (RoundStakerClipped s)(payout_round := [])\<rparr>
        in fold (pay_collator cfg payout_round payout total_stake total_points) entries s1
      else s)"

section \<open>The election\<close>

record 'acc Support =
  su_total :: ExtendedBalance
  su_voters :: "('acc \<times> ExtendedBalance) list"

type_synonym 'acc Supports = "('acc \<times> 'acc Support) list"

definition add_exposure :: "'acc \<Rightarrow> 'acc \<times> Balance \<Rightarrow> 'acc Exposure \<Rightarrow> 'acc Exposure" where
  "add_exposure validator ns e =
     (case ns of (nominator, stake) \<Rightarrow>
        let e = (if nominator = validator then e\<lparr>ex_own := saturating_add (ex_own e) stake\<rparr>
                 else e\<lparr>ex_others := ex_others e @ [\<lparr>ie_who = nominator, ie_value = stake\<rparr>]\<rparr>)
        in e\<lparr>ex_total := saturating_add (ex_total e) stake\<rparr>)"

definition collect_exposures ::
    "('acc, 'c, 'p, 'b) staking_config \<Rightarrow> 'acc Supports \<Rightarrow> ('acc, 'c) staking_state \<Rightarrow> ('acc \<times> 'acc Exposure) list" where
  "collect_exposures cfg supports s =
     (let issuance = total_issuance (Currency cfg) (currency s) in
      map (\<lambda>(validator, support).
        (validator,
         fold (add_exposure validator)
           (map (\<lambda>(nominator, weight). (nominator, to_currency cfg weight issuance)) (su_voters support))
           \<lparr>ex_total = 0, ex_own = 0, ex_others = []\<rparr>)) supports)"

definition process_election ::
    "('acc, 'c, 'p, 'b) staking_config \<Rightarrow> 'acc Supports \<Rightarrow> RoundIndex \<Rightarrow> ('acc, 'c) staking_state \<Rightarrow>
     ('acc, 'c) staking_state \<times> 'acc list" where
  "process_election cfg flat_supports current_round s =
     (let exposures = collect_exposures cfg flat_supports s;
          elected_stashes = map fst exposures;
          s1 = fold (\<lambda>(stash, exposure) s.
                 deposit_event (CollatorChoosen current_round stash (ex_total exposure))
                   (s\<lparr>RoundStakerClipped := (RoundStakerClipped s)
                       (current_round := sm_insert (key_before cfg) stash exposure (RoundStakerClipped s current_round))\<rparr>))
               exposures s
      in (s1, elected_stashes))"

definition enact_election ::
    "('acc, 'c, 'p, 'b) staking_config \<Rightarrow> ('acc Supports \<times> Weight) option \<Rightarrow> RoundIndex \<Rightarrow> ('acc, 'c) staking_state \<Rightarrow>
     ('acc, 'c) staking_state \<times> 'acc list option" where
  "enact_election cfg elect current_round s =
     (case elect of
        None \<Rightarrow> (s, None)
      | Some (res, weight) \<Rightarrow>
          let s1 = s\<lparr>registered_weight := registered_weight s @ [weight]\<rparr>;
              (s2, elected) = process_election cfg res current_round s1
          in (s2, Some elected))"

section \<open>Updates at a round change\<close>

definition update_collator ::
    "('acc, 'c, 'p, 'b) staking_config \<Rightarrow> RoundIndex \<Rightarrow> 'acc \<times> 'acc StakingCollators \<Rightarrow> ('acc, 'c) staking_state \<Rightarrow> ('acc, 'c) staking_state" where
  "update_collator cfg current_round entry s =
     (case entry of (acc, collator) \<Rightarrow>
        let collator = StakingCollators_active_onboard collator;
            collator = StakingCollators_consolidate_active collator current_round;
            before_total = co_total collator;
            collator = StakingCollators_consolidate_unbonded collator current_round;
            s1 = do_unreserve cfg acc (before_total - co_total collator) s
        in put_collator cfg acc collator s1)"

definition update_collators ::
    "('acc, 'c, 'p, 'b) staking_config \<Rightarrow> RoundIndex \<Rightarrow> ('acc, 'c) staking_state \<Rightarrow> ('acc, 'c) staking_state" where
  "update_collators cfg current_round s = fold (update_collator cfg current_round) (Collators s) s"

definition update_nominator ::
    "('acc, 'c, 'p, 'b) staking_config \<Rightarrow> RoundIndex \<Rightarrow> 'acc \<times> 'acc StakingNominators \<Rightarrow> ('acc, 'c) staking_state \<Rightarrow> ('acc, 'c) staking_state" where
  "update_nominator cfg current_round entry s =
     (case entry of (acc, nominations) \<Rightarrow>
        let before_total = no_total nominations;
            nominations = StakingNominators_consolidate_unbonded nominations current_round;
            current_staked = TotalStaked s;
            unbonded = before_total - no_total nominations;
            s1 = s\<lparr>TotalStaked := current_staked - unbonded\<rparr>;
            s2 = do_unreserve cfg acc unbonded s1
        in put_nominator cfg acc nominations s2)"

definition update_nominators ::
    "('acc, 'c, 'p, 'b) staking_config \<Rightarrow> RoundIndex \<Rightarrow> ('acc, 'c) staking_state \<Rightarrow> ('acc, 'c) staking_state" where
  "update_nominators cfg current_round s = fold (update_nominator cfg current_round) (Nominators s) s"

text \<open>
  The loops of the exit queue read \<open>TotalStaked\<close> once per account, before they write it, so each
  write starts from the same value.
\<close>

definition release_exit_chunk ::
    "('acc, 'c, 'p, 'b) staking_config \<Rightarrow> 'acc \<Rightarrow> Balance \<Rightarrow> Balance \<Rightarrow> ('acc, 'c) staking_state \<Rightarrow> ('acc, 'c) staking_state" where
  "release_exit_chunk cfg acc current_staked value s =
     (do_unreserve cfg acc value s)\<lparr>TotalStaked := current_staked - value\<rparr>"

definition execute_exit ::
    "('acc, 'c, 'p, 'b) staking_config \<Rightarrow> RoundIndex \<Rightarrow> 'acc \<times> Leaving \<Rightarrow> ('acc, 'c) staking_state \<Rightarrow> ('acc, 'c) staking_state" where
  "execute_exit cfg current_round entry s =
     (case entry of (acc, exit) \<Rightarrow>
        let current_staked = TotalStaked s in
        if lv_when exit > current_round then
          let s1 = fold (\<lambda>chunk s. if ub_round chunk > current_round then s
                                   else release_exit_chunk cfg acc current_staked (ub_value chunk) s)
                     (lv_unbonding exit) s;
              unbonding = filter (\<lambda>chunk. ub_round chunk > current_round) (lv_unbonding exit)
          in put_exit cfg acc (exit\<lparr>lv_unbonding := unbonding\<rparr>) s1
        else
          let s1 = release_exit_chunk cfg acc current_staked (lv_remaining exit) s;
              s2 = fold (\<lambda>unbond. release_exit_chunk cfg acc current_staked (ub_value unbond)) (lv_unbonding exit) s1
          in s2\<lparr>ExitQueue := sm_remove acc (ExitQueue s2)\<rparr>)"

definition execute_exit_queue ::
    "('acc, 'c, 'p, 'b) staking_config \<Rightarrow> RoundIndex \<Rightarrow> ('acc, 'c) staking_state \<Rightarrow> ('acc, 'c) staking_state" where
  "execute_exit_queue cfg current_round s = fold (execute_exit cfg current_round) (ExitQueue s) s"

definition on_finalize ::
    "('acc, 'c, 'p, 'b) staking_config \<Rightarrow> ('acc Supports \<times> Weight) option \<Rightarrow> BlockNumber \<Rightarrow> ('acc, 'c) staking_state \<Rightarrow> ('acc, 'c) staking_state" where
  "on_finalize cfg elect now s =
     (if RoundInfo_should_goto_next_round (CurrentRound s) now then
        let block_per_round = blocks_per_round (Settings s);
            current_round = RoundInfo_update (CurrentRound s) now block_per_round;
            round_index = ri_index current_round;
            s = s\<lparr>CurrentRound := current_round\<rparr>;
            s = payout_stakers cfg round_index s;
            s = update_collators cfg round_index s;
            s = update_nominators cfg round_index s;
            s = execute_exit_queue cfg round_index s;
            s = fst (enact_election cfg elect round_index s);
            s = s\<lparr>TotalStakedAt := (TotalStakedAt s)(round_index := TotalStaked s)\<rparr>;
            s = s\<lparr>TotalIssuanceAt := (TotalIssuanceAt s)(round_index := total_issuance (Currency cfg) (currency s))\<rparr>
        in deposit_event (NewRoundStart round_index (round_index * block_per_round)) s
      else s)"

section \<open>Genesis\<close>

text \<open>The storage before genesis: every item absent, so read with its default value.\<close>

definition default_state :: "'c \<Rightarrow> ('acc, 'c) staking_state" where
  "default_state c =
     \<lparr>CurrentRound = \<lparr>ri_index = 0, ri_start_in = 0, ri_length = 0\<rparr>, Collators = [], ExitQueue = [],
      TotalStaked = 0, Settings = \<lparr>bond_duration = 0, blocks_per_round = 0, desired_target = 0\<rparr>,
      TotalStakedAt = (\<lambda>_. 0), TotalIssuanceAt = (\<lambda>_. 0), Nominators = [], RoundStakerClipped = (\<lambda>_. []),
      StorageVersion = Releases_default, TotalPoints = (\<lambda>_. 0), CollatorPoints = (\<lambda>_. []),
      currency = c, events = [], registered_weight = []\<rparr>"

text \<open>The loop over the genesis stakers; \<open>None\<close> is the failed assertion.\<close>

fun build_stakers ::
    "('acc, 'c, 'p, 'b) staking_config \<Rightarrow> ('acc \<times> Balance) list \<Rightarrow> Balance \<Rightarrow> ('acc, 'c) staking_state \<Rightarrow>
     (Balance \<times> ('acc, 'c) staking_state) option" where
  "build_stakers cfg [] total_staked s = Some (total_staked, s)"
| "build_stakers cfg ((staker, balance) # stakers) total_staked s =
     (if free_balance (Currency cfg) (currency s) staker \<ge> balance
      then build_stakers cfg stakers (total_staked + balance) (fst (bond cfg (Signed staker) balance s))
      else None)"

definition build ::
    "('acc, 'c, 'p, 'b) staking_config \<Rightarrow> ('acc \<times> Balance) list \<Rightarrow> ('acc, 'c) staking_state \<Rightarrow> ('acc, 'c) staking_state option" where
  "build cfg stakers s =
     (case build_stakers cfg stakers 0 s of
        None \<Rightarrow> None
      | Some (total_staked, s) \<Rightarrow>
          let s = s\<lparr>TotalStaked := total_staked\<rparr>;
              s = s\<lparr>CurrentRound := RoundInfo_new 1 0 (BlocksPerRound cfg)\<rparr>;
              s = s\<lparr>TotalStakedAt := (TotalStakedAt s)(1 := TotalStaked s)\<rparr>;
              s = s\<lparr>TotalIssuanceAt := (TotalIssuanceAt s)(1 := total_issuance (Currency cfg) (currency s))\<rparr>;
              s = s\<lparr>Settings := \<lparr>bond_duration = BondDuration cfg, blocks_per_round = BlocksPerRound cfg,
                                desired_target = DesiredTarget cfg\<rparr>\<rparr>
          in Some (deposit_event (NewRoundStart 1 (1 + BlocksPerRound cfg)) s))"

section \<open>The data of the election\<close>

text \<open>Counts of storage entries are natural numbers: a map cannot hold more entries than \<^verbatim>\<open>usize\<close> counts.\<close>

definition slashable_balance_of :: "('acc, 'c) staking_state \<Rightarrow> 'acc \<Rightarrow> StakerStatus \<Rightarrow> Balance" where
  "slashable_balance_of s stash status =
     (case status of
        Validator \<Rightarrow> (case sm_get (Collators s) stash of
            Some c \<Rightarrow> if StakingCollators_is_active c then co_active c else 0 | None \<Rightarrow> 0)
      | Nominator \<Rightarrow> (case sm_get (Nominators s) stash of Some l \<Rightarrow> no_total l | None \<Rightarrow> 0)
      | _ \<Rightarrow> 0)"

definition slashable_balance_of_vote_weight ::
    "('acc, 'c, 'p, 'b) staking_config \<Rightarrow> ('acc, 'c) staking_state \<Rightarrow> 'acc \<Rightarrow> Balance \<Rightarrow> StakerStatus \<Rightarrow> VoteWeight" where
  "slashable_balance_of_vote_weight cfg s stash issuance status =
     to_vote cfg (slashable_balance_of s stash status) issuance"

definition slashable_balance_of_fn ::
    "('acc, 'c, 'p, 'b) staking_config \<Rightarrow> ('acc, 'c) staking_state \<Rightarrow> StakerStatus \<Rightarrow> 'acc \<Rightarrow> VoteWeight" where
  "slashable_balance_of_fn cfg s status =
     (let issuance = total_issuance (Currency cfg) (currency s) in
      (\<lambda>who. slashable_balance_of_vote_weight cfg s who issuance status))"

definition get_npos_voters ::
    "('acc, 'c, 'p, 'b) staking_config \<Rightarrow> ('acc, 'c) staking_state \<Rightarrow> ('acc \<times> VoteWeight \<times> 'acc list) list" where
  "get_npos_voters cfg s =
     (let weight_of_validator = slashable_balance_of_fn cfg s Validator;
          weight_of_nominator = slashable_balance_of_fn cfg s Nominator
      in map (\<lambda>(validator, _). (validator, weight_of_validator validator, [validator])) (Collators s)
         @ map (\<lambda>(nominator, nominations).
             (nominator, weight_of_nominator nominator, map owner (no_nominations nominations))) (Nominators s))"

definition get_npos_targets :: "('acc, 'c) staking_state \<Rightarrow> 'acc list" where
  "get_npos_targets s = map (\<lambda>(v, _). v) (Collators s)"

definition active_count :: "('acc, 'c) staking_state \<Rightarrow> nat" where
  "active_count s = length (filter (\<lambda>c. StakingCollators_is_active (snd c)) (Collators s))"

definition targets ::
    "('acc, 'c, 'p, 'b) staking_config \<Rightarrow> ('acc, 'c) staking_state \<Rightarrow> nat option \<Rightarrow> string + 'acc list \<times> Weight" where
  "targets cfg s maybe_max_len =
     (let target_count = active_count s in
      if (case maybe_max_len of Some max_len \<Rightarrow> target_count > max_len | None \<Rightarrow> False)
      then Inl ''Target snapshot too big''
      else Inr (get_npos_targets s, db_reads cfg (of_nat target_count)))"

definition voters ::
    "('acc, 'c, 'p, 'b) staking_config \<Rightarrow> ('acc, 'c) staking_state \<Rightarrow> nat option \<Rightarrow>
     string + ('acc \<times> VoteWeight \<times> 'acc list) list \<times> Weight" where
  "voters cfg s maybe_max_len =
     (let nominator_count = length (Nominators s);
          validator_count = active_count s;
          voter_count = nominator_count + validator_count
      in if (case maybe_max_len of Some max_len \<Rightarrow> voter_count > max_len | None \<Rightarrow> False)
         then Inl ''Voter snapshot too big''
         else Inr (get_npos_voters cfg s, db_reads cfg (of_nat voter_count)))"

definition desired_targets :: "('acc, 'c, 'p, 'b) staking_config \<Rightarrow> ('acc, 'c) staking_state \<Rightarrow> u32 \<times> Weight" where
  "desired_targets cfg s = (desired_target (Settings s), db_reads cfg 1)"

definition next_election_prediction :: "('acc, 'c) staking_state \<Rightarrow> BlockNumber \<Rightarrow> BlockNumber" where
  "next_election_prediction s now = RoundInfo_next_election_prediction (CurrentRound s)"

section \<open>Hooks of block authorship\<close>

definition note_author ::
    "('acc, 'c, 'p, 'b) staking_config \<Rightarrow> 'acc \<Rightarrow> ('acc, 'c) staking_state \<Rightarrow> ('acc, 'c) staking_state" where
  "note_author cfg author s =
     (let now = ri_index (CurrentRound s);
          score_plus_20 = points_of s now author + 20;
          s1 = s\<lparr>CollatorPoints := (CollatorPoints s)
                 (now := sm_insert (key_before cfg) author score_plus_20 (CollatorPoints s now))\<rparr>
      in s1\<lparr>TotalPoints := (TotalPoints s1)(now := TotalPoints s1 now + 20)\<rparr>)"

definition can_author :: "('acc, 'c) staking_state \<Rightarrow> 'acc \<Rightarrow> bool" where
  "can_author s account = (sm_get (Collators s) account \<noteq> None)"

end
