(* ===== verification/Staking_Frame.thy ===== *)
theory Staking_Frame
  imports Staking_Rounds
begin

text \<open>
  What the operations of the staking pallet leave alone, and the loops of a round change in closed
  form: every loop over a storage map that rewrites the entry it visits is a map over its entries,
  and its effect on the currency and on the total stake is one fold.
\<close>

section \<open>Storage writes\<close>

lemma put_collator_simps [simp]:
  "CurrentRound (put_collator cfg a c s) = CurrentRound s"
  "Collators (put_collator cfg a c s) = sm_insert (key_before cfg) a c (Collators s)"
  "ExitQueue (put_collator cfg a c s) = ExitQueue s"
  "TotalStaked (put_collator cfg a c s) = TotalStaked s"
  "Settings (put_collator cfg a c s) = Settings s"
  "TotalStakedAt (put_collator cfg a c s) = TotalStakedAt s"
  "TotalIssuanceAt (put_collator cfg a c s) = TotalIssuanceAt s"
  "Nominators (put_collator cfg a c s) = Nominators s"
  "RoundStakerClipped (put_collator cfg a c s) = RoundStakerClipped s"
  "TotalPoints (put_collator cfg a c s) = TotalPoints s"
  "CollatorPoints (put_collator cfg a c s) = CollatorPoints s"
  "currency (put_collator cfg a c s) = currency s"
  "events (put_collator cfg a c s) = events s"
  by (simp_all add: put_collator_def)

lemma put_nominator_simps [simp]:
  "CurrentRound (put_nominator cfg a n s) = CurrentRound s"
  "Collators (put_nominator cfg a n s) = Collators s"
  "ExitQueue (put_nominator cfg a n s) = ExitQueue s"
  "TotalStaked (put_nominator cfg a n s) = TotalStaked s"
  "Settings (put_nominator cfg a n s) = Settings s"
  "TotalStakedAt (put_nominator cfg a n s) = TotalStakedAt s"
  "TotalIssuanceAt (put_nominator cfg a n s) = TotalIssuanceAt s"
  "Nominators (put_nominator cfg a n s) = sm_insert (key_before cfg) a n (Nominators s)"
  "RoundStakerClipped (put_nominator cfg a n s) = RoundStakerClipped s"
  "TotalPoints (put_nominator cfg a n s) = TotalPoints s"
  "CollatorPoints (put_nominator cfg a n s) = CollatorPoints s"
  "currency (put_nominator cfg a n s) = currency s"
  "events (put_nominator cfg a n s) = events s"
  by (simp_all add: put_nominator_def)

lemma put_exit_simps [simp]:
  "CurrentRound (put_exit cfg a x s) = CurrentRound s"
  "Collators (put_exit cfg a x s) = Collators s"
  "ExitQueue (put_exit cfg a x s) = sm_insert (key_before cfg) a x (ExitQueue s)"
  "TotalStaked (put_exit cfg a x s) = TotalStaked s"
  "Settings (put_exit cfg a x s) = Settings s"
  "TotalStakedAt (put_exit cfg a x s) = TotalStakedAt s"
  "TotalIssuanceAt (put_exit cfg a x s) = TotalIssuanceAt s"
  "Nominators (put_exit cfg a x s) = Nominators s"
  "RoundStakerClipped (put_exit cfg a x s) = RoundStakerClipped s"
  "TotalPoints (put_exit cfg a x s) = TotalPoints s"
  "CollatorPoints (put_exit cfg a x s) = CollatorPoints s"
  "currency (put_exit cfg a x s) = currency s"
  "events (put_exit cfg a x s) = events s"
  by (simp_all add: put_exit_def)

lemma deposit_event_simps [simp]:
  "CurrentRound (deposit_event e s) = CurrentRound s"
  "Collators (deposit_event e s) = Collators s"
  "ExitQueue (deposit_event e s) = ExitQueue s"
  "TotalStaked (deposit_event e s) = TotalStaked s"
  "Settings (deposit_event e s) = Settings s"
  "TotalStakedAt (deposit_event e s) = TotalStakedAt s"
  "TotalIssuanceAt (deposit_event e s) = TotalIssuanceAt s"
  "Nominators (deposit_event e s) = Nominators s"
  "RoundStakerClipped (deposit_event e s) = RoundStakerClipped s"
  "TotalPoints (deposit_event e s) = TotalPoints s"
  "CollatorPoints (deposit_event e s) = CollatorPoints s"
  "currency (deposit_event e s) = currency s"
  "events (deposit_event e s) = events s @ [e]"
  by (simp_all add: deposit_event_def)

lemma do_reserve_simps [simp]:
  "CurrentRound (do_reserve cfg a v s) = CurrentRound s"
  "Collators (do_reserve cfg a v s) = Collators s"
  "ExitQueue (do_reserve cfg a v s) = ExitQueue s"
  "TotalStaked (do_reserve cfg a v s) = TotalStaked s"
  "Settings (do_reserve cfg a v s) = Settings s"
  "TotalStakedAt (do_reserve cfg a v s) = TotalStakedAt s"
  "TotalIssuanceAt (do_reserve cfg a v s) = TotalIssuanceAt s"
  "Nominators (do_reserve cfg a v s) = Nominators s"
  "RoundStakerClipped (do_reserve cfg a v s) = RoundStakerClipped s"
  "TotalPoints (do_reserve cfg a v s) = TotalPoints s"
  "CollatorPoints (do_reserve cfg a v s) = CollatorPoints s"
  "currency (do_reserve cfg a v s) = fst (reserve (Currency cfg) (currency s) a v)"
  "events (do_reserve cfg a v s) = events s"
  by (simp_all add: do_reserve_def)

lemma do_unreserve_simps [simp]:
  "CurrentRound (do_unreserve cfg a v s) = CurrentRound s"
  "Collators (do_unreserve cfg a v s) = Collators s"
  "ExitQueue (do_unreserve cfg a v s) = ExitQueue s"
  "TotalStaked (do_unreserve cfg a v s) = TotalStaked s"
  "Settings (do_unreserve cfg a v s) = Settings s"
  "TotalStakedAt (do_unreserve cfg a v s) = TotalStakedAt s"
  "TotalIssuanceAt (do_unreserve cfg a v s) = TotalIssuanceAt s"
  "Nominators (do_unreserve cfg a v s) = Nominators s"
  "RoundStakerClipped (do_unreserve cfg a v s) = RoundStakerClipped s"
  "TotalPoints (do_unreserve cfg a v s) = TotalPoints s"
  "CollatorPoints (do_unreserve cfg a v s) = CollatorPoints s"
  "currency (do_unreserve cfg a v s) = fst (unreserve (Currency cfg) (currency s) a v)"
  "events (do_unreserve cfg a v s) = events s"
  by (simp_all add: do_unreserve_def)

section \<open>Loops that keep a component of the state\<close>

lemma fold_invariant: "(\<And>x s. x \<in> set xs \<Longrightarrow> f (g x s) = f s) \<Longrightarrow> f (fold g xs s) = f s"
  by (induction xs arbitrary: s) auto

lemma fold_project:
  "(\<And>x s. x \<in> set xs \<Longrightarrow> f (g x s) = h x (f s)) \<Longrightarrow> f (fold g xs s) = fold h xs (f s)"
  by (induction xs arbitrary: s) auto

section \<open>Rewards\<close>

lemma mint_simps [simp]:
  "CurrentRound (mint cfg v a s) = CurrentRound s"
  "Collators (mint cfg v a s) = Collators s"
  "ExitQueue (mint cfg v a s) = ExitQueue s"
  "TotalStaked (mint cfg v a s) = TotalStaked s"
  "Settings (mint cfg v a s) = Settings s"
  "TotalStakedAt (mint cfg v a s) = TotalStakedAt s"
  "TotalIssuanceAt (mint cfg v a s) = TotalIssuanceAt s"
  "Nominators (mint cfg v a s) = Nominators s"
  "RoundStakerClipped (mint cfg v a s) = RoundStakerClipped s"
  "TotalPoints (mint cfg v a s) = TotalPoints s"
  "CollatorPoints (mint cfg v a s) = CollatorPoints s"
  by (simp_all add: mint_def split: prod.splits option.splits)

lemma pay_collator_simps [simp]:
  "CurrentRound (pay_collator cfg r p ts tp e s) = CurrentRound s"
  "Collators (pay_collator cfg r p ts tp e s) = Collators s"
  "ExitQueue (pay_collator cfg r p ts tp e s) = ExitQueue s"
  "TotalStaked (pay_collator cfg r p ts tp e s) = TotalStaked s"
  "Settings (pay_collator cfg r p ts tp e s) = Settings s"
  "TotalStakedAt (pay_collator cfg r p ts tp e s) = TotalStakedAt s"
  "TotalIssuanceAt (pay_collator cfg r p ts tp e s) = TotalIssuanceAt s"
  "Nominators (pay_collator cfg r p ts tp e s) = Nominators s"
  "RoundStakerClipped (pay_collator cfg r p ts tp e s) = RoundStakerClipped s"
  "TotalPoints (pay_collator cfg r p ts tp e s) = TotalPoints s"
  "CollatorPoints (pay_collator cfg r p ts tp e s) = CollatorPoints s"
  by (simp_all add: pay_collator_def Let_def fold_invariant split: prod.splits)

lemma payout_stakers_simps [simp]:
  "CurrentRound (payout_stakers cfg r s) = CurrentRound s"
  "Collators (payout_stakers cfg r s) = Collators s"
  "ExitQueue (payout_stakers cfg r s) = ExitQueue s"
  "TotalStaked (payout_stakers cfg r s) = TotalStaked s"
  "Settings (payout_stakers cfg r s) = Settings s"
  "TotalStakedAt (payout_stakers cfg r s) = TotalStakedAt s"
  "TotalIssuanceAt (payout_stakers cfg r s) = TotalIssuanceAt s"
  "Nominators (payout_stakers cfg r s) = Nominators s"
  "TotalPoints (payout_stakers cfg r s) = TotalPoints s"
  "CollatorPoints (payout_stakers cfg r s) = CollatorPoints s"
  by (simp_all add: payout_stakers_def Let_def fold_invariant)

lemma payout_stakers_clipped:
  "RoundStakerClipped (payout_stakers cfg r s) =
     (if PayoutDuration cfg < r then (RoundStakerClipped s)(r - PayoutDuration cfg := []) else RoundStakerClipped s)"
  by (simp add: payout_stakers_def Let_def fold_invariant [where f = RoundStakerClipped])

section \<open>The updates of a round change\<close>

definition updated_collator :: "RoundIndex \<Rightarrow> 'acc StakingCollators \<Rightarrow> 'acc StakingCollators" where
  "updated_collator r c =
     StakingCollators_consolidate_unbonded (StakingCollators_consolidate_active (StakingCollators_active_onboard c) r) r"

definition collator_released :: "RoundIndex \<Rightarrow> 'acc StakingCollators \<Rightarrow> Balance" where
  "collator_released r c = unbonding_sum (matured r (co_unbonding c))"

definition nominator_released :: "RoundIndex \<Rightarrow> 'acc StakingNominators \<Rightarrow> Balance" where
  "nominator_released r n = unbonding_sum (matured r (no_unbonding n))"

definition unreserve_all ::
    "('acc, 'c, 'p, 'b) staking_config \<Rightarrow> ('acc \<times> Balance) list \<Rightarrow> 'c \<Rightarrow> 'c" where
  "unreserve_all cfg vs c = fold (\<lambda>(a, v) c. fst (unreserve (Currency cfg) c a v)) vs c"

lemma update_collator_eq:
  "update_collator cfg r (a, c) s =
     put_collator cfg a (updated_collator r c) (do_unreserve cfg a (collator_released r c) s)"
  by (simp add: update_collator_def Let_def updated_collator_def collator_released_def ledger_simps)

lemma update_nominator_eq:
  "update_nominator cfg r (a, n) s =
     put_nominator cfg a (StakingNominators_consolidate_unbonded n r)
       (do_unreserve cfg a (nominator_released r n) (s\<lparr>TotalStaked := TotalStaked s - nominator_released r n\<rparr>))"
  by (simp add: update_nominator_def Let_def nominator_released_def ledger_simps)

lemma update_collators_simps [simp]:
  "CurrentRound (update_collators cfg r s) = CurrentRound s"
  "ExitQueue (update_collators cfg r s) = ExitQueue s"
  "TotalStaked (update_collators cfg r s) = TotalStaked s"
  "Settings (update_collators cfg r s) = Settings s"
  "TotalStakedAt (update_collators cfg r s) = TotalStakedAt s"
  "TotalIssuanceAt (update_collators cfg r s) = TotalIssuanceAt s"
  "Nominators (update_collators cfg r s) = Nominators s"
  "RoundStakerClipped (update_collators cfg r s) = RoundStakerClipped s"
  "TotalPoints (update_collators cfg r s) = TotalPoints s"
  "CollatorPoints (update_collators cfg r s) = CollatorPoints s"
  "events (update_collators cfg r s) = events s"
  unfolding update_collators_def by (rule fold_invariant, clarsimp simp: update_collator_eq)+

lemma update_collators_currency:
  "currency (update_collators cfg r s) =
     unreserve_all cfg (map (\<lambda>(a, c). (a, collator_released r c)) (Collators s)) (currency s)"
  unfolding update_collators_def unreserve_all_def fold_map comp_def
  by (rule fold_project) (clarsimp simp: update_collator_eq)

lemma update_collators_collators:
  assumes "distinct (keys (Collators s))"
  shows "Collators (update_collators cfg r s) = map (\<lambda>(a, c). (a, updated_collator r c)) (Collators s)"
proof -
  have "Collators (update_collators cfg r s) =
      fold (\<lambda>(a, c) m. sm_insert (key_before cfg) a (updated_collator r c) m) (Collators s) (Collators s)"
    unfolding update_collators_def by (rule fold_project) (clarsimp simp: update_collator_eq)
  with fold_sm_insert [OF assms] show ?thesis by simp
qed

lemma update_collators_get:
  assumes "distinct (keys (Collators s))"
  shows "sm_get (Collators (update_collators cfg r s)) a = map_option (updated_collator r) (sm_get (Collators s) a)"
  unfolding update_collators_collators [OF assms] map_of_map_snd [where f = "\<lambda>_ c. updated_collator r c"] ..

lemma updated_collator_simps [ledger_simps]:
  "co_total (updated_collator r c) = co_total c - collator_released r c"
  "co_unbonding (updated_collator r c) = filter (\<lambda>x. r < ub_round x) (co_unbonding c)"
  "co_unlocking (updated_collator r c) = filter (\<lambda>x. r < ul_round x) (co_unlocking c)"
  "co_active (updated_collator r c) = co_active c + unlocking_sum (filter (\<lambda>x. ul_round x \<le> r) (co_unlocking c))"
  "co_status (updated_collator r c) = (if co_status c = Onboarding then Active else co_status c)"
  "co_nominations (updated_collator r c) = co_nominations c"
  by (simp_all add: updated_collator_def collator_released_def ledger_simps)

lemma update_nominators_simps [simp]:
  "CurrentRound (update_nominators cfg r s) = CurrentRound s"
  "Collators (update_nominators cfg r s) = Collators s"
  "ExitQueue (update_nominators cfg r s) = ExitQueue s"
  "Settings (update_nominators cfg r s) = Settings s"
  "TotalStakedAt (update_nominators cfg r s) = TotalStakedAt s"
  "TotalIssuanceAt (update_nominators cfg r s) = TotalIssuanceAt s"
  "RoundStakerClipped (update_nominators cfg r s) = RoundStakerClipped s"
  "TotalPoints (update_nominators cfg r s) = TotalPoints s"
  "CollatorPoints (update_nominators cfg r s) = CollatorPoints s"
  "events (update_nominators cfg r s) = events s"
  unfolding update_nominators_def by (rule fold_invariant, clarsimp simp: update_nominator_eq)+

lemma update_nominators_currency:
  "currency (update_nominators cfg r s) =
     unreserve_all cfg (map (\<lambda>(a, n). (a, nominator_released r n)) (Nominators s)) (currency s)"
  unfolding update_nominators_def unreserve_all_def fold_map comp_def
  by (rule fold_project) (clarsimp simp: update_nominator_eq)

lemma fold_minus: "fold (\<lambda>x t. t - f x) xs t = t - sum_list (map f xs)" for t :: "'a::ab_group_add"
  by (induction xs arbitrary: t) (auto simp: algebra_simps)

lemma update_nominators_staked:
  "TotalStaked (update_nominators cfg r s) =
     TotalStaked s - (\<Sum>(a, n) \<leftarrow> Nominators s. nominator_released r n)"
proof -
  have "TotalStaked (update_nominators cfg r s) =
      fold (\<lambda>x t. t - (case x of (a, n) \<Rightarrow> nominator_released r n)) (Nominators s) (TotalStaked s)"
    unfolding update_nominators_def by (rule fold_project) (clarsimp simp: update_nominator_eq)
  then show ?thesis by (simp add: fold_minus)
qed

lemma update_nominators_nominators:
  assumes "distinct (keys (Nominators s))"
  shows "Nominators (update_nominators cfg r s) =
    map (\<lambda>(a, n). (a, StakingNominators_consolidate_unbonded n r)) (Nominators s)"
proof -
  have "Nominators (update_nominators cfg r s) =
      fold (\<lambda>(a, n) m. sm_insert (key_before cfg) a (StakingNominators_consolidate_unbonded n r) m) (Nominators s) (Nominators s)"
    unfolding update_nominators_def by (rule fold_project) (clarsimp simp: update_nominator_eq)
  with fold_sm_insert [OF assms] show ?thesis by simp
qed

section \<open>The exit queue\<close>

lemma release_exit_chunk_simps [simp]:
  "CurrentRound (release_exit_chunk cfg a t v s) = CurrentRound s"
  "Collators (release_exit_chunk cfg a t v s) = Collators s"
  "ExitQueue (release_exit_chunk cfg a t v s) = ExitQueue s"
  "TotalStaked (release_exit_chunk cfg a t v s) = t - v"
  "Settings (release_exit_chunk cfg a t v s) = Settings s"
  "TotalStakedAt (release_exit_chunk cfg a t v s) = TotalStakedAt s"
  "TotalIssuanceAt (release_exit_chunk cfg a t v s) = TotalIssuanceAt s"
  "Nominators (release_exit_chunk cfg a t v s) = Nominators s"
  "RoundStakerClipped (release_exit_chunk cfg a t v s) = RoundStakerClipped s"
  "TotalPoints (release_exit_chunk cfg a t v s) = TotalPoints s"
  "CollatorPoints (release_exit_chunk cfg a t v s) = CollatorPoints s"
  "currency (release_exit_chunk cfg a t v s) = fst (unreserve (Currency cfg) (currency s) a v)"
  "events (release_exit_chunk cfg a t v s) = events s"
  by (simp_all add: release_exit_chunk_def)

lemma execute_exit_simps [simp]:
  "CurrentRound (execute_exit cfg r e s) = CurrentRound s"
  "Collators (execute_exit cfg r e s) = Collators s"
  "Settings (execute_exit cfg r e s) = Settings s"
  "TotalStakedAt (execute_exit cfg r e s) = TotalStakedAt s"
  "TotalIssuanceAt (execute_exit cfg r e s) = TotalIssuanceAt s"
  "Nominators (execute_exit cfg r e s) = Nominators s"
  "RoundStakerClipped (execute_exit cfg r e s) = RoundStakerClipped s"
  "TotalPoints (execute_exit cfg r e s) = TotalPoints s"
  "CollatorPoints (execute_exit cfg r e s) = CollatorPoints s"
  "events (execute_exit cfg r e s) = events s"
  by (simp_all add: execute_exit_def Let_def fold_invariant split: prod.splits)

lemma execute_exit_queue_simps [simp]:
  "CurrentRound (execute_exit_queue cfg r s) = CurrentRound s"
  "Collators (execute_exit_queue cfg r s) = Collators s"
  "Settings (execute_exit_queue cfg r s) = Settings s"
  "TotalStakedAt (execute_exit_queue cfg r s) = TotalStakedAt s"
  "TotalIssuanceAt (execute_exit_queue cfg r s) = TotalIssuanceAt s"
  "Nominators (execute_exit_queue cfg r s) = Nominators s"
  "RoundStakerClipped (execute_exit_queue cfg r s) = RoundStakerClipped s"
  "TotalPoints (execute_exit_queue cfg r s) = TotalPoints s"
  "CollatorPoints (execute_exit_queue cfg r s) = CollatorPoints s"
  "events (execute_exit_queue cfg r s) = events s"
  by (simp_all add: execute_exit_queue_def fold_invariant)

section \<open>The election\<close>

lemma process_election_simps [simp]:
  "CurrentRound (fst (process_election cfg sps r s)) = CurrentRound s"
  "Collators (fst (process_election cfg sps r s)) = Collators s"
  "ExitQueue (fst (process_election cfg sps r s)) = ExitQueue s"
  "TotalStaked (fst (process_election cfg sps r s)) = TotalStaked s"
  "Settings (fst (process_election cfg sps r s)) = Settings s"
  "TotalStakedAt (fst (process_election cfg sps r s)) = TotalStakedAt s"
  "TotalIssuanceAt (fst (process_election cfg sps r s)) = TotalIssuanceAt s"
  "Nominators (fst (process_election cfg sps r s)) = Nominators s"
  "TotalPoints (fst (process_election cfg sps r s)) = TotalPoints s"
  "CollatorPoints (fst (process_election cfg sps r s)) = CollatorPoints s"
  "currency (fst (process_election cfg sps r s)) = currency s"
  unfolding process_election_def Let_def fst_conv by (rule fold_invariant, clarsimp)+

lemma enact_election_simps [simp]:
  "CurrentRound (fst (enact_election cfg el r s)) = CurrentRound s"
  "Collators (fst (enact_election cfg el r s)) = Collators s"
  "ExitQueue (fst (enact_election cfg el r s)) = ExitQueue s"
  "TotalStaked (fst (enact_election cfg el r s)) = TotalStaked s"
  "Settings (fst (enact_election cfg el r s)) = Settings s"
  "TotalStakedAt (fst (enact_election cfg el r s)) = TotalStakedAt s"
  "TotalIssuanceAt (fst (enact_election cfg el r s)) = TotalIssuanceAt s"
  "Nominators (fst (enact_election cfg el r s)) = Nominators s"
  "TotalPoints (fst (enact_election cfg el r s)) = TotalPoints s"
  "CollatorPoints (fst (enact_election cfg el r s)) = CollatorPoints s"
  "currency (fst (enact_election cfg el r s)) = currency s"
  by (simp_all add: enact_election_def Let_def case_prod_beta split: option.splits)

end
