(* ===== verification/Staking_Invariants.thy ===== *)
theory Staking_Invariants
  imports Staking_Frame
begin

text \<open>
  The staking pallet as a state machine and the invariants of its reachable states. A step is one
  dispatched call with any origin and arguments, the end of a block with any block number and
  election result, the note of a block author, or a change of the balances by another pallet.
  The collator records are well-formed in every reachable state (their stake adds up, their status
  is active or onboarding, they respect the nomination limit), and the reward points of a round are
  the sum of the points of its authors.
\<close>

section \<open>The state machine\<close>

inductive staking_step ::
    "('acc::linorder, 'c, 'p, 'b) staking_config \<Rightarrow> ('acc, 'c) staking_state \<Rightarrow> ('acc, 'c) staking_state \<Rightarrow> bool" for cfg where
  step_call: "staking_step cfg s (fst (staking_dispatch cfg origin call s))"
| step_finalize: "staking_step cfg s (on_finalize cfg elect now s)"
| step_author: "staking_step cfg s (note_author cfg author s)"
| step_balances: "staking_step cfg s (s\<lparr>currency := c\<rparr>)"

inductive_cases staking_stepE: "staking_step cfg s s'"

definition staking_genesis :: "('acc, 'c, 'p, 'b) staking_config \<Rightarrow> ('acc, 'c) staking_state \<Rightarrow> bool" where
  "staking_genesis cfg s \<longleftrightarrow> (\<exists>stakers c. build cfg stakers (default_state c) = Some s)"

abbreviation staking_reachable :: "('acc::linorder, 'c, 'p, 'b) staking_config \<Rightarrow> ('acc, 'c) staking_state \<Rightarrow> bool" where
  "staking_reachable cfg \<equiv> reachable (staking_genesis cfg) (staking_step cfg)"

section \<open>Collator records\<close>

definition collator_ok :: "u32 \<Rightarrow> 'acc StakingCollators \<Rightarrow> bool" where
  "collator_ok max_nominations c \<longleftrightarrow>
     co_total c = collator_backing c + unbonding_sum (co_unbonding c) \<and>
     (co_status c = Active \<or>
      co_status c = Onboarding \<and> co_active c = 0 \<and> co_unbonding c = [] \<and> co_nominations c = []) \<and>
     length (co_nominations c) \<le> unat max_nominations"

lemma collator_ok_new: "collator_ok m (StakingCollators_new v r)"
  by (simp add: collator_ok_def StakingCollators_new_def StakerStatus_default_def collator_backing_def)

lemma collator_ok_force_bond:
  "collator_ok m c \<Longrightarrow> \<not> StakingCollators_is_active c \<Longrightarrow> collator_ok m (StakingCollators_force_bond c)"
  by (auto simp: collator_ok_def StakingCollators_force_bond_def StakingCollators_is_active_def collator_backing_def)

lemma collator_ok_bond_extra:
  "collator_ok m c \<Longrightarrow> StakingCollators_is_active c \<Longrightarrow> collator_ok m (StakingCollators_bond_extra c v r)"
  by (auto simp: collator_ok_def StakingCollators_bond_extra_def StakingCollators_is_active_def collator_backing_def)

lemma collator_ok_bond_less:
  "collator_ok m c \<Longrightarrow> StakingCollators_is_active c \<Longrightarrow> StakingCollators_bond_less c v r = (c', Some w) \<Longrightarrow> collator_ok m c'"
  by (auto simp: collator_ok_def bond_less_Some StakingCollators_is_active_def collator_backing_def)

lemma collator_ok_add_nomination:
  "collator_ok m c \<Longrightarrow> StakingCollators_is_active c \<Longrightarrow> length (co_nominations c) < unat m \<Longrightarrow>
   StakingCollators_add_nomination c b = (c', True) \<Longrightarrow> collator_ok m c'"
  by (auto simp: collator_ok_def StakingCollators_add_nomination_def StakingCollators_is_active_def
      collator_backing_def split: sum.splits)

lemma length_bonds: "map owner bs = map owner cs \<Longrightarrow> length bs = length cs"
  using map_eq_imp_length_eq by blast

lemma collator_ok_nominations:
  "collator_ok m c \<Longrightarrow> StakingCollators_is_active c \<Longrightarrow> length bs \<le> length (co_nominations c) \<Longrightarrow>
   collator_ok m (c\<lparr>co_nominations := bs\<rparr>)"
  by (auto simp: collator_ok_def StakingCollators_is_active_def collator_backing_def)

lemma collator_ok_nominate_extra:
  assumes "collator_ok m c" and "StakingCollators_is_active c"
    and "StakingCollators_nominate_extra c b = (c', v)"
  shows "collator_ok m c'"
  using assms length_bonds [OF bonds_extra_owners [of b "co_nominations c"]]
  by (auto simp: StakingCollators_nominate_extra_def case_prod_beta intro!: collator_ok_nominations)

lemma collator_ok_nominate_less:
  assumes "collator_ok m c" and "StakingCollators_is_active c"
    and "StakingCollators_nominate_less c b = (c', v)"
  shows "collator_ok m c'"
  using assms length_bonds [OF bonds_less_owners [of b "co_nominations c"]]
  by (auto simp: StakingCollators_nominate_less_def case_prod_beta intro!: collator_ok_nominations)

lemma rm_nomination_nominations:
  "StakingCollators_rm_nomination c a = (c', Some v) \<Longrightarrow>
   c' = c\<lparr>co_nominations := filter (\<lambda>b. owner b \<noteq> a) (co_nominations c)\<rparr>"
  using bonds_remove_fst [of a None "co_nominations c"]
  by (auto simp: StakingCollators_rm_nomination_def split: prod.splits option.splits)

lemma collator_ok_rm_nomination:
  assumes "collator_ok m c" and "StakingCollators_rm_nomination c a = (c', Some v)"
  shows "collator_ok m c'"
proof -
  have "length (filter (\<lambda>b. owner b \<noteq> a) (co_nominations c)) \<le> unat m"
    using assms(1) length_filter_le [of "\<lambda>b. owner b \<noteq> a" "co_nominations c"]
    unfolding collator_ok_def by linarith
  with assms(1) show ?thesis
    unfolding rm_nomination_nominations [OF assms(2)]
    by (auto simp: collator_ok_def collator_backing_def)
qed

lemma collator_ok_updated:
  assumes "collator_ok m c"
  shows "collator_ok m (updated_collator r c)"
proof -
  let ?c = "StakingCollators_consolidate_active (StakingCollators_active_onboard c) r"
  have "collator_backing ?c = collator_backing c"
    using sum_list_filter_split [of ul_value "\<lambda>x. ul_round x \<le> r" "co_unlocking c"]
    by (simp add: collator_backing_def ledger_simps not_le algebra_simps)
  then have "co_total ?c = collator_backing ?c + unbonding_sum (co_unbonding ?c)"
    using assms by (simp add: collator_ok_def ledger_simps)
  note collator_ledger.balanced_consolidate [OF this, of r]
  then show ?thesis
    using assms by (auto simp: collator_ok_def updated_collator_def ledger_simps)
qed

lemmas collator_ok_intros =
  collator_ok_new collator_ok_force_bond collator_ok_bond_extra collator_ok_bond_less collator_ok_add_nomination
  collator_ok_nominate_extra collator_ok_nominate_less collator_ok_rm_nomination collator_ok_updated

section \<open>The invariant of the storage\<close>

definition collators_ok :: "u32 \<Rightarrow> ('acc, 'acc StakingCollators) smap \<Rightarrow> bool" where
  "collators_ok m cs \<longleftrightarrow> distinct (keys cs) \<and> (\<forall>(a, c) \<in> set cs. collator_ok m c)"

abbreviation collators_inv :: "('acc, 'c, 'p, 'b) staking_config \<Rightarrow> ('acc, 'c) staking_state \<Rightarrow> bool" where
  "collators_inv cfg s \<equiv> collators_ok (MaxNominationsPerCollator cfg) (Collators s)"

lemma collators_ok_get: "collators_ok m cs \<Longrightarrow> sm_get cs a = Some c \<Longrightarrow> collator_ok m c"
  unfolding collators_ok_def by (auto dest: map_of_SomeD)

lemma collators_ok_insert: "collators_ok m cs \<Longrightarrow> collator_ok m c \<Longrightarrow> collators_ok m (sm_insert before a c cs)"
  unfolding collators_ok_def using set_sm_insert_subset [of before a c cs] by auto

lemma collators_ok_remove: "collators_ok m cs \<Longrightarrow> collators_ok m (sm_remove a cs)"
  unfolding collators_ok_def by (auto simp: set_sm_remove)

lemma collators_ok_map:
  "collators_ok m cs \<Longrightarrow> (\<And>c. collator_ok m c \<Longrightarrow> collator_ok m (f c)) \<Longrightarrow> collators_ok m (map (\<lambda>(a, c). (a, f c)) cs)"
  unfolding collators_ok_def by (auto simp: comp_def case_prod_beta)

lemmas collators_ok_intros = collators_ok_insert collators_ok_remove collator_ok_intros

lemma collators_inv_bond: "collators_inv cfg s \<Longrightarrow> collators_inv cfg (fst (bond cfg origin v s))"
  by (auto simp: bond_def Let_def split: option.splits intro: collators_ok_intros)

lemma collators_inv_force_onboard: "collators_inv cfg s \<Longrightarrow> collators_inv cfg (fst (force_onboard cfg origin a s))"
  by (auto simp: force_onboard_def Let_def split: option.splits 
      intro!: collators_ok_insert intro: collator_ok_intros dest: collators_ok_get)

lemma collators_inv_bond_extra: "collators_inv cfg s \<Longrightarrow> collators_inv cfg (fst (bond_extra cfg origin v s))"
  by (auto simp: bond_extra_def Let_def split: option.splits 
      intro!: collators_ok_insert intro: collator_ok_intros dest: collators_ok_get)

lemma collators_inv_bond_less: "collators_inv cfg s \<Longrightarrow> collators_inv cfg (fst (bond_less cfg origin v s))"
  by (auto simp: bond_less_def Let_def split: option.splits prod.splits 
      intro!: collators_ok_insert intro: collator_ok_intros dest: collators_ok_get)

lemma collators_inv_collator_unbond: "collators_inv cfg s \<Longrightarrow> collators_inv cfg (fst (collator_unbond cfg origin s))"
  by (auto simp: collator_unbond_def Let_def fold_invariant [where f = Collators] split: option.splits intro: collators_ok_intros)

lemma collators_inv_nominate: "collators_inv cfg s \<Longrightarrow> collators_inv cfg (fst (nominate cfg origin a v s))"
  by (auto simp: nominate_def Let_def split: option.splits prod.splits bool.splits 
      intro!: collators_ok_insert intro: collator_ok_intros dest: collators_ok_get)

lemma collators_inv_nominate_extra: "collators_inv cfg s \<Longrightarrow> collators_inv cfg (fst (nominate_extra cfg origin a v s))"
  by (auto simp: nominate_extra_def Let_def split: option.splits prod.splits 
      intro!: collators_ok_insert intro: collator_ok_intros dest: collators_ok_get)

lemma collators_inv_nominate_less: "collators_inv cfg s \<Longrightarrow> collators_inv cfg (fst (nominate_less cfg origin a v s))"
  by (auto simp: nominate_less_def Let_def split: option.splits prod.splits 
      intro!: collators_ok_insert intro: collator_ok_intros dest: collators_ok_get)

lemma collators_inv_leave: "collators_inv cfg s \<Longrightarrow> collators_inv cfg (fst (nominator_leave_collator cfg origin a s))"
  by (auto simp: nominator_leave_collator_def Let_def split: option.splits prod.splits 
      intro!: collators_ok_insert intro: collator_ok_intros dest: collators_ok_get)

lemma collators_inv_config: "collators_inv cfg s \<Longrightarrow> collators_inv cfg (fst (config origin st s))"
  by (auto simp: config_def)

lemmas collators_inv_calls =
  collators_inv_config collators_inv_bond collators_inv_force_onboard collators_inv_bond_extra collators_inv_bond_less
  collators_inv_collator_unbond collators_inv_nominate collators_inv_nominate_extra collators_inv_nominate_less
  collators_inv_leave

lemma collators_inv_update: "collators_inv cfg s \<Longrightarrow> collators_inv cfg (update_collators cfg r s)"
  by (simp add: update_collators_collators collators_ok_def [of _ "Collators s"])
    (rule collators_ok_map, auto simp: collators_ok_def intro: collator_ok_intros)

lemma on_finalize_collators:
  "Collators (on_finalize cfg el now s) =
     (if RoundInfo_should_goto_next_round (CurrentRound s) now
      then Collators (update_collators cfg (ri_index (CurrentRound s) + 1)
             (payout_stakers cfg (ri_index (CurrentRound s) + 1)
               (s\<lparr>CurrentRound := RoundInfo_update (CurrentRound s) now (blocks_per_round (Settings s))\<rparr>)))
      else Collators s)"
  by (simp add: on_finalize_def Let_def RoundInfo_update_def)

lemma collators_inv_on_finalize:
  assumes "collators_inv cfg s"
  shows "collators_inv cfg (on_finalize cfg el now s)"
proof (cases "RoundInfo_should_goto_next_round (CurrentRound s) now")
  case True
  let ?r = "ri_index (CurrentRound s) + 1"
  let ?p = "payout_stakers cfg ?r (s\<lparr>CurrentRound := RoundInfo_update (CurrentRound s) now (blocks_per_round (Settings s))\<rparr>)"
  have "collators_inv cfg ?p" using assms by simp
  then have "collators_inv cfg (update_collators cfg ?r ?p)" by (rule collators_inv_update)
  then show ?thesis using True by (simp add: on_finalize_collators)
next
  case False
  then show ?thesis using assms by (simp add: on_finalize_collators)
qed

lemma collators_inv_build_stakers:
  "collators_inv cfg s \<Longrightarrow> build_stakers cfg stakers t s = Some (t', s') \<Longrightarrow> collators_inv cfg s'"
  by (induction cfg stakers t s rule: build_stakers.induct) (auto split: if_splits intro: collators_inv_calls)

lemma collators_inv_build:
  "collators_inv cfg s \<Longrightarrow> build cfg stakers s = Some s' \<Longrightarrow> collators_inv cfg s'"
  using collators_inv_build_stakers [of cfg s stakers 0]
  by (auto simp: build_def Let_def split: option.splits)

interpretation collators_invariant: inductive_invariant "staking_genesis cfg" "staking_step cfg" "collators_inv cfg" for cfg
proof unfold_locales
  fix s assume "staking_genesis cfg s"
  then obtain stakers c where "build cfg stakers (default_state c) = Some s"
    by (auto simp: staking_genesis_def)
  moreover have "collators_inv cfg (default_state c)" by (simp add: collators_ok_def default_state_def)
  ultimately show "collators_inv cfg s" using collators_inv_build by blast
next
  fix s s' assume inv: "collators_inv cfg s" and "staking_step cfg s s'"
  from this(2) show "collators_inv cfg s'"
  proof cases
    case (step_call origin call)
    then show ?thesis using inv by (cases call) (auto intro: collators_inv_calls)
  next
    case (step_finalize elect now)
    then show ?thesis using inv by (auto intro: collators_inv_on_finalize)
  qed (use inv in \<open>auto simp: note_author_def Let_def\<close>)
qed

section \<open>Reward points\<close>

definition points_inv :: "('acc, 'c) staking_state \<Rightarrow> bool" where
  "points_inv s \<longleftrightarrow>
     (\<forall>r. distinct (keys (CollatorPoints s r)) \<and> TotalPoints s r = (\<Sum>(a, p) \<leftarrow> CollatorPoints s r. p))"

lemma points_inv_cong:
  "CollatorPoints s' = CollatorPoints s \<Longrightarrow> TotalPoints s' = TotalPoints s \<Longrightarrow> points_inv s' = points_inv s"
  by (simp add: points_inv_def)

lemma dispatch_points [simp]:
  "CollatorPoints (fst (staking_dispatch cfg origin call s)) = CollatorPoints s"
  "TotalPoints (fst (staking_dispatch cfg origin call s)) = TotalPoints s"
  by (cases call; simp add: config_def bond_def force_onboard_def bond_extra_def bond_less_def collator_unbond_def
      nominate_def nominate_extra_def nominate_less_def nominator_leave_collator_def Let_def fold_invariant
      split: option.split prod.split bool.split)+

lemma on_finalize_points [simp]:
  "CollatorPoints (on_finalize cfg el now s) = CollatorPoints s"
  "TotalPoints (on_finalize cfg el now s) = TotalPoints s"
  by (simp_all add: on_finalize_def Let_def)

lemma bond_points [simp]:
  "CollatorPoints (fst (bond cfg origin v s)) = CollatorPoints s"
  "TotalPoints (fst (bond cfg origin v s)) = TotalPoints s"
  by (simp_all add: bond_def Let_def split: option.split)

lemma build_stakers_points:
  "build_stakers cfg stakers t s = Some (t', s') \<Longrightarrow> CollatorPoints s' = CollatorPoints s \<and> TotalPoints s' = TotalPoints s"
  by (induction cfg stakers t s rule: build_stakers.induct) (auto split: if_splits)

lemma points_inv_build: "points_inv s \<Longrightarrow> build cfg stakers s = Some s' \<Longrightarrow> points_inv s'"
  using build_stakers_points [of cfg stakers 0 s]
  by (auto simp: build_def Let_def points_inv_def split: option.splits)

lemma points_inv_note_author: 
  assumes "points_inv s"
  shows "points_inv (note_author cfg author s)"
proof -
  let ?now = "ri_index (CurrentRound s)"
  have d: "distinct (keys (CollatorPoints s ?now))" and
    t: "TotalPoints s ?now = (\<Sum>(a, p) \<leftarrow> CollatorPoints s ?now. p)"
    using assms by (auto simp: points_inv_def)
  have "(\<Sum>(a, p) \<leftarrow> sm_insert (key_before cfg) author (points_of s ?now author + 20) (CollatorPoints s ?now). p) =
      (\<Sum>(a, p) \<leftarrow> CollatorPoints s ?now. p) + 20"
    using sum_sm_insert [OF d, of "\<lambda>_ p. p" "key_before cfg" author "points_of s ?now author + 20"]
    by (simp add: points_of_def split: option.splits)
  with assms d t show ?thesis by (auto simp: points_inv_def note_author_def Let_def)
qed

interpretation points_invariant: inductive_invariant "staking_genesis cfg" "staking_step cfg" points_inv for cfg
proof unfold_locales
  fix s assume "staking_genesis cfg s"
  then obtain stakers c where "build cfg stakers (default_state c) = Some s"
    by (auto simp: staking_genesis_def)
  moreover have "points_inv (default_state c)" by (simp add: points_inv_def default_state_def)
  ultimately show "points_inv s" using points_inv_build by blast
next
  fix s s' assume inv: "points_inv s" and "staking_step cfg s s'"
  from this(2) show "points_inv s'"
  proof cases
    case (step_author author)
    then show ?thesis using points_inv_note_author [OF inv] by simp
  qed (use inv in \<open>simp_all add: points_inv_def\<close>)
qed

end
