(* ===== verification/Staking_Demo.thy ===== *)
theory Staking_Demo
  imports Staking_Invariants
begin

text \<open>
  A concrete configuration of the staking pallet and a short run of it, evaluated once: genesis with
  one collator (account 1), the end of the first round, and a nomination by account 2. The
  properties of the pallet are exercised on these states.
\<close>

definition demo_cfg :: "(nat, ledger, nat, nat) staking_config" where
  "demo_cfg =
     \<lparr>Currency = ledger_currency 10, BlocksPerRound = 5, MAX_COLLATORS_PER_NOMINATOR = 8,
      MaxNominationsPerCollator = 2, BondDuration = 2, MinCollatorStake = 100, MinNominatorStake = 50,
      PayoutDuration = 1, to_vote = (\<lambda>v issuance. ucast v), to_currency = (\<lambda>v issuance. v), DesiredTarget = 3,
      key_before = (<), Perbill = perbill, BigUint = nat_biguint, db_reads = (\<lambda>n. 25 * n)\<rparr>"

definition demo_balances :: ledger where
  "demo_balances = ledger_of [(1, 1000), (2, 600), (3, 400)]"

definition demo0 :: "(nat, ledger) staking_state" where
  "demo0 = (case build demo_cfg [(1, 500)] (default_state demo_balances) of Some s \<Rightarrow> s | None \<Rightarrow> default_state demo_balances)"

definition demo1 :: "(nat, ledger) staking_state" where
  "demo1 = on_finalize demo_cfg None 5 demo0"

definition demo2 :: "(nat, ledger) staking_state" where
  "demo2 = fst (nominate demo_cfg (Signed 2) 1 200 demo1)"

lemmas demo_eval = demo_cfg_def demo_balances_def ledger_of_def ledger_currency_def default_state_def
  build_def bond_def put_collator_def put_nominator_def put_exit_def do_reserve_def do_unreserve_def deposit_event_def
  StakingCollators_new_def StakerStatus_default_def RoundInfo_next_round_index_def RoundInfo_new_def
  sm_insert_def Let_def

lemma demo_build: "build demo_cfg [(1, 500)] (default_state demo_balances) = Some demo0"
  by (simp add: demo0_def demo_eval)

lemma demo0_simps:
  "CurrentRound demo0 = \<lparr>ri_index = 1, ri_start_in = 0, ri_length = 5\<rparr>"
  "Collators demo0 = [(1, \<lparr>co_total = 500, co_active = 0, co_nominations = [], co_unlocking = [\<lparr>ul_value = 500, ul_round = 1\<rparr>],
      co_unbonding = [], co_status = Onboarding, co_claimed_rewards = []\<rparr>)]"
  "Nominators demo0 = []" "ExitQueue demo0 = []" "TotalStaked demo0 = 500"
  "Settings demo0 = \<lparr>bond_duration = 2, blocks_per_round = 5, desired_target = 3\<rparr>"
  "RoundStakerClipped demo0 = (\<lambda>_. [])"
  "led_free (currency demo0) (Suc 0) = 500" "led_reserved (currency demo0) (Suc 0) = 500"
  by (simp_all add: demo0_def demo_eval)

lemma demo0_reachable: "staking_reachable demo_cfg demo0"
proof (rule reachable_init)
  show "staking_genesis demo_cfg demo0" unfolding staking_genesis_def using demo_build by blast
qed

lemma demo1_simps:
  "CurrentRound demo1 = \<lparr>ri_index = 2, ri_start_in = 5, ri_length = 5\<rparr>"
  "Collators demo1 = [(1, \<lparr>co_total = 500, co_active = 500, co_nominations = [], co_unlocking = [],
      co_unbonding = [], co_status = Active, co_claimed_rewards = []\<rparr>)]"
  "Nominators demo1 = []" "ExitQueue demo1 = []" "TotalStaked demo1 = 500"
  by (simp_all add: demo1_def on_finalize_def demo0_simps RoundInfo_should_goto_next_round_def RoundInfo_update_def Let_def
    update_collators_collators updated_collator_def StakingCollators_active_onboard_def StakingCollators_consolidate_active_def
   StakingCollators_consolidate_unbonded_def update_nominators_staked update_nominators_nominators execute_exit_queue_def)

lemma demo1_reachable: "staking_reachable demo_cfg demo1"
  unfolding demo1_def by (rule reachable_step [OF demo0_reachable step_finalize])

lemma demo1_more:
  "Settings demo1 = \<lparr>bond_duration = 2, blocks_per_round = 5, desired_target = 3\<rparr>"
  "TotalPoints demo1 = (\<lambda>_. 0)" "CollatorPoints demo1 = (\<lambda>_. [])"
  by (simp_all add: demo1_def on_finalize_def demo0_simps RoundInfo_should_goto_next_round_def RoundInfo_update_def Let_def)
    (simp_all add: demo0_def demo_eval)

lemma demo1_currency: "currency demo1 = currency demo0"
  by (simp add: demo1_def on_finalize_def demo0_simps RoundInfo_should_goto_next_round_def RoundInfo_update_def Let_def
      payout_stakers_def enact_election_def execute_exit_queue_def update_nominators_currency update_collators_currency
      unreserve_all_def collator_released_def demo_cfg_def ledger_currency_def)

lemma demo2_simps:
  "CurrentRound demo2 = \<lparr>ri_index = 2, ri_start_in = 5, ri_length = 5\<rparr>"
  "Collators demo2 = [(1, \<lparr>co_total = 500, co_active = 500, co_nominations = [\<lparr>owner = 2, amount = 200\<rparr>],
      co_unlocking = [], co_unbonding = [], co_status = Active, co_claimed_rewards = []\<rparr>)]"
  "Nominators demo2 = [(2, \<lparr>no_nominations = [\<lparr>owner = 1, amount = 200\<rparr>], no_total = 200, no_unbonding = [],
      no_claimed_rewards = []\<rparr>)]"
  "ExitQueue demo2 = []" "TotalStaked demo2 = 700"
  "Settings demo2 = \<lparr>bond_duration = 2, blocks_per_round = 5, desired_target = 3\<rparr>"
  by (simp_all add: demo2_def nominate_def demo1_simps demo1_more demo_cfg_def StakingCollators_is_active_def Let_def
      StakingNominators_new_def StakingCollators_add_nomination_def bond_search_def binary_search_by_def
      binary_search_loop.simps sm_insert_def)

lemma demo2_reachable: "staking_reachable demo_cfg demo2"
proof -
  have "staking_step demo_cfg demo1 (fst (staking_dispatch demo_cfg (Signed 2) (Call_nominate 1 200) demo1))"
    by (rule step_call)
  then show ?thesis unfolding demo2_def using reachable_step [OF demo1_reachable] by simp
qed

end
