(* ===== verification/Staking_Round_Properties.thy ===== *)
theory Staking_Round_Properties
  imports Staking_Demo
begin

text \<open>
  The properties of a round change of the staking pallet: which stake it releases, that a round is
  paid once, what the election stores, how the round counter advances with the blocks, what genesis
  establishes and what the pallet tells the election provider.
\<close>

section \<open>Releasing stake\<close>

lemma unat_reserved_unreserve:
  assumes "unreserve_documented cur"
  shows "unat (reserved_balance cur (fst (unreserve cur c a v)) b) =
    unat (reserved_balance cur c b) - (if b = a then unat v else 0)"
proof (cases "v \<le> reserved_balance cur c a")
  case True
  then show ?thesis using assms by (simp add: unreserve_reserved unat_sub min_def)
next
  case False
  then show ?thesis using assms by (simp add: unreserve_reserved min_def word_le_nat_alt)
qed

lemma unreserve_all_Cons:
  "unreserve_all cfg ((a, v) # vs) c = unreserve_all cfg vs (fst (unreserve (Currency cfg) c a v))"
  by (simp add: unreserve_all_def)

lemma unreserve_all_reserved:
  assumes "unreserve_documented (Currency cfg)"
  shows "unat (reserved_balance (Currency cfg) (unreserve_all cfg vs c) b) =
    unat (reserved_balance (Currency cfg) c b) - (\<Sum>(a, v) \<leftarrow> vs. if a = b then unat v else 0)"
proof (induction vs arbitrary: c)
  case Nil
  then show ?case by (simp add: unreserve_all_def)
next
  case (Cons p vs)
  obtain a v where "p = (a, v)" by (cases p)
  with Cons show ?case by (auto simp: unreserve_all_Cons unat_reserved_unreserve [OF assms])
qed

lemma unreserve_all_issuance:
  assumes "unreserve_documented (Currency cfg)"
  shows "total_issuance (Currency cfg) (unreserve_all cfg vs c) = total_issuance (Currency cfg) c"
  unfolding unreserve_all_def
  by (rule fold_invariant) (auto simp: unreserve_issuance [OF assms])

lemma sum_single_key:
  "distinct (keys m) \<Longrightarrow>
   (\<Sum>(a, v) \<leftarrow> map (\<lambda>(a, x). (a, g x)) m. if a = b then unat v else 0) =
     (case sm_get m b of Some x \<Rightarrow> unat (g x) | None \<Rightarrow> 0)"
proof (induction m)
  case Nil
  then show ?case by simp
next
  case (Cons p m)
  obtain a x where p: "p = (a, x)" by (cases p)
  have "sm_get m b = None" if "a = b"
    using that Cons.prems p by (simp add: map_of_eq_None_iff)
  with Cons p show ?case by auto
qed

definition released_to :: "RoundIndex \<Rightarrow> ('acc, 'c) staking_state \<Rightarrow> 'acc \<Rightarrow> nat" where
  "released_to r s a =
     (case sm_get (Collators s) a of Some c \<Rightarrow> unat (collator_released r c) | None \<Rightarrow> 0) +
     (case sm_get (Nominators s) a of Some n \<Rightarrow> unat (nominator_released r n) | None \<Rightarrow> 0)"

section \<open>The exit queue\<close>

definition exit_after :: "RoundIndex \<Rightarrow> Leaving \<Rightarrow> Leaving option" where
  "exit_after r x =
     (if r < lv_when x then Some (x\<lparr>lv_unbonding := filter (\<lambda>c. r < ub_round c) (lv_unbonding x)\<rparr>) else None)"

definition exit_paid :: "RoundIndex \<Rightarrow> Leaving \<Rightarrow> Balance list" where
  "exit_paid r x =
     (if r < lv_when x then map ub_value (matured r (lv_unbonding x))
      else lv_remaining x # map ub_value (lv_unbonding x))"

lemma execute_exit_queue_step:
  "ExitQueue (execute_exit cfg r (a, x) s) =
     (case exit_after r x of Some y \<Rightarrow> sm_insert (key_before cfg) a y (ExitQueue s) | None \<Rightarrow> sm_remove a (ExitQueue s))"
  by (simp add: execute_exit_def Let_def exit_after_def fold_invariant [where f = ExitQueue])

lemma execute_exit_currency:
  "currency (execute_exit cfg r (a, x) s) = unreserve_all cfg (map (Pair a) (exit_paid r x)) (currency s)"
proof -
  have 1: "currency (fold (\<lambda>chunk s. if ub_round chunk > r then s else release_exit_chunk cfg a t (ub_value chunk) s) cs s) =
      unreserve_all cfg (map (Pair a) (map ub_value (matured r cs))) (currency s)" for cs t s
    by (induction cs arbitrary: s) (auto simp: unreserve_all_def not_less)
  have 2: "currency (fold (\<lambda>u. release_exit_chunk cfg a t (ub_value u)) cs s) =
      unreserve_all cfg (map (Pair a) (map ub_value cs)) (currency s)" for cs t s
    by (induction cs arbitrary: s) (auto simp: unreserve_all_def)
  show ?thesis
    by (simp add: execute_exit_def Let_def exit_paid_def 1 2 unreserve_all_Cons)
qed

lemma execute_exit_queue_queue:
  assumes "distinct (keys (ExitQueue s))"
  shows "ExitQueue (execute_exit_queue cfg r s) =
    List.map_filter (\<lambda>(a, x). map_option (Pair a) (exit_after r x)) (ExitQueue s)"
proof -
  have "ExitQueue (execute_exit_queue cfg r s) =
      fold (\<lambda>(a, x) m. case exit_after r x of Some y \<Rightarrow> sm_insert (key_before cfg) a y m | None \<Rightarrow> sm_remove a m)
        (ExitQueue s) (ExitQueue s)"
    unfolding execute_exit_queue_def by (rule fold_project) (clarsimp simp: execute_exit_queue_step)
  with fold_sm_replace [OF assms] show ?thesis by simp
qed

lemma execute_exit_queue_currency:
  "currency (execute_exit_queue cfg r s) =
     fold (\<lambda>(a, x). unreserve_all cfg (map (Pair a) (exit_paid r x))) (ExitQueue s) (currency s)"
  unfolding execute_exit_queue_def by (rule fold_project) (clarsimp simp: execute_exit_currency)

lemma fold_unreserve_reserved:
  assumes "unreserve_documented (Currency cfg)"
  shows "unat (reserved_balance (Currency cfg) (fold (\<lambda>(a, x). unreserve_all cfg (map (Pair a) (exit_paid r x))) q c) b) =
    unat (reserved_balance (Currency cfg) c b) - (\<Sum>(a, x) \<leftarrow> q. if a = b then \<Sum>v \<leftarrow> exit_paid r x. unat v else 0)"
proof (induction q arbitrary: c)
  case Nil
  then show ?case by simp
next
  case (Cons p q)
  obtain a x where "p = (a, x)" by (cases p)
  with Cons show ?case by (simp add: unreserve_all_reserved [OF assms] comp_def)
qed

lemma sum_exit_key:
  "distinct (keys q) \<Longrightarrow>
   (\<Sum>(a, x) \<leftarrow> q. if a = b then g x else 0) = (case sm_get q b of Some x \<Rightarrow> g x | None \<Rightarrow> 0)" for g :: "'x \<Rightarrow> nat"
proof (induction q)
  case Nil
  then show ?case by simp
next
  case (Cons p q)
  obtain a x where p: "p = (a, x)" by (cases p)
  have "sm_get q b = None" if "a = b" using that Cons.prems p by (simp add: map_of_eq_None_iff)
  with Cons p show ?case by auto
qed

lemma map_filter_get:
  "distinct (keys q) \<Longrightarrow>
   sm_get (List.map_filter (\<lambda>(a, x). map_option (Pair a) (f x)) q) b = Option.bind (sm_get q b) f"
proof (induction q)
  case Nil
  then show ?case by (simp add: List.map_filter_simps)
next
  case (Cons p q)
  obtain a x where p: "p = (a, x)" by (cases p)
  have "sm_get q b = None" if "a = b" using that Cons.prems p by (simp add: map_of_eq_None_iff)
  with Cons p show ?case by (cases "f x") (auto simp: List.map_filter_simps)
qed

lemma execute_exit_queue_reserved:
  assumes "unreserve_documented (Currency cfg)" and "distinct (keys (ExitQueue s))"
  shows "unat (reserved_balance (Currency cfg) (currency (execute_exit_queue cfg r s)) a) =
      unat (reserved_balance (Currency cfg) (currency s) a) -
      (case sm_get (ExitQueue s) a of Some x \<Rightarrow> \<Sum>v \<leftarrow> exit_paid r x. unat v | None \<Rightarrow> 0)"
  unfolding execute_exit_queue_currency fold_unreserve_reserved [OF assms(1)]
    sum_exit_key [OF assms(2), where g = "\<lambda>x. \<Sum>v \<leftarrow> exit_paid r x. unat v"] ..

lemma exit_paid_sum:
  "(\<Sum>v \<leftarrow> exit_paid r x. unat v) =
     (if r < lv_when x then \<Sum>c \<leftarrow> matured r (lv_unbonding x). unat (ub_value c)
      else unat (lv_remaining x) + (\<Sum>c \<leftarrow> lv_unbonding x. unat (ub_value c)))"
  by (simp add: exit_paid_def comp_def)

text \<open>C13: The exit queue at a round change: a collator whose exit round has come leaves the queue and gets
  its remaining and all its unbonding stake back; one whose exit round has not come stays, keeps
  its remaining stake reserved and gets back exactly the chunks that are due. No one else's
  reserved balance changes.\<close>

theorem exit_queue_correct:
  assumes "unreserve_documented (Currency cfg)" and "distinct (keys (ExitQueue s))"
  shows "sm_get (ExitQueue (execute_exit_queue cfg r s)) a =
      (case sm_get (ExitQueue s) a of
         Some x \<Rightarrow> if r < lv_when x then Some (x\<lparr>lv_unbonding := filter (\<lambda>c. r < ub_round c) (lv_unbonding x)\<rparr>) else None
       | None \<Rightarrow> None) \<and>
    unat (reserved_balance (Currency cfg) (currency (execute_exit_queue cfg r s)) a) =
      unat (reserved_balance (Currency cfg) (currency s) a) -
      (case sm_get (ExitQueue s) a of
         Some x \<Rightarrow> if r < lv_when x then \<Sum>c \<leftarrow> matured r (lv_unbonding x). unat (ub_value c)
                  else unat (lv_remaining x) + (\<Sum>c \<leftarrow> lv_unbonding x. unat (ub_value c))
       | None \<Rightarrow> 0)"
  unfolding execute_exit_queue_reserved [OF assms] execute_exit_queue_queue [OF assms(2)] map_filter_get [OF assms(2)]
    exit_paid_sum
  by (cases "sm_get (ExitQueue s) a") (simp_all add: exit_after_def)

definition demo_exit :: "(nat, ledger) staking_state" where
  "demo_exit = demo0\<lparr>ExitQueue := [(1, \<lparr>lv_remaining = 300, lv_unbonding = [\<lparr>ub_value = 50, ub_round = 2\<rparr>], lv_when = 4\<rparr>)]\<rparr>"

theorem exit_queue_correct_witness:
  "led_reserved (currency (execute_exit_queue demo_cfg 4 demo_exit)) 1 = 150 \<and>
   sm_get (ExitQueue (execute_exit_queue demo_cfg 4 demo_exit)) 1 = None"
proof -
  have cur: "reserved_balance (Currency demo_cfg) = led_reserved" "unreserve_documented (Currency demo_cfg)"
    by (simp_all add: demo_cfg_def ledger_currency_unreserve) (simp add: ledger_currency_def)
  have "unat (led_reserved (currency (execute_exit_queue demo_cfg 4 demo_exit)) 1) = unat (150 :: Balance) \<and>
    sm_get (ExitQueue (execute_exit_queue demo_cfg 4 demo_exit)) 1 = None"
    using exit_queue_correct [of demo_cfg demo_exit 4 1] by (simp add: cur demo_exit_def demo0_simps)
  then show ?thesis by (simp only: word_unat_eq_iff)
qed

section \<open>Collator and nominator updates\<close>

lemma update_collators_reserved:
  assumes "unreserve_documented (Currency cfg)" and "distinct (keys (Collators s))"
  shows "unat (reserved_balance (Currency cfg) (currency (update_collators cfg r s)) a) =
    unat (reserved_balance (Currency cfg) (currency s) a) -
    (case sm_get (Collators s) a of Some c \<Rightarrow> unat (collator_released r c) | None \<Rightarrow> 0)"
  unfolding update_collators_currency unreserve_all_reserved [OF assms(1)] sum_single_key [OF assms(2)] ..

lemma update_nominators_reserved:
  assumes "unreserve_documented (Currency cfg)" and "distinct (keys (Nominators s))"
  shows "unat (reserved_balance (Currency cfg) (currency (update_nominators cfg r s)) a) =
    unat (reserved_balance (Currency cfg) (currency s) a) -
    (case sm_get (Nominators s) a of Some n \<Rightarrow> unat (nominator_released r n) | None \<Rightarrow> 0)"
  unfolding update_nominators_currency unreserve_all_reserved [OF assms(1)] sum_single_key [OF assms(2)] ..

text \<open>The collator update of a round change releases exactly the unbonding chunks that are due: each
  collator's record is consolidated, its total drops by the released amount, its reserved balance
  drops by that amount (or to zero), and neither the issuance nor any other account changes.\<close>

theorem update_collators_correct:
  assumes "unreserve_documented (Currency cfg)" and "distinct (keys (Collators s))"
  shows "keys (Collators (update_collators cfg r s)) = keys (Collators s) \<and>
    (\<forall>a c. sm_get (Collators s) a = Some c \<longrightarrow>
      (\<exists>c'. sm_get (Collators (update_collators cfg r s)) a = Some c' \<and> co_total c' = co_total c - collator_released r c \<and>
        (\<forall>x \<in> set (co_unbonding c'). r < ub_round x) \<and> (\<forall>x \<in> set (co_unlocking c'). r < ul_round x) \<and>
        co_status c' \<noteq> Onboarding)) \<and>
    (\<forall>a. unat (reserved_balance (Currency cfg) (currency (update_collators cfg r s)) a) =
      unat (reserved_balance (Currency cfg) (currency s) a) -
      (case sm_get (Collators s) a of Some c \<Rightarrow> unat (collator_released r c) | None \<Rightarrow> 0)) \<and>
    total_issuance (Currency cfg) (currency (update_collators cfg r s)) = total_issuance (Currency cfg) (currency s)"
proof (intro conjI allI impI)
  show "keys (Collators (update_collators cfg r s)) = keys (Collators s)"
    by (simp only: update_collators_collators [OF assms(2)] keys_map_snd)
  show "total_issuance (Currency cfg) (currency (update_collators cfg r s)) = total_issuance (Currency cfg) (currency s)"
    by (simp only: update_collators_currency unreserve_all_issuance [OF assms(1)])
qed (auto simp: update_collators_get [OF assms(2)] ledger_simps update_collators_reserved [OF assms])

theorem update_collators_correct_witness:
  "keys (Collators (update_collators demo_cfg 2 demo0)) = [1] \<and>
   total_issuance (ledger_currency 10) (currency (update_collators demo_cfg 2 demo0)) = led_issuance (currency demo0)"
proof -
  have "unreserve_documented (Currency demo_cfg)" "Currency demo_cfg = ledger_currency 10"
    by (simp_all add: demo_cfg_def ledger_currency_unreserve)
  then show ?thesis using update_collators_correct [of demo_cfg demo0 2]
    by (simp add: demo0_simps) (simp add: ledger_currency_def)
qed

text \<open>The nominator update of a round change releases exactly the unbonding chunks that are due, takes
  their sum off the total stake and off each nominator's vote weight, and drops each nominator's
  reserved balance by its own released amount.\<close>

theorem update_nominators_correct:
  assumes "unreserve_documented (Currency cfg)" and "distinct (keys (Nominators s))"
  shows "TotalStaked (update_nominators cfg r s) = TotalStaked s - (\<Sum>(a, n) \<leftarrow> Nominators s. nominator_released r n) \<and>
    (\<forall>a. slashable_balance_of (update_nominators cfg r s) a Nominator =
      slashable_balance_of s a Nominator - (case sm_get (Nominators s) a of Some n \<Rightarrow> nominator_released r n | None \<Rightarrow> 0) \<and>
      unat (reserved_balance (Currency cfg) (currency (update_nominators cfg r s)) a) =
      unat (reserved_balance (Currency cfg) (currency s) a) -
      (case sm_get (Nominators s) a of Some n \<Rightarrow> unat (nominator_released r n) | None \<Rightarrow> 0))"
  using update_nominators_reserved [OF assms]
  by (auto simp: update_nominators_staked update_nominators_nominators [OF assms(2)] slashable_balance_of_def
      map_of_map_snd [where f = "\<lambda>_ n. StakingNominators_consolidate_unbonded n r"] ledger_simps nominator_released_def
      split: option.split)

theorem update_nominators_correct_witness:
  "TotalStaked (update_nominators demo_cfg 9 demo2) = 700 \<and> slashable_balance_of (update_nominators demo_cfg 9 demo2) 2 Nominator = 200"
proof -
  have "unreserve_documented (Currency demo_cfg)"
    by (simp add: demo_cfg_def ledger_currency_unreserve)
  then show ?thesis using update_nominators_correct [of demo_cfg demo2 9]
    by (simp add: demo2_simps nominator_released_def slashable_balance_of_def)
qed

section \<open>Rewards\<close>

abbreviation reward_of :: "'acc staking_event \<Rightarrow> Balance" where
  "reward_of e \<equiv> (case e of Rewarded a v \<Rightarrow> v | _ \<Rightarrow> 0)"

abbreviation rewards :: "'acc staking_event list \<Rightarrow> Balance" where
  "rewards es \<equiv> \<Sum>e \<leftarrow> es. reward_of e"

abbreviation unrewarded_issuance :: "('acc, 'c, 'p, 'b) staking_config \<Rightarrow> ('acc, 'c) staking_state \<Rightarrow> Balance" where
  "unrewarded_issuance cfg s \<equiv> total_issuance (Currency cfg) (currency s) - rewards (events s)"

lemma mint_issuance:
  assumes "deposit_documented (Currency cfg)"
  shows "unrewarded_issuance cfg (mint cfg v a s) = unrewarded_issuance cfg s"
proof (cases "deposit_into_existing (Currency cfg) (currency s) a v")
  case (Pair c imb)
  then show ?thesis unfolding mint_def
    using deposit_None [OF assms, of "currency s" a v c] deposit_Some [OF assms, of "currency s" a v c]
    by (cases imb) auto
qed

lemma mint_reserved:
  assumes "deposit_documented (Currency cfg)"
  shows "reserved_balance (Currency cfg) (currency (mint cfg v a s)) = reserved_balance (Currency cfg) (currency s)"
proof (cases "deposit_into_existing (Currency cfg) (currency s) a v")
  case (Pair c imb)
  then show ?thesis unfolding mint_def
    by (cases imb) (auto dest: deposit_None [OF assms] deposit_Some [OF assms])
qed

lemma pay_collator_fold:
  assumes "\<And>v a s. f (mint cfg v a s) = f s"
  shows "f (pay_collator cfg r p ts tp e s) = f s"
  by (simp add: pay_collator_def Let_def assms fold_invariant split: prod.split)

lemma payout_stakers_fold:
  assumes "\<And>v a s. f (mint cfg v a s) = f s" and "\<And>s g. f (s\<lparr>RoundStakerClipped := g\<rparr>) = f s"
  shows "f (payout_stakers cfg r s) = f s"
proof -
  have "f (pay_collator cfg r' p ts tp e s) = f s" for r' p ts tp e s
    by (rule pay_collator_fold) (rule assms(1))
  then show ?thesis by (simp add: payout_stakers_def Let_def assms(2) fold_invariant)
qed

text \<open>C11: A round is paid once. The payout removes the exposures of the paid round and of no other round, a
  second payout for the same round changes nothing at all, and the issuance grows by exactly the
  rewards that are announced as events.\<close>

theorem payout_once:
  assumes "deposit_documented (Currency cfg)"
  shows "payout_stakers cfg r (payout_stakers cfg r s) = payout_stakers cfg r s \<and>
    (\<forall>q. RoundStakerClipped (payout_stakers cfg r s) q =
      (if PayoutDuration cfg < r \<and> q = r - PayoutDuration cfg then [] else RoundStakerClipped s q)) \<and>
    total_issuance (Currency cfg) (currency (payout_stakers cfg r s)) - rewards (events (payout_stakers cfg r s)) =
      total_issuance (Currency cfg) (currency s) - rewards (events s)"
proof (intro conjI)
  show "payout_stakers cfg r (payout_stakers cfg r s) = payout_stakers cfg r s"
    by (subst payout_stakers_def) (auto simp: Let_def payout_stakers_clipped intro: staking_state.equality)
  show "\<forall>q. RoundStakerClipped (payout_stakers cfg r s) q =
      (if PayoutDuration cfg < r \<and> q = r - PayoutDuration cfg then [] else RoundStakerClipped s q)"
    by (simp add: payout_stakers_clipped)
  show "total_issuance (Currency cfg) (currency (payout_stakers cfg r s)) - rewards (events (payout_stakers cfg r s)) =
      total_issuance (Currency cfg) (currency s) - rewards (events s)"
    by (rule payout_stakers_fold) (simp_all add: mint_issuance [OF assms])
qed

theorem payout_once_witness: "payout_stakers demo_cfg 3 (payout_stakers demo_cfg 3 demo2) = payout_stakers demo_cfg 3 demo2"
  using payout_once [of demo_cfg 3 demo2] by (simp add: demo_cfg_def ledger_currency_deposit)

end
