(* ===== verification/Staking_Election_Properties.thy ===== *)
theory Staking_Election_Properties
  imports Staking_Round_Properties
begin

text \<open>
  The round change as a whole and the election: what one \<^verbatim>\<open>on_finalize\<close> releases and records, how the
  round counter follows the block number, the exposures made from the election result, the snapshot
  given to the election provider, and the state genesis leaves.
\<close>

section \<open>A whole round change\<close>

definition exit_due :: "RoundIndex \<Rightarrow> ('acc, 'c) staking_state \<Rightarrow> 'acc \<Rightarrow> nat" where
  "exit_due r s a = (case sm_get (ExitQueue s) a of Some x \<Rightarrow> \<Sum>v \<leftarrow> exit_paid r x. unat v | None \<Rightarrow> 0)"

definition round_payments ::
    "('acc, 'c, 'p, 'b) staking_config \<Rightarrow> RoundIndex \<Rightarrow> ('acc, 'c) staking_state \<Rightarrow> ('acc, 'c) staking_state" where
  "round_payments cfg r s =
     execute_exit_queue cfg r (update_nominators cfg r (update_collators cfg r (payout_stakers cfg r s)))"

lemma RoundInfo_update_eq:
  "RoundInfo_update c now len = \<lparr>ri_index = ri_index c + 1, ri_start_in = now, ri_length = len\<rparr>"
  by (simp add: RoundInfo_update_def)

lemma on_finalize_due:
  fixes cfg :: "('acc, 'c, 'p, 'b) staking_config" and el :: "('acc Supports \<times> Weight) option"
  assumes "RoundInfo_should_goto_next_round (CurrentRound s) now"
  defines "r \<equiv> ri_index (CurrentRound s) + 1"
  defines "len \<equiv> blocks_per_round (Settings s)"
  defines "s1 \<equiv> round_payments cfg r (s\<lparr>CurrentRound := \<lparr>ri_index = r, ri_start_in = now, ri_length = len\<rparr>\<rparr>)"
  defines "s2 \<equiv> fst (enact_election cfg el r s1)"
  shows "on_finalize cfg el now s = deposit_event (NewRoundStart r (r * len))
    (s2\<lparr>TotalStakedAt := (TotalStakedAt s2)(r := TotalStaked s2),
        TotalIssuanceAt := (TotalIssuanceAt s2)(r := total_issuance (Currency cfg) (currency s2))\<rparr>)"
  using assms(1)
  unfolding s2_def s1_def len_def r_def
  by (simp add: on_finalize_def Let_def RoundInfo_update_eq round_payments_def)

lemma on_finalize_not_due:
  "\<not> RoundInfo_should_goto_next_round (CurrentRound s) now \<Longrightarrow> on_finalize cfg el now s = s"
  by (simp add: on_finalize_def)

lemma payout_stakers_reserved:
  assumes "deposit_documented (Currency cfg)"
  shows "reserved_balance (Currency cfg) (currency (payout_stakers cfg r s)) = reserved_balance (Currency cfg) (currency s)"
  by (rule payout_stakers_fold) (simp_all add: mint_reserved [OF assms])

lemma round_payments_reserved:
  assumes "unreserve_documented (Currency cfg)" and "deposit_documented (Currency cfg)"
    and "distinct (keys (Collators s))" and "distinct (keys (Nominators s))" and "distinct (keys (ExitQueue s))"
  shows "unat (reserved_balance (Currency cfg) (currency (round_payments cfg r s)) a) =
    unat (reserved_balance (Currency cfg) (currency s) a) - (released_to r s a + exit_due r s a)"
  using assms
  by (simp add: round_payments_def execute_exit_queue_reserved update_nominators_reserved update_collators_reserved
      payout_stakers_reserved released_to_def exit_due_def)

text \<open>C6: A round change never releases stake early and never keeps stake that is due: the reserved balance of
  every account drops by the sum of the unbonding chunks of its collator and nominator records that
  are due in the new round and of what is due of its exit record, which is the due chunks before the
  exit round and, from the exit round on, all its chunks and the remaining stake; where less than
  that sum is reserved, it drops to zero. When no round change is due, the end of a block changes
  nothing.\<close>

theorem round_change_releases:
  assumes "unreserve_documented (Currency cfg)" and "deposit_documented (Currency cfg)"
    and "distinct (keys (Collators s))" and "distinct (keys (Nominators s))" and "distinct (keys (ExitQueue s))"
  shows "if RoundInfo_should_goto_next_round (CurrentRound s) now
    then unat (reserved_balance (Currency cfg) (currency (on_finalize cfg el now s)) a) =
      unat (reserved_balance (Currency cfg) (currency s) a) -
      (released_to (ri_index (CurrentRound s) + 1) s a + exit_due (ri_index (CurrentRound s) + 1) s a)
    else on_finalize cfg el now s = s"
proof (cases "RoundInfo_should_goto_next_round (CurrentRound s) now")
  case True
  then show ?thesis
    using round_payments_reserved [OF assms(1,2), of "s\<lparr>CurrentRound := c\<rparr>" "ri_index (CurrentRound s) + 1" a for c] assms(3-)
    by (simp add: on_finalize_due released_to_def exit_due_def)
next
  case False
  then show ?thesis by (simp add: on_finalize_not_due)
qed

text \<open>
  Round 4 of the demo chain with 1000 units reserved each: of account 1, a collator, 150 are due and 40 not yet; account 2
  leaves in this round with 300 and a chunk of 50; account 3 leaves later and has 20 due.
\<close>

definition demo_release :: "(nat, ledger) staking_state" where
  "demo_release = demo0\<lparr>
     CurrentRound := \<lparr>ri_index = 3, ri_start_in = 10, ri_length = 5\<rparr>,
     Collators := [(1, \<lparr>co_total = 500, co_active = 310, co_nominations = [], co_unlocking = [],
       co_unbonding = [\<lparr>ub_value = 150, ub_round = 4\<rparr>, \<lparr>ub_value = 40, ub_round = 5\<rparr>], co_status = Active, co_claimed_rewards = []\<rparr>)],
     ExitQueue := [(2, \<lparr>lv_remaining = 300, lv_unbonding = [\<lparr>ub_value = 50, ub_round = 5\<rparr>], lv_when = 4\<rparr>),
       (3, \<lparr>lv_remaining = 200, lv_unbonding = [\<lparr>ub_value = 20, ub_round = 4\<rparr>, \<lparr>ub_value = 30, ub_round = 5\<rparr>], lv_when = 6\<rparr>)],
     currency := (currency demo0)\<lparr>led_reserved := (\<lambda>_. 1000)\<rparr>\<rparr>"

theorem round_change_releases_witness:
  "unat (led_reserved (currency (on_finalize demo_cfg None 15 demo_release)) 1) = 850 \<and>
   unat (led_reserved (currency (on_finalize demo_cfg None 15 demo_release)) 2) = 650 \<and>
   unat (led_reserved (currency (on_finalize demo_cfg None 15 demo_release)) 3) = 980"
proof -
  have cur: "unreserve_documented (Currency demo_cfg)" "deposit_documented (Currency demo_cfg)"
    "reserved_balance (Currency demo_cfg) = led_reserved"
    by (simp_all add: demo_cfg_def ledger_currency_unreserve ledger_currency_deposit) (simp add: ledger_currency_def)
  have keys: "distinct (keys (Collators demo_release))" "distinct (keys (Nominators demo_release))" "distinct (keys (ExitQueue demo_release))"
    "RoundInfo_should_goto_next_round (CurrentRound demo_release) 15"
    by (simp_all add: demo_release_def demo0_simps RoundInfo_should_goto_next_round_def)
  note released = round_change_releases [OF cur(1,2) keys(1-3), of 15 None]
  show ?thesis using released [of 1] released [of 2] released [of 3] keys(4)
    by (simp add: cur(3)) (simp add: demo_release_def demo0_simps released_to_def exit_due_def exit_paid_def collator_released_def)
qed

section \<open>The round counter\<close>

lemma round_payments_frame [simp]:
  "CurrentRound (round_payments cfg r s) = CurrentRound s" "Settings (round_payments cfg r s) = Settings s"
  "TotalStakedAt (round_payments cfg r s) = TotalStakedAt s" "TotalIssuanceAt (round_payments cfg r s) = TotalIssuanceAt s"
  by (simp_all add: round_payments_def)

lemma on_finalize_round:
  "CurrentRound (on_finalize cfg el now s) =
     (if now - ri_start_in (CurrentRound s) \<ge> ri_length (CurrentRound s)
      then \<lparr>ri_index = ri_index (CurrentRound s) + 1, ri_start_in = now, ri_length = blocks_per_round (Settings s)\<rparr>
      else CurrentRound s)"
  "Settings (on_finalize cfg el now s) = Settings s"
  by (simp_all add: on_finalize_def RoundInfo_should_goto_next_round_def RoundInfo_update_eq Let_def)

text \<open>
  The blocks \<open>1\<close> to \<open>n\<close> of a chain: in block \<open>k\<close> the extrinsics \<open>ext k\<close> run and then the hook, with the
  election result \<open>el k\<close>.
\<close>

fun run_blocks ::
    "('acc, 'c, 'p, 'b) staking_config \<Rightarrow> (nat \<Rightarrow> ('acc, 'c) staking_state \<Rightarrow> ('acc, 'c) staking_state) \<Rightarrow>
     (nat \<Rightarrow> ('acc Supports \<times> Weight) option) \<Rightarrow> nat \<Rightarrow> ('acc, 'c) staking_state \<Rightarrow> ('acc, 'c) staking_state" where
  "run_blocks cfg ext el 0 s = s"
| "run_blocks cfg ext el (Suc n) s = on_finalize cfg (el (Suc n)) (of_nat (Suc n)) (ext (Suc n) (run_blocks cfg ext el n s))"

lemma build_round:
  "build cfg stakers s = Some s' \<Longrightarrow> CurrentRound s' = \<lparr>ri_index = 1, ri_start_in = 0, ri_length = BlocksPerRound cfg\<rparr> \<and>
     Settings s' = \<lparr>bond_duration = BondDuration cfg, blocks_per_round = BlocksPerRound cfg, desired_target = DesiredTarget cfg\<rparr>"
  by (auto simp: build_def Let_def RoundInfo_new_def split: option.splits)

lemma round_arith:
  assumes "0 < l" and "Suc n < 2 ^ 32" and "l < 2 ^ 32"
  shows "(of_nat l :: u32) \<le> of_nat (Suc n) - of_nat (n div l * l) \<longleftrightarrow> Suc n div l = Suc (n div l)"
    and "Suc n div l = Suc (n div l) \<Longrightarrow> Suc (n div l) * l = Suc n"
    and "Suc n div l \<noteq> Suc (n div l) \<Longrightarrow> Suc n div l = n div l"
proof -
  have n: "n div l * l + n mod l = n" by simp
  have m: "n mod l < l" using assms(1) by simp
  have "Suc (n mod l) < 2 ^ 32" using m assms(3) by linarith
  then have u: "unat (of_nat (Suc (n mod l)) :: u32) = Suc (n mod l)" "unat (of_nat l :: u32) = l"
    using assms(3) by (simp_all only: unat_of_nat) simp_all
  have "(of_nat (Suc n) - of_nat (n div l * l) :: u32) = of_nat (Suc (n mod l))"
    using n by (metis add_Suc_right add_diff_cancel_left' of_nat_add)
  then have "(of_nat l :: u32) \<le> of_nat (Suc n) - of_nat (n div l * l) \<longleftrightarrow> l \<le> Suc (n mod l)"
    by (simp only: word_le_nat_alt u)
  also have "\<dots> \<longleftrightarrow> Suc n div l = Suc (n div l)"
    using m by (simp add: div_Suc mod_Suc)
  finally show "(of_nat l :: u32) \<le> of_nat (Suc n) - of_nat (n div l * l) \<longleftrightarrow> Suc n div l = Suc (n div l)" .
  show "Suc n div l = Suc (n div l) \<Longrightarrow> Suc (n div l) * l = Suc n"
    by (metis div_Suc dvd_div_mult_self mod_0_imp_dvd n_not_Suc_n)
  show "Suc n div l \<noteq> Suc (n div l) \<Longrightarrow> Suc n div l = n div l"
    by (metis div_Suc)
qed

lemma run_blocks_round:
  assumes "build cfg stakers s0 = Some s" and "0 < BlocksPerRound cfg" and "n < 2 ^ 32"
    and "\<And>k t. CurrentRound (ext k t) = CurrentRound t \<and> Settings (ext k t) = Settings t"
  shows "CurrentRound (run_blocks cfg ext el n s) =
    \<lparr>ri_index = of_nat (1 + n div unat (BlocksPerRound cfg)),
     ri_start_in = of_nat (n div unat (BlocksPerRound cfg) * unat (BlocksPerRound cfg)), ri_length = BlocksPerRound cfg\<rparr> \<and>
    blocks_per_round (Settings (run_blocks cfg ext el n s)) = BlocksPerRound cfg"
  using assms(3)
proof (induction n)
  case 0
  then show ?case using build_round [OF assms(1)] by simp
next
  case (Suc n)
  define l where "l = unat (BlocksPerRound cfg)"
  have l: "0 < l" "l < 2 ^ 32" "BlocksPerRound cfg = of_nat l"
    using assms(2) unsigned_less [of "BlocksPerRound cfg"] by (auto simp: l_def word_less_nat_alt)
  note arith = round_arith [OF l(1) Suc.prems l(2)]
  note IH = Suc.IH [OF Suc_lessD [OF Suc.prems], folded l_def]
  show ?case
  proof (cases "Suc n div l = Suc (n div l)")
    case True
    then have due: "(of_nat l :: u32) \<le> of_nat (Suc n) - of_nat (n div l * l)" using arith(1) by blast
    have "(of_nat (1 + Suc (n div l)) :: u32) = of_nat (1 + n div l) + 1" by simp
    with due show ?thesis unfolding l_def [symmetric] run_blocks.simps on_finalize_round assms(4) [THEN conjunct1]
        assms(4) [THEN conjunct2] True arith(2) [OF True]
      using IH l(3) by (simp del: of_nat_Suc of_nat_mult of_nat_add)
  next
    case False
    then have "\<not> (of_nat l :: u32) \<le> of_nat (Suc n) - of_nat (n div l * l)" using arith(1) by blast
    then show ?thesis unfolding l_def [symmetric] run_blocks.simps on_finalize_round assms(4) [THEN conjunct1]
        assms(4) [THEN conjunct2] arith(3) [OF False]
      using IH l(3) by (simp del: of_nat_Suc of_nat_mult of_nat_add)
  qed
qed

text \<open>C20: From genesis with a positive round length and for the first \<open>2\<^sup>3\<^sup>2\<close> blocks, as long as no extrinsic touches the
  round or the settings (so root does not call \<^verbatim>\<open>config\<close>), the round after block \<open>n\<close> is \<open>1 + n div length\<close> and started at
  the last multiple of the length, whatever else the extrinsics do and whatever the elections return.\<close>

theorem round_follows_blocks:
  assumes "build cfg stakers s0 = Some s" and "0 < BlocksPerRound cfg" and "n < 2 ^ 32"
    and "\<And>k t. CurrentRound (ext k t) = CurrentRound t \<and> Settings (ext k t) = Settings t"
  shows "CurrentRound (run_blocks cfg ext el n s) =
    \<lparr>ri_index = of_nat (1 + n div unat (BlocksPerRound cfg)),
     ri_start_in = of_nat (n div unat (BlocksPerRound cfg) * unat (BlocksPerRound cfg)), ri_length = BlocksPerRound cfg\<rparr> \<and>
    blocks_per_round (Settings (run_blocks cfg ext el n s)) = BlocksPerRound cfg"
  using assms by (rule run_blocks_round)

theorem round_follows_blocks_witness:
  "ri_index (CurrentRound (run_blocks demo_cfg (\<lambda>_ t. t) (\<lambda>_. None) 17 demo0)) = 4"
  using round_follows_blocks [OF demo_build, of 17 "\<lambda>_ t. t" "\<lambda>_. None"] by (simp add: demo_cfg_def)

section \<open>Exposures\<close>

lemma fold_saturating_add:
  fixes t :: "'a::len word"
  shows "unat (fold (\<lambda>x t. saturating_add t (f x)) xs t) = min (unat t + (\<Sum>x \<leftarrow> xs. unat (f x))) (2 ^ LENGTH('a) - 1)"
proof (induction xs arbitrary: t)
  case Nil
  have "unat t < 2 ^ LENGTH('a)" by (rule unsigned_less)
  then have "unat t \<le> 2 ^ LENGTH('a) - 1" by linarith
  then show ?case by simp
next
  case (Cons x xs)
  have "min (min a m + b) m = min (a + b) m" for a b m :: nat by linarith
  with Cons show ?case by (simp add: unat_saturating_add add.assoc)
qed

lemma fold_add_exposure:
  "fold (add_exposure v) xs e =
     \<lparr>ex_total = fold (\<lambda>x t. saturating_add t (snd x)) xs (ex_total e),
      ex_own = fold (\<lambda>x t. saturating_add t (snd x)) (filter (\<lambda>x. fst x = v) xs) (ex_own e),
      ex_others = ex_others e @ map (\<lambda>x. \<lparr>ie_who = fst x, ie_value = snd x\<rparr>) (filter (\<lambda>x. fst x \<noteq> v) xs)\<rparr>"
  by (induction xs arbitrary: e) (auto simp: add_exposure_def Let_def)

definition exposure_of ::
    "('acc, 'c, 'p, 'b) staking_config \<Rightarrow> ('acc, 'c) staking_state \<Rightarrow> 'acc \<Rightarrow> ('acc \<times> ExtendedBalance) list \<Rightarrow> 'acc Exposure" where
  "exposure_of cfg s v vs =
     (let stake = (\<lambda>w. to_currency cfg w (total_issuance (Currency cfg) (currency s))) in
      fold (add_exposure v) (map (\<lambda>(a, w). (a, stake w)) vs) \<lparr>ex_total = 0, ex_own = 0, ex_others = []\<rparr>)"

lemma collect_exposures_eq:
  "collect_exposures cfg sps s = map (\<lambda>(v, sp). (v, exposure_of cfg s v (su_voters sp))) sps"
  by (simp add: collect_exposures_def exposure_of_def Let_def)

lemma exposure_of_simps:
  fixes cfg :: "('acc, 'c, 'p, 'b) staking_config" and s :: "('acc, 'c) staking_state"
  defines "stake \<equiv> \<lambda>w. to_currency cfg w (total_issuance (Currency cfg) (currency s))"
  shows "unat (ex_total (exposure_of cfg s v vs)) = min (\<Sum>(a, w) \<leftarrow> vs. unat (stake w)) (2 ^ 128 - 1)"
    and "unat (ex_own (exposure_of cfg s v vs)) =
      min (\<Sum>(a, w) \<leftarrow> filter (\<lambda>(a, w). a = v) vs. unat (stake w)) (2 ^ 128 - 1)"
    and "ex_others (exposure_of cfg s v vs) =
      map (\<lambda>(a, w). \<lparr>ie_who = a, ie_value = stake w\<rparr>) (filter (\<lambda>(a, w). a \<noteq> v) vs)"
proof -
  have f: "filter (\<lambda>x. P (fst x)) (map (\<lambda>(a, w). (a, stake w)) vs) = map (\<lambda>(a, w). (a, stake w)) (filter (\<lambda>(a, w). P a) vs)" for P
    by (induction vs) auto
  have g: "exposure_of cfg s v vs = fold (add_exposure v) (map (\<lambda>(a, w). (a, stake w)) vs) \<lparr>ex_total = 0, ex_own = 0, ex_others = []\<rparr>"
    by (simp add: exposure_of_def stake_def)
  show "unat (ex_total (exposure_of cfg s v vs)) = min (\<Sum>(a, w) \<leftarrow> vs. unat (stake w)) (2 ^ 128 - 1)"
    unfolding g fold_add_exposure by (simp add: fold_saturating_add comp_def case_prod_unfold)
  show "unat (ex_own (exposure_of cfg s v vs)) =
      min (\<Sum>(a, w) \<leftarrow> filter (\<lambda>(a, w). a = v) vs. unat (stake w)) (2 ^ 128 - 1)"
    unfolding g fold_add_exposure using f [of "\<lambda>a. a = v"] by (simp add: fold_saturating_add comp_def case_prod_unfold)
  show "ex_others (exposure_of cfg s v vs) =
      map (\<lambda>(a, w). \<lparr>ie_who = a, ie_value = stake w\<rparr>) (filter (\<lambda>(a, w). a \<noteq> v) vs)"
    unfolding g fold_add_exposure using f [of "\<lambda>a. a \<noteq> v"] by (simp add: comp_def case_prod_unfold)
qed

text \<open>The exposures made from an election result have one entry per winner, in the order of the result.
  The others of an exposure are the voters except the winner, in order, with their stake; the own
  stake is the sum of the winner's own votes and the total the sum of all votes, both saturating at
  the largest balance.\<close>

theorem collect_exposures_correct:
  "collect_exposures cfg sps s = map (\<lambda>(v, sp). (v, exposure_of cfg s v (su_voters sp))) sps \<and>
   (let stake = (\<lambda>w. to_currency cfg w (total_issuance (Currency cfg) (currency s))); e = exposure_of cfg s v vs in
    unat (ex_total e) = min (\<Sum>(a, w) \<leftarrow> vs. unat (stake w)) (2 ^ 128 - 1) \<and>
    unat (ex_own e) = min (\<Sum>(a, w) \<leftarrow> filter (\<lambda>(a, w). a = v) vs. unat (stake w)) (2 ^ 128 - 1) \<and>
    ex_others e = map (\<lambda>(a, w). \<lparr>ie_who = a, ie_value = stake w\<rparr>) (filter (\<lambda>(a, w). a \<noteq> v) vs))"
  unfolding Let_def using exposure_of_simps [of cfg s v vs] collect_exposures_eq [of cfg sps s] by blast

definition store_exposures ::
    "('acc, 'c, 'p, 'b) staking_config \<Rightarrow> ('acc \<times> 'acc Exposure) list \<Rightarrow> ('acc, 'acc Exposure) smap \<Rightarrow> ('acc, 'acc Exposure) smap" where
  "store_exposures cfg xs m = fold (\<lambda>(v, e) m. sm_insert (key_before cfg) v e m) xs m"

lemma map_of_rev: "distinct (map fst xs) \<Longrightarrow> map_of (rev xs) = map_of xs"
  by (rule map_of_eqI) (auto simp: rev_map [symmetric])

lemma store_exposures_get: "sm_get (store_exposures cfg xs m) a = (case map_of (rev xs) a of Some e \<Rightarrow> Some e | None \<Rightarrow> sm_get m a)"
  unfolding store_exposures_def
  by (induction xs arbitrary: m) (auto simp: map_add_def split: option.splits)

lemma process_election_clipped:
  "RoundStakerClipped (fst (process_election cfg sps r s)) =
     (RoundStakerClipped s)(r := store_exposures cfg (collect_exposures cfg sps s) (RoundStakerClipped s r))"
proof -
  have "RoundStakerClipped (fold (\<lambda>(v, e) s. deposit_event (CollatorChoosen r v (ex_total e))
      (s\<lparr>RoundStakerClipped := (RoundStakerClipped s)(r := sm_insert (key_before cfg) v e (RoundStakerClipped s r))\<rparr>)) xs s) =
    (RoundStakerClipped s)(r := store_exposures cfg xs (RoundStakerClipped s r))" for xs s
    by (induction xs arbitrary: s) (auto simp: store_exposures_def)
  then show ?thesis by (simp add: process_election_def Let_def)
qed

text \<open>C21: An election with distinct winners stores, for the current round, exactly one exposure per winner,
  the one made from its support, besides what the round already had; other rounds keep theirs, the
  winners are returned in order, and the weight of the election is registered. A failed election
  changes nothing and returns nothing.\<close>

theorem enact_election_correct:
  assumes "distinct (map fst sps)"
  shows "enact_election cfg None r s = (s, None) \<and>
    snd (enact_election cfg (Some (sps, w)) r s) = Some (map fst sps) \<and>
    registered_weight (fst (enact_election cfg (Some (sps, w)) r s)) = registered_weight s @ [w] \<and>
    (\<forall>q a. sm_get (RoundStakerClipped (fst (enact_election cfg (Some (sps, w)) r s)) q) a =
      (case map_of sps a of
         Some sp \<Rightarrow> if q = r then Some (exposure_of cfg s a (su_voters sp)) else sm_get (RoundStakerClipped s q) a
       | None \<Rightarrow> sm_get (RoundStakerClipped s q) a))"
proof -
  let ?s1 = "s\<lparr>registered_weight := registered_weight s @ [w]\<rparr>"
  let ?x = "map (\<lambda>(v, sp). (v, exposure_of cfg s v (su_voters sp))) sps"
  have ex: "collect_exposures cfg sps ?s1 = ?x"
    by (simp add: collect_exposures_eq exposure_of_def)
  have d: "distinct (map fst ?x)" using assms by (simp add: comp_def case_prod_beta)
  have get: "map_of (rev ?x) a = map_option (\<lambda>sp. exposure_of cfg s a (su_voters sp)) (map_of sps a)" for a
    using map_of_rev [OF d] by (simp add: map_of_map_snd [where f = "\<lambda>v sp. exposure_of cfg s v (su_voters sp)"])
  have weight: "registered_weight (fst (process_election cfg sps r t)) = registered_weight t" for t
    unfolding process_election_def Let_def fst_conv
    by (rule fold_invariant) (auto simp: deposit_event_def)
  have "snd (process_election cfg sps r ?s1) = map fst sps"
    by (simp add: process_election_def Let_def ex comp_def case_prod_beta)
  then show ?thesis
    by (auto simp: enact_election_def Let_def case_prod_beta weight process_election_clipped ex store_exposures_get get
        simp del: map_map split: option.split)
qed

theorem enact_election_correct_witness:
  "snd (enact_election demo_cfg (Some ([(1, \<lparr>su_total = 700, su_voters = [(1, 500), (2, 200)]\<rparr>)], 9)) 3 demo2) = Some [1] \<and>
   sm_get (RoundStakerClipped (fst (enact_election demo_cfg
     (Some ([(1, \<lparr>su_total = 700, su_voters = [(1, 500), (2, 200)]\<rparr>)], 9)) 3 demo2)) 3) 1 =
   Some \<lparr>ex_total = 700, ex_own = 500, ex_others = [\<lparr>ie_who = 2, ie_value = 200\<rparr>]\<rparr>"
  using enact_election_correct [of "[(1 :: nat, \<lparr>su_total = 700, su_voters = [(1, 500), (2, 200)]\<rparr>)]" demo_cfg 3 demo2 9]
  by (simp add: exposure_of_def demo_cfg_def add_exposure_def saturating_add_def)

section \<open>The snapshot for the election provider\<close>

lemma active_count_le: "active_count s \<le> length (Collators s)"
  by (simp add: active_count_def)

lemma active_count_all:
  "\<forall>(a, c) \<in> set (Collators s). co_status c = Active \<Longrightarrow> active_count s = length (Collators s)"
  unfolding active_count_def by (subst filter_True) (auto simp: StakingCollators_is_active_def)

lemma length_npos_voters: "length (get_npos_voters cfg s) = length (Collators s) + length (Nominators s)"
  by (simp add: get_npos_voters_def Let_def)

text \<open>C22: In a reachable state the election snapshot is right: the targets are the collators, each once;
  every collator votes for itself alone, with its active stake if it is active and with nothing
  while it is onboarding; and when all collators are active, a snapshot that is returned respects
  the size limit the provider asked for.\<close>

theorem election_snapshot_correct:
  assumes "staking_reachable cfg s"
  shows "distinct (get_npos_targets s) \<and> set (get_npos_targets s) = dom (sm_get (Collators s)) \<and>
    (\<forall>a c. sm_get (Collators s) a = Some c \<longrightarrow>
      (a, to_vote cfg (if co_status c = Active then co_active c else 0) (total_issuance (Currency cfg) (currency s)), [a])
        \<in> set (get_npos_voters cfg s)) \<and>
    ((\<forall>(a, c) \<in> set (Collators s). co_status c = Active) \<longrightarrow>
      (\<forall>m ts w. targets cfg s (Some m) = Inr (ts, w) \<longrightarrow> length ts \<le> m) \<and>
      (\<forall>m vs w. voters cfg s (Some m) = Inr (vs, w) \<longrightarrow> length vs \<le> m))"
proof (intro conjI impI allI)
  have d: "distinct (keys (Collators s))"
    using collators_invariant.reachable_inv [OF assms] by (simp add: collators_ok_def)
  have t: "get_npos_targets s = keys (Collators s)"
    by (simp add: get_npos_targets_def case_prod_unfold)
  show "distinct (get_npos_targets s)" using d t by simp
  show "set (get_npos_targets s) = dom (sm_get (Collators s))" by (simp add: t dom_map_of_conv_image_fst)
  fix a c assume "sm_get (Collators s) a = Some c"
  then show "(a, to_vote cfg (if co_status c = Active then co_active c else 0) (total_issuance (Currency cfg) (currency s)), [a])
      \<in> set (get_npos_voters cfg s)"
    using map_of_SomeD [of "Collators s" a c]
    by (force simp: get_npos_voters_def Let_def slashable_balance_of_fn_def slashable_balance_of_vote_weight_def
        slashable_balance_of_def StakingCollators_is_active_def)
next
  assume all: "\<forall>(a, c) \<in> set (Collators s). co_status c = Active"
  fix m ts w assume "targets cfg s (Some m) = Inr (ts, w)"
  then show "length ts \<le> m"
    by (auto simp: targets_def Let_def active_count_all [OF all] get_npos_targets_def split: if_splits)
next
  assume all: "\<forall>(a, c) \<in> set (Collators s). co_status c = Active"
  fix m vs w assume "voters cfg s (Some m) = Inr (vs, w)"
  then show "length vs \<le> m"
    by (auto simp: voters_def Let_def active_count_all [OF all] length_npos_voters split: if_splits)
qed

theorem election_snapshot_correct_witness:
  "distinct (get_npos_targets demo2) \<and> (1, 500, [1]) \<in> set (get_npos_voters demo_cfg demo2) \<and>
   (\<exists>ts w. targets demo_cfg demo2 (Some 1) = Inr (ts, w) \<and> length ts \<le> 1)"
proof -
  note snap = election_snapshot_correct [OF demo2_reachable]
  from snap have "\<forall>c. sm_get (Collators demo2) 1 = Some c \<longrightarrow>
      (1, to_vote demo_cfg (if co_status c = Active then co_active c else 0) (total_issuance (Currency demo_cfg) (currency demo2)), [1])
        \<in> set (get_npos_voters demo_cfg demo2)" by blast
  then have v: "(1, 500, [1]) \<in> set (get_npos_voters demo_cfg demo2)" by (simp add: demo2_simps demo_cfg_def)
  obtain ts w where t: "targets demo_cfg demo2 (Some 1) = Inr (ts, w)"
    by (simp add: targets_def active_count_def demo2_simps StakingCollators_is_active_def Let_def)
  have "\<forall>(a, c) \<in> set (Collators demo2). co_status c = Active" by (simp add: demo2_simps)
  with snap t have "length ts \<le> 1" by blast
  with v t snap show ?thesis by blast
qed

section \<open>Genesis\<close>

lemma build_stakers_total: "build_stakers cfg stakers t s = Some (t', s') \<Longrightarrow> t' = t + (\<Sum>(a, b) \<leftarrow> stakers. b)"
  by (induction cfg stakers t s rule: build_stakers.induct) (auto split: if_splits simp: algebra_simps)

lemma bond_get:
  "MinCollatorStake cfg \<le> b \<Longrightarrow> sm_get (Collators s) a = None \<Longrightarrow>
   sm_get (Collators (fst (bond cfg (Signed a) b s))) =
     (sm_get (Collators s))(a \<mapsto> StakingCollators_new b (ri_index (CurrentRound s) + 1)) \<and>
   CurrentRound (fst (bond cfg (Signed a) b s)) = CurrentRound s"
  by (auto simp: bond_def Let_def RoundInfo_next_round_index_def fun_eq_iff not_less)

lemma build_stakers_collators:
  "build_stakers cfg stakers t s = Some (t', s') \<Longrightarrow> distinct (map fst stakers) \<Longrightarrow>
   (\<And>a b. (a, b) \<in> set stakers \<Longrightarrow> MinCollatorStake cfg \<le> b \<and> sm_get (Collators s) a = None) \<Longrightarrow>
   sm_get (Collators s') = (\<lambda>a. case map_of stakers a of
      Some b \<Rightarrow> Some (StakingCollators_new b (ri_index (CurrentRound s) + 1)) | None \<Rightarrow> sm_get (Collators s) a)"
proof (induction cfg stakers t s rule: build_stakers.induct)
  case (1 cfg t s)
  then show ?case by simp
next
  case (2 cfg a b stakers t s)
  have b: "MinCollatorStake cfg \<le> b" "sm_get (Collators s) a = None" using "2.prems"(3) [of a b] by auto
  note get = bond_get [OF b]
  have "map_of stakers a = None" using "2.prems"(2) by (simp add: map_of_eq_None_iff)
  moreover have free: "b \<le> free_balance (Currency cfg) (currency s) a"
    and rec: "build_stakers cfg stakers (t + b) (fst (bond cfg (Signed a) b s)) = Some (t', s')"
    using "2.prems"(1) by (auto split: if_splits)
  have "MinCollatorStake cfg \<le> y \<and> sm_get (Collators (fst (bond cfg (Signed a) b s))) x = None" if "(x, y) \<in> set stakers" for x y
    using that "2.prems"(2) "2.prems"(3) [of x y] get by (force simp: image_iff)
  note this [THEN conjunct1] this [THEN conjunct2]
  then have "sm_get (Collators s') = (\<lambda>x. case map_of stakers x of
      Some b \<Rightarrow> Some (StakingCollators_new b (ri_index (CurrentRound s) + 1))
    | None \<Rightarrow> sm_get (Collators (fst (bond cfg (Signed a) b s))) x)"
    using "2.IH" [OF free rec, unfolded get [THEN conjunct2]] "2.prems"(2) by simp
  ultimately show ?case using get by (auto simp: fun_eq_iff split: option.split)
qed

text \<open>Genesis with distinct stakers that offer at least the minimum and can pay it makes each of them an
  onboarding collator with its stake due in round 1, starts round 1 at block 0, sets the total stake
  and the snapshot of round 1 to the sum of the stakes, and takes the settings from the
  configuration.\<close>

theorem genesis_correct:
  assumes "build cfg stakers (default_state c) = Some s" and "distinct (map fst stakers)"
    and "\<forall>(a, b) \<in> set stakers. MinCollatorStake cfg \<le> b"
  shows "sm_get (Collators s) = (\<lambda>a. map_option (\<lambda>b. StakingCollators_new b 1) (map_of stakers a)) \<and>
    TotalStaked s = (\<Sum>(a, b) \<leftarrow> stakers. b) \<and> TotalStakedAt s 1 = TotalStaked s \<and>
    TotalIssuanceAt s 1 = total_issuance (Currency cfg) (currency s) \<and>
    CurrentRound s = \<lparr>ri_index = 1, ri_start_in = 0, ri_length = BlocksPerRound cfg\<rparr> \<and>
    Settings s = \<lparr>bond_duration = BondDuration cfg, blocks_per_round = BlocksPerRound cfg, desired_target = DesiredTarget cfg\<rparr>"
proof -
  obtain t s1 where b: "build_stakers cfg stakers 0 (default_state c) = Some (t, s1)"
    and s: "Collators s = Collators s1" "TotalStaked s = t" "TotalStakedAt s 1 = t"
      "TotalIssuanceAt s 1 = total_issuance (Currency cfg) (currency s)"
    using assms(1) by (auto simp: build_def Let_def split: option.splits)
  have "sm_get (Collators s1) = (\<lambda>a. map_option (\<lambda>b. StakingCollators_new b 1) (map_of stakers a))"
    using build_stakers_collators [OF b assms(2)] assms(3)
    by (fastforce simp: default_state_def fun_eq_iff split: option.split)
  then show ?thesis using s build_stakers_total [OF b] build_round [OF assms(1)] by simp
qed

theorem genesis_correct_witness: "TotalStaked demo0 = 500 \<and> TotalStakedAt demo0 1 = 500"
  using genesis_correct [OF demo_build] by (simp add: demo_cfg_def)

end
