(* ===== verification/Staking_Properties.thy ===== *)
theory Staking_Properties
  imports Staking_Demo
begin

text \<open>
  The properties of the calls of the staking pallet: the invariants of the reachable states, what
  every call does on success and on each error, and the bonding delay.
\<close>

section \<open>Invariants of reachable states\<close>

text \<open>In every reachable state each collator is listed once, its recorded total is its active plus
  its unlocking plus its unbonding stake, it is active, or onboarding with no active stake and
  no nominations, and it has at most \<^verbatim>\<open>MaxNominationsPerCollator\<close> nominations.\<close>

theorem reachable_collator_ledger:
  assumes "staking_reachable cfg s"
  shows "distinct (keys (Collators s)) \<and>
    (\<forall>a c. sm_get (Collators s) a = Some c \<longrightarrow>
      co_total c = co_active c + unlocking_sum (co_unlocking c) + unbonding_sum (co_unbonding c) \<and>
      (co_status c = Active \<or> co_status c = Onboarding \<and> co_active c = 0 \<and> co_nominations c = []) \<and>
      length (co_nominations c) \<le> unat (MaxNominationsPerCollator cfg))"
  using collators_invariant.reachable_inv [OF assms]
  by (auto simp: collators_ok_def collator_ok_def collator_backing_def dest!: map_of_SomeD)

theorem reachable_collator_ledger_witness:
  "sm_get (Collators demo2) 1 \<noteq> None \<and> co_total (snd (hd (Collators demo2))) =
     co_active (snd (hd (Collators demo2))) + unlocking_sum (co_unlocking (snd (hd (Collators demo2)))) +
     unbonding_sum (co_unbonding (snd (hd (Collators demo2))))"
  using reachable_collator_ledger [OF demo2_reachable] by (simp add: demo2_simps)

text \<open>C10: In every reachable state the total points of a round are the sum of the points noted for its
  block authors (32-bit addition), whatever calls, round changes and authored blocks came before.\<close>

theorem reachable_points:
  assumes "staking_reachable cfg s"
  shows "TotalPoints s r = (\<Sum>(a, p) \<leftarrow> CollatorPoints s r. p)"
  using points_invariant.reachable_inv [OF assms] by (simp add: points_inv_def)

theorem reachable_points_witness:
  "TotalPoints (note_author demo_cfg 1 demo2) 2 = (\<Sum>(a, p) \<leftarrow> CollatorPoints (note_author demo_cfg 1 demo2) 2. p)"
  by (rule reachable_points [OF reachable_step [OF demo2_reachable step_author]])

section \<open>Errors\<close>

lemmas call_defs = config_def bond_def force_onboard_def bond_extra_def bond_less_def collator_unbond_def
  nominate_def nominate_extra_def nominate_less_def nominator_leave_collator_def

lemma nominate_error:
  assumes "nominate cfg origin cand v s = (s', Err e)"
  shows "s' = s \<or> e = Module NominationNotExist \<and> (\<exists>who n. origin = Signed who \<and> s' = put_nominator cfg who n s)"
  using assms unfolding nominate_def Let_def
  by (auto split: option.splits prod.splits bool.splits if_splits)

lemma call_error:
  assumes "staking_dispatch cfg origin call s = (s', Err e)" and "\<And>a v. call \<noteq> Call_nominate a v"
  shows "s' = s"
  using assms
  by (cases call) (auto simp: call_defs Let_def split: option.splits prod.splits if_splits)

text \<open>C7: No call of the staking pallet panics, and a call that returns an error leaves the storage and
  the balances as they were, with one exception: \<^verbatim>\<open>nominate\<close>, when the collator side refuses the
  nomination, has already stored the nominator.\<close>

theorem failed_call_keeps_state:
  "snd (staking_dispatch cfg origin call s) \<noteq> Panic \<and>
   (snd (staking_dispatch cfg origin call s) = Err e \<longrightarrow>
      fst (staking_dispatch cfg origin call s) = s \<or>
      (e = Module NominationNotExist \<and>
       (\<exists>who cand v n. origin = Signed who \<and> call = Call_nominate cand v \<and>
          fst (staking_dispatch cfg origin call s) = put_nominator cfg who n s)))"
proof
  show "snd (staking_dispatch cfg origin call s) \<noteq> Panic"
    by (cases call) (auto simp: call_defs Let_def split: option.splits prod.splits bool.splits)
  show "snd (staking_dispatch cfg origin call s) = Err e \<longrightarrow>
      fst (staking_dispatch cfg origin call s) = s \<or>
      (e = Module NominationNotExist \<and>
       (\<exists>who cand v n. origin = Signed who \<and> call = Call_nominate cand v \<and>
          fst (staking_dispatch cfg origin call s) = put_nominator cfg who n s))"
  proof (cases "\<exists>a v. call = Call_nominate a v")
    case True
    then show ?thesis using nominate_error [of cfg origin _ _ s "fst (staking_dispatch cfg origin call s)" e]
      by (auto simp: prod_eq_iff)
  next
    case False
    then show ?thesis using call_error [of cfg origin call s "fst (staking_dispatch cfg origin call s)" e]
      by (auto simp: prod_eq_iff)
  qed
qed

theorem failed_call_keeps_state_witness:
  "snd (staking_dispatch demo_cfg (Signed 1) (Call_bond 200) demo2) = Err (Module AlreadyBonded) \<and>
   fst (staking_dispatch demo_cfg (Signed 1) (Call_bond 200) demo2) = demo2"
  using failed_call_keeps_state [of demo_cfg "Signed 1" "Call_bond 200" demo2 "Module AlreadyBonded"]
  by (simp add: bond_def demo2_simps)

section \<open>Calls of collators\<close>

text \<open>C15: For an account whose balance lets the currency reserve the amount, \<^verbatim>\<open>bond\<close> succeeds exactly if the account
  is not a collator and the amount is at least the minimum. The amount is then reserved, moved from
  the free balance, the account is recorded as an onboarding collator with the whole amount locked until
  the next round, the total stake grows by the amount, and no other collator and no other balance
  changes. Only signed calls are accepted.\<close>

theorem bond_correct:
  assumes "reserve_documented (Currency cfg)" and "snd (reserve (Currency cfg) (currency s) who amt)"
  shows "(snd (bond cfg (Signed who) amt s) = Ok \<longleftrightarrow> sm_get (Collators s) who = None \<and> MinCollatorStake cfg \<le> amt) \<and>
   (\<forall>origin. (\<forall>a. origin \<noteq> Signed a) \<longrightarrow> bond cfg origin amt s = (s, Err BadOrigin)) \<and>
   (snd (bond cfg (Signed who) amt s) = Ok \<longrightarrow>
      (let s' = fst (bond cfg (Signed who) amt s); cur = Currency cfg in
       sm_get (Collators s') = (sm_get (Collators s))(who \<mapsto> StakingCollators_new amt (ri_index (CurrentRound s) + 1)) \<and>
       slashable_balance_of s' who Validator = 0 \<and>
       TotalStaked s' = TotalStaked s + amt \<and>
       reserved_balance cur (currency s') = (reserved_balance cur (currency s))(who := reserved_balance cur (currency s) who + amt) \<and>
       free_balance cur (currency s') = (free_balance cur (currency s))(who := free_balance cur (currency s) who - amt) \<and>
       Nominators s' = Nominators s \<and> ExitQueue s' = ExitQueue s \<and>
       events s' = events s @ [Bonded who amt]))"
proof -
  obtain c where c: "reserve (Currency cfg) (currency s) who amt = (c, True)"
    using assms(2) by (cases "reserve (Currency cfg) (currency s) who amt") auto
  have "bond cfg origin amt s = (s, Err BadOrigin)" if "\<forall>a. origin \<noteq> Signed a" for origin
    using that by (cases origin) (simp_all add: bond_def)
  then show ?thesis
    using reserve_True [OF assms(1) c]
    by (auto simp: bond_def Let_def RoundInfo_next_round_index_def fun_eq_iff not_less slashable_balance_of_def c do_reserve_def
        StakingCollators_is_active_def StakingCollators_new_def StakerStatus_default_def split: option.splits)
qed

theorem bond_correct_witness:
  "snd (bond demo_cfg (Signed 3) 150 demo0) = Ok \<and> TotalStaked (fst (bond demo_cfg (Signed 3) 150 demo0)) = 650 \<and>
   led_reserved (currency (fst (bond demo_cfg (Signed 3) 150 demo0))) 3 = 150"
proof -
  have cfg: "reserve_documented (Currency demo_cfg)" "MinCollatorStake demo_cfg = 100" "reserved_balance (Currency demo_cfg) = led_reserved"
    by (simp_all add: demo_cfg_def ledger_currency_reserve) (simp add: ledger_currency_def)
  have led: "led_free (currency demo0) 3 = 400" "led_reserved (currency demo0) 3 = 0" by (simp_all add: demo0_def demo_eval)
  then have "snd (reserve (Currency demo_cfg) (currency demo0) 3 150)" by (simp add: demo_cfg_def ledger_currency_def)
  from bond_correct [OF cfg(1) this] show ?thesis by (simp add: demo0_simps cfg led Let_def)
qed

text \<open>A collator that bonds during a round is active from the next round change on: whatever the
  election returns, its whole amount is then active, nothing is locked, and it votes for itself
  with that amount.\<close>

theorem bond_activates_next_round:
  assumes "bond cfg (Signed who) amt s = (s', Ok)" and "distinct (keys (Collators s))"
    and "RoundInfo_should_goto_next_round (CurrentRound s) now"
  shows "\<exists>c. sm_get (Collators (on_finalize cfg elect now s')) who = Some c \<and>
      co_status c = Active \<and> co_active c = amt \<and> co_total c = amt \<and> co_unlocking c = [] \<and>
      slashable_balance_of (on_finalize cfg elect now s') who Validator = amt"
proof -
  let ?r = "ri_index (CurrentRound s) + 1"
  let ?c = "updated_collator ?r (StakingCollators_new amt ?r)"
  have s': "Collators s' = sm_insert (key_before cfg) who (StakingCollators_new amt ?r) (Collators s)"
    and cr: "CurrentRound s' = CurrentRound s"
    using assms(1) by (auto simp: bond_def Let_def RoundInfo_next_round_index_def split: option.splits if_splits)
  have "Collators (on_finalize cfg elect now s') =
      map (\<lambda>(a, c). (a, updated_collator ?r c)) (Collators s')"
    using assms(2,3) s' cr by (simp add: on_finalize_collators update_collators_collators)
  then have "sm_get (Collators (on_finalize cfg elect now s')) who = Some ?c"
    by (simp add: map_of_map_snd [where f = "\<lambda>_ c. updated_collator ?r c"] s')
  then show ?thesis
    by (auto simp: updated_collator_def ledger_simps StakingCollators_new_def StakerStatus_default_def
        slashable_balance_of_def StakingCollators_is_active_def)
qed

lemma demo_bond3: "bond demo_cfg (Signed 3) 150 demo2 = (fst (bond demo_cfg (Signed 3) 150 demo2), Ok)"
  by (simp add: bond_def demo2_simps demo_cfg_def Let_def)

theorem bond_activates_next_round_witness:
  "\<exists>c. sm_get (Collators (on_finalize demo_cfg None 10 (fst (bond demo_cfg (Signed 3) 150 demo2)))) 3 = Some c \<and>
     co_status c = Active \<and> co_active c = 150"
  using bond_activates_next_round [OF demo_bond3, of 10 None]
  by (auto simp: demo2_simps RoundInfo_should_goto_next_round_def)

lemma collator_withdraw_released:
  assumes "collator_withdraw c v w = Some c'"
  shows "\<forall>r < w. collator_released r c' = collator_released r c"
    and "\<forall>r \<ge> w. collator_released r c' = collator_released r c + v"
  using collator_ledger.unbond_locked_until(1) [OF assms] collator_ledger.unbond_released_at [OF assms]
  by (auto simp: collator_ledger.released collator_released_def)

text \<open>C16: \<^verbatim>\<open>bond_less\<close> succeeds exactly for a signed active collator whose active stake exceeds the amount and
  keeps the minimum. The amount stops being active at once, the recorded total stays, and the
  stake is locked until \<^verbatim>\<open>bond_duration\<close> rounds later: what a round change releases for the collator before
  that round is what it would have released anyway, and from that round on it is the amount more.\<close>

theorem bond_less_locks_until:
  assumes "sm_get (Collators s) who = Some c" and "StakingCollators_is_active c"
  shows "(snd (bond_less cfg (Signed who) v s) = Ok \<longleftrightarrow> v < co_active c \<and> MinCollatorStake cfg \<le> co_active c - v) \<and>
    (snd (bond_less cfg (Signed who) v s) = Ok \<longrightarrow>
      (\<exists>c'. sm_get (Collators (fst (bond_less cfg (Signed who) v s))) who = Some c' \<and>
        (\<forall>a. a \<noteq> who \<longrightarrow> sm_get (Collators (fst (bond_less cfg (Signed who) v s))) a = sm_get (Collators s) a) \<and>
        co_active c' = co_active c - v \<and> co_total c' = co_total c \<and>
        (\<forall>r < ri_index (CurrentRound s) + bond_duration (Settings s). collator_released r c' = collator_released r c) \<and>
        (\<forall>r \<ge> ri_index (CurrentRound s) + bond_duration (Settings s). collator_released r c' = collator_released r c + v)))"
proof (cases "v < co_active c \<and> MinCollatorStake cfg \<le> co_active c - v")
  case True
  then obtain c' where w: "collator_withdraw c v (withdraw_round s) = Some c'"
    and c': "StakingCollators_bond_less c v (withdraw_round s) = (c', Some (co_active c - v))"
    by (simp add: collator_withdraw_Some bond_less_Some)
  have "bond_less cfg (Signed who) v s = (deposit_event (BondLess who v) (put_collator cfg who c' s), Ok)"
    using assms c' True by (simp add: bond_less_def)
  moreover have "co_active c' = co_active c - v" "co_total c' = co_total c"
    using w by (auto simp: collator_withdraw_Some)
  ultimately show ?thesis
    using collator_withdraw_released [OF w] True by (simp add: withdraw_round_def)
next
  case False
  then show ?thesis using assms by (auto simp: bond_less_def StakingCollators_bond_less_def Let_def)
qed

theorem bond_less_locks_until_witness:
  "\<exists>c'. sm_get (Collators (fst (bond_less demo_cfg (Signed 1) 100 demo2))) 1 = Some c' \<and>
     co_active c' = 400 \<and> co_total c' = 500 \<and> collator_released 3 c' = 0 \<and> collator_released 4 c' = 100"
proof -
  obtain c where c: "sm_get (Collators demo2) 1 = Some c" "StakingCollators_is_active c" "co_active c = 500"
    "co_total c = 500" "co_unbonding c = []"
    by (simp add: demo2_simps StakingCollators_is_active_def)
  have "collator_released r c = 0" for r by (simp add: collator_released_def c)
  then show ?thesis using bond_less_locks_until [OF c(1,2), of demo_cfg 100] c
    by (auto simp: demo2_simps demo_cfg_def)
qed

text \<open>\<^verbatim>\<open>bond_extra\<close> adds the amount to the recorded total of an active collator but not to its active
  stake: it is locked, and the next round change turns exactly the amounts that are due into
  active stake. Collators that are absent or still onboarding are refused.\<close>

theorem bond_extra_correct:
  "(snd (bond_extra cfg (Signed who) v s) =
      (case sm_get (Collators s) who of
         None \<Rightarrow> Err (Module BondNotExist)
       | Some c \<Rightarrow> if co_status c = Active then Ok else Err (Module CandidateNotActive))) \<and>
   (\<forall>c. sm_get (Collators s) who = Some c \<and> co_status c = Active \<longrightarrow>
      (\<exists>c'. sm_get (Collators (fst (bond_extra cfg (Signed who) v s))) = (sm_get (Collators s))(who \<mapsto> c') \<and>
         co_total c' = co_total c + v \<and> co_active c' = co_active c \<and>
         co_active (updated_collator (ri_index (CurrentRound s) + 1) c') =
           co_active (updated_collator (ri_index (CurrentRound s) + 1) c) + v \<and>
         TotalStaked (fst (bond_extra cfg (Signed who) v s)) = TotalStaked s + v))"
  by (auto simp: bond_extra_def Let_def StakingCollators_is_active_def StakingCollators_bond_extra_def
      RoundInfo_next_round_index_def updated_collator_def ledger_simps fun_eq_iff split: option.splits)

theorem bond_extra_correct_witness:
  "snd (bond_extra demo_cfg (Signed 1) 70 demo2) = Ok \<and>
   TotalStaked (fst (bond_extra demo_cfg (Signed 1) 70 demo2)) = 770"
  using bond_extra_correct [of demo_cfg 1 70 demo2] by (auto simp: demo2_simps)

text \<open>\<^verbatim>\<open>force_onboard\<close> is for the root origin only. In a reachable state it makes an onboarding collator
  active with its whole recorded total and keeps the total; an active collator is refused.\<close>

theorem force_onboard_correct:
  assumes "staking_reachable cfg s" and "sm_get (Collators s) cand = Some c"
  shows "snd (force_onboard cfg origin cand s) =
      (if origin \<noteq> Root then Err BadOrigin else if co_status c = Active then Err (Module CandidateNotActive) else Ok) \<and>
    (snd (force_onboard cfg origin cand s) = Ok \<longrightarrow>
      (\<exists>c'. sm_get (Collators (fst (force_onboard cfg origin cand s))) = (sm_get (Collators s))(cand \<mapsto> c') \<and>
        co_status c' = Active \<and> co_total c' = co_total c \<and> co_active c' = unlocking_sum (co_unlocking c) \<and> co_unlocking c' = []))"
proof -
  have "collator_ok (MaxNominationsPerCollator cfg) c"
    using collators_ok_get [OF collators_invariant.reachable_inv [OF assms(1)] assms(2)] .
  then show ?thesis using assms(2)
    by (auto simp: force_onboard_def Let_def StakingCollators_is_active_def StakingCollators_force_bond_def
        collator_ok_def collator_backing_def fun_eq_iff)
qed

theorem force_onboard_correct_witness:
  "snd (force_onboard demo_cfg Root 1 demo0) = Ok \<and> snd (force_onboard demo_cfg Root 1 demo2) = Err (Module CandidateNotActive)"
  using force_onboard_correct [OF demo0_reachable, of 1 _ Root] force_onboard_correct [OF demo2_reachable, of 1 _ Root]
  by (simp add: demo0_simps demo2_simps)

text \<open>C19: \<^verbatim>\<open>collator_unbond\<close> takes a collator out of the collators at once, so that it can no longer author or
  be voted for, and queues its active and unbonding stake to leave after the bonding duration; the
  other collators and exits stay.\<close>

theorem collator_unbond_correct:
  assumes "sm_get (Collators s) who = Some c"
  shows "snd (collator_unbond cfg (Signed who) s) = Ok \<and>
    (let s' = fst (collator_unbond cfg (Signed who) s) in
     sm_get (Collators s') = (sm_get (Collators s))(who := None) \<and> \<not> can_author s' who \<and>
     who \<notin> set (get_npos_targets s') \<and>
     sm_get (ExitQueue s') = (sm_get (ExitQueue s))(who \<mapsto>
       \<lparr>lv_remaining = co_active c, lv_unbonding = co_unbonding c,
        lv_when = ri_index (CurrentRound s) + bond_duration (Settings s)\<rparr>) \<and>
     currency s' = unreserve_all cfg (map (\<lambda>b. (owner b, amount b)) (co_nominations c)) (currency s))"
proof -
  let ?u = "\<lambda>n. do_unreserve cfg (owner n) (amount n)"
  have cur: "currency (fold ?u bs t) = unreserve_all cfg (map (\<lambda>b. (owner b, amount b)) bs) (currency t)" for bs t
    unfolding unreserve_all_def fold_map comp_def by (rule fold_project) simp
  have keep: "Collators (fold ?u bs t) = Collators t" "ExitQueue (fold ?u bs t) = ExitQueue t" for bs t
    by (rule fold_invariant, simp)+
  show ?thesis using assms
    by (auto simp: collator_unbond_def Let_def cur keep fun_eq_iff can_author_def get_npos_targets_def
        withdraw_round_def Leaving_new_def set_sm_remove)
qed

theorem collator_unbond_correct_witness:
  "snd (collator_unbond demo_cfg (Signed 1) demo2) = Ok \<and> \<not> can_author (fst (collator_unbond demo_cfg (Signed 1) demo2)) 1"
  using collator_unbond_correct [of demo2 1 _ demo_cfg] by (simp add: demo2_simps Let_def)

section \<open>Calls of nominators\<close>

abbreviation nominations_of :: "('acc, 'c) staking_state \<Rightarrow> 'acc \<Rightarrow> 'acc Bond list" where
  "nominations_of s who \<equiv> (case sm_get (Nominators s) who of Some n \<Rightarrow> no_nominations n | None \<Rightarrow> [])"

abbreviation nominated_total :: "('acc, 'c) staking_state \<Rightarrow> 'acc \<Rightarrow> Balance" where
  "nominated_total s who \<equiv> (case sm_get (Nominators s) who of Some n \<Rightarrow> no_total n | None \<Rightarrow> 0)"

lemma add_nomination_True:
  "snd (StakingNominators_add_nomination n b) \<Longrightarrow>
     fst (StakingNominators_add_nomination n b) = n\<lparr>no_total := no_total n + amount b, no_nominations := no_nominations n @ [b]\<rparr>"
  "StakingCollators_add_nomination c b = (c', True) \<Longrightarrow> c' = c\<lparr>co_nominations := co_nominations c @ [b]\<rparr>"
  by (auto simp: StakingNominators_add_nomination_def StakingCollators_add_nomination_def split: sum.splits)

definition nominator_after :: "('acc, 'c) staking_state \<Rightarrow> 'acc \<Rightarrow> 'acc Bond \<Rightarrow> 'acc StakingNominators" where
  "nominator_after s who b =
     (case sm_get (Nominators s) who of
        Some n \<Rightarrow> n\<lparr>no_total := no_total n + amount b, no_nominations := no_nominations n @ [b]\<rparr>
      | None \<Rightarrow> StakingNominators_new [b] (amount b))"

lemma nominator_after_simps:
  "no_nominations (nominator_after s who b) = nominations_of s who @ [b]"
  "no_total (nominator_after s who b) = nominated_total s who + amount b"
  by (simp_all add: nominator_after_def StakingNominators_new_def split: option.split)

lemma nominate_Ok:
  assumes "nominate cfg (Signed who) cand amt s = (s', Ok)"
  shows "\<exists>c. sm_get (Collators s) cand = Some c \<and> co_status c = Active \<and>
    MinNominatorStake cfg \<le> amt \<and> length (co_nominations c) < unat (MaxNominationsPerCollator cfg) \<and>
    s' = deposit_event (Nominate cand amt) ((do_reserve cfg who amt
       (put_collator cfg cand (c\<lparr>co_nominations := co_nominations c @ [\<lparr>owner = who, amount = amt\<rparr>]\<rparr>)
         (put_nominator cfg who (nominator_after s who \<lparr>owner = cand, amount = amt\<rparr>) s)))\<lparr>TotalStaked := TotalStaked s + amt\<rparr>)"
  using assms unfolding nominate_def
  by (auto simp: Let_def StakingCollators_is_active_def nominator_after_def add_nomination_True(1)
      split: option.splits if_splits prod.splits bool.splits dest!: add_nomination_True(2))

text \<open>C17: A nomination that succeeds is of at least the minimum and for an active collator below its
  nomination limit; it is recorded on both sides, at the end of the nominator's and of the
  collator's list, adds the amount to the nominator's vote weight and to the total stake, and
  changes no other nominator or collator.\<close>

theorem nominate_correct:
  assumes "nominate cfg (Signed who) cand amt s = (s', Ok)"
  shows "\<exists>c n' c'. sm_get (Collators s) cand = Some c \<and> co_status c = Active \<and> MinNominatorStake cfg \<le> amt \<and>
    sm_get (Nominators s') who = Some n' \<and> sm_get (Collators s') cand = Some c' \<and>
    (\<forall>a. a \<noteq> who \<longrightarrow> sm_get (Nominators s') a = sm_get (Nominators s) a) \<and>
    (\<forall>a. a \<noteq> cand \<longrightarrow> sm_get (Collators s') a = sm_get (Collators s) a) \<and>
    no_nominations n' = nominations_of s who @ [\<lparr>owner = cand, amount = amt\<rparr>] \<and>
    co_nominations c' = co_nominations c @ [\<lparr>owner = who, amount = amt\<rparr>] \<and>
    length (co_nominations c') \<le> unat (MaxNominationsPerCollator cfg) \<and>
    co_active c' = co_active c \<and> co_total c' = co_total c \<and>
    slashable_balance_of s' who Nominator = slashable_balance_of s who Nominator + amt \<and>
    TotalStaked s' = TotalStaked s + amt \<and> currency s' = fst (reserve (Currency cfg) (currency s) who amt)"
  using nominate_Ok [OF assms]
  by (auto simp: fun_eq_iff slashable_balance_of_def nominator_after_simps)

lemma demo_nominate: "nominate demo_cfg (Signed 2) 1 200 demo1 = (demo2, Ok)"
  unfolding demo2_def
  by (simp add: nominate_def demo1_simps demo_cfg_def StakingCollators_is_active_def Let_def
      StakingCollators_add_nomination_def bond_search_def binary_search_by_def binary_search_loop.simps)

theorem nominate_correct_witness: "slashable_balance_of demo2 2 Nominator = slashable_balance_of demo1 2 Nominator + 200"
  using nominate_correct [OF demo_nominate] by blast

lemma nominate_less_Some:
  assumes "StakingNominators_nominate_less n \<lparr>owner = cand, amount = v\<rparr> w = (n', Some (Some k))"
  shows "nominator_withdraw cand n v w = Some n'"
  using assms by (simp add: nominator_withdraw_def)

lemma nominator_withdraw_released:
  assumes "nominator_withdraw cand n v w = Some n'"
  shows "\<forall>r < w. nominator_released r n' = nominator_released r n"
    and "\<forall>r \<ge> w. nominator_released r n' = nominator_released r n + v"
  using nominator_ledger.unbond_locked_until(1) [OF assms] nominator_ledger.unbond_released_at [OF assms]
  by (auto simp: nominator_ledger.released nominator_released_def)

lemma collator_nominate_less_sum:
  "StakingCollators_nominate_less c b = (c', Some (Some k)) \<Longrightarrow>
   c' = c\<lparr>co_nominations := co_nominations c'\<rparr> \<and> bonds_sum (co_nominations c') = bonds_sum (co_nominations c) - amount b"
  using bonds_less_sum [of b "co_nominations c" k]
  by (auto simp: StakingCollators_nominate_less_def split: prod.splits)

text \<open>C18: A nominator that reduces a nomination with \<^verbatim>\<open>nominate_less\<close> takes the amount off both records at once; its
  recorded total, which is its vote weight, stays until the bonding duration is over, and only
  the round changes from then on release the amount.\<close>

theorem nominate_less_correct:
  assumes "nominate_less cfg (Signed who) cand v s = (s', Ok)"
  shows "\<exists>n n' c c'. sm_get (Nominators s) who = Some n \<and> sm_get (Collators s) cand = Some c \<and> co_status c = Active \<and>
    sm_get (Nominators s') = (sm_get (Nominators s))(who \<mapsto> n') \<and>
    sm_get (Collators s') = (sm_get (Collators s))(cand \<mapsto> c') \<and>
    bonds_sum (no_nominations n') = bonds_sum (no_nominations n) - v \<and>
    bonds_sum (co_nominations c') = bonds_sum (co_nominations c) - v \<and>
    no_total n' = no_total n \<and>
    (\<forall>r < ri_index (CurrentRound s) + bond_duration (Settings s). nominator_released r n' = nominator_released r n) \<and>
    (\<forall>r \<ge> ri_index (CurrentRound s) + bond_duration (Settings s). nominator_released r n' = nominator_released r n + v) \<and>
    TotalStaked s' = TotalStaked s \<and> currency s' = currency s"
proof -
  obtain c n n' k c' k' where *: "sm_get (Collators s) cand = Some c" "co_status c = Active" "sm_get (Nominators s) who = Some n"
    "StakingNominators_nominate_less n \<lparr>owner = cand, amount = v\<rparr> (withdraw_round s) = (n', Some (Some k))"
    "StakingCollators_nominate_less c \<lparr>owner = who, amount = v\<rparr> = (c', Some (Some k'))"
    "s' = deposit_event (NominateLess cand v) (put_nominator cfg who n' (put_collator cfg cand c' s))"
    using assms by (auto simp: nominate_less_def Let_def StakingCollators_is_active_def split: option.splits if_splits prod.splits)
  note w = nominate_less_Some [OF *(4)]
  show ?thesis
    using * nominator_withdraw_released [OF w] nominator_withdraw_Some [OF w] collator_nominate_less_sum [OF *(5)]
    by (intro exI [of _ n] exI [of _ n'] exI [of _ c] exI [of _ c']) (auto simp: fun_eq_iff withdraw_round_def)
qed

lemma demo_nominate_less:
  "nominate_less demo_cfg (Signed 2) 1 30 demo2 = (fst (nominate_less demo_cfg (Signed 2) 1 30 demo2), Ok)"
  by (simp add: nominate_less_def demo2_simps demo_cfg_def StakingCollators_is_active_def Let_def
      StakingNominators_nominate_less_def StakingCollators_nominate_less_def)

theorem nominate_less_correct_witness:
  "TotalStaked (fst (nominate_less demo_cfg (Signed 2) 1 30 demo2)) = TotalStaked demo2"
  using nominate_less_correct [OF demo_nominate_less] by blast

lemma rm_nomination_Some:
  "StakingNominators_rm_nomination n cand w = (n', Some k) \<longleftrightarrow>
     (\<exists>v. snd (bonds_remove cand None (no_nominations n)) = Some v \<and> k = no_total n \<and>
        n' = n\<lparr>no_nominations := filter (\<lambda>b. owner b \<noteq> cand) (no_nominations n),
               no_unbonding := no_unbonding n @ [\<lparr>ub_value = v, ub_round = w\<rparr>]\<rparr>)"
  using bonds_remove_fst [of cand None "no_nominations n"]
  by (auto simp: StakingNominators_rm_nomination_def split: prod.splits option.splits)

lemma leave_Ok:
  assumes "nominator_leave_collator cfg (Signed who) cand s = (s', Ok)"
  shows "\<exists>n n' k c c' k'. sm_get (Nominators s) who = Some n \<and> sm_get (Collators s) cand = Some c \<and>
    StakingNominators_rm_nomination n cand (withdraw_round s) = (n', Some k) \<and>
    StakingCollators_rm_nomination c who = (c', Some k') \<and>
    s' = deposit_event (NominatorLeaveCollator who cand) (put_nominator cfg who n' (put_collator cfg cand c' s))"
  using assms by (auto simp: nominator_leave_collator_def Let_def split: option.splits prod.splits)

text \<open>When a nominator leaves a collator, no bond of the pair is left on either side, every other bond
  is kept in its order, and the bond that was recorded is queued for release after the bonding
  duration, while nothing is unreserved yet.\<close>

theorem nominator_leave_collator_correct:
  assumes "nominator_leave_collator cfg (Signed who) cand s = (s', Ok)"
  shows "\<exists>n n' c c' v. sm_get (Nominators s) who = Some n \<and> sm_get (Collators s) cand = Some c \<and>
    sm_get (Nominators s') = (sm_get (Nominators s))(who \<mapsto> n') \<and>
    sm_get (Collators s') = (sm_get (Collators s))(cand \<mapsto> c') \<and>
    no_nominations n' = filter (\<lambda>b. owner b \<noteq> cand) (no_nominations n) \<and>
    co_nominations c' = filter (\<lambda>b. owner b \<noteq> who) (co_nominations c) \<and>
    \<lparr>owner = cand, amount = v\<rparr> \<in> set (no_nominations n) \<and>
    no_unbonding n' = no_unbonding n @ [\<lparr>ub_value = v, ub_round = ri_index (CurrentRound s) + bond_duration (Settings s)\<rparr>] \<and>
    no_total n' = no_total n \<and> TotalStaked s' = TotalStaked s \<and> currency s' = currency s"
proof -
  obtain n n' k c c' k' where *: "sm_get (Nominators s) who = Some n" "sm_get (Collators s) cand = Some c"
    "StakingNominators_rm_nomination n cand (withdraw_round s) = (n', Some k)"
    "StakingCollators_rm_nomination c who = (c', Some k')"
    "s' = deposit_event (NominatorLeaveCollator who cand) (put_nominator cfg who n' (put_collator cfg cand c' s))"
    using leave_Ok [OF assms] by blast
  then obtain v where v: "snd (bonds_remove cand None (no_nominations n)) = Some v"
    and n': "n' = n\<lparr>no_nominations := filter (\<lambda>b. owner b \<noteq> cand) (no_nominations n),
               no_unbonding := no_unbonding n @ [\<lparr>ub_value = v, ub_round = withdraw_round s\<rparr>]\<rparr>"
    by (auto simp: rm_nomination_Some)
  have "\<lparr>owner = cand, amount = v\<rparr> \<in> set (no_nominations n)"
    by (rule bonds_remove_member [OF v])
  with * n' rm_nomination_nominations [OF *(4)] show ?thesis
    by (intro exI [of _ n] exI [of _ n'] exI [of _ c] exI [of _ c'] exI [of _ v]) (auto simp: fun_eq_iff withdraw_round_def)
qed

lemma demo_leave:
  "nominator_leave_collator demo_cfg (Signed 2) 1 demo2 = (fst (nominator_leave_collator demo_cfg (Signed 2) 1 demo2), Ok)"
  by (simp add: nominator_leave_collator_def demo2_simps Let_def StakingNominators_rm_nomination_def
      StakingCollators_rm_nomination_def)

theorem nominator_leave_collator_correct_witness:
  "currency (fst (nominator_leave_collator demo_cfg (Signed 2) 1 demo2)) = currency demo2"
  using nominator_leave_collator_correct [OF demo_leave] by blast

section \<open>The nominator ledger\<close>

definition nominator_balanced :: "'acc StakingNominators \<Rightarrow> bool" where
  "nominator_balanced n \<longleftrightarrow> no_total n = bonds_sum (no_nominations n) + unbonding_sum (no_unbonding n)"

definition nominators_ok :: "('acc StakingNominators \<Rightarrow> bool) \<Rightarrow> ('acc, 'acc StakingNominators) smap \<Rightarrow> bool" where
  "nominators_ok P ns \<longleftrightarrow> distinct (keys ns) \<and> (\<forall>(a, n) \<in> set ns. P n)"

lemma nominators_ok_get: "nominators_ok P ns \<Longrightarrow> sm_get ns a = Some n \<Longrightarrow> P n"
  unfolding nominators_ok_def by (auto dest: map_of_SomeD)

lemma nominators_ok_insert: "nominators_ok P ns \<Longrightarrow> P n \<Longrightarrow> nominators_ok P (sm_insert before a n ns)"
  unfolding nominators_ok_def using set_sm_insert_subset [of before a n ns] by auto

lemma nominators_ok_mono: "nominators_ok P ns \<Longrightarrow> (\<And>n. P n \<Longrightarrow> Q n) \<Longrightarrow> nominators_ok Q ns"
  unfolding nominators_ok_def by auto

lemma nominators_ok_map:
  "nominators_ok P ns \<Longrightarrow> (\<And>n. P n \<Longrightarrow> Q (f n)) \<Longrightarrow> nominators_ok Q (map (\<lambda>(a, n). (a, f n)) ns)"
  unfolding nominators_ok_def by (auto simp: comp_def case_prod_beta)

lemma nominator_balanced_new: "nominator_balanced (StakingNominators_new [b] (amount b))"
  by (simp add: nominator_balanced_def StakingNominators_new_def)

lemma nominator_balanced_add:
  "nominator_balanced n \<Longrightarrow> snd (StakingNominators_add_nomination n b) \<Longrightarrow>
   nominator_balanced (fst (StakingNominators_add_nomination n b))"
  by (simp add: nominator_balanced_def add_nomination_True(1))

lemma nominator_balanced_extra:
  "nominator_balanced n \<Longrightarrow> StakingNominators_nominate_extra n b = (n', Some v) \<Longrightarrow> nominator_balanced n'"
  using bonds_extra_sum [of b "no_nominations n"]
  by (auto simp: nominator_balanced_def StakingNominators_nominate_extra_def split: prod.splits option.splits)

lemma nominator_balanced_less:
  assumes "nominator_balanced n" and "StakingNominators_nominate_less n \<lparr>owner = a, amount = x\<rparr> w = (n', Some (Some v))"
  shows "nominator_balanced n'"
  using assms(1) nominator_ledger.balanced_unbond [OF _ nominate_less_Some [OF assms(2)]]
  by (auto simp: nominator_balanced_def nominator_backing_def)

lemma nominator_balanced_rm:
  assumes "nominator_balanced n" and "distinct (map owner (no_nominations n))"
    and "StakingNominators_rm_nomination n a w = (n', Some v)"
  shows "nominator_balanced n'"
  using assms(1,3) bonds_remove_sum [OF assms(2), of a]
  by (auto simp: nominator_balanced_def rm_nomination_Some bonds_remove_fst)

lemma nominator_balanced_consolidate:
  "nominator_balanced n \<Longrightarrow> nominator_balanced (StakingNominators_consolidate_unbonded n r)"
  using nominator_ledger.balanced_consolidate [of n r] by (simp add: nominator_balanced_def nominator_backing_def)

abbreviation nominator_sound :: "'acc StakingNominators \<Rightarrow> bool" where
  "nominator_sound n \<equiv> nominator_balanced n \<and> distinct (map owner (no_nominations n))"

lemma nominators_ok_nominate:
  assumes "nominators_ok nominator_balanced (Nominators s)"
  shows "nominators_ok nominator_balanced (Nominators (fst (nominate cfg origin a v s)))"
  using assms nominator_balanced_new [of "\<lparr>owner = a, amount = v\<rparr>"] unfolding nominate_def Let_def
  by (auto split: option.splits prod.splits bool.splits intro!: nominators_ok_insert nominator_balanced_add
      dest: nominators_ok_get)

lemma nominators_ok_dispatch:
  assumes "nominators_ok nominator_sound (Nominators s)"
  shows "nominators_ok nominator_balanced (Nominators (fst (staking_dispatch cfg origin call s)))"
proof -
  have bal: "nominators_ok nominator_balanced (Nominators s)"
    using assms by (rule nominators_ok_mono) simp
  note get = nominators_ok_get [OF assms]
  show ?thesis
  proof (cases call)
    case (Call_nominate a v)
    then show ?thesis using nominators_ok_nominate [OF bal] by simp
  next
    case (Call_nominate_extra a v)
    then show ?thesis using bal get
      by (auto simp: nominate_extra_def Let_def split: option.splits prod.splits
          intro!: nominators_ok_insert intro: nominator_balanced_extra)
  next
    case (Call_nominate_less a v)
    then show ?thesis using bal get
      by (auto simp: nominate_less_def Let_def split: option.splits prod.splits
          intro!: nominators_ok_insert intro: nominator_balanced_less)
  next
    case (Call_nominator_leave_collator a)
    then show ?thesis using bal get
      by (auto simp: nominator_leave_collator_def Let_def split: option.splits prod.splits
          intro!: nominators_ok_insert intro: nominator_balanced_rm)
  qed (use bal in \<open>auto simp: call_defs Let_def fold_invariant [where f = Nominators] split: option.splits prod.splits\<close>)
qed

lemma on_finalize_nominators:
  assumes "distinct (keys (Nominators s))"
  shows "Nominators (on_finalize cfg el now s) =
     (if RoundInfo_should_goto_next_round (CurrentRound s) now
      then map (\<lambda>(a, n). (a, StakingNominators_consolidate_unbonded n (ri_index (CurrentRound s) + 1))) (Nominators s)
      else Nominators s)"
  using assms by (simp add: on_finalize_def Let_def RoundInfo_update_def update_nominators_nominators)

text \<open>C14: Every step of the pallet keeps the nominator ledgers balanced: if each nominator's total is its
  bonds plus its unbonding stake and no nominator has two bonds with one collator, then after any
  call, round change or authored block each total is still bonds plus unbonding stake.\<close>

theorem nominator_ledgers_balanced:
  assumes "nominators_ok nominator_sound (Nominators s)" and "staking_step cfg s s'"
  shows "nominators_ok nominator_balanced (Nominators s')"
  using assms(2)
proof cases
  case (step_call origin call)
  then show ?thesis using nominators_ok_dispatch [OF assms(1)] by simp
next
  case (step_finalize elect now)
  have "distinct (keys (Nominators s))" using assms(1) by (simp add: nominators_ok_def)
  with step_finalize assms(1) show ?thesis
    by (auto simp: on_finalize_nominators intro: nominators_ok_mono intro!: nominators_ok_map nominator_balanced_consolidate)
qed (use assms(1) in \<open>auto simp: nominators_ok_def note_author_def Let_def\<close>)

theorem nominator_ledgers_balanced_witness:
  "nominators_ok nominator_balanced (Nominators (fst (staking_dispatch demo_cfg (Signed 2) (Call_nominate_less 1 30) demo2)))"
proof (rule nominator_ledgers_balanced)
  show "nominators_ok nominator_sound (Nominators demo2)"
    by (simp add: demo2_simps nominators_ok_def nominator_balanced_def)
qed (rule step_call)

end
