(* ===== verification/Treasury.thy ===== *)
theory Treasury
  imports Currency
begin

text \<open>
  The treasury pallet (\<^verbatim>\<open>pallets/treasury/src/lib.rs\<close>): donations into the treasury account, root
  allocations out of it, and the pot. The account derived from the pallet id is a parameter.
\<close>

datatype treasury_error = InsufficientBalance | ScantyAmount | FailedDonation | FailedAllocation

datatype 'acc treasury_event = DonationReceived 'acc Balance Balance | FundsAllocated 'acc Balance Balance

record ('acc, 'c) treasury_config =
  tr_Currency :: "('acc, 'c) currency_ops"
  account_id :: 'acc

record ('acc, 'c) treasury_state =
  tr_currency :: 'c
  tr_events :: "'acc treasury_event list"

definition pot :: "('acc, 'c) treasury_config \<Rightarrow> 'c \<Rightarrow> Balance" where
  "pot cfg c = saturating_sub (free_balance (tr_Currency cfg) c (account_id cfg)) (minimum_balance (tr_Currency cfg))"

definition donate ::
    "('acc, 'c) treasury_config \<Rightarrow> 'acc raw_origin \<Rightarrow> Balance \<Rightarrow> ('acc, 'c) treasury_state \<Rightarrow>
     ('acc, 'c) treasury_state \<times> treasury_error outcome" where
  "donate cfg origin amt s =
     (case ensure_signed origin of
        None \<Rightarrow> (s, Err BadOrigin)
      | Some sender \<Rightarrow>
          if \<not> amt \<ge> minimum_balance (tr_Currency cfg) then (s, Err (Module ScantyAmount))
          else case transfer_allow_death (tr_Currency cfg) (tr_currency s) sender (account_id cfg) amt of
            (c, False) \<Rightarrow> (s\<lparr>tr_currency := c\<rparr>, Err (Module FailedDonation))
          | (c, True) \<Rightarrow> (s\<lparr>tr_currency := c, tr_events := tr_events s @ [DonationReceived sender amt (pot cfg c)]\<rparr>, Ok))"

definition allocate ::
    "('acc, 'c) treasury_config \<Rightarrow> 'acc raw_origin \<Rightarrow> 'acc \<Rightarrow> Balance \<Rightarrow> ('acc, 'c) treasury_state \<Rightarrow>
     ('acc, 'c) treasury_state \<times> treasury_error outcome" where
  "allocate cfg origin dest amt s =
     (if \<not> ensure_root origin then (s, Err BadOrigin)
      else if \<not> amt \<ge> minimum_balance (tr_Currency cfg) then (s, Err (Module ScantyAmount))
      else case transfer_allow_death (tr_Currency cfg) (tr_currency s) (account_id cfg) dest amt of
        (c, False) \<Rightarrow> (s\<lparr>tr_currency := c\<rparr>, Err (Module FailedAllocation))
      | (c, True) \<Rightarrow> (s\<lparr>tr_currency := c, tr_events := tr_events s @ [FundsAllocated dest amt (pot cfg c)]\<rparr>, Ok))"

section \<open>Properties\<close>

definition demo_treasury :: "(nat, ledger) treasury_config" where
  "demo_treasury = \<lparr>tr_Currency = ledger_currency 10, account_id = 0\<rparr>"

definition demo_treasury_state :: "(nat, ledger) treasury_state" where
  "demo_treasury_state = \<lparr>tr_currency = ledger_of [(0, 500), (1, 300)], tr_events = []\<rparr>"

lemmas treasury_cases = prod.splits bool.splits option.splits

text \<open>Money leaves the treasury account only by a root allocation: an \<^verbatim>\<open>allocate\<close> that succeeds comes from
  root, is at least the minimum balance and at most what the account holds, and pays exactly that
  amount to the destination; one that fails changes nothing.\<close>

theorem allocate_correct:
  assumes "transfer_documented (tr_Currency cfg)" and "dest \<noteq> account_id cfg"
  shows "let s' = fst (allocate cfg origin dest v s); free = (\<lambda>s. free_balance (tr_Currency cfg) (tr_currency s)) in
    (snd (allocate cfg origin dest v s) = Ok \<longrightarrow>
       origin = Root \<and> minimum_balance (tr_Currency cfg) \<le> v \<and> v \<le> free s (account_id cfg) \<and>
       free s' (account_id cfg) \<le> free s (account_id cfg) - v \<and> free s' dest = free s dest + v \<and>
       (\<forall>a. a \<noteq> dest \<longrightarrow> a \<noteq> account_id cfg \<longrightarrow> free s' a = free s a) \<and>
       tr_events s' = tr_events s @ [FundsAllocated dest v (pot cfg (tr_currency s'))]) \<and>
    (snd (allocate cfg origin dest v s) \<noteq> Ok \<longrightarrow> s' = s)"
proof (cases "snd (allocate cfg origin dest v s) = Ok")
  case True
  then obtain c where o: "origin = Root" "minimum_balance (tr_Currency cfg) \<le> v"
    and t: "transfer_allow_death (tr_Currency cfg) (tr_currency s) (account_id cfg) dest v = (c, True)"
    and s': "fst (allocate cfg origin dest v s) = s\<lparr>tr_currency := c, tr_events := tr_events s @ [FundsAllocated dest v (pot cfg c)]\<rparr>"
    by (auto simp: allocate_def split: treasury_cases if_splits)
  note transfer_True [OF assms(1) t assms(2) [symmetric]]
  with True o show ?thesis unfolding Let_def s' by simp
next
  case False
  then have "fst (allocate cfg origin dest v s) = s"
    using assms(1) by (auto simp: allocate_def split: treasury_cases dest: transfer_False)
  with False show ?thesis by (simp add: Let_def)
qed

theorem allocate_correct_witness:
  "led_free (tr_currency (fst (allocate demo_treasury Root 1 50 demo_treasury_state))) 1 = 350 \<and>
   fst (allocate demo_treasury (Signed 1) 1 50 demo_treasury_state) = demo_treasury_state"
proof -
  have d: "transfer_documented (tr_Currency demo_treasury)" "1 \<noteq> account_id demo_treasury"
    by (simp_all add: demo_treasury_def ledger_currency_transfer)
  show ?thesis
    using allocate_correct [OF d, of Root 50 demo_treasury_state] allocate_correct [OF d, of "Signed 1" 50 demo_treasury_state]
    by (simp add: Let_def allocate_def demo_treasury_def demo_treasury_state_def ledger_currency_def ledger_of_def)
qed

text \<open>A donation that succeeds moves exactly the amount from the signed donor to the treasury account,
  the announced pot is the new balance less the existential deposit, and a donation that fails,
  also when the transfer is refused, changes nothing.\<close>

theorem donate_correct:
  assumes "transfer_documented (tr_Currency cfg)" and "who \<noteq> account_id cfg"
  shows "let s' = fst (donate cfg (Signed who) v s); free = (\<lambda>s. free_balance (tr_Currency cfg) (tr_currency s)) in
    (snd (donate cfg (Signed who) v s) = Ok \<longrightarrow>
       v \<le> free s who \<and> free s' who \<le> free s who - v \<and> free s' (account_id cfg) = free s (account_id cfg) + v \<and>
       (\<exists>p. tr_events s' = tr_events s @ [DonationReceived who v p] \<and>
          unat p = unat (free s' (account_id cfg)) - unat (minimum_balance (tr_Currency cfg)))) \<and>
    (snd (donate cfg (Signed who) v s) \<noteq> Ok \<longrightarrow> s' = s)"
proof (cases "snd (donate cfg (Signed who) v s) = Ok")
  case True
  then obtain c where t: "transfer_allow_death (tr_Currency cfg) (tr_currency s) who (account_id cfg) v = (c, True)"
    and s': "fst (donate cfg (Signed who) v s) = s\<lparr>tr_currency := c, tr_events := tr_events s @ [DonationReceived who v (pot cfg c)]\<rparr>"
    by (auto simp: donate_def split: treasury_cases if_splits)
  note transfer_True [OF assms(1) t assms(2)]
  with True show ?thesis unfolding Let_def s' by (simp add: pot_def unat_saturating_sub)
next
  case False
  then have "fst (donate cfg (Signed who) v s) = s"
    using assms(1) by (auto simp: donate_def split: treasury_cases dest: transfer_False)
  with False show ?thesis by (simp add: Let_def)
qed

theorem donate_correct_witness:
  "led_free (tr_currency (fst (donate demo_treasury (Signed 1) 100 demo_treasury_state))) 0 = 600"
proof -
  have d: "transfer_documented (tr_Currency demo_treasury)" "1 \<noteq> account_id demo_treasury"
    by (simp_all add: demo_treasury_def ledger_currency_transfer)
  show ?thesis
    using donate_correct [OF d, of 100 demo_treasury_state]
    by (simp add: Let_def donate_def demo_treasury_def demo_treasury_state_def ledger_currency_def ledger_of_def)
qed

end
