(* ===== verification/Crowdloan.thy ===== *)
theory Crowdloan
  imports Treasury
begin

text \<open>
  The crowdloan reward pallet (\<^verbatim>\<open>pallets/crowdloan-rewards/src/lib.rs\<close>): root registers the contributions of
  a crowdloan, a contributor ties its relay-chain account to a native account with a signature and
  then claims its reward block by block from the treasury account. Signature verification and
  the treasury account are parameters; the current block number is an argument of a call. The
  conversions between block numbers (32 bits) and balances (128 bits) cannot fail at these widths.
\<close>

section \<open>The pallet\<close>

record RewardInfo =
  total_reward :: Balance
  claimed_reward :: Balance
  last_paid :: BlockNumber

datatype crowdloan_error =
    InvalidEndBlock | AlreadyInitReward | InvalidSignature | AlreadyAssociated | AlreadyPaid | NoAssociatedAccount
  | NotContributedYet | BadRelayAccount | WrongConversionU128ToBalance | RewardFailed | ScantyReward

datatype ('acc, 'relay) crowdloan_event =
    EvAssociatedAccount 'acc 'relay
  | EvUpdateAssociateAccount 'acc 'relay
  | EvRewardPaid 'acc Balance

record ('acc, 'relay, 'sig, 'c) crowdloan_config =
  cl_treasury :: "('acc, 'c) treasury_config"
  verify :: "'sig \<Rightarrow> 'acc \<Rightarrow> 'relay \<Rightarrow> bool"

record ('acc, 'relay, 'c) crowdloan_state =
  Contributors :: "'relay \<rightharpoonup> RewardInfo"
  AssociatedAccount :: "'acc \<rightharpoonup> 'relay"
  CurrentRewardEndIn :: BlockNumber
  RewardPeriod :: BlockNumber
  cl_currency :: 'c
  cl_events :: "('acc, 'relay) crowdloan_event list"

abbreviation cl_fail :: "'s \<Rightarrow> crowdloan_error \<Rightarrow> 's \<times> crowdloan_error outcome" where
  "cl_fail s e \<equiv> (s, Err (Module e))"

definition initialize_reward ::
    "'acc raw_origin \<Rightarrow> BlockNumber \<Rightarrow> ('relay \<times> u32) list \<Rightarrow> u32 \<Rightarrow> BlockNumber \<Rightarrow> ('acc, 'relay, 'c) crowdloan_state \<Rightarrow>
     ('acc, 'relay, 'c) crowdloan_state \<times> crowdloan_error outcome" where
  "initialize_reward origin now contributions rate end_block s =
     (if \<not> ensure_root origin then (s, Err BadOrigin)
      else if \<not> now < end_block then cl_fail s InvalidEndBlock
      else if \<not> now \<ge> CurrentRewardEndIn s then cl_fail s AlreadyInitReward
      else
        let cs = fold (\<lambda>(account, amount) m.
              m(account \<mapsto> \<lparr>total_reward = saturating_mul (ucast amount) (ucast rate), claimed_reward = 0, last_paid = now\<rparr>))
              contributions (Contributors s)
        in (s\<lparr>Contributors := cs, CurrentRewardEndIn := end_block, RewardPeriod := end_block - now\<rparr>, Ok))"

definition associate_account ::
    "('acc, 'relay, 'sig, 'c) crowdloan_config \<Rightarrow> 'acc raw_origin \<Rightarrow> 'relay \<Rightarrow> 'sig \<Rightarrow> ('acc, 'relay, 'c) crowdloan_state \<Rightarrow>
     ('acc, 'relay, 'c) crowdloan_state \<times> crowdloan_error outcome" where
  "associate_account cfg origin relay_account proof' s =
     (case ensure_signed origin of
        None \<Rightarrow> (s, Err BadOrigin)
      | Some who \<Rightarrow>
          if \<not> verify cfg proof' who relay_account then cl_fail s InvalidSignature
          else if AssociatedAccount s who \<noteq> None then cl_fail s AlreadyAssociated
          else (s\<lparr>AssociatedAccount := (AssociatedAccount s)(who \<mapsto> relay_account),
                  cl_events := cl_events s @ [EvAssociatedAccount who relay_account]\<rparr>, Ok))"

definition update_associate_account ::
    "('acc, 'relay, 'sig, 'c) crowdloan_config \<Rightarrow> 'acc raw_origin \<Rightarrow> 'acc \<Rightarrow> 'relay \<Rightarrow> 'sig \<Rightarrow> ('acc, 'relay, 'c) crowdloan_state \<Rightarrow>
     ('acc, 'relay, 'c) crowdloan_state \<times> crowdloan_error outcome" where
  "update_associate_account cfg origin associated_native_account relay_account proof' s =
     (case ensure_signed origin of
        None \<Rightarrow> (s, Err BadOrigin)
      | Some who \<Rightarrow>
          if \<not> verify cfg proof' who relay_account then cl_fail s InvalidSignature
          else if AssociatedAccount s who \<noteq> None then cl_fail s AlreadyAssociated
          else case AssociatedAccount s associated_native_account of
            None \<Rightarrow> cl_fail s NoAssociatedAccount
          | Some relay_associated_account \<Rightarrow>
              if \<not> relay_account = relay_associated_account then cl_fail s BadRelayAccount
              else (s\<lparr>AssociatedAccount := (AssociatedAccount s)(associated_native_account := None, who \<mapsto> relay_account),
                      cl_events := cl_events s @ [EvUpdateAssociateAccount who relay_account]\<rparr>, Ok))"

definition get_money ::
    "('acc, 'relay, 'sig, 'c) crowdloan_config \<Rightarrow> 'acc raw_origin \<Rightarrow> BlockNumber \<Rightarrow> ('acc, 'relay, 'c) crowdloan_state \<Rightarrow>
     ('acc, 'relay, 'c) crowdloan_state \<times> crowdloan_error outcome" where
  "get_money cfg origin now s =
     (case ensure_signed origin of
        None \<Rightarrow> (s, Err BadOrigin)
      | Some who \<Rightarrow>
          (case AssociatedAccount s who of
             None \<Rightarrow> cl_fail s NoAssociatedAccount
           | Some relay_account \<Rightarrow>
               (case Contributors s relay_account of
                  None \<Rightarrow> cl_fail s NotContributedYet
                | Some info \<Rightarrow>
                    if \<not> total_reward info > claimed_reward info then cl_fail s AlreadyPaid
                    else
                      let reward_period = (ucast (RewardPeriod s) :: Balance) in
                      if reward_period = 0 then (s, Panic)
                      else
                        let reward_per_block = total_reward info div reward_period;
                            reward_period_as_balance = (ucast (saturating_sub now (last_paid info)) :: Balance);
                            amt = (if saturating_mul reward_per_block reward_period_as_balance > total_reward info - claimed_reward info
                                   then total_reward info - claimed_reward info
                                   else saturating_mul reward_per_block reward_period_as_balance);
                            info = info\<lparr>last_paid := now, claimed_reward := saturating_add (claimed_reward info) amt\<rparr>;
                            s1 = s\<lparr>Contributors := (Contributors s)(relay_account \<mapsto> info)\<rparr>;
                            cur = tr_Currency (cl_treasury cfg)
                        in if \<not> amt \<ge> minimum_balance cur then cl_fail s1 ScantyReward
                           else case transfer_allow_death cur (cl_currency s1) (account_id (cl_treasury cfg)) who amt of
                             (c, False) \<Rightarrow> cl_fail (s1\<lparr>cl_currency := c\<rparr>) RewardFailed
                           | (c, True) \<Rightarrow>
                               (s1\<lparr>cl_currency := c, cl_events := cl_events s1 @ [EvRewardPaid who amt]\<rparr>, Ok))))"

section \<open>What a claim is worth\<close>

definition claim_amount :: "BlockNumber \<Rightarrow> BlockNumber \<Rightarrow> RewardInfo \<Rightarrow> nat" where
  "claim_amount period now info =
     min (unat (total_reward info) div unat period * (unat now - unat (last_paid info)))
         (unat (total_reward info) - unat (claimed_reward info))"

definition claim_word :: "BlockNumber \<Rightarrow> BlockNumber \<Rightarrow> RewardInfo \<Rightarrow> Balance" where
  "claim_word period now info =
     (let v = saturating_mul (total_reward info div ucast period) (ucast (saturating_sub now (last_paid info))) in
      if v > total_reward info - claimed_reward info then total_reward info - claimed_reward info else v)"

lemma unat_ucast_balance: "unat (ucast (x :: u32) :: Balance) = unat x"
proof -
  have "unat x < 2 ^ 32" by (rule order_less_le_trans [OF unsigned_less]) simp
  then have "unat x < 2 ^ 128" by (rule order_less_trans) simp
  then show ?thesis by (simp add: unsigned_ucast_eq take_bit_nat_eq_self)
qed

lemma ucast_balance_zero: "(ucast (x :: u32) :: Balance) = 0 \<longleftrightarrow> x = 0"
  using unat_ucast_balance [of x] by (metis unat_eq_zero)

lemma unat_claim_word:
  assumes "claimed_reward info \<le> total_reward info"
  shows "unat (claim_word period now info) = claim_amount period now info"
proof -
  let ?v = "saturating_mul (total_reward info div ucast period) (ucast (saturating_sub now (last_paid info))) :: Balance"
  let ?n = "unat (total_reward info) div unat period * (unat now - unat (last_paid info))"
  have v: "unat ?v = min ?n (2 ^ 128 - 1)"
    by (simp add: unat_saturating_mul unat_div unat_ucast_balance unat_saturating_sub)
  have l: "unat (total_reward info - claimed_reward info) = unat (total_reward info) - unat (claimed_reward info)"
    by (simp add: unat_sub assms)
  have "unat (total_reward info) < 2 ^ 128" using unsigned_less [of "total_reward info"] by simp
  then have "unat (total_reward info) - unat (claimed_reward info) \<le> 2 ^ 128 - 1" by linarith
  then show ?thesis unfolding claim_word_def claim_amount_def Let_def word_less_nat_alt v l
    by (auto simp: v l min_def)
qed

lemma claim_amount_le: "claim_amount period now info \<le> unat (total_reward info) - unat (claimed_reward info)"
  by (simp add: claim_amount_def)

definition paid_info :: "BlockNumber \<Rightarrow> BlockNumber \<Rightarrow> RewardInfo \<Rightarrow> RewardInfo" where
  "paid_info period now info =
     info\<lparr>last_paid := now, claimed_reward := saturating_add (claimed_reward info) (claim_word period now info)\<rparr>"

lemma paid_info_simps:
  assumes "claimed_reward info \<le> total_reward info"
  shows "total_reward (paid_info p now info) = total_reward info" and "last_paid (paid_info p now info) = now"
    and "unat (claimed_reward (paid_info p now info)) = unat (claimed_reward info) + claim_amount p now info"
    and "claimed_reward (paid_info p now info) \<le> total_reward info"
proof -
  have "unat (total_reward info) < 2 ^ 128" using unsigned_less [of "total_reward info"] by simp
  then have u: "unat (claimed_reward info) + claim_amount p now info \<le> 2 ^ 128 - 1"
    "unat (claimed_reward info) + claim_amount p now info \<le> unat (total_reward info)"
    using claim_amount_le [of p now info] assms unfolding word_le_nat_alt by linarith+
  show "total_reward (paid_info p now info) = total_reward info" "last_paid (paid_info p now info) = now"
    by (simp_all add: paid_info_def)
  show c: "unat (claimed_reward (paid_info p now info)) = unat (claimed_reward info) + claim_amount p now info"
    using u(1) by (simp add: paid_info_def unat_saturating_add unat_claim_word [OF assms])
  show "claimed_reward (paid_info p now info) \<le> total_reward info"
    using u(2) c by (simp add: word_le_nat_alt)
qed

lemma get_money_eq:
  assumes "AssociatedAccount s who = Some r" and "Contributors s r = Some info"
  shows "get_money cfg (Signed who) now s =
    (if \<not> claimed_reward info < total_reward info then cl_fail s AlreadyPaid
     else if RewardPeriod s = 0 then (s, Panic)
     else let amt = claim_word (RewardPeriod s) now info;
              s1 = s\<lparr>Contributors := (Contributors s)(r \<mapsto> paid_info (RewardPeriod s) now info)\<rparr>;
              cur = tr_Currency (cl_treasury cfg) in
       if amt < minimum_balance cur then cl_fail s1 ScantyReward
       else case transfer_allow_death cur (cl_currency s) (account_id (cl_treasury cfg)) who amt of
         (c, False) \<Rightarrow> cl_fail (s1\<lparr>cl_currency := c\<rparr>) RewardFailed
       | (c, True) \<Rightarrow> (s1\<lparr>cl_currency := c, cl_events := cl_events s @ [EvRewardPaid who amt]\<rparr>, Ok))"
proof -
  have a: "(if saturating_mul (total_reward info div ucast (RewardPeriod s)) (ucast (saturating_sub now (last_paid info))) >
      total_reward info - claimed_reward info then total_reward info - claimed_reward info
      else saturating_mul (total_reward info div ucast (RewardPeriod s)) (ucast (saturating_sub now (last_paid info)))) =
    claim_word (RewardPeriod s) now info"
    by (simp add: claim_word_def)
  have p: "info\<lparr>last_paid := now, claimed_reward := saturating_add (claimed_reward info) (claim_word (RewardPeriod s) now info)\<rparr> =
    paid_info (RewardPeriod s) now info"
    by (simp add: paid_info_def)
  show ?thesis unfolding get_money_def Let_def
    by (simp add: assms ucast_balance_zero not_le a p)
qed

section \<open>The pallet as a state machine\<close>

datatype ('acc, 'relay, 'sig) crowdloan_call =
    Call_initialize_reward "('relay \<times> u32) list" u32 BlockNumber
  | Call_associate_account 'relay 'sig
  | Call_update_associate_account 'acc 'relay 'sig
  | Call_get_money

fun crowdloan_dispatch ::
    "('acc, 'relay, 'sig, 'c) crowdloan_config \<Rightarrow> 'acc raw_origin \<Rightarrow> BlockNumber \<Rightarrow> ('acc, 'relay, 'sig) crowdloan_call \<Rightarrow>
     ('acc, 'relay, 'c) crowdloan_state \<Rightarrow> ('acc, 'relay, 'c) crowdloan_state \<times> crowdloan_error outcome" where
  "crowdloan_dispatch cfg origin now (Call_initialize_reward cs rate e) s = initialize_reward origin now cs rate e s"
| "crowdloan_dispatch cfg origin now (Call_associate_account r p) s = associate_account cfg origin r p s"
| "crowdloan_dispatch cfg origin now (Call_update_associate_account a r p) s = update_associate_account cfg origin a r p s"
| "crowdloan_dispatch cfg origin now Call_get_money s = get_money cfg origin now s"

inductive crowdloan_step ::
    "('acc, 'relay, 'sig, 'c) crowdloan_config \<Rightarrow> ('acc, 'relay, 'c) crowdloan_state \<Rightarrow> ('acc, 'relay, 'c) crowdloan_state \<Rightarrow> bool"
  for cfg where
  crowdloan_call: "crowdloan_step cfg s (fst (crowdloan_dispatch cfg origin now call s))"
| crowdloan_balances: "crowdloan_step cfg s (s\<lparr>cl_currency := c\<rparr>)"

definition crowdloan_init :: "('acc, 'relay, 'c) crowdloan_state \<Rightarrow> bool" where
  "crowdloan_init s \<longleftrightarrow> (\<forall>r. Contributors s r = None) \<and> (\<forall>a. AssociatedAccount s a = None) \<and>
     CurrentRewardEndIn s = 0 \<and> RewardPeriod s = 0"

abbreviation crowdloan_reachable ::
    "('acc, 'relay, 'sig, 'c) crowdloan_config \<Rightarrow> ('acc, 'relay, 'c) crowdloan_state \<Rightarrow> bool" where
  "crowdloan_reachable cfg \<equiv> reachable crowdloan_init (crowdloan_step cfg)"

definition crowdloan_inv :: "('acc, 'relay, 'c) crowdloan_state \<Rightarrow> bool" where
  "crowdloan_inv s \<longleftrightarrow>
     (\<forall>r info. Contributors s r = Some info \<longrightarrow> claimed_reward info \<le> total_reward info \<and> RewardPeriod s \<noteq> 0)"

lemma fold_contributors:
  "fold (\<lambda>(a, v) m. m(a \<mapsto> f v)) cs m r = (case map_of (rev cs) r of Some v \<Rightarrow> Some (f v) | None \<Rightarrow> m r)"
  by (induction cs arbitrary: m) (auto simp: map_add_def split: option.split)

lemma crowdloan_inv_initialize:
  "crowdloan_inv s \<Longrightarrow> crowdloan_inv (fst (initialize_reward origin now cs rate e s))"
  by (auto simp: crowdloan_inv_def initialize_reward_def Let_def
      fold_contributors [where f = "\<lambda>v. \<lparr>total_reward = saturating_mul (ucast v) (ucast rate), claimed_reward = 0, last_paid = now\<rparr>"]
      split: option.splits)

lemma get_money_result:
  assumes "fst (get_money cfg origin now s) = s'" and "crowdloan_inv s"
  shows "s' = s \<or> (\<exists>who r info. origin = Signed who \<and> AssociatedAccount s who = Some r \<and> Contributors s r = Some info \<and>
    claimed_reward info < total_reward info \<and>
    Contributors s' = (Contributors s)(r \<mapsto> paid_info (RewardPeriod s) now info) \<and>
    AssociatedAccount s' = AssociatedAccount s \<and> RewardPeriod s' = RewardPeriod s \<and> CurrentRewardEndIn s' = CurrentRewardEndIn s)"
proof (cases "\<exists>who r info. origin = Signed who \<and> AssociatedAccount s who = Some r \<and> Contributors s r = Some info")
  case True
  then obtain who r info where *: "origin = Signed who" "AssociatedAccount s who = Some r" "Contributors s r = Some info"
    by blast
  show ?thesis using assms(1) *
    by (auto simp: get_money_eq [OF *(2,3)] Let_def split: if_splits prod.splits bool.splits)
next
  case False
  then show ?thesis using assms(1) by (cases origin) (auto simp: get_money_def split: option.splits)
qed

lemma crowdloan_inv_get_money: "crowdloan_inv s \<Longrightarrow> crowdloan_inv (fst (get_money cfg origin now s))"
  using get_money_result [OF refl, of s cfg origin now]
  by (auto simp: crowdloan_inv_def paid_info_simps split: if_splits)

lemma crowdloan_inv_associate:
  "crowdloan_inv s \<Longrightarrow> crowdloan_inv (fst (associate_account cfg origin r p s))"
  "crowdloan_inv s \<Longrightarrow> crowdloan_inv (fst (update_associate_account cfg origin a r p s))"
  by (auto simp: associate_account_def update_associate_account_def crowdloan_inv_def split: option.splits)

lemmas crowdloan_inv_calls = crowdloan_inv_initialize crowdloan_inv_associate crowdloan_inv_get_money

interpretation crowdloan_invariant: inductive_invariant crowdloan_init "crowdloan_step cfg" crowdloan_inv for cfg
proof unfold_locales
  fix s :: "('a, 'b, 'c) crowdloan_state"
  assume "crowdloan_init s"
  then show "crowdloan_inv s" by (simp add: crowdloan_init_def crowdloan_inv_def)
next
  fix s s' assume inv: "crowdloan_inv s" and "crowdloan_step cfg s s'"
  from this(2) show "crowdloan_inv s'"
  proof cases
    case (crowdloan_call origin now call)
    then show ?thesis by (cases call) (simp_all add: crowdloan_inv_calls [OF inv])
  next
    case (crowdloan_balances c)
    then show ?thesis using inv by (simp add: crowdloan_inv_def)
  qed
qed

section \<open>Properties\<close>

definition demo_crowdloan :: "(nat, nat, nat, ledger) crowdloan_config" where
  "demo_crowdloan = \<lparr>cl_treasury = demo_treasury, verify = (\<lambda>p who r. p = who + r)\<rparr>"

definition demo_cl0 :: "(nat, nat, ledger) crowdloan_state" where
  "demo_cl0 = \<lparr>Contributors = Map.empty, AssociatedAccount = Map.empty, CurrentRewardEndIn = 0, RewardPeriod = 0,
     cl_currency = ledger_of [(0, 5000), (1, 300)], cl_events = []\<rparr>"

definition demo_cl1 :: "(nat, nat, ledger) crowdloan_state" where
  "demo_cl1 = fst (crowdloan_dispatch demo_crowdloan Root 10 (Call_initialize_reward [(70, 20)] 50 20) demo_cl0)"

definition demo_cl2 :: "(nat, nat, ledger) crowdloan_state" where
  "demo_cl2 = fst (crowdloan_dispatch demo_crowdloan (Signed 1) 11 (Call_associate_account 70 71) demo_cl1)"

lemma demo_cl1_eq:
  "demo_cl1 = demo_cl0\<lparr>Contributors := [70 \<mapsto> \<lparr>total_reward = 1000, claimed_reward = 0, last_paid = 10\<rparr>],
     CurrentRewardEndIn := 20, RewardPeriod := 10\<rparr>"
  by (simp add: demo_cl1_def initialize_reward_def demo_cl0_def Let_def saturating_mul_def)

lemma demo_cl2_eq:
  "demo_cl2 = demo_cl1\<lparr>AssociatedAccount := [1 \<mapsto> 70], cl_events := [EvAssociatedAccount 1 70]\<rparr>"
  by (simp add: demo_cl2_def associate_account_def demo_cl1_eq demo_cl0_def demo_crowdloan_def)

lemma demo_cl2_reachable: "crowdloan_reachable demo_crowdloan demo_cl2"
proof -
  have "crowdloan_reachable demo_crowdloan demo_cl0"
    by (rule reachable_init) (simp add: crowdloan_init_def demo_cl0_def)
  then have "crowdloan_reachable demo_crowdloan demo_cl1"
    unfolding demo_cl1_def by (rule reachable_step) (rule crowdloan_call)
  then show ?thesis unfolding demo_cl2_def by (rule reachable_step) (rule crowdloan_call)
qed

text \<open>C27: In every reachable state no contributor has claimed more than its reward, and no call panics: in
  particular the division by the reward period never divides by zero.\<close>

theorem crowdloan_safe:
  assumes "crowdloan_reachable cfg s"
  shows "(\<forall>r info. Contributors s r = Some info \<longrightarrow> claimed_reward info \<le> total_reward info) \<and>
    snd (crowdloan_dispatch cfg origin now call s) \<noteq> Panic"
proof
  have inv: "crowdloan_inv s" by (rule crowdloan_invariant.reachable_inv [OF assms])
  then show "\<forall>r info. Contributors s r = Some info \<longrightarrow> claimed_reward info \<le> total_reward info"
    by (simp add: crowdloan_inv_def)
  show "snd (crowdloan_dispatch cfg origin now call s) \<noteq> Panic"
  proof (cases call)
    case Call_get_money
    have "snd (get_money cfg origin now s) \<noteq> Panic"
    proof (cases "\<exists>who r info. origin = Signed who \<and> AssociatedAccount s who = Some r \<and> Contributors s r = Some info")
      case True
      then obtain who r info where *: "origin = Signed who" "AssociatedAccount s who = Some r" "Contributors s r = Some info"
        by blast
      then have "RewardPeriod s \<noteq> 0" using inv by (auto simp: crowdloan_inv_def)
      then show ?thesis unfolding *(1) get_money_eq [OF *(2,3)] by (auto simp: Let_def split: prod.splits bool.splits)
    next
      case False
      then show ?thesis by (cases origin) (auto simp: get_money_def split: option.splits)
    qed
    then show ?thesis using Call_get_money by simp
  qed (auto simp: initialize_reward_def associate_account_def update_associate_account_def Let_def split: option.splits)
qed

theorem crowdloan_safe_witness: "snd (crowdloan_dispatch demo_crowdloan (Signed 1) 15 Call_get_money demo_cl2) \<noteq> Panic"
  using crowdloan_safe [OF demo_cl2_reachable] by blast

text \<open>C28: A claim that succeeds in a reachable state pays the signed caller, from the treasury account, the
  smaller of the rate times the blocks since the last claim and what is still unclaimed; it is
  recorded as claimed, and no other contributor's record changes.\<close>

theorem get_money_pays:
  assumes "crowdloan_reachable cfg s" and "get_money cfg (Signed who) now s = (s', Ok)"
    and "transfer_documented (tr_Currency (cl_treasury cfg))" and "who \<noteq> account_id (cl_treasury cfg)"
  shows "\<exists>r info info'. AssociatedAccount s who = Some r \<and> Contributors s r = Some info \<and>
    Contributors s' = (Contributors s)(r \<mapsto> info') \<and> total_reward info' = total_reward info \<and> last_paid info' = now \<and>
    unat (claimed_reward info') = unat (claimed_reward info) + claim_amount (RewardPeriod s) now info \<and>
    free_balance (tr_Currency (cl_treasury cfg)) (cl_currency s') who =
      free_balance (tr_Currency (cl_treasury cfg)) (cl_currency s) who + of_nat (claim_amount (RewardPeriod s) now info)"
proof -
  have inv: "crowdloan_inv s" by (rule crowdloan_invariant.reachable_inv [OF assms(1)])
  obtain r info where *: "AssociatedAccount s who = Some r" "Contributors s r = Some info"
    using assms(2) by (auto simp: get_money_def split: option.splits)
  then have le: "claimed_reward info \<le> total_reward info" using inv by (auto simp: crowdloan_inv_def)
  obtain c where t: "transfer_allow_death (tr_Currency (cl_treasury cfg)) (cl_currency s) (account_id (cl_treasury cfg)) who
        (claim_word (RewardPeriod s) now info) = (c, True)"
    and s': "Contributors s' = (Contributors s)(r \<mapsto> paid_info (RewardPeriod s) now info)" "cl_currency s' = c"
    using assms(2) unfolding get_money_eq [OF *] by (auto simp: Let_def split: if_splits prod.splits bool.splits)
  have "of_nat (claim_amount (RewardPeriod s) now info) = claim_word (RewardPeriod s) now info"
    by (simp flip: unat_claim_word [OF le])
  with transfer_True(3) [OF assms(3) t assms(4) [symmetric]] * s' paid_info_simps [OF le] show ?thesis
    by (intro exI [of _ r] exI [of _ info] exI [of _ "paid_info (RewardPeriod s) now info"]) simp
qed

lemma demo_get_money: "get_money demo_crowdloan (Signed 1) 13 demo_cl2 = (fst (get_money demo_crowdloan (Signed 1) 13 demo_cl2), Ok)"
  by (simp add: get_money_def demo_cl2_eq demo_cl1_eq demo_cl0_def demo_crowdloan_def demo_treasury_def Let_def
      saturating_sub_def saturating_mul_def ledger_currency_def ledger_of_def)

theorem get_money_pays_witness:
  "\<exists>info'. Contributors (fst (get_money demo_crowdloan (Signed 1) 13 demo_cl2)) 70 = Some info' \<and> unat (claimed_reward info') = 300"
proof -
  have "transfer_documented (tr_Currency (cl_treasury demo_crowdloan))" "1 \<noteq> account_id (cl_treasury demo_crowdloan)"
    by (simp_all add: demo_crowdloan_def demo_treasury_def ledger_currency_transfer)
  from get_money_pays [OF demo_cl2_reachable demo_get_money this] show ?thesis
    by (auto simp: demo_cl2_eq demo_cl1_eq claim_amount_def)
qed

section \<open>Vesting\<close>

text \<open>A sequence of claims by anyone, each at its block number.\<close>

fun claims ::
    "('acc, 'relay, 'sig, 'c) crowdloan_config \<Rightarrow> (BlockNumber \<times> 'acc) list \<Rightarrow> ('acc, 'relay, 'c) crowdloan_state \<Rightarrow>
     ('acc, 'relay, 'c) crowdloan_state" where
  "claims cfg [] s = s"
| "claims cfg ((now, who) # cs) s = claims cfg cs (fst (get_money cfg (Signed who) now s))"

definition vested :: "BlockNumber \<Rightarrow> BlockNumber \<Rightarrow> RewardInfo \<Rightarrow> bool" where
  "vested period start info \<longleftrightarrow>
     claimed_reward info \<le> total_reward info \<and> start \<le> last_paid info \<and>
     unat (claimed_reward info) \<le> unat (total_reward info) div unat period * (unat (last_paid info) - unat start)"

lemma vested_paid:
  assumes "vested period start info" and "last_paid info \<le> now"
  shows "vested period start (paid_info period now info)"
proof -
  let ?rate = "unat (total_reward info) div unat period"
  have le: "claimed_reward info \<le> total_reward info" "start \<le> last_paid info"
    and c: "unat (claimed_reward info) \<le> ?rate * (unat (last_paid info) - unat start)"
    using assms(1) by (auto simp: vested_def)
  have t: "unat start \<le> unat (last_paid info)" "unat (last_paid info) \<le> unat now"
    using le(2) assms(2) by (auto simp: word_le_nat_alt)
  have "claim_amount period now info \<le> ?rate * (unat now - unat (last_paid info))"
    by (simp add: claim_amount_def)
  with c have "unat (claimed_reward info) + claim_amount period now info \<le>
      ?rate * (unat (last_paid info) - unat start) + ?rate * (unat now - unat (last_paid info))" by linarith
  also have "\<dots> = ?rate * (unat now - unat start)" using t by (simp flip: distrib_left)
  finally show ?thesis
    using paid_info_simps [OF le(1), of period now] t by (simp add: vested_def word_le_nat_alt)
qed

lemma get_money_vested:
  fixes cfg :: "('acc, 'relay, 'sig, 'c) crowdloan_config" and who :: 'acc
  assumes "\<forall>info. Contributors s r = Some info \<longrightarrow> vested (RewardPeriod s) start info \<and> last_paid info \<le> t"
    and "crowdloan_inv s" and "t \<le> now"
  defines "s1 \<equiv> fst (get_money cfg (Signed who) now s)"
  shows "(\<forall>info. Contributors s1 r = Some info \<longrightarrow> vested (RewardPeriod s) start info \<and> last_paid info \<le> now) \<and>
    RewardPeriod s1 = RewardPeriod s"
proof -
  have old: "vested (RewardPeriod s) start info \<and> last_paid info \<le> now" if "Contributors s r = Some info" for info
    using assms(1,3) that by auto
  from get_money_result [OF refl assms(2), of cfg "Signed who" now] show ?thesis
  proof
    assume "fst (get_money cfg (Signed who) now s) = s"
    then show ?thesis using old by (simp add: s1_def)
  next
    assume "\<exists>who' r' info. Signed who = Signed who' \<and> AssociatedAccount s who' = Some r' \<and> Contributors s r' = Some info \<and>
      claimed_reward info < total_reward info \<and>
      Contributors (fst (get_money cfg (Signed who) now s)) = (Contributors s)(r' \<mapsto> paid_info (RewardPeriod s) now info) \<and>
      AssociatedAccount (fst (get_money cfg (Signed who) now s)) = AssociatedAccount s \<and>
      RewardPeriod (fst (get_money cfg (Signed who) now s)) = RewardPeriod s \<and>
      CurrentRewardEndIn (fst (get_money cfg (Signed who) now s)) = CurrentRewardEndIn s"
    then obtain r' info where *: "Contributors s r' = Some info" "claimed_reward info < total_reward info"
      "Contributors s1 = (Contributors s)(r' \<mapsto> paid_info (RewardPeriod s) now info)" "RewardPeriod s1 = RewardPeriod s"
      unfolding s1_def by blast
    show ?thesis
    proof (cases "r' = r")
      case True
      then have "vested (RewardPeriod s) start (paid_info (RewardPeriod s) now info)"
        using old [of info] * vested_paid by blast
      with True * show ?thesis by (simp add: paid_info_def)
    next
      case False
      with * old show ?thesis by simp
    qed
  qed
qed

lemma claims_vested:
  "\<forall>info. Contributors s r = Some info \<longrightarrow> vested (RewardPeriod s) start info \<and> last_paid info \<le> t \<Longrightarrow>
   sorted (t # map fst cs) \<Longrightarrow> crowdloan_inv s \<Longrightarrow>
   (\<forall>info. Contributors (claims cfg cs s) r = Some info \<longrightarrow> vested (RewardPeriod s) start info) \<and>
   RewardPeriod (claims cfg cs s) = RewardPeriod s"
proof (induction cs arbitrary: s t)
  case Nil
  then show ?case by simp
next
  case (Cons p cs)
  obtain now who where p: "p = (now, who)" by (cases p)
  let ?s = "fst (get_money cfg (Signed who) now s)"
  have t: "t \<le> now" "sorted (now # map fst cs)" using Cons.prems(2) p by auto
  note step = get_money_vested [OF Cons.prems(1,3) t(1), of cfg who]
  with Cons.IH [OF _ t(2) crowdloan_inv_get_money [OF Cons.prems(3), of cfg "Signed who" now]] p show ?case by simp
qed

text \<open>C29: Rewards vest over the reward period and are never paid early: after the rewards were set at block
  \<open>b\<close>, and after any sequence of claims by anyone at later and later blocks, what a listed contributor
  has claimed is at most its total reward, and at most the reward per block times the blocks from \<open>b\<close>
  to its last claim.\<close>

theorem rewards_vest:
  assumes "crowdloan_reachable cfg s" and "initialize_reward Root b cs rate e s = (s', Ok)" and "r \<in> fst ` set cs"
    and "sorted (b # map fst calls)" and "Contributors (claims cfg calls s') r = Some info"
  shows "claimed_reward info \<le> total_reward info \<and>
    unat (claimed_reward info) \<le> unat (total_reward info) div unat (e - b) * (unat (last_paid info) - unat b)"
proof -
  have inv: "crowdloan_inv s'"
    using crowdloan_inv_initialize [OF crowdloan_invariant.reachable_inv [OF assms(1)], of Root b cs rate e] assms(2) by simp
  have s': "RewardPeriod s' = e - b"
    "Contributors s' = fold (\<lambda>(a, v) m. m(a \<mapsto> \<lparr>total_reward = saturating_mul (ucast v) (ucast rate), claimed_reward = 0, last_paid = b\<rparr>))
       cs (Contributors s)"
    using assms(2) by (auto simp: initialize_reward_def Let_def split: if_splits)
  have "map_of (rev cs) r \<noteq> None" using assms(3) by (simp add: map_of_eq_None_iff)
  then have "\<forall>info. Contributors s' r = Some info \<longrightarrow> vested (RewardPeriod s') b info \<and> last_paid info \<le> b"
    unfolding s'(2) fold_contributors [where f = "\<lambda>v. \<lparr>total_reward = saturating_mul (ucast v) (ucast rate), claimed_reward = 0, last_paid = b\<rparr>"]
    by (auto simp: vested_def)
  from claims_vested [OF this assms(4) inv, of cfg] assms(5) s'(1) show ?thesis by (simp add: vested_def)
qed

theorem rewards_vest_witness:
  "\<exists>s info. crowdloan_reachable demo_crowdloan s \<and> claims demo_crowdloan [(12, 1), (15, 1)] (fst (initialize_reward Root 10 [(70, 20)] 50 20 s)) =
     s\<lparr>Contributors := [70 \<mapsto> info], CurrentRewardEndIn := 20, RewardPeriod := 10,
       cl_currency := cl_currency (claims demo_crowdloan [(12, 1), (15, 1)] (fst (initialize_reward Root 10 [(70, 20)] 50 20 s))),
       cl_events := cl_events s @ [EvRewardPaid 1 200, EvRewardPaid 1 300]\<rparr> \<and>
     unat (claimed_reward info) \<le> unat (total_reward info) div 10 * (unat (last_paid info) - 10)"
proof -
  let ?s = "demo_cl0\<lparr>AssociatedAccount := [1 \<mapsto> 70], cl_events := [EvAssociatedAccount 1 70]\<rparr>"
  let ?i = "initialize_reward Root 10 [(70, 20)] 50 20 ?s"
  let ?info = "\<lparr>total_reward = 1000, claimed_reward = 500, last_paid = 15\<rparr>"
  have "crowdloan_reachable demo_crowdloan demo_cl0"
    by (rule reachable_init) (simp add: crowdloan_init_def demo_cl0_def)
  then have "crowdloan_reachable demo_crowdloan (fst (crowdloan_dispatch demo_crowdloan (Signed 1) 5 (Call_associate_account 70 71) demo_cl0))"
    by (rule reachable_step) (rule crowdloan_call)
  then have r: "crowdloan_reachable demo_crowdloan ?s"
    by (simp add: associate_account_def demo_cl0_def demo_crowdloan_def)
  have i: "?i = (fst ?i, Ok)" by (simp add: initialize_reward_def demo_cl0_def Let_def)
  have c: "claims demo_crowdloan [(12, 1), (15, 1)] (fst ?i) =
     ?s\<lparr>Contributors := [70 \<mapsto> ?info], CurrentRewardEndIn := 20, RewardPeriod := 10,
       cl_currency := cl_currency (claims demo_crowdloan [(12, 1), (15, 1)] (fst ?i)),
       cl_events := cl_events ?s @ [EvRewardPaid 1 200, EvRewardPaid 1 300]\<rparr>"
    by (simp add: get_money_def initialize_reward_def demo_cl0_def demo_crowdloan_def demo_treasury_def Let_def
      saturating_sub_def saturating_mul_def saturating_add_def ledger_currency_def ledger_of_def)
  have "Contributors (claims demo_crowdloan [(12, 1), (15, 1)] (fst ?i)) 70 = Some ?info" by (subst c) simp
  from rewards_vest [OF r i _ _ this] c r show ?thesis by (intro exI [of _ ?s] exI [of _ ?info]) simp
qed

lemma claim_amount_full:
  assumes "0 < unat period" and "unat period \<le> unat (total_reward info)"
    and "unat (last_paid info) + 2 * unat period \<le> unat now"
  shows "claim_amount period now info = unat (total_reward info) - unat (claimed_reward info)"
proof -
  let ?t = "unat (total_reward info)" and ?p = "unat period"
  have "1 \<le> ?t div ?p" using assms(1,2) by (simp add: div_greater_zero_iff Suc_le_eq)
  then have "?p \<le> ?t div ?p * ?p" by simp
  moreover have "?t < ?t div ?p * ?p + ?p" using assms(1) by (metis div_mult_mod_eq mod_less_divisor nat_add_left_cancel_less)
  moreover have "?t div ?p * (2 * ?p) \<le> ?t div ?p * (unat now - unat (last_paid info))"
    using assms(3) by (intro mult_le_mono2) linarith
  moreover have "?t div ?p * (2 * ?p) = ?t div ?p * ?p + ?t div ?p * ?p" by simp
  ultimately have "?t \<le> ?t div ?p * (unat now - unat (last_paid info))" by linarith
  then show ?thesis by (simp add: claim_amount_def)
qed

text \<open>C30: A reward is paid out in full in the end: a contributor whose reward is at least one unit per block of the
  period and who claims no sooner than two periods after its last claim gets, in this one call,
  everything it has not claimed yet, provided the treasury can pay it and what is left is at least
  the minimum balance of the currency (less is refused as too scanty); its record then shows the
  whole reward as claimed.\<close>

theorem full_reward_due:
  assumes "crowdloan_reachable cfg s" and "AssociatedAccount s who = Some r" and "Contributors s r = Some info"
    and "claimed_reward info < total_reward info" and "unat (RewardPeriod s) \<le> unat (total_reward info)"
    and "unat (last_paid info) + 2 * unat (RewardPeriod s) \<le> unat now"
    and "minimum_balance (tr_Currency (cl_treasury cfg)) \<le> total_reward info - claimed_reward info"
    and "transfer_allow_death (tr_Currency (cl_treasury cfg)) (cl_currency s) (account_id (cl_treasury cfg)) who
           (total_reward info - claimed_reward info) = (c, True)"
  shows "get_money cfg (Signed who) now s =
    (s\<lparr>Contributors := (Contributors s)(r \<mapsto> info\<lparr>claimed_reward := total_reward info, last_paid := now\<rparr>),
       cl_currency := c, cl_events := cl_events s @ [EvRewardPaid who (total_reward info - claimed_reward info)]\<rparr>, Ok)"
proof -
  have "crowdloan_inv s" by (rule crowdloan_invariant.reachable_inv [OF assms(1)])
  then have p: "RewardPeriod s \<noteq> 0" using assms(2,3) by (auto simp: crowdloan_inv_def)
  have le: "claimed_reward info \<le> total_reward info" using assms(4) by simp
  have "0 < unat (RewardPeriod s)" using p by (metis neq0_conv unat_eq_zero)
  note full = claim_amount_full [OF this assms(5,6)]
  have w: "claim_word (RewardPeriod s) now info = total_reward info - claimed_reward info"
    by (simp add: word_unat_eq_iff unat_claim_word [OF le] full unat_sub le)
  have "unat (claimed_reward (paid_info (RewardPeriod s) now info)) = unat (total_reward info)"
    using le by (simp add: paid_info_simps(3) [OF le] full word_le_nat_alt)
  then have "paid_info (RewardPeriod s) now info = info\<lparr>claimed_reward := total_reward info, last_paid := now\<rparr>"
    by (simp add: word_unat_eq_iff [symmetric] paid_info_def)
  with assms(4,7,8) p show ?thesis by (simp add: get_money_eq [OF assms(2,3)] w Let_def not_less)
qed

theorem full_reward_due_witness:
  "snd (get_money demo_crowdloan (Signed 1) 30 demo_cl2) = Ok \<and>
   cl_events (fst (get_money demo_crowdloan (Signed 1) 30 demo_cl2)) = [EvAssociatedAccount 1 70, EvRewardPaid 1 1000]"
proof -
  let ?c = "fst (transfer_allow_death (ledger_currency 10) (ledger_of [(0, 5000), (1, 300)]) 0 1 1000)"
  have "transfer_allow_death (tr_Currency (cl_treasury demo_crowdloan)) (cl_currency demo_cl2) (account_id (cl_treasury demo_crowdloan)) 1
      (1000 - 0) = (?c, True)"
    by (simp add: demo_crowdloan_def demo_treasury_def demo_cl2_eq demo_cl1_eq demo_cl0_def ledger_currency_def ledger_of_def)
  with full_reward_due [OF demo_cl2_reachable, of 1 70 "\<lparr>total_reward = 1000, claimed_reward = 0, last_paid = 10\<rparr>" 30 ?c]
  show ?thesis by (simp add: demo_cl2_eq demo_cl1_eq demo_cl0_def demo_crowdloan_def demo_treasury_def ledger_currency_def)
qed

end
