(* ===== verification/Runtime_Config.thy ===== *)
theory Runtime_Config
  imports Prelude
begin

text \<open>
  What the three runtimes fix: time, chain and version constants (\<^verbatim>\<open>runtime/*/src/constants.rs\<close>), the block
  limits of \<^verbatim>\<open>runtime/common/src/lib.rs\<close>, the weights of the election pallet, the multi-format addresses
  (\<^verbatim>\<open>runtime/*/src/multiaddress.rs\<close>, the same file in the three runtimes) and the chain specifications of the
  node (\<^verbatim>\<open>node/src/chain_spec/\<close>). Constants of the Substrate libraries (\<^verbatim>\<open>WEIGHT_PER_SECOND\<close>, the database weights)
  are arguments.
\<close>

section \<open>Constants of the runtimes\<close>

datatype runtime = PolkaFoundry | PolkaSmith | Halongbay

record time_constants =
  MILLISECS_PER_BLOCK :: u64
  SLOT_DURATION :: u64
  MINUTES :: BlockNumber
  HOURS :: BlockNumber
  DAYS :: BlockNumber
  CHAIN_ID :: u64
  SS58PREFIX :: u8

text \<open>The time module of a runtime with the given block time: the other time constants are computed from it.\<close>

definition time_module :: "u64 \<Rightarrow> u64 \<Rightarrow> u8 \<Rightarrow> time_constants" where
  "time_module millisecs chain_id ss58 =
     (let minutes = 60000 div (ucast millisecs :: BlockNumber); hours = minutes * 60 in
      \<lparr>MILLISECS_PER_BLOCK = millisecs, SLOT_DURATION = millisecs, MINUTES = minutes, HOURS = hours, DAYS = hours * 24,
       CHAIN_ID = chain_id, SS58PREFIX = ss58\<rparr>)"

definition halongbay_time :: time_constants where
  "halongbay_time = time_module 12000 11 42"

definition polkasmith_time :: time_constants where
  "polkasmith_time = time_module 6000 11 42"

definition polkafoundry_time :: time_constants where
  "polkafoundry_time = time_module 6000 13 99"

definition time_of :: "runtime \<Rightarrow> time_constants" where
  "time_of r = (case r of PolkaFoundry \<Rightarrow> polkafoundry_time | PolkaSmith \<Rightarrow> polkasmith_time | Halongbay \<Rightarrow> halongbay_time)"

definition halongbay_EPOCH_DURATION_IN_BLOCKS :: BlockNumber where
  "halongbay_EPOCH_DURATION_IN_BLOCKS = 10 * MINUTES halongbay_time"

definition halongbay_EPOCH_DURATION_IN_SLOTS :: u32 where
  "halongbay_EPOCH_DURATION_IN_SLOTS = 1 * HOURS halongbay_time"

definition GAS_PER_SECOND :: u64 where
  "GAS_PER_SECOND = 40000000"

definition WEIGHT_PER_GAS :: "u64 \<Rightarrow> u64" where
  "WEIGHT_PER_GAS weight_per_second = weight_per_second div GAS_PER_SECOND"

record runtime_version =
  spec_name :: string
  impl_name :: string
  authoring_version :: u32
  spec_version :: u32
  impl_version :: u32
  transaction_version :: u32

definition halongbay_VERSION :: runtime_version where
  "halongbay_VERSION = \<lparr>spec_name = ''halongbay'', impl_name = ''halongbay'', authoring_version = 1, spec_version = 1,
     impl_version = 1, transaction_version = 1\<rparr>"

definition polkasmith_VERSION :: runtime_version where
  "polkasmith_VERSION = \<lparr>spec_name = ''polkasmith'', impl_name = ''polkasmith'', authoring_version = 1, spec_version = 1,
     impl_version = 1, transaction_version = 1\<rparr>"

definition polkafoundry_VERSION :: runtime_version where
  "polkafoundry_VERSION = \<lparr>spec_name = ''polkafoundry'', impl_name = ''polkafoundry'', authoring_version = 1, spec_version = 1,
     impl_version = 1, transaction_version = 1\<rparr>"

definition VERSION :: "runtime \<Rightarrow> runtime_version" where
  "VERSION r = (case r of PolkaFoundry \<Rightarrow> polkafoundry_VERSION | PolkaSmith \<Rightarrow> polkasmith_VERSION | Halongbay \<Rightarrow> halongbay_VERSION)"

definition MinimumPeriod :: "runtime \<Rightarrow> u64" where
  "MinimumPeriod r = SLOT_DURATION (time_of r) div 2"

text \<open>In every runtime the time constants agree with the block time: a slot is one block, an hour and a
  day of blocks last exactly an hour and a day of milliseconds, no 32-bit constant overflows, and
  the timestamp may advance by half a slot.\<close>

theorem time_constants_consistent:
  "SLOT_DURATION (time_of r) = MILLISECS_PER_BLOCK (time_of r) \<and>
   unat (HOURS (time_of r)) * unat (MILLISECS_PER_BLOCK (time_of r)) = 3600 * 1000 \<and>
   unat (DAYS (time_of r)) * unat (MILLISECS_PER_BLOCK (time_of r)) = 24 * 3600 * 1000 \<and>
   2 * unat (MinimumPeriod r) = unat (SLOT_DURATION (time_of r)) \<and>
   spec_name (VERSION r) = impl_name (VERSION r)"
  by (cases r) (simp_all add: time_of_def time_module_def halongbay_time_def polkasmith_time_def polkafoundry_time_def
      MinimumPeriod_def VERSION_def halongbay_VERSION_def polkasmith_VERSION_def polkafoundry_VERSION_def)

section \<open>Block limits\<close>

definition MAXIMUM_BLOCK_WEIGHT :: "u64 \<Rightarrow> u64" where
  "MAXIMUM_BLOCK_WEIGHT weight_per_second = 2 * weight_per_second"

record block_weights =
  bw_base_block :: u64
  bw_base_extrinsic :: u64
  bw_normal_max_total :: u64
  bw_operational_max_total :: u64
  bw_operational_reserved :: u64

text \<open>\<open>normal_ratio\<close> is the multiplication by \<^verbatim>\<open>NORMAL_DISPATCH_RATIO\<close>, a \<^verbatim>\<open>Perbill\<close> of the arithmetic library.\<close>

definition BlockWeights :: "(u64 \<Rightarrow> u64) \<Rightarrow> u64 \<Rightarrow> u64 \<Rightarrow> u64 \<Rightarrow> block_weights" where
  "BlockWeights normal_ratio weight_per_second block_execution_weight extrinsic_base_weight =
     (let maximum = MAXIMUM_BLOCK_WEIGHT weight_per_second in
      \<lparr>bw_base_block = block_execution_weight, bw_base_extrinsic = extrinsic_base_weight,
       bw_normal_max_total = normal_ratio maximum,
       bw_operational_max_total = maximum,
       bw_operational_reserved = maximum - normal_ratio maximum\<rparr>)"

definition OffchainSolutionWeightLimit :: "u64 \<Rightarrow> u64 \<Rightarrow> u64" where
  "OffchainSolutionWeightLimit normal_max_extrinsic block_execution_weight =
     saturating_sub normal_max_extrinsic block_execution_weight"

text \<open>The block limits divide the block: if a ratio never exceeds the whole, then what normal extrinsics
  may use and what is reserved for operational ones add up, without wrapping, to the whole block
  weight, and an off-chain solution never exceeds the limit of an extrinsic.\<close>

theorem block_limits_partition:
  assumes "\<forall>x. normal_ratio x \<le> x"
  shows "unat (bw_normal_max_total (BlockWeights normal_ratio w b e)) +
      unat (bw_operational_reserved (BlockWeights normal_ratio w b e)) = unat (MAXIMUM_BLOCK_WEIGHT w) \<and>
    bw_normal_max_total (BlockWeights normal_ratio w b e) \<le> bw_operational_max_total (BlockWeights normal_ratio w b e) \<and>
    OffchainSolutionWeightLimit m x \<le> m"
  using assms
  by (simp add: BlockWeights_def Let_def OffchainSolutionWeightLimit_def word_le_nat_alt unat_saturating_sub unat_sub)

theorem block_limits_partition_witness:
  "unat (bw_normal_max_total (BlockWeights (\<lambda>x. x div 4) 1000000000000 5 5)) +
   unat (bw_operational_reserved (BlockWeights (\<lambda>x. x div 4) 1000000000000 5 5)) = 2000000000000"
proof -
  have "x div 4 \<le> x" for x :: u64 by (simp add: word_le_nat_alt unat_div)
  with block_limits_partition [of "\<lambda>x. x div 4" 1000000000000 5 5] show ?thesis by (simp add: MAXIMUM_BLOCK_WEIGHT_def)
qed

section \<open>Weights of the election pallet\<close>

record db_weight =
  reads :: "u64 \<Rightarrow> u64"
  writes :: "u64 \<Rightarrow> u64"

definition on_initialize_nothing :: "db_weight \<Rightarrow> u64" where
  "on_initialize_nothing db = saturating_add 21275000 (reads db 7)"

definition on_initialize_open_signed :: "db_weight \<Rightarrow> u64" where
  "on_initialize_open_signed db = saturating_add (saturating_add 105345000 (reads db 8)) (writes db 4)"

definition on_initialize_open_unsigned_with_snapshot :: "db_weight \<Rightarrow> u64" where
  "on_initialize_open_unsigned_with_snapshot db = saturating_add (saturating_add 104974000 (reads db 8)) (writes db 4)"

definition on_initialize_open_unsigned_without_snapshot :: "db_weight \<Rightarrow> u64" where
  "on_initialize_open_unsigned_without_snapshot db = saturating_add (saturating_add 18915000 (reads db 1)) (writes db 1)"

definition elect_queued :: "db_weight \<Rightarrow> u64" where
  "elect_queued db = saturating_add (saturating_add 7459479000 (reads db 2)) (writes db 6)"

definition submit_unsigned :: "db_weight \<Rightarrow> u32 \<Rightarrow> u32 \<Rightarrow> u32 \<Rightarrow> u32 \<Rightarrow> u64" where
  "submit_unsigned db v t a d =
     saturating_add (saturating_add (saturating_add (saturating_add (saturating_add (saturating_add 0
       (saturating_mul 4075000 (ucast v))) (saturating_mul 17000 (ucast t)))
       (saturating_mul 13902000 (ucast a))) (saturating_mul 3805000 (ucast d)))
       (reads db 6)) (writes db 1)"

definition feasibility_check :: "db_weight \<Rightarrow> u32 \<Rightarrow> u32 \<Rightarrow> u32 \<Rightarrow> u32 \<Rightarrow> u64" where
  "feasibility_check db v t a d =
     saturating_add (saturating_add (saturating_add (saturating_add (saturating_add 0
       (saturating_mul 4208000 (ucast v))) (saturating_mul 587000 (ucast t)))
       (saturating_mul 10207000 (ucast a))) (saturating_mul 3984000 (ucast d)))
       (reads db 3)"

lemma saturating_add_mono:
  "a \<le> c \<Longrightarrow> b \<le> d \<Longrightarrow> saturating_add a b \<le> saturating_add c d" for a b c d :: "'a::len word"
  by (auto simp: word_le_nat_alt unat_saturating_add)

lemma saturating_mul_mono: "b \<le> d \<Longrightarrow> saturating_mul a b \<le> saturating_mul a d" for a b d :: "'a::len word"
  unfolding word_le_nat_alt unat_saturating_mul by (intro min.mono mult_le_mono order_refl)

lemma ucast_mono_u32: "a \<le> b \<Longrightarrow> (ucast a :: u64) \<le> ucast b" for a b :: u32
proof -
  have u: "unat (ucast x :: u64) = unat x" for x :: u32
  proof -
    have "unat x < 2 ^ 32" by (rule order_less_le_trans [OF unsigned_less]) simp
    then have "unat x < 2 ^ 64" by (rule order_less_trans) simp
    then show ?thesis by (simp add: unsigned_ucast_eq take_bit_nat_eq_self)
  qed
  show "a \<le> b \<Longrightarrow> (ucast a :: u64) \<le> ucast b" by (simp add: word_le_nat_alt u)
qed

lemmas weight_mono = saturating_add_mono saturating_mul_mono ucast_mono_u32

text \<open>The weight of an election solution is monotone in its size: more voters, targets, assignments or
  desired targets never weigh less, also where the 64-bit arithmetic saturates.\<close>

theorem solution_weight_mono:
  assumes "v \<le> v'" and "t \<le> t'" and "a \<le> a'" and "d \<le> d'"
  shows "submit_unsigned db v t a d \<le> submit_unsigned db v' t' a' d' \<and>
    feasibility_check db v t a d \<le> feasibility_check db v' t' a' d'"
  unfolding submit_unsigned_def feasibility_check_def
  using assms by (intro conjI weight_mono order_refl) assumption+

theorem solution_weight_mono_witness:
  "submit_unsigned \<lparr>reads = (*) 25, writes = (*) 100\<rparr> 10 2 3 4 \<le> submit_unsigned \<lparr>reads = (*) 25, writes = (*) 100\<rparr> 11 2 3 4"
  using solution_weight_mono [of 10 11 2 2 3 3 4 4 "\<lparr>reads = (*) 25, writes = (*) 100\<rparr>"] by simp

section \<open>Addresses\<close>

datatype ('acc, 'idx) MultiAddress =
  Id 'acc | Index 'idx | Raw "u8 list" | Address32 "u8 list" | Address20 "u8 list"

definition MultiAddress_from :: "'acc \<Rightarrow> ('acc, 'idx) MultiAddress" where
  "MultiAddress_from a = Id a"

definition MultiAddress_default :: "'acc \<Rightarrow> ('acc, 'idx) MultiAddress" where
  "MultiAddress_default default_account = Id default_account"

definition MultiAddress_fmt :: "(u8 list \<Rightarrow> string) \<Rightarrow> (('acc, 'idx) MultiAddress \<Rightarrow> string) \<Rightarrow> ('acc, 'idx) MultiAddress \<Rightarrow> string" where
  "MultiAddress_fmt hex debug self =
     (case self of
        Raw inner \<Rightarrow> ''MultiAddress::Raw('' @ hex inner @ '')''
      | Address32 inner \<Rightarrow> ''MultiAddress::Address32('' @ hex inner @ '')''
      | Address20 inner \<Rightarrow> ''MultiAddress::Address20('' @ hex inner @ '')''
      | _ \<Rightarrow> debug self)"

definition lookup :: "('acc, 'idx) MultiAddress \<Rightarrow> 'acc option" where
  "lookup x = (case x of Id i \<Rightarrow> Some i | _ \<Rightarrow> None)"

definition unlookup :: "'acc \<Rightarrow> ('acc, 'idx) MultiAddress" where
  "unlookup x = Id x"

text \<open>Address lookup and its inverse are exact: looking up what \<^verbatim>\<open>unlookup\<close> makes gives the account back, and an
  address that can be looked up is the one \<^verbatim>\<open>unlookup\<close> makes of the result; index, raw and byte addresses
  cannot be looked up.\<close>

theorem address_lookup_roundtrip:
  "lookup (unlookup a :: ('acc, 'idx) MultiAddress) = Some a \<and>
   (\<forall>x :: ('acc, 'idx) MultiAddress. lookup x = Some b \<longleftrightarrow> x = unlookup b) \<and>
   lookup (MultiAddress_from a :: ('acc, 'idx) MultiAddress) = Some a"
  by (auto simp: lookup_def unlookup_def MultiAddress_from_def split: MultiAddress.splits)

section \<open>Chain specifications\<close>

record Extensions =
  relay_chain :: string
  para_id :: u32

record 'acc genesis_config =
  gen_code :: "u8 list"
  gen_balances :: "('acc \<times> Balance) list"
  gen_sudo_key :: 'acc
  gen_parachain_id :: u32
  gen_evm_accounts :: "'acc list"
  gen_aura_authorities :: "'acc list"

datatype chain_type = Development | Local | Live

record 'acc chain_spec =
  cs_name :: string
  cs_id :: string
  cs_chain_type :: chain_type
  cs_boot_nodes :: "string list"
  cs_genesis :: "'acc genesis_config"
  cs_properties :: "(string \<times> string) list option"
  cs_extensions :: Extensions

definition HLB :: Balance where "HLB = 1000000000000"

definition PKS :: Balance where "PKS = 1000000000000000000"

definition PKF :: Balance where "PKF = 1000000000000000000"

definition halongbay_staging_testnet_config_genesis :: "u8 list \<Rightarrow> 'acc \<Rightarrow> 'acc genesis_config" where
  "halongbay_staging_testnet_config_genesis wasm_binary endowed =
     (let ENDOWMENT = 200000000 * HLB; endowed_accounts = [endowed] in
      \<lparr>gen_code = wasm_binary, gen_balances = map (\<lambda>k. (k, ENDOWMENT)) endowed_accounts, gen_sudo_key = endowed_accounts ! 0,
       gen_parachain_id = 1111, gen_evm_accounts = [], gen_aura_authorities = [endowed]\<rparr>)"

definition polkasmith_staging_testnet_config_genesis :: "u8 list \<Rightarrow> 'acc \<Rightarrow> 'acc genesis_config" where
  "polkasmith_staging_testnet_config_genesis wasm_binary endowed =
     (let ENDOWMENT = 200000000 * PKS; endowed_accounts = [endowed] in
      \<lparr>gen_code = wasm_binary, gen_balances = map (\<lambda>k. (k, ENDOWMENT)) endowed_accounts, gen_sudo_key = endowed_accounts ! 0,
       gen_parachain_id = 1111, gen_evm_accounts = [], gen_aura_authorities = [endowed]\<rparr>)"

definition polkafoundry_staging_testnet_config_genesis :: "u8 list \<Rightarrow> 'acc \<Rightarrow> 'acc genesis_config" where
  "polkafoundry_staging_testnet_config_genesis wasm_binary endowed =
     (let ENDOWMENT = 200000000 * PKF; endowed_accounts = [endowed] in
      \<lparr>gen_code = wasm_binary, gen_balances = map (\<lambda>k. (k, ENDOWMENT)) endowed_accounts, gen_sudo_key = endowed_accounts ! 0,
       gen_parachain_id = 1111, gen_evm_accounts = [], gen_aura_authorities = [endowed]\<rparr>)"

definition chain_properties :: "string \<Rightarrow> string \<Rightarrow> string \<Rightarrow> (string \<times> string) list option" where
  "chain_properties symbol decimals ss58 =
     Some [(''tokenSymbol'', symbol), (''tokenDecimals'', decimals), (''ss58Format'', ss58)]"

text \<open>The wasm binary may be missing from the build: then a staging specification is an error.\<close>

definition halongbay_staging_testnet_config :: "u8 list option \<Rightarrow> 'acc \<Rightarrow> string + 'acc chain_spec" where
  "halongbay_staging_testnet_config wasm endowed =
     (case wasm of
        None \<Rightarrow> Inl ''Halongbay development wasm not available''
      | Some wasm_binary \<Rightarrow> Inr \<lparr>cs_name = ''Halongbay PC1'', cs_id = ''halongbay_staging_testnet'',
          cs_chain_type = Local, cs_boot_nodes = [],
          cs_genesis = halongbay_staging_testnet_config_genesis wasm_binary endowed,
          cs_properties = chain_properties ''HLB'' ''12'' ''42'',
          cs_extensions = \<lparr>relay_chain = ''rococo-local'', para_id = 1111\<rparr>\<rparr>)"

definition polkasmith_staging_testnet_config :: "u8 list option \<Rightarrow> 'acc \<Rightarrow> string + 'acc chain_spec" where
  "polkasmith_staging_testnet_config wasm endowed =
     (case wasm of
        None \<Rightarrow> Inl ''PolkaSmith development wasm not available''
      | Some wasm_binary \<Rightarrow> Inr \<lparr>cs_name = ''PolkaSmith PC1'', cs_id = ''polkasmith_staging_testnet'',
          cs_chain_type = Local, cs_boot_nodes = [],
          cs_genesis = polkasmith_staging_testnet_config_genesis wasm_binary endowed,
          cs_properties = chain_properties ''PKS'' ''18'' ''98'',
          cs_extensions = \<lparr>relay_chain = ''kusama-local'', para_id = 2009\<rparr>\<rparr>)"

definition polkafoundry_staging_testnet_config :: "u8 list option \<Rightarrow> 'acc \<Rightarrow> string + 'acc chain_spec" where
  "polkafoundry_staging_testnet_config wasm endowed =
     (case wasm of
        None \<Rightarrow> Inl ''PolkaFoundry development wasm not available''
      | Some wasm_binary \<Rightarrow> Inr \<lparr>cs_name = ''PolkaFoundry PC1'', cs_id = ''polkafoundry_staging_testnet'',
          cs_chain_type = Local, cs_boot_nodes = [],
          cs_genesis = polkafoundry_staging_testnet_config_genesis wasm_binary endowed,
          cs_properties = None,
          cs_extensions = \<lparr>relay_chain = ''polkadot-local'', para_id = 1111\<rparr>\<rparr>)"

definition staging_config :: "runtime \<Rightarrow> u8 list option \<Rightarrow> 'acc \<Rightarrow> string + 'acc chain_spec" where
  "staging_config r = (case r of PolkaFoundry \<Rightarrow> polkafoundry_staging_testnet_config
     | PolkaSmith \<Rightarrow> polkasmith_staging_testnet_config | Halongbay \<Rightarrow> halongbay_staging_testnet_config)"

lemmas staging_defs = staging_config_def halongbay_staging_testnet_config_def polkasmith_staging_testnet_config_def
  polkafoundry_staging_testnet_config_def halongbay_staging_testnet_config_genesis_def
  polkasmith_staging_testnet_config_genesis_def polkafoundry_staging_testnet_config_genesis_def

text \<open>The staging genesis of every runtime gives the one endowed account, which is also the sudo key and the
  only block authority, 200 million tokens, and this amount does not overflow a balance; the code is the wasm binary of
  the build, and without it no specification is made.\<close>

theorem staging_genesis_correct:
  "(\<exists>e. staging_config r None a = Inl e) \<and>
   (\<forall>w. \<exists>cs. staging_config r (Some w) a = Inr cs \<and>
      (let g = cs_genesis cs in
       gen_code g = w \<and> gen_sudo_key g = a \<and> gen_evm_accounts g = [] \<and> gen_aura_authorities g = [a] \<and>
       (\<exists>v. gen_balances g = [(a, v)] \<and>
          unat v = 200000000 * 10 ^ (case r of Halongbay \<Rightarrow> 12 | _ \<Rightarrow> 18))))"
  by (cases r) (simp_all add: staging_defs Let_def HLB_def PKS_def PKF_def)

end
