(* ===== verification/Node.thy ===== *)
theory Node
  imports Runtime_Config
begin

text \<open>
  The decisions of the node (\<^verbatim>\<open>node/src\<close>): which chain specification an id names and which runtime a
  specification is run with, what a command line does, the settings passed on to the relay chain, the
  RPC modules that are served, and the maintenance of the Ethereum filter pool and of the pending
  transactions at every imported block. Building the services themselves (database, network,
  consensus, telemetry) is work of the Substrate and Cumulus libraries; their results are parameters.
  The cargo features the node is compiled with are the record \<open>features\<close>.
\<close>

record features =
  feat_polkafoundry :: bool
  feat_polkasmith :: bool
  feat_halongbay :: bool

definition feature :: "features \<Rightarrow> runtime \<Rightarrow> bool" where
  "feature fs r = (case r of PolkaFoundry \<Rightarrow> feat_polkafoundry fs | PolkaSmith \<Rightarrow> feat_polkasmith fs | Halongbay \<Rightarrow> feat_halongbay fs)"

definition chain_name :: "features \<Rightarrow> string option" where
  "chain_name fs =
     (if feat_polkafoundry fs then Some ''PolkaFoundry''
      else if feat_polkasmith fs then Some ''PolkaSmith''
      else if feat_halongbay fs then Some ''Halongbay'' else None)"

section \<open>Identifying a chain\<close>

definition starts_with :: "string \<Rightarrow> string \<Rightarrow> bool" where
  "starts_with s p = (take (length p) s = p)"

definition is_polkafoundry :: "string \<Rightarrow> bool" where
  "is_polkafoundry cid = (starts_with cid ''polkafoundry]'' \<or> starts_with cid ''pkf'')"

definition is_polkasmith :: "string \<Rightarrow> bool" where
  "is_polkasmith cid = (starts_with cid ''polkasmith'' \<or> starts_with cid ''pks'')"

definition is_halongbay :: "string \<Rightarrow> bool" where
  "is_halongbay cid = (starts_with cid ''halongbay'' \<or> starts_with cid ''hlb'')"

text \<open>
  \<^verbatim>\<open>PathBuf::file_name\<close> of the standard library: the last component of a path, ignoring empty components and
  \<open>.\<close>, unless it is \<open>..\<close>.
\<close>

fun split_path :: "string \<Rightarrow> string \<Rightarrow> string list" where
  "split_path acc [] = [rev acc]"
| "split_path acc (c # cs) = (if c = CHR ''/'' then rev acc # split_path [] cs else split_path (c # acc) cs)"

definition file_name :: "string \<Rightarrow> string option" where
  "file_name path =
     (case rev (filter (\<lambda>c. c \<noteq> [] \<and> c \<noteq> ''.'') (split_path [] path)) of
        [] \<Rightarrow> None
      | c # _ \<Rightarrow> if c = ''..'' then None else Some c)"

datatype spec_source = Builtin runtime | Staging runtime | JsonFile runtime string

definition not_available :: "runtime \<Rightarrow> string" where
  "not_available r =
     (case r of
        PolkaFoundry \<Rightarrow> ''PolkaFoundry runtime is not available. Please compile the node with `--features polkafoundry` to enable it.''
      | PolkaSmith \<Rightarrow> ''PolkaSmith runtime is not available. Please compile the node with `--features polkasmith` to enable it.''
      | Halongbay \<Rightarrow> ''Halongbay runtime is not available. Please compile the node with `--features halongbay` to enable it.'')"

definition load_spec :: "features \<Rightarrow> (spec_source \<Rightarrow> string + 'spec) \<Rightarrow> string \<Rightarrow> string + 'spec" where
  "load_spec fs load ident =
     (if ident = ''polkafoundry'' \<and> feat_polkafoundry fs then load (Builtin PolkaFoundry)
      else if ident = ''polkafoundry-dev'' \<and> feat_polkafoundry fs then load (Staging PolkaFoundry)
      else if ident = ''polkasmith'' \<and> feat_polkasmith fs then load (Builtin PolkaSmith)
      else if ident = ''polkasmith-dev'' \<and> feat_polkasmith fs then load (Staging PolkaSmith)
      else if ident = ''halongbay'' \<and> feat_halongbay fs then load (Builtin Halongbay)
      else if ident = '''' \<and> feat_halongbay fs then load (Staging Halongbay)
      else
        let starts = (\<lambda>p. case file_name ident of Some f \<Rightarrow> starts_with f p | None \<Rightarrow> False) in
        if starts ''polkafoundry'' then
          (if feat_polkafoundry fs then load (JsonFile PolkaFoundry ident) else Inl (not_available PolkaFoundry))
        else if starts ''polkasmith'' then
          (if feat_polkasmith fs then load (JsonFile PolkaSmith ident) else Inl (not_available PolkaSmith))
        else
          (if feat_halongbay fs then load (JsonFile Halongbay ident) else Inl (not_available Halongbay)))"

text \<open>A panic is the value \<open>None\<close>.\<close>

definition native_runtime_version :: "features \<Rightarrow> string \<Rightarrow> runtime_version option" where
  "native_runtime_version fs cid =
     (if is_polkafoundry cid then (if feat_polkafoundry fs then Some polkafoundry_VERSION else None)
      else if is_polkasmith cid then (if feat_polkasmith fs then Some polkasmith_VERSION else None)
      else (if feat_halongbay fs then Some halongbay_VERSION else None))"

datatype keystore_config = InMemory | OnDisk string

record node_config =
  nc_chain_id :: string
  nc_keystore :: keystore_config

text \<open>
  The client wrapper of \<^verbatim>\<open>node/src/client.rs\<close> has a variant for each runtime. \<^verbatim>\<open>new_partial\<close> gives the client of a runtime and
  the other components, which are returned beside it.
\<close>

datatype 'c Client = PolkaFoundryClient 'c | PolkaSmithClient 'c | HalongbayClient 'c

definition new_chain_ops ::
    "features \<Rightarrow> (runtime \<Rightarrow> node_config \<Rightarrow> bool \<Rightarrow> string + 'c \<times> 'parts) \<Rightarrow> node_config \<Rightarrow>
     node_config \<times> (string + 'c Client \<times> 'parts)" where
  "new_chain_ops fs new_partial config =
     (let config = config\<lparr>nc_keystore := InMemory\<rparr>
      in if is_polkafoundry (nc_chain_id config) then
           (config, if feat_polkafoundry fs
             then (case new_partial PolkaFoundry config False of
                     Inl e \<Rightarrow> Inl e
                   | Inr (client, parts) \<Rightarrow> Inr (PolkaFoundryClient client, parts))
             else Inl ''Polkafoundry runtime is not available. Please compile the node with `--features polkafoundry` to enable it.'')
         else if is_polkasmith (nc_chain_id config) then
           (config, if feat_polkasmith fs
             then (case new_partial PolkaSmith config False of
                     Inl e \<Rightarrow> Inl e
                   | Inr (client, parts) \<Rightarrow> Inr (PolkaSmithClient client, parts))
             else Inl (not_available PolkaSmith))
         else
           (config, if feat_halongbay fs
             then (case new_partial Halongbay config True of
                     Inl e \<Rightarrow> Inl e
                   | Inr (client, parts) \<Rightarrow> Inr (HalongbayClient client, parts))
             else Inl (not_available Halongbay)))"

section \<open>The command line\<close>

datatype Sealing = Manual | Instant

record ExportGenesisStateCommand =
  egs_output :: "string option"
  egs_parachain_id :: u32
  egs_raw :: bool
  egs_chain :: "string option"

record ExportGenesisWasmCommand =
  egw_output :: "string option"
  egw_raw :: bool
  egw_chain :: "string option"

datatype Subcommand =
    ExportGenesisState ExportGenesisStateCommand
  | ExportGenesisWasm ExportGenesisWasmCommand
  | BuildSpec | CheckBlock | ExportBlocks | ExportState | ImportBlocks | PurgeChain | Revert

record 'acc RunCmd =
  validator :: bool
  parachain_id :: "u32 option"
  start_dev :: bool
  force_chain :: runtime
  sealing :: Sealing
  author_id :: "'acc option"

record 'acc Cli =
  subcommand :: "Subcommand option"
  run_cmd :: "'acc RunCmd"
  collator :: bool
  relaychain_args :: "string list"

record ('acc, 'spec, 'c, 'parts) node_env =
  env_features :: features
  create_runner :: "string option"
  env_config :: node_config
  env_spec :: 'spec
  env_load :: "spec_source \<Rightarrow> string + 'spec"
  env_new_partial :: "runtime \<Rightarrow> node_config \<Rightarrow> bool \<Rightarrow> string + 'c \<times> 'parts"
  genesis_header :: "'spec \<Rightarrow> string + u8 list"
  genesis_code :: "'spec \<Rightarrow> string + u8 list option"
  hex_bytes :: "u8 list \<Rightarrow> u8 list"
  spec_extensions :: "'spec \<Rightarrow> Extensions option"
  relay_config :: "string option \<Rightarrow> string list \<Rightarrow> string option"
  dev_author :: 'acc

datatype ('acc, 'c, 'parts) node_action =
    RunSync Subcommand
  | RunChainOp Subcommand "'c Client" 'parts
  | WriteOutput "string option" "u8 list"
  | StartDev 'acc Sealing bool
  | StartNode runtime "'acc option" u32

datatype ('acc, 'c, 'parts) run_outcome = RunErr string | RunOk "('acc, 'c, 'parts) node_action" | RunPanic string

definition extract_genesis_wasm :: "('acc, 'spec, 'c, 'parts) node_env \<Rightarrow> 'spec \<Rightarrow> string + u8 list" where
  "extract_genesis_wasm env spec =
     (case genesis_code env spec of
        Inl e \<Rightarrow> Inl e
      | Inr None \<Rightarrow> Inl ''Could not find wasm file in genesis state!''
      | Inr (Some code) \<Rightarrow> Inr code)"

definition chain_op :: "('acc, 'spec, 'c, 'parts) node_env \<Rightarrow> Subcommand \<Rightarrow> ('acc, 'c, 'parts) run_outcome" where
  "chain_op env cmd =
     (case snd (new_chain_ops (env_features env) (env_new_partial env) (env_config env)) of
        Inl e \<Rightarrow> RunErr e
      | Inr (client, parts) \<Rightarrow> RunOk (RunChainOp cmd client parts))"

definition with_runner :: "('acc, 'spec, 'c, 'parts) node_env \<Rightarrow> ('acc, 'c, 'parts) run_outcome \<Rightarrow> ('acc, 'c, 'parts) run_outcome" where
  "with_runner env k = (case create_runner env of Some e \<Rightarrow> RunErr e | None \<Rightarrow> k)"

text \<open>Writing the genesis state and the genesis wasm, raw or in hexadecimal with the prefix \<^verbatim>\<open>0x\<close>.\<close>

definition export_bytes :: "('acc, 'spec, 'c, 'parts) node_env \<Rightarrow> string option \<Rightarrow> bool \<Rightarrow> u8 list \<Rightarrow> ('acc, 'c, 'parts) run_outcome" where
  "export_bytes env output raw bytes =
     RunOk (WriteOutput output (if raw then bytes else [48, 120] @ hex_bytes env bytes))"

definition export_genesis_state ::
    "('acc, 'spec, 'c, 'parts) node_env \<Rightarrow> ExportGenesisStateCommand \<Rightarrow> ('acc, 'c, 'parts) run_outcome" where
  "export_genesis_state env params =
     (case load_spec (env_features env) (env_load env) (case egs_chain params of Some c \<Rightarrow> c | None \<Rightarrow> '''') of
        Inl e \<Rightarrow> RunErr e
      | Inr spec \<Rightarrow>
          (case genesis_header env spec of
             Inl e \<Rightarrow> RunErr e
           | Inr header \<Rightarrow> export_bytes env (egs_output params) (egs_raw params) header))"

definition export_genesis_wasm ::
    "('acc, 'spec, 'c, 'parts) node_env \<Rightarrow> ExportGenesisWasmCommand \<Rightarrow> ('acc, 'c, 'parts) run_outcome" where
  "export_genesis_wasm env params =
     (case load_spec (env_features env) (env_load env) (case egw_chain params of Some c \<Rightarrow> c | None \<Rightarrow> '''') of
        Inl e \<Rightarrow> RunErr e
      | Inr spec \<Rightarrow>
          (case extract_genesis_wasm env spec of
             Inl e \<Rightarrow> RunErr e
           | Inr code \<Rightarrow> export_bytes env (egw_output params) (egw_raw params) code))"

definition run_node :: "('acc, 'spec, 'c, 'parts) node_env \<Rightarrow> 'acc Cli \<Rightarrow> ('acc, 'c, 'parts) run_outcome" where
  "run_node env cli =
     (let collating = (validator (run_cmd cli) \<or> collator cli);
          author = author_id (run_cmd cli)
      in if collating \<and> author = None then RunErr ''Collator nodes must specify an author account id''
         else if start_dev (run_cmd cli) then
           (let author = (case author of Some a \<Rightarrow> a | None \<Rightarrow> dev_author env) in
            if feat_halongbay (env_features env) then RunOk (StartDev author (sealing (run_cmd cli)) collating)
            else RunErr (not_available Halongbay))
         else
           (let extension = spec_extensions env (env_spec env);
                relay_chain_id = map_option relay_chain extension;
                pid = (case parachain_id (run_cmd cli) of Some p \<Rightarrow> p
                       | None \<Rightarrow> (case extension of Some e \<Rightarrow> para_id e | None \<Rightarrow> 1111))
            in case genesis_header env (env_spec env) of
                 Inl e \<Rightarrow> RunErr (''Error generate genesis block '' @ e)
               | Inr _ \<Rightarrow>
                   (case relay_config env relay_chain_id (relaychain_args cli) of
                      Some err \<Rightarrow> RunErr (''Relay chain argument error: '' @ err)
                    | None \<Rightarrow>
                        if feature (env_features env) (force_chain (run_cmd cli))
                        then RunOk (StartNode (force_chain (run_cmd cli)) author pid)
                        else RunPanic (not_available (force_chain (run_cmd cli))))))"

definition run :: "('acc, 'spec, 'c, 'parts) node_env \<Rightarrow> 'acc Cli \<Rightarrow> ('acc, 'c, 'parts) run_outcome" where
  "run env cli =
     (case subcommand cli of
        Some BuildSpec \<Rightarrow> with_runner env (RunOk (RunSync BuildSpec))
      | Some CheckBlock \<Rightarrow> with_runner env (chain_op env CheckBlock)
      | Some ExportBlocks \<Rightarrow> with_runner env (chain_op env ExportBlocks)
      | Some ExportState \<Rightarrow> with_runner env (chain_op env ExportState)
      | Some ImportBlocks \<Rightarrow> with_runner env (chain_op env ImportBlocks)
      | Some PurgeChain \<Rightarrow> with_runner env (RunOk (RunSync PurgeChain))
      | Some Revert \<Rightarrow> with_runner env (chain_op env Revert)
      | Some (ExportGenesisState params) \<Rightarrow> export_genesis_state env params
      | Some (ExportGenesisWasm params) \<Rightarrow> export_genesis_wasm env params
      | None \<Rightarrow> with_runner env (run_node env cli))"

section \<open>The relay chain settings\<close>

record RelayChainCli =
  rc_base_chain_id :: "bool \<Rightarrow> string + string"
  rc_shared_base_path :: "string option"
  rc_chain_id :: "string option"
  rc_base_path :: "string option"

definition RelayChainCli_new ::
    "(string list \<Rightarrow> (bool \<Rightarrow> string + string) \<times> string option) \<Rightarrow> string option \<Rightarrow> string option \<Rightarrow> string list \<Rightarrow> RelayChainCli" where
  "RelayChainCli_new parse base_path chain_id args =
     \<lparr>rc_base_chain_id = fst (parse args), rc_shared_base_path = snd (parse args), rc_chain_id = chain_id, rc_base_path = base_path\<rparr>"

definition RelayChainCli_base_path :: "RelayChainCli \<Rightarrow> string option" where
  "RelayChainCli_base_path self = (case rc_shared_base_path self of Some p \<Rightarrow> Some p | None \<Rightarrow> rc_base_path self)"

definition RelayChainCli_chain_id :: "RelayChainCli \<Rightarrow> bool \<Rightarrow> string + string" where
  "RelayChainCli_chain_id self is_dev =
     (case rc_base_chain_id self is_dev of
        Inl e \<Rightarrow> Inl e
      | Inr chain_id \<Rightarrow> Inr (if chain_id = [] then (case rc_chain_id self of Some c \<Rightarrow> c | None \<Rightarrow> []) else chain_id))"

definition RelayChainCli_ports :: "u16 list" where
  "RelayChainCli_ports = [30334, 9945, 9934, 9616]"

section \<open>RPC modules\<close>

datatype rpc_module = RpcSystem | RpcTransactionPayment | RpcEth runtime | RpcEthFilter nat | RpcNet | RpcWeb3 | RpcEthPubSub | RpcManualSeal

definition create_full :: "features \<Rightarrow> runtime option \<Rightarrow> bool \<Rightarrow> bool \<Rightarrow> rpc_module list option" where
  "create_full fs chain has_filter_pool has_command_sink =
     (let r = (case chain of Some PolkaFoundry \<Rightarrow> PolkaFoundry | Some PolkaSmith \<Rightarrow> PolkaSmith | _ \<Rightarrow> Halongbay) in
      if \<not> feature fs r then None
      else Some ([RpcSystem, RpcTransactionPayment, RpcEth r] @ (if has_filter_pool then [RpcEthFilter 500] else []) @
        [RpcNet, RpcWeb3, RpcEthPubSub] @ (if has_command_sink then [RpcManualSeal] else [])))"

text \<open>The part of \<^verbatim>\<open>start_dev\<close> that decides how blocks are sealed and whether the seal RPC gets the channel.\<close>

definition dev_command_sink :: "Sealing \<Rightarrow> bool \<Rightarrow> bool" where
  "dev_command_sink seal is_validator = (is_validator \<and> (case seal of Instant \<Rightarrow> False | Manual \<Rightarrow> True))"

section \<open>Maintenance at an imported block\<close>

record 'tx pool_item =
  at_block :: u64
  item :: 'tx

definition FILTER_RETAIN_THRESHOLD :: u64 where
  "FILTER_RETAIN_THRESHOLD = 100"

definition TRANSACTION_RETAIN_THRESHOLD :: u64 where
  "TRANSACTION_RETAIN_THRESHOLD = 5"

definition maintain_filter_pool :: "u32 \<Rightarrow> ('k, 'f pool_item) smap \<Rightarrow> ('k, 'f pool_item) smap" where
  "maintain_filter_pool number locked =
     (let imported_number = (ucast number :: u64) in
      fold (\<lambda>(k, v) m. if at_block v + FILTER_RETAIN_THRESHOLD \<le> imported_number then sm_remove k m else m) locked locked)"

datatype 'h consensus_log = EndBlock 'h "'h list"

text \<open>
  The two notification loops pick the last and the first Frontier log of a header: a logged item that
  is not a Frontier log is \<open>None\<close>.
\<close>

definition frontier_log :: "'h consensus_log option list \<Rightarrow> 'h consensus_log option" where
  "frontier_log logs = fold (\<lambda>log found. case log of Some l \<Rightarrow> Some l | None \<Rightarrow> found) logs None"

definition maintain_pending ::
    "'h consensus_log option \<Rightarrow> u32 \<Rightarrow> ('h, 'tx pool_item) smap \<Rightarrow> ('h, 'tx pool_item) smap" where
  "maintain_pending log number locked =
     (let imported_number = (ucast number :: u64);
          locked = (case log of
              Some (EndBlock _ transaction_hashes) \<Rightarrow> filter (\<lambda>(k, _). \<not> k \<in> set transaction_hashes) locked
            | None \<Rightarrow> locked)
      in filter (\<lambda>(_, v). at_block v + TRANSACTION_RETAIN_THRESHOLD > imported_number) locked)"

definition maintain_pending_node ::
    "'h consensus_log option list \<Rightarrow> u32 \<Rightarrow> ('h, 'tx pool_item) smap \<Rightarrow> ('h, 'tx pool_item) smap" where
  "maintain_pending_node logs number locked = maintain_pending (frontier_log logs) number locked"

definition maintain_pending_dev ::
    "'h consensus_log option list \<Rightarrow> u32 \<Rightarrow> ('h, 'tx pool_item) smap \<Rightarrow> ('h, 'tx pool_item) smap" where
  "maintain_pending_dev logs number locked = maintain_pending (frontier_log (rev logs)) number locked"

section \<open>Properties\<close>

definition all_features :: features where
  "all_features = \<lparr>feat_polkafoundry = True, feat_polkasmith = True, feat_halongbay = True\<rparr>"

fun source_runtime :: "spec_source \<Rightarrow> runtime" where
  "source_runtime (Builtin r) = r"
| "source_runtime (Staging r) = r"
| "source_runtime (JsonFile r p) = r"

text \<open>A chain specification is only ever loaded for a runtime the node was compiled with: whatever the id,
  the loader is asked for one specification of an enabled runtime, or the answer is the error that
  names the missing feature.\<close>

theorem load_spec_enabled:
  "(\<exists>src. feature fs (source_runtime src) \<and> load_spec fs load ident = load src) \<or>
   (\<exists>r. \<not> feature fs r \<and> load_spec fs load ident = Inl (not_available r))"
proof -
  have try_load: "(\<exists>src. feature fs (source_runtime src) \<and> x = load src) \<or> (\<exists>r. \<not> feature fs r \<and> x = Inl (not_available r))"
    if "x = (if feature fs r then load (JsonFile r ident) else Inl (not_available r))" for x r
    using that by (metis source_runtime.simps(3))
  have known: "\<exists>src. feature fs (source_runtime src) \<and> load (B r) = load src"
    if "feature fs r" "source_runtime (B r) = r" for B :: "runtime \<Rightarrow> spec_source" and r using that by metis
  show ?thesis unfolding load_spec_def Let_def
    using try_load [of _ PolkaFoundry] try_load [of _ PolkaSmith] try_load [of _ Halongbay]
      known [of PolkaFoundry Builtin] known [of PolkaSmith Builtin] known [of Halongbay Builtin]
      known [of PolkaFoundry Staging] known [of PolkaSmith Staging] known [of Halongbay Staging]
    by (simp add: feature_def split del: if_split split: if_split)
qed

text \<open>The chain operations and the reported native version agree: when an operation opens a chain, it uses
  a runtime that is compiled in and whose version is the one reported for the same specification,
  with the keystore in memory; when the version cannot be reported, no operation opens the chain.\<close>

fun client_runtime :: "'c Client \<Rightarrow> runtime" where
  "client_runtime (PolkaFoundryClient _) = PolkaFoundry"
| "client_runtime (PolkaSmithClient _) = PolkaSmith"
| "client_runtime (HalongbayClient _) = Halongbay"

fun client_inside :: "'c Client \<Rightarrow> 'c" where
  "client_inside (PolkaFoundryClient c) = c"
| "client_inside (PolkaSmithClient c) = c"
| "client_inside (HalongbayClient c) = c"

lemma new_chain_ops_Inr:
  assumes "snd (new_chain_ops fs new_partial config) = Inr (client, parts)"
  shows "feature fs (client_runtime client)"
    and "native_runtime_version fs (nc_chain_id config) = Some (VERSION (client_runtime client))"
    and "\<exists>dev. new_partial (client_runtime client) (config\<lparr>nc_keystore := InMemory\<rparr>) dev = Inr (client_inside client, parts)"
  using assms by (auto simp: new_chain_ops_def native_runtime_version_def feature_def VERSION_def Let_def split: sum.splits if_splits)

lemma new_chain_ops_unavailable:
  "native_runtime_version fs (nc_chain_id config) = None \<Longrightarrow> \<exists>e. snd (new_chain_ops fs new_partial config) = Inl e"
  by (auto simp: new_chain_ops_def native_runtime_version_def Let_def split: if_splits)

definition demo_env :: "(nat, nat, nat, nat) node_env" where
  "demo_env = \<lparr>env_features = all_features, create_runner = None, env_config = \<lparr>nc_chain_id = ''pks'', nc_keystore = InMemory\<rparr>,
     env_spec = 0, env_load = (\<lambda>_. Inr 0), env_new_partial = (\<lambda>_ _ _. Inr (0, 0)), genesis_header = (\<lambda>_. Inr [1]),
     genesis_code = (\<lambda>_. Inr (Some [2])), hex_bytes = (\<lambda>bs. bs), spec_extensions = (\<lambda>_. Some \<lparr>relay_chain = ''kusama-local'', para_id = 2009\<rparr>),
     relay_config = (\<lambda>_ _. None), dev_author = 7\<rparr>"

definition demo_cli :: "nat Cli" where
  "demo_cli = \<lparr>subcommand = None, run_cmd = \<lparr>validator = True, parachain_id = None, start_dev = False, force_chain = PolkaSmith,
     sealing = Instant, author_id = Some 4\<rparr>, collator = False, relaychain_args = []\<rparr>"

text \<open>A collator must name an author: without one the node is refused, whatever the rest of the command line says.\<close>

lemma collator_needs_author:
  assumes "subcommand cli = None" and "validator (run_cmd cli) \<or> collator cli" and "author_id (run_cmd cli) = None"
  shows "\<exists>e. run env cli = RunErr e"
  using assms by (auto simp: run_def with_runner_def run_node_def split: option.split)

text \<open>C38: For a node that does not collate or names its author, running without a subcommand starts exactly what
  the command line asks for: it starts the parachain node of a runtime exactly if the runner can be
  created, the genesis block can be made, the arguments of the relay chain are accepted and the runtime
  is the forced one and compiled in, with the given author and the parachain id of the command line,
  else of the specification, else 1111; and with the development flag it starts the development node
  exactly if the runner can be created and Halongbay is compiled in, with the given or the genesis
  author and the given sealing.\<close>

theorem run_starts_node:
  assumes "subcommand cli = None" and "validator (run_cmd cli) \<or> collator cli \<Longrightarrow> author_id (run_cmd cli) \<noteq> None"
  shows "(\<not> start_dev (run_cmd cli) \<longrightarrow>
      (run env cli = RunOk (StartNode r a p) \<longleftrightarrow>
        create_runner env = None \<and> (\<exists>header. genesis_header env (env_spec env) = Inr header) \<and>
        relay_config env (map_option relay_chain (spec_extensions env (env_spec env))) (relaychain_args cli) = None \<and>
        r = force_chain (run_cmd cli) \<and> feature (env_features env) r \<and> a = author_id (run_cmd cli) \<and>
        p = (case (parachain_id (run_cmd cli), spec_extensions env (env_spec env)) of
               (Some q, _) \<Rightarrow> q | (None, Some x) \<Rightarrow> para_id x | (None, None) \<Rightarrow> 1111))) \<and>
    (start_dev (run_cmd cli) \<longrightarrow>
      (run env cli = RunOk (StartDev b seal c) \<longleftrightarrow>
        create_runner env = None \<and> feat_halongbay (env_features env) \<and> seal = sealing (run_cmd cli) \<and>
        b = (case author_id (run_cmd cli) of Some a \<Rightarrow> a | None \<Rightarrow> dev_author env) \<and>
        c = (validator (run_cmd cli) \<or> collator cli)))"
  using assms
  by (auto simp: run_def with_runner_def run_node_def Let_def split: option.splits sum.splits if_splits)

theorem run_starts_node_witness: "run demo_env demo_cli = RunOk (StartNode PolkaSmith (Some 4) 2009)"
proof -
  have cli: "subcommand demo_cli = None" "author_id (run_cmd demo_cli) \<noteq> None" "\<not> start_dev (run_cmd demo_cli)"
    by (simp_all add: demo_cli_def)
  show ?thesis
    using run_starts_node [OF cli(1), of demo_env PolkaSmith "Some 4" 2009] cli(2,3)
    by (simp add: demo_cli_def demo_env_def feature_def all_features_def)
qed

lemma fold_remove_filter:
  assumes "distinct (keys m)"
  shows "fold (\<lambda>(k, v) m. if P v then sm_remove k m else m) m m = filter (\<lambda>(k, v). \<not> P v) m"
proof -
  have "fold (\<lambda>(k, v) m. if P v then sm_remove k m else m) xs m = filter (\<lambda>(k, v). \<not> (\<exists>w. (k, w) \<in> set xs \<and> P w)) m" for xs
  proof (induction xs arbitrary: m)
    case Nil
    then show ?case by simp
  next
    case (Cons x xs)
    obtain k v where x: "x = (k, v)" by (cases x)
    show ?case using Cons.IH [of m] Cons.IH [of "sm_remove k m"] x
      by (cases "P v") (auto simp: sm_remove_def filter_filter case_prod_unfold intro!: filter_cong)
  qed
  also have "filter (\<lambda>(k, v). \<not> (\<exists>w. (k, w) \<in> set m \<and> P w)) m = filter (\<lambda>(k, v). \<not> P v) m"
    using assms by (intro filter_cong) (auto dest: eq_key_imp_eq_value)
  finally show ?thesis .
qed

lemma maintain_filter_pool_eq:
  "distinct (keys pool) \<Longrightarrow>
   maintain_filter_pool n pool = filter (\<lambda>(k, v). ucast n < at_block v + FILTER_RETAIN_THRESHOLD) pool"
  using fold_remove_filter [where P = "\<lambda>v. at_block v + FILTER_RETAIN_THRESHOLD \<le> (ucast n :: u64)"]
  by (simp add: maintain_filter_pool_def not_le)

lemma unat_ucast_u64: "unat (ucast x :: u64) = unat x" for x :: u32
proof -
  have "unat x < 2 ^ 32" by (rule order_less_le_trans [OF unsigned_less]) simp
  then have "unat x < 2 ^ 64" by (rule order_less_trans) simp
  then show ?thesis by (simp add: unsigned_ucast_eq take_bit_nat_eq_self)
qed

lemma lifespan_iff:
  fixes n :: u32 and b :: u64
  assumes "unat b + k < 2 ^ 64"
  shows "(ucast n :: u64) < b + of_nat k \<longleftrightarrow> unat n < unat b + k"
proof -
  have "unat (b + of_nat k) = unat b + k"
    using assms by (simp add: unat_word_ariths unat_of_nat)
  then show ?thesis by (simp add: word_less_nat_alt unat_ucast_u64)
qed

text \<open>C39: A filter lives for a hundred blocks: after the maintenance at an imported block a filter is in the
  pool if and only if it was there and its hundred blocks are not over, the others keep their order,
  and a second maintenance at the same block removes nothing more.\<close>

theorem filter_pool_maintained:
  assumes "distinct (keys pool)" and "\<forall>(k, v) \<in> set pool. unat (at_block v) + 100 < 2 ^ 64"
  shows "maintain_filter_pool n pool = filter (\<lambda>(k, v). unat n < unat (at_block v) + 100) pool \<and>
    maintain_filter_pool n (maintain_filter_pool n pool) = maintain_filter_pool n pool"
proof -
  have f: "maintain_filter_pool n pool = filter (\<lambda>(k, v). unat n < unat (at_block v) + 100) pool"
    unfolding maintain_filter_pool_eq [OF assms(1)]
    using assms(2) lifespan_iff [where k = 100 and n = n] by (intro filter_cong) (auto simp: FILTER_RETAIN_THRESHOLD_def)
  have "distinct (keys (filter P pool))" for P by (rule distinct_map_filter [OF assms(1)])
  then have "maintain_filter_pool n (maintain_filter_pool n pool) = maintain_filter_pool n pool"
    by (simp add: maintain_filter_pool_eq [OF assms(1)] maintain_filter_pool_eq case_prod_unfold)
  with f show ?thesis by blast
qed

theorem filter_pool_maintained_witness:
  "maintain_filter_pool 150 [(1 :: nat, \<lparr>at_block = 40, item = ()\<rparr>), (2, \<lparr>at_block = 60, item = ()\<rparr>)] = [(2, \<lparr>at_block = 60, item = ()\<rparr>)]"
  using filter_pool_maintained [of "[(1 :: nat, \<lparr>at_block = 40, item = ()\<rparr>), (2, \<lparr>at_block = 60, item = ()\<rparr>)]" 150] by simp

lemma frontier_log_last:
  "frontier_log logs = (case filter (\<lambda>l. l \<noteq> None) logs of [] \<Rightarrow> None | x # xs \<Rightarrow> last (x # xs))"
proof -
  have "fold (\<lambda>log found. case log of Some l \<Rightarrow> Some l | None \<Rightarrow> found) logs acc =
      (case filter (\<lambda>l. l \<noteq> None) logs of [] \<Rightarrow> acc | x # xs \<Rightarrow> last (x # xs))" for acc
    by (induction logs arbitrary: acc) (auto split: list.splits)
  then show ?thesis by (simp add: frontier_log_def)
qed

text \<open>C40: Pending transactions do not leak: after the maintenance at an imported block a transaction is pending
  if and only if it was, it is not among those the block's Frontier log lists, and fewer than five
  blocks have passed; so from five blocks after it was seen it is never pending.\<close>

theorem pending_maintained:
  assumes "\<forall>(k, v) \<in> set pool. unat (at_block v) + 5 < 2 ^ 64"
  shows "(k, v) \<in> set (maintain_pending_node logs n pool) \<longleftrightarrow>
      (k, v) \<in> set pool \<and> unat n < unat (at_block v) + 5 \<and>
      (\<forall>h hs. frontier_log logs = Some (EndBlock h hs) \<longrightarrow> k \<notin> set hs)"
proof -
  have "(ucast n < at_block v + TRANSACTION_RETAIN_THRESHOLD) = (unat n < unat (at_block v) + 5)" if "(k, v) \<in> set pool"
    using that assms lifespan_iff [of "at_block v" 5 n] by (auto simp: TRANSACTION_RETAIN_THRESHOLD_def)
  then show ?thesis
    by (cases "frontier_log logs"; cases "the (frontier_log logs)")
      (auto simp: maintain_pending_node_def maintain_pending_def)
qed

theorem pending_maintained_witness:
  "(8, \<lparr>at_block = 3, item = ()\<rparr>) \<in> set (maintain_pending_node [None, Some (EndBlock 0 [9])] 7
     [(8 :: nat, \<lparr>at_block = 3, item = ()\<rparr>), (9, \<lparr>at_block = 6, item = ()\<rparr>)])"
  using pending_maintained [of "[(8 :: nat, \<lparr>at_block = 3, item = ()\<rparr>), (9, \<lparr>at_block = 6, item = ()\<rparr>)]" 8 "\<lparr>at_block = 3, item = ()\<rparr>"
      "[None, Some (EndBlock 0 [9])]" 7]
  by (simp add: frontier_log_def)

text \<open>The relay chain takes its settings from its own arguments first: the base path and a non-empty chain
  id of the relay chain arguments win over those of the parachain node, which are used otherwise,
  and an error of the arguments is passed on.\<close>

theorem relay_chain_settings:
  "RelayChainCli_base_path (RelayChainCli_new parse (Some p) cid args) =
     (case snd (parse args) of Some q \<Rightarrow> Some q | None \<Rightarrow> Some p) \<and>
   RelayChainCli_chain_id (RelayChainCli_new parse bp (Some c) args) dev =
     (case fst (parse args) dev of Inl e \<Rightarrow> Inl e | Inr x \<Rightarrow> Inr (if x = [] then c else x)) \<and>
   distinct RelayChainCli_ports"
  by (auto simp: RelayChainCli_base_path_def RelayChainCli_chain_id_def RelayChainCli_new_def RelayChainCli_ports_def
      split: option.split sum.split)

text \<open>The RPC modules served for a chain include the Ethereum module of exactly that runtime, never of
  another; serving fails only if the runtime is not compiled in; and the sealing module is served by
  a development node if and only if it authors with manual sealing.\<close>

theorem rpc_modules_correct:
  "(create_full fs (Some r) fp sink = None \<longleftrightarrow> \<not> feature fs r) \<and>
   (\<forall>ms q. create_full fs (Some r) fp sink = Some ms \<longrightarrow> (RpcEth q \<in> set ms \<longleftrightarrow> q = r)) \<and>
   (\<forall>ms. create_full fs None fp (dev_command_sink seal is_validator) = Some ms \<longrightarrow>
      (RpcManualSeal \<in> set ms \<longleftrightarrow> is_validator \<and> seal = Manual))"
proof (intro conjI)
  show "create_full fs (Some r) fp sink = None \<longleftrightarrow> \<not> feature fs r"
    by (cases r) (auto simp: create_full_def)
  show "\<forall>ms q. create_full fs (Some r) fp sink = Some ms \<longrightarrow> (RpcEth q \<in> set ms \<longleftrightarrow> q = r)"
    by (cases r) (auto simp: create_full_def split: if_splits)
  show "\<forall>ms. create_full fs None fp (dev_command_sink seal is_validator) = Some ms \<longrightarrow>
      (RpcManualSeal \<in> set ms \<longleftrightarrow> is_validator \<and> seal = Manual)"
    by (cases seal) (auto simp: create_full_def dev_command_sink_def split: if_splits)
qed

theorem rpc_modules_correct_witness:
  "\<forall>ms q. create_full all_features (Some PolkaSmith) True False = Some ms \<longrightarrow> (RpcEth q \<in> set ms \<longleftrightarrow> q = PolkaSmith)"
  using rpc_modules_correct [of all_features PolkaSmith True False] by blast

end
