(* ===== verification/Staking_Findings.thy ===== *)
theory Staking_Findings
  imports Staking_Election_Properties Staking_Properties Crowdloan Node
begin

text \<open>
  Behaviour of the code that its comments, its tests or the surrounding code do not suggest, each as
  a theorem about the definitions: what the other theories prove holds beside these facts, not
  instead of them.
\<close>

section \<open>Staking\<close>

text \<open>\<^verbatim>\<open>bond\<close> ignores the result of \<^verbatim>\<open>reserve\<close>: an account whose free balance is below the amount becomes
  a collator all the same; nothing is reserved, and the total stake grows by the amount.\<close>

theorem bond_without_funds:
  assumes "reserve_documented (Currency cfg)" and "free_balance (Currency cfg) (currency s) who < amt"
    and "sm_get (Collators s) who = None" and "MinCollatorStake cfg \<le> amt"
  shows "snd (bond cfg (Signed who) amt s) = Ok \<and> currency (fst (bond cfg (Signed who) amt s)) = currency s \<and>
    TotalStaked (fst (bond cfg (Signed who) amt s)) = TotalStaked s + amt"
  using assms by (simp add: bond_def Let_def reserve_fails [OF assms(1,2)] not_less)

theorem bond_without_funds_witness:
  "snd (bond demo_cfg (Signed 9) 500 demo1) = Ok \<and> currency (fst (bond demo_cfg (Signed 9) 500 demo1)) = currency demo1 \<and>
   TotalStaked (fst (bond demo_cfg (Signed 9) 500 demo1)) = 1000"
proof -
  have "reserve_documented (Currency demo_cfg)" by (simp add: demo_cfg_def ledger_currency_reserve)
  moreover have "free_balance (Currency demo_cfg) (currency demo1) 9 < 500"
    by (simp add: demo1_currency demo0_def demo_eval)
  ultimately show ?thesis using bond_without_funds [of demo_cfg demo1 9 500]
    by (simp add: demo1_simps) (simp add: demo_cfg_def)
qed

text \<open>The binary search of \<^verbatim>\<open>add_nomination\<close> runs on a list that is not sorted: a second bond with one collator is accepted.\<close>

theorem duplicate_nomination_accepted:
  "StakingNominators_add_nomination
     (StakingNominators_new [\<lparr>owner = 5, amount = 50\<rparr>, \<lparr>owner = 3, amount = 50\<rparr>, \<lparr>owner = 1, amount = 50\<rparr>] 150)
     \<lparr>owner = 1 :: nat, amount = 70\<rparr> =
   (\<lparr>no_nominations = [\<lparr>owner = 5, amount = 50\<rparr>, \<lparr>owner = 3, amount = 50\<rparr>, \<lparr>owner = 1, amount = 50\<rparr>, \<lparr>owner = 1, amount = 70\<rparr>],
      no_total = 220, no_unbonding = [], no_claimed_rewards = []\<rparr>, True)"
  by (simp add: StakingNominators_add_nomination_def StakingNominators_new_def bond_search_def binary_search_by_def
      binary_search_loop.simps Bond_cmp_def cmp_def)

text \<open>Leaving then removes both bonds and queues only the later one: 50 of the nominator's 220 are lost to the ledger.\<close>

theorem duplicate_nomination_lost:
  "StakingNominators_rm_nomination
     \<lparr>no_nominations = [\<lparr>owner = 1, amount = 50\<rparr>, \<lparr>owner = 1 :: nat, amount = 70\<rparr>], no_total = 120, no_unbonding = [], no_claimed_rewards = []\<rparr> 1 9 =
   (\<lparr>no_nominations = [], no_total = 120, no_unbonding = [\<lparr>ub_value = 70, ub_round = 9\<rparr>], no_claimed_rewards = []\<rparr>, Some 120)"
  by (simp add: StakingNominators_rm_nomination_def)

text \<open>
  The exit queue reads the total stake once per account: of an exit that releases 300 and 50, only the
  last amount leaves the total stake.
\<close>

theorem exit_queue_total_stale:
  "TotalStaked (execute_exit_queue demo_cfg 4 demo_exit) = TotalStaked demo_exit - 50"
  by (simp add: execute_exit_queue_def demo_exit_def execute_exit_def Let_def)

text \<open>A collator that leaves while its stake is still locked leaves with nothing: the locked stake is not in the exit record.\<close>

theorem locked_stake_dropped:
  "sm_get (ExitQueue (fst (collator_unbond demo_cfg (Signed 1) demo0))) 1 =
     Some \<lparr>lv_remaining = 0, lv_unbonding = [], lv_when = 3\<rparr> \<and> TotalStaked demo0 = 500"
  by (simp add: collator_unbond_def demo0_simps Let_def Leaving_new_def withdraw_round_def)

text \<open>
  A collator that leaves, bonds again and leaves again replaces its first exit record: \<^verbatim>\<open>bond\<close> asks only
  whether the account is a collator now, and \<^verbatim>\<open>collator_unbond\<close> does not look into the queue, so what the first
  record still held is forgotten (the errors \<^verbatim>\<open>AlreadyInQueue\<close> and \<^verbatim>\<open>AlreadyLeaving\<close> are never returned).
\<close>

theorem exit_record_overwritten:
  assumes "sm_get (Collators s) who = Some c" and "sm_get (ExitQueue s) who = Some old"
  shows "snd (collator_unbond cfg (Signed who) s) = Ok \<and>
    sm_get (ExitQueue (fst (collator_unbond cfg (Signed who) s))) who =
      Some (Leaving_new (co_active c) (co_unbonding c) (withdraw_round s))"
  using assms by (simp add: collator_unbond_def Let_def)

text \<open>The size limit of the snapshot counts active collators only, but all collators are returned.\<close>

theorem targets_exceed_limit: "\<exists>w. targets demo_cfg demo0 (Some 0) = Inr ([1], w)"
  by (simp add: targets_def active_count_def demo0_simps StakingCollators_is_active_def get_npos_targets_def Let_def)

section \<open>Crowdloan\<close>

text \<open>
  The claim is recorded before the payment is checked: a claim below the existential deposit is refused,
  pays nothing, and still counts as claimed.
\<close>

theorem scanty_reward_lost:
  assumes "AssociatedAccount s who = Some r" and "Contributors s r = Some info" and "claimed_reward info < total_reward info"
    and "RewardPeriod s \<noteq> 0" and "claim_word (RewardPeriod s) now info < minimum_balance (tr_Currency (cl_treasury cfg))"
  shows "snd (get_money cfg (Signed who) now s) = Err (Module ScantyReward) \<and>
    cl_currency (fst (get_money cfg (Signed who) now s)) = cl_currency s \<and>
    Contributors (fst (get_money cfg (Signed who) now s)) r = Some (paid_info (RewardPeriod s) now info)"
  using assms by (simp add: get_money_eq [OF assms(1,2)] Let_def)

section \<open>Node\<close>

text \<open>The prefix the node looks for ends in a bracket, so the staging chain of PolkaFoundry is run with the Halongbay runtime.\<close>

theorem polkafoundry_not_identified:
  "\<not> is_polkafoundry ''polkafoundry_staging_testnet'' \<and>
   native_runtime_version all_features ''polkafoundry_staging_testnet'' = Some halongbay_VERSION"
  by (simp add: is_polkafoundry_def is_polkasmith_def starts_with_def native_runtime_version_def all_features_def)

text \<open>The staging chain of PolkaSmith has one parachain id in its genesis and another in its extension.\<close>

theorem polkasmith_para_ids_differ:
  "\<exists>cs. staging_config PolkaSmith (Some w) a = Inr cs \<and> gen_parachain_id (cs_genesis cs) = 1111 \<and>
     para_id (cs_extensions cs) = 2009"
  by (simp add: staging_defs Let_def)

end
