(* ===== verification/Staking_Life.thy ===== *)
theory Staking_Life
  imports Staking_Round_Properties "HOL-Library.Multiset"
begin

text \<open>
  The life of one collator account, stated without the ledgers: an abstract machine whose state is
  the round, the bonding delay, the account's standing as a collator and its departure, and whose
  steps are the moves the pallet offers (enter, be onboarded, add stake, take stake out, leave, wait
  for the next round). The pallet refines it for every account: calls of other accounts, all
  nominations, rewards and elections leave the account's position alone.
\<close>

section \<open>The abstract machine\<close>

text \<open>A chunk is an amount with the round at which it changes its place.\<close>

type_synonym chunk = "Balance \<times> RoundIndex"

datatype phase = Joining | Collating

record standing =
  st_phase :: phase
  st_own :: Balance
  st_incoming :: "chunk multiset"
  st_outgoing :: "chunk multiset"

record departure =
  de_own :: Balance
  de_outgoing :: "chunk multiset"
  de_round :: RoundIndex

record life =
  lf_round :: RoundIndex
  lf_delay :: u32
  lf_standing :: "standing option"
  lf_departure :: "departure option"

abbreviation worth :: "chunk multiset \<Rightarrow> Balance" where
  "worth M \<equiv> \<Sum>\<^sub># (image_mset fst M)"

abbreviation due_in :: "RoundIndex \<Rightarrow> chunk multiset \<Rightarrow> chunk multiset" where
  "due_in r M \<equiv> filter_mset (\<lambda>c. snd c \<le> r) M"

abbreviation later_than :: "RoundIndex \<Rightarrow> chunk multiset \<Rightarrow> chunk multiset" where
  "later_than r M \<equiv> filter_mset (\<lambda>c. r < snd c) M"

definition advance :: "RoundIndex \<Rightarrow> standing \<Rightarrow> standing" where
  "advance r st =
     \<lparr>st_phase = Collating, st_own = st_own st + worth (due_in r (st_incoming st)),
      st_incoming = later_than r (st_incoming st), st_outgoing = later_than r (st_outgoing st)\<rparr>"

definition depart :: "RoundIndex \<Rightarrow> departure \<Rightarrow> departure option" where
  "depart r de = (if r < de_round de then Some (de\<lparr>de_outgoing := later_than r (de_outgoing de)\<rparr>) else None)"

inductive life_init :: "Balance \<Rightarrow> u32 \<Rightarrow> life \<Rightarrow> bool" for m d where
  born_out: "life_init m d \<lparr>lf_round = 1, lf_delay = d, lf_standing = None, lf_departure = None\<rparr>"
| born_joining:
    "m \<le> v \<Longrightarrow> life_init m d \<lparr>lf_round = 1, lf_delay = d,
       lf_standing = Some \<lparr>st_phase = Joining, st_own = 0, st_incoming = {#(v, 1)#}, st_outgoing = {#}\<rparr>,
       lf_departure = None\<rparr>"

inductive life_step :: "Balance \<Rightarrow> life \<Rightarrow> life \<Rightarrow> bool" for m where
  life_stay: "life_step m l l"
| life_delay: "life_step m l (l\<lparr>lf_delay := d\<rparr>)"
| life_enter:
    "lf_standing l = None \<Longrightarrow> m \<le> v \<Longrightarrow>
     life_step m l (l\<lparr>lf_standing := Some \<lparr>st_phase = Joining, st_own = 0,
       st_incoming = {#(v, lf_round l + 1)#}, st_outgoing = {#}\<rparr>\<rparr>)"
| life_onboard:
    "lf_standing l = Some st \<Longrightarrow> st_phase st = Joining \<Longrightarrow>
     life_step m l (l\<lparr>lf_standing := Some (st\<lparr>st_phase := Collating,
       st_own := st_own st + worth (st_incoming st), st_incoming := {#}\<rparr>)\<rparr>)"
| life_add:
    "lf_standing l = Some st \<Longrightarrow> st_phase st = Collating \<Longrightarrow>
     life_step m l (l\<lparr>lf_standing := Some (st\<lparr>st_incoming := add_mset (v, lf_round l + 1) (st_incoming st)\<rparr>)\<rparr>)"
| life_take:
    "lf_standing l = Some st \<Longrightarrow> st_phase st = Collating \<Longrightarrow> v < st_own st \<Longrightarrow> m \<le> st_own st - v \<Longrightarrow>
     life_step m l (l\<lparr>lf_standing := Some (st\<lparr>st_own := st_own st - v,
       st_outgoing := add_mset (v, lf_round l + lf_delay l) (st_outgoing st)\<rparr>)\<rparr>)"
| life_leave:
    "lf_standing l = Some st \<Longrightarrow>
     life_step m l (l\<lparr>lf_standing := None, lf_departure := Some \<lparr>de_own = st_own st,
       de_outgoing = st_outgoing st, de_round = lf_round l + lf_delay l\<rparr>\<rparr>)"
| life_round:
    "life_step m l \<lparr>lf_round = lf_round l + 1, lf_delay = lf_delay l,
       lf_standing = map_option (advance (lf_round l + 1)) (lf_standing l),
       lf_departure = Option.bind (lf_departure l) (depart (lf_round l + 1))\<rparr>"

section \<open>The abstraction of the pallet's storage\<close>

definition phase_of :: "StakerStatus \<Rightarrow> phase" where
  "phase_of st = (if st = Active then Collating else Joining)"

definition standing_of :: "'acc StakingCollators \<Rightarrow> standing" where
  "standing_of c =
     \<lparr>st_phase = phase_of (co_status c), st_own = co_active c,
      st_incoming = mset (map (\<lambda>x. (ul_value x, ul_round x)) (co_unlocking c)),
      st_outgoing = mset (map (\<lambda>x. (ub_value x, ub_round x)) (co_unbonding c))\<rparr>"

definition departure_of :: "Leaving \<Rightarrow> departure" where
  "departure_of x =
     \<lparr>de_own = lv_remaining x, de_outgoing = mset (map (\<lambda>x. (ub_value x, ub_round x)) (lv_unbonding x)),
      de_round = lv_when x\<rparr>"

definition life_of :: "'acc \<Rightarrow> ('acc, 'c) staking_state \<Rightarrow> life" where
  "life_of a s =
     \<lparr>lf_round = ri_index (CurrentRound s), lf_delay = bond_duration (Settings s),
      lf_standing = map_option standing_of (sm_get (Collators s) a),
      lf_departure = map_option departure_of (sm_get (ExitQueue s) a)\<rparr>"

lemma life_of_simps [simp]:
  "lf_round (life_of a s) = ri_index (CurrentRound s)"
  "lf_delay (life_of a s) = bond_duration (Settings s)"
  "lf_standing (life_of a s) = map_option standing_of (sm_get (Collators s) a)"
  "lf_departure (life_of a s) = map_option departure_of (sm_get (ExitQueue s) a)"
  by (simp_all add: life_of_def)

lemma life_of_cong:
  "ri_index (CurrentRound s') = ri_index (CurrentRound s) \<Longrightarrow> Settings s' = Settings s \<Longrightarrow>
   map_option standing_of (sm_get (Collators s') a) = map_option standing_of (sm_get (Collators s) a) \<Longrightarrow>
   sm_get (ExitQueue s') a = sm_get (ExitQueue s) a \<Longrightarrow> life_of a s' = life_of a s"
  by (simp add: life_of_def)

lemma worth_chunks:
  fixes f :: "'x \<Rightarrow> Balance"
  shows "worth {#(f x, g x). x \<in># {#x \<in># mset xs. P x#}#} = sum_list (map f (filter P xs))"
  by (induction xs) auto

lemma standing_of_updated:
  assumes "collator_ok k c"
  shows "standing_of (updated_collator r c) = advance r (standing_of c)"
  using assms
  by (auto simp: standing_of_def advance_def ledger_simps worth_chunks phase_of_def collator_ok_def filter_mset_image_mset
      mset_filter comp_def)

lemma departure_of_after: "map_option departure_of (exit_after r x) = depart r (departure_of x)"
  by (simp add: departure_of_def exit_after_def depart_def mset_filter filter_mset_image_mset comp_def)


section \<open>Every call is a move of each account\<close>

lemma standing_of_nominations: "standing_of (c\<lparr>co_nominations := ns\<rparr>) = standing_of c"
  by (simp add: standing_of_def)

lemma add_nomination_standing:
  "StakingCollators_add_nomination c b = (c', t) \<Longrightarrow> standing_of c' = standing_of c"
  by (auto simp: StakingCollators_add_nomination_def standing_of_nominations split: sum.splits)

lemma nomination_standing:
  "StakingCollators_nominate_extra c b = (c', e) \<Longrightarrow> standing_of c' = standing_of c"
  "StakingCollators_nominate_less c b = (c', l) \<Longrightarrow> standing_of c' = standing_of c"
  "StakingCollators_rm_nomination c w = (c', e) \<Longrightarrow> standing_of c' = standing_of c"
  by (auto simp: StakingCollators_nominate_extra_def StakingCollators_nominate_less_def
      StakingCollators_rm_nomination_def standing_of_nominations Let_def split: prod.splits option.splits)

lemma life_of_nominate: "life_of a (fst (nominate cfg origin cand v s)) = life_of a s"
  by (auto simp: nominate_def Let_def life_of_def split: option.splits prod.splits bool.splits
      dest: add_nomination_standing)

lemma life_of_nominate_extra: "life_of a (fst (nominate_extra cfg origin cand v s)) = life_of a s"
  by (auto simp: nominate_extra_def Let_def life_of_def split: option.splits prod.splits
      dest: nomination_standing)

lemma life_of_nominate_less: "life_of a (fst (nominate_less cfg origin cand v s)) = life_of a s"
  by (auto simp: nominate_less_def Let_def life_of_def split: option.splits prod.splits
      dest: nomination_standing)

lemma life_of_nominator_leave: "life_of a (fst (nominator_leave_collator cfg origin cand s)) = life_of a s"
  by (auto simp: nominator_leave_collator_def Let_def life_of_def split: option.splits prod.splits
      dest: nomination_standing)

lemmas life_of_nominator_calls = life_of_nominate life_of_nominate_extra life_of_nominate_less life_of_nominator_leave


lemma life_of_unchanged:
  "Collators s' = Collators s \<Longrightarrow> ExitQueue s' = ExitQueue s \<Longrightarrow> Settings s' = Settings s \<Longrightarrow>
   CurrentRound s' = CurrentRound s \<Longrightarrow> life_of a s' = life_of a s"
  by (simp add: life_of_def)

lemma life_step_stay: "l' = l \<Longrightarrow> life_step m l l'"
  by (simp add: life_stay)

lemma life_bond: "life_step (MinCollatorStake cfg) (life_of a s) (life_of a (fst (bond cfg origin v s)))"
proof (cases "snd (bond cfg origin v s) = Ok \<and> origin = Signed a")
  case True
  then have get: "sm_get (Collators s) a = None" and min: "MinCollatorStake cfg \<le> v"
    by (auto simp: bond_def Let_def not_less split: option.splits if_splits)
  have step: "life_of a (fst (bond cfg origin v s)) =
      (life_of a s)\<lparr>lf_standing := Some \<lparr>st_phase = Joining, st_own = 0,
        st_incoming = {#(v, lf_round (life_of a s) + 1)#}, st_outgoing = {#}\<rparr>\<rparr>"
    using True get min
    by (simp add: bond_def life_of_def Let_def not_less [symmetric] standing_of_def phase_of_def
        StakingCollators_new_def StakerStatus_default_def RoundInfo_next_round_index_def)
  show ?thesis unfolding step by (rule life_enter) (use get min in simp_all)
next
  case False
  then show ?thesis
    by (intro life_step_stay life_of_cong) (auto simp: bond_def Let_def split: option.splits if_splits)
qed

lemma life_force_onboard:
  assumes "collators_inv cfg s"
  shows "life_step m (life_of a s) (life_of a (fst (force_onboard cfg origin cand s)))"
proof (cases "snd (force_onboard cfg origin cand s) = Ok \<and> cand = a")
  case True
  then obtain c where get: "sm_get (Collators s) a = Some c" and na: "\<not> StakingCollators_is_active c"
    and s': "fst (force_onboard cfg origin cand s) =
      deposit_event (CandidateOnboard a) (put_collator cfg a (StakingCollators_force_bond c) s)"
    by (auto simp: force_onboard_def Let_def split: option.splits if_splits)
  have ok: "collator_ok (MaxNominationsPerCollator cfg) c" using collators_ok_get [OF assms get] .
  have "standing_of (StakingCollators_force_bond c) =
      (standing_of c)\<lparr>st_phase := Collating, st_own := st_own (standing_of c) + worth (st_incoming (standing_of c)),
        st_incoming := {#}\<rparr>"
    using ok na worth_chunks [of ul_value ul_round "\<lambda>_. True" "co_unlocking c"]
    by (auto simp: standing_of_def StakingCollators_force_bond_def collator_ok_def collator_backing_def
        StakingCollators_is_active_def phase_of_def)
  then have step: "life_of a (fst (force_onboard cfg origin cand s)) =
      (life_of a s)\<lparr>lf_standing := Some ((standing_of c)\<lparr>st_phase := Collating,
        st_own := st_own (standing_of c) + worth (st_incoming (standing_of c)), st_incoming := {#}\<rparr>)\<rparr>"
    by (simp add: s' life_of_def)
  moreover have "st_phase (standing_of c) = Joining"
    using na by (simp add: standing_of_def phase_of_def StakingCollators_is_active_def)
  ultimately show ?thesis unfolding step by (intro life_onboard) (use get in simp_all)
next
  case False
  then show ?thesis
    by (intro life_step_stay life_of_cong) (auto simp: force_onboard_def Let_def split: option.splits if_splits)
qed

lemma life_bond_extra: "life_step m (life_of a s) (life_of a (fst (bond_extra cfg origin v s)))"
proof (cases "snd (bond_extra cfg origin v s) = Ok \<and> origin = Signed a")
  case True
  then obtain c where get: "sm_get (Collators s) a = Some c" and act: "StakingCollators_is_active c"
    by (auto simp: bond_extra_def Let_def split: option.splits if_splits)
  have step: "life_of a (fst (bond_extra cfg origin v s)) =
      (life_of a s)\<lparr>lf_standing := Some ((standing_of c)\<lparr>st_incoming :=
        add_mset (v, lf_round (life_of a s) + 1) (st_incoming (standing_of c))\<rparr>)\<rparr>"
    using True get act
    by (simp add: bond_extra_def life_of_def Let_def standing_of_def StakingCollators_bond_extra_def
        RoundInfo_next_round_index_def)
  moreover have "st_phase (standing_of c) = Collating"
    using act by (simp add: standing_of_def phase_of_def StakingCollators_is_active_def)
  ultimately show ?thesis unfolding step by (intro life_add) (use get in simp_all)
next
  case False
  then show ?thesis
    by (intro life_step_stay life_of_cong) (auto simp: bond_extra_def Let_def split: option.splits if_splits)
qed

lemma life_bond_less: "life_step (MinCollatorStake cfg) (life_of a s) (life_of a (fst (bond_less cfg origin v s)))"
proof (cases "snd (bond_less cfg origin v s) = Ok \<and> origin = Signed a")
  case True
  then obtain c where get: "sm_get (Collators s) a = Some c" and act: "StakingCollators_is_active c"
    and v: "v < co_active c" "MinCollatorStake cfg \<le> co_active c - v"
    by (auto simp: bond_less_def Let_def bond_less_Some split: option.splits if_splits prod.splits)
  have step: "life_of a (fst (bond_less cfg origin v s)) =
      (life_of a s)\<lparr>lf_standing := Some ((standing_of c)\<lparr>st_own := st_own (standing_of c) - v, st_outgoing :=
        add_mset (v, lf_round (life_of a s) + lf_delay (life_of a s)) (st_outgoing (standing_of c))\<rparr>)\<rparr>"
    using True get act v
    by (simp add: bond_less_def life_of_def Let_def standing_of_def StakingCollators_bond_less_def withdraw_round_def)
  moreover have "st_phase (standing_of c) = Collating" "st_own (standing_of c) = co_active c"
    using act by (simp_all add: standing_of_def phase_of_def StakingCollators_is_active_def)
  ultimately show ?thesis unfolding step by (intro life_take) (use get v in simp_all)
next
  case False
  then show ?thesis
    by (intro life_step_stay life_of_cong)
      (auto simp: bond_less_def Let_def split: option.splits if_splits prod.splits)
qed

lemma life_collator_unbond: "life_step m (life_of a s) (life_of a (fst (collator_unbond cfg origin s)))"
proof (cases "snd (collator_unbond cfg origin s) = Ok \<and> origin = Signed a")
  case True
  then obtain c where get: "sm_get (Collators s) a = Some c"
    by (auto simp: collator_unbond_def Let_def split: option.splits)
  have step: "life_of a (fst (collator_unbond cfg origin s)) =
      (life_of a s)\<lparr>lf_standing := None, lf_departure := Some \<lparr>de_own = st_own (standing_of c),
        de_outgoing = st_outgoing (standing_of c), de_round = lf_round (life_of a s) + lf_delay (life_of a s)\<rparr>\<rparr>"
    using True get
    by (simp add: collator_unbond_def life_of_def Let_def standing_of_def departure_of_def Leaving_new_def
        withdraw_round_def fold_invariant [where f = ExitQueue] fold_invariant [where f = Collators]
        fold_invariant [where f = CurrentRound] fold_invariant [where f = Settings])
  show ?thesis unfolding step by (rule life_leave) (use get in simp)
next
  case False
  then show ?thesis
    by (intro life_step_stay life_of_cong)
      (auto simp: collator_unbond_def Let_def fold_invariant [where f = ExitQueue] fold_invariant [where f = Collators]
        fold_invariant [where f = CurrentRound] fold_invariant [where f = Settings] split: option.splits)
qed

lemma life_config: "life_step m (life_of a s) (life_of a (fst (config origin st s)))"
proof (cases "ensure_root origin")
  case True
  then have "life_of a (fst (config origin st s)) = (life_of a s)\<lparr>lf_delay := bond_duration st\<rparr>"
    by (simp add: config_def life_of_def)
  then show ?thesis by (simp only: life_delay)
qed (simp add: config_def life_stay)

section \<open>The exit queue holds each account once\<close>

abbreviation life_inv :: "('acc::linorder, 'c, 'p, 'b) staking_config \<Rightarrow> ('acc, 'c) staking_state \<Rightarrow> bool" where
  "life_inv cfg s \<equiv> collators_inv cfg s \<and> distinct (keys (ExitQueue s))"

lemma dispatch_exit_distinct:
  "distinct (keys (ExitQueue s)) \<Longrightarrow> distinct (keys (ExitQueue (fst (staking_dispatch cfg origin call s))))"
  by (cases call; simp add: config_def bond_def force_onboard_def bond_extra_def bond_less_def collator_unbond_def
      nominate_def nominate_extra_def nominate_less_def nominator_leave_collator_def Let_def
      fold_invariant [where f = ExitQueue] split: option.split prod.split bool.split)

lemma on_finalize_exit:
  "ExitQueue (on_finalize cfg el now s) =
     (if RoundInfo_should_goto_next_round (CurrentRound s) now
      then ExitQueue (execute_exit_queue cfg (ri_index (CurrentRound s) + 1)
        (update_nominators cfg (ri_index (CurrentRound s) + 1) (update_collators cfg (ri_index (CurrentRound s) + 1)
          (payout_stakers cfg (ri_index (CurrentRound s) + 1)
            (s\<lparr>CurrentRound := RoundInfo_update (CurrentRound s) now (blocks_per_round (Settings s))\<rparr>)))))
      else ExitQueue s)"
  by (simp add: on_finalize_def Let_def RoundInfo_update_def)

lemma execute_exit_queue_get:
  assumes "distinct (keys (ExitQueue s))"
  shows "sm_get (ExitQueue (execute_exit_queue cfg r s)) a = Option.bind (sm_get (ExitQueue s) a) (exit_after r)"
  unfolding execute_exit_queue_queue [OF assms] map_filter_get [OF assms] ..

lemma keys_map_filter:
  "keys (List.map_filter (\<lambda>(a, x). map_option (Pair a) (f x)) q) = map fst (filter (\<lambda>(a, x). f x \<noteq> None) q)"
  by (induction q) (auto simp: List.map_filter_simps split: option.splits)

lemma on_finalize_exit_distinct:
  assumes "distinct (keys (ExitQueue s))"
  shows "distinct (keys (ExitQueue (on_finalize cfg el now s)))"
  using assms
  by (simp add: on_finalize_exit execute_exit_queue_queue keys_map_filter distinct_map_filter)

section \<open>A round change is a move of each account\<close>

lemma life_on_finalize:
  assumes "life_inv cfg s"
  shows "life_step m (life_of a s) (life_of a (on_finalize cfg el now s))"
proof (cases "RoundInfo_should_goto_next_round (CurrentRound s) now")
  case True
  let ?r = "ri_index (CurrentRound s) + 1"
  have d: "distinct (keys (Collators s))" "distinct (keys (ExitQueue s))"
    using assms by (auto simp: collators_ok_def)
  have co: "sm_get (Collators (on_finalize cfg el now s)) a = map_option (updated_collator ?r) (sm_get (Collators s) a)"
    using True d by (simp add: on_finalize_collators update_collators_get)
  have ex: "sm_get (ExitQueue (on_finalize cfg el now s)) a = Option.bind (sm_get (ExitQueue s) a) (exit_after ?r)"
    using True d by (simp add: on_finalize_exit execute_exit_queue_get)
  have "map_option standing_of (sm_get (Collators (on_finalize cfg el now s)) a) =
      map_option (advance ?r) (map_option standing_of (sm_get (Collators s) a))"
    using collators_ok_get [of "MaxNominationsPerCollator cfg" "Collators s" a] assms
    by (auto simp: co standing_of_updated option.map_comp comp_def intro!: map_option_cong)
  moreover have "map_option departure_of (sm_get (ExitQueue (on_finalize cfg el now s)) a) =
      Option.bind (map_option departure_of (sm_get (ExitQueue s) a)) (depart ?r)"
    by (cases "sm_get (ExitQueue s) a") (simp_all add: ex departure_of_after)
  moreover have "ri_index (CurrentRound (on_finalize cfg el now s)) = ?r" "Settings (on_finalize cfg el now s) = Settings s"
    using True by (simp_all add: on_finalize_def Let_def RoundInfo_update_def)
  ultimately have step: "life_of a (on_finalize cfg el now s) =
      \<lparr>lf_round = lf_round (life_of a s) + 1, lf_delay = lf_delay (life_of a s),
       lf_standing = map_option (advance (lf_round (life_of a s) + 1)) (lf_standing (life_of a s)),
       lf_departure = Option.bind (lf_departure (life_of a s)) (depart (lf_round (life_of a s) + 1))\<rparr>"
    by (simp add: life_of_def)
  show ?thesis unfolding step by (rule life_round)
next
  case False
  then show ?thesis by (simp add: on_finalize_def life_stay)
qed

section \<open>Genesis\<close>

lemma life_build_stakers:
  assumes "build_stakers cfg stakers t s = Some (t', s')"
    and "CurrentRound s = CurrentRound (default_state c)"
    and "\<And>x. sm_get (Collators s) a = Some x \<Longrightarrow> \<exists>v. MinCollatorStake cfg \<le> v \<and> x = StakingCollators_new v 1"
  shows "CurrentRound s' = CurrentRound s \<and> ExitQueue s' = ExitQueue s \<and>
    (\<forall>x. sm_get (Collators s') a = Some x \<longrightarrow> (\<exists>v. MinCollatorStake cfg \<le> v \<and> x = StakingCollators_new v 1))"
  using assms
proof (induction cfg stakers t s rule: build_stakers.induct)
  case (1 cfg total s)
  then show ?case by simp
next
  case (2 cfg staker balance stakers total s)
  let ?s = "fst (bond cfg (Signed staker) balance s)"
  have rec: "build_stakers cfg stakers (total + balance) ?s = Some (t', s')"
    and enough: "balance \<le> free_balance (Currency cfg) (currency s) staker"
    using "2.prems"(1) by (auto split: if_splits)
  have s: "CurrentRound ?s = CurrentRound s" "ExitQueue ?s = ExitQueue s"
    by (simp_all add: bond_def Let_def)
  have get: "\<exists>v. MinCollatorStake cfg \<le> v \<and> x = StakingCollators_new v 1" if "sm_get (Collators ?s) a = Some x" for x
    using that "2.prems"(2) "2.prems"(3) [of x]
    by (auto simp: bond_def Let_def RoundInfo_next_round_index_def default_state_def not_less split: if_splits)
  show ?case using "2.IH" [OF enough rec _ get] s "2.prems"(2) by simp
qed

lemma life_genesis:
  assumes "staking_genesis cfg s"
  shows "life_init (MinCollatorStake cfg) (BondDuration cfg) (life_of a s)"
proof -
  obtain stakers c where b: "build cfg stakers (default_state c) = Some s"
    using assms by (auto simp: staking_genesis_def)
  then obtain t u where bs: "build_stakers cfg stakers 0 (default_state c) = Some (t, u)"
    and s: "Collators s = Collators u" "ExitQueue s = ExitQueue u" "ri_index (CurrentRound s) = 1"
      "bond_duration (Settings s) = BondDuration cfg"
    by (auto simp: build_def Let_def RoundInfo_new_def split: option.splits)
  have "ExitQueue u = []" and get: "\<exists>v. MinCollatorStake cfg \<le> v \<and> x = StakingCollators_new v 1"
    if "sm_get (Collators u) a = Some x" for x
    using life_build_stakers [OF bs] that by (simp_all add: default_state_def)
  moreover have "ExitQueue u = []" using life_build_stakers [OF bs, of c a] by (simp add: default_state_def)
  ultimately show ?thesis
    by (cases "sm_get (Collators u) a")
      (auto simp: life_of_def s standing_of_def StakingCollators_new_def StakerStatus_default_def phase_of_def
        intro!: born_out born_joining)
qed

section \<open>The pallet refines the machine\<close>

interpretation life: simulation "staking_genesis cfg" "staking_step cfg" "life_inv cfg"
    "life_of a" "life_init (MinCollatorStake cfg) (BondDuration cfg)" "life_step (MinCollatorStake cfg)" for cfg a
proof unfold_locales
  fix s assume g: "staking_genesis cfg s"
  then obtain stakers c t u where "build_stakers cfg stakers 0 (default_state c) = Some (t, u)" "ExitQueue s = ExitQueue u"
    by (auto simp: staking_genesis_def build_def Let_def split: option.splits)
  then have "ExitQueue s = []" using life_build_stakers [of cfg stakers 0 "default_state c" t u c]
    by (simp add: default_state_def)
  then show "life_inv cfg s" using collators_invariant.inv_init [OF g] by simp
  show "life_init (MinCollatorStake cfg) (BondDuration cfg) (life_of a s)" using g by (rule life_genesis)
next
  fix s s' assume inv: "life_inv cfg s" and step: "staking_step cfg s s'"
  have "distinct (keys (ExitQueue s'))"
    using step inv
    by cases (auto intro: dispatch_exit_distinct on_finalize_exit_distinct simp: note_author_def Let_def)
  then show "life_inv cfg s'" using collators_invariant.inv_step [OF _ step] inv by simp
  show "life_step (MinCollatorStake cfg) (life_of a s) (life_of a s')"
    using step
  proof cases
    case (step_call origin call)
    then show ?thesis using inv
      by (cases call) (auto simp: life_of_nominator_calls life_stay
          intro: life_config life_bond life_force_onboard life_bond_extra life_bond_less life_collator_unbond)
  next
    case (step_finalize elect now)
    then show ?thesis using life_on_finalize [OF inv] by simp
  next
    case (step_author author)
    then show ?thesis by (intro life_step_stay) (simp add: note_author_def Let_def life_of_def)
  next
    case (step_balances c)
    then show ?thesis by (intro life_step_stay) (simp add: life_of_def)
  qed
qed

text \<open>C1: Refinement: in every reachable state and for every account, the pallet's storage is a reachable
  position of the abstract life of that account, and every step of the pallet (a call by anyone, the
  end of a block with any election result, an authored block, a change of balances elsewhere) is one
  of the moves of that life or leaves the account where it is. In particular an account enters only
  with the minimum stake, keeps the minimum when it takes stake out, and what it takes out waits for
  the bonding delay.\<close>

theorem staking_refines_life:
  assumes "staking_reachable cfg s" and "staking_step cfg s s'"
  shows "reachable (life_init (MinCollatorStake cfg) (BondDuration cfg)) (life_step (MinCollatorStake cfg)) (life_of a s) \<and>
    life_step (MinCollatorStake cfg) (life_of a s) (life_of a s')"
  by (intro conjI life.reachable_abs life.sim_step life.concrete.reachable_inv assms)

theorem staking_refines_life_witness:
  "life_step 100 (life_of 1 demo2) (life_of 1 (fst (bond_less demo_cfg (Signed 1) 150 demo2))) \<and>
   lf_standing (life_of 1 (fst (bond_less demo_cfg (Signed 1) 150 demo2))) =
     Some \<lparr>st_phase = Collating, st_own = 350, st_incoming = {#}, st_outgoing = {#(150, 4)#}\<rparr>"
proof
  have min: "MinCollatorStake demo_cfg = 100" by (simp add: demo_cfg_def)
  have "staking_step demo_cfg demo2 (fst (staking_dispatch demo_cfg (Signed 1) (Call_bond_less 150) demo2))"
    by (rule step_call)
  then show "life_step 100 (life_of 1 demo2) (life_of 1 (fst (bond_less demo_cfg (Signed 1) 150 demo2)))"
    using staking_refines_life [OF demo2_reachable, of _ 1] by (simp add: min)
  show "lf_standing (life_of 1 (fst (bond_less demo_cfg (Signed 1) 150 demo2))) =
     Some \<lparr>st_phase = Collating, st_own = 350, st_incoming = {#}, st_outgoing = {#(150, 4)#}\<rparr>"
    by (simp add: bond_less_def demo2_simps min StakingCollators_is_active_def StakingCollators_bond_less_def
        withdraw_round_def standing_of_def phase_of_def)
qed

section \<open>Incoming stake waits for one round only\<close>

definition prompt :: "life \<Rightarrow> bool" where
  "prompt l \<longleftrightarrow> (case lf_standing l of None \<Rightarrow> True
     | Some st \<Rightarrow> \<forall>c \<in># st_incoming st. snd c = lf_round l + 1 \<or> lf_round l = 1 \<and> snd c = 1)"

lemma prompt_advance:
  assumes "prompt l" and "lf_standing l = Some st"
  shows "st_incoming (advance (lf_round l + 1) st) = {#}"
  using assms by (auto simp: prompt_def advance_def not_less filter_mset_False [symmetric] simp del: filter_mset_False intro!: filter_mset_cong)

interpretation prompt: inductive_invariant "life_init m d" "life_step m" prompt for m d
proof unfold_locales
  fix l assume "life_init m d l"
  then show "prompt l" by cases (simp_all add: prompt_def)
next
  fix l l' assume inv: "prompt l" and step: "life_step m l l'"
  show "prompt l'"
    using step
  proof cases
    case life_round
    then show ?thesis using prompt_advance [OF inv] by (auto simp: prompt_def split: option.splits)
  qed (use inv in \<open>auto simp: prompt_def split: option.splits\<close>)
qed

text \<open>C8: Stake that waits to become active waits for one round change only: in every reachable state, at
  the next round change every collator is active, all its waiting stake (of \<^verbatim>\<open>bond\<close>, of
  \<^verbatim>\<open>bond_extra\<close> and of genesis) is added to its active stake, nothing is left waiting, and its total
  is its active stake plus what it has taken out and not yet got back.\<close>

theorem waiting_stake_active_next_round:
  assumes "staking_reachable cfg s" and "RoundInfo_should_goto_next_round (CurrentRound s) now"
    and "sm_get (Collators s) a = Some c"
  shows "\<exists>c'. sm_get (Collators (on_finalize cfg elect now s)) a = Some c' \<and> co_status c' = Active \<and>
    co_unlocking c' = [] \<and> co_active c' = co_active c + unlocking_sum (co_unlocking c) \<and>
    co_total c' = co_active c' + unbonding_sum (co_unbonding c')"
proof -
  let ?r = "ri_index (CurrentRound s) + 1" and ?c = "updated_collator (ri_index (CurrentRound s) + 1) c"
  have inv: "life_inv cfg s" by (rule life.concrete.reachable_inv [OF assms(1)])
  have ok: "collator_ok (MaxNominationsPerCollator cfg) c" using collators_ok_get [OF conjunct1 [OF inv] assms(3)] .
  have "prompt (life_of a s)"
    by (rule life.transfer_invariant [OF assms(1) prompt.inductive_invariant_axioms])
  then have due: "ul_round x \<le> ?r" if "x \<in> set (co_unlocking c)" for x
    using that assms(3) by (auto simp: prompt_def standing_of_def)
  have "sm_get (Collators (on_finalize cfg elect now s)) a = Some ?c"
    using assms(2,3) inv by (simp add: on_finalize_collators update_collators_get collators_ok_def)
  moreover have "collator_ok (MaxNominationsPerCollator cfg) ?c" using ok by (rule collator_ok_updated)
  moreover have "co_status ?c = Active" using ok by (auto simp: ledger_simps collator_ok_def)
  moreover have none: "filter (\<lambda>x. ?r < ul_round x) (co_unlocking c) = []"
    and all: "filter (\<lambda>x. ul_round x \<le> ?r) (co_unlocking c) = co_unlocking c"
    using due by (auto simp: filter_empty_conv filter_id_conv not_less)
  ultimately show ?thesis by (simp add: ledger_simps none all collator_ok_def collator_backing_def)
qed

theorem waiting_stake_active_next_round_witness:
  "\<exists>c'. sm_get (Collators (on_finalize demo_cfg None 5 demo0)) 1 = Some c' \<and> co_active c' = 500 \<and> co_unlocking c' = []"
  using waiting_stake_active_next_round [OF demo0_reachable, of 5 1 _ None]
  by (auto simp: demo0_simps RoundInfo_should_goto_next_round_def)

end
