(* ===== verification/Staking_Storage.thy ===== *)
theory Staking_Storage
  imports Staking_Life Staking_Election_Properties
begin

text \<open>
  The storage maps of the staking pallet are maps: in every reachable state no key occurs twice in
  the collators, the nominators, the exit queue, or the points and exposures of any round. This
  discharges, for reachable states, the hypotheses of the round-change lemmas.
\<close>

definition storage_wf :: "('acc, 'c) staking_state \<Rightarrow> bool" where
  "storage_wf s \<longleftrightarrow> distinct (keys (Collators s)) \<and> distinct (keys (Nominators s)) \<and> distinct (keys (ExitQueue s)) \<and>
     (\<forall>r. distinct (keys (CollatorPoints s r)) \<and> distinct (keys (RoundStakerClipped s r)))"

lemma dispatch_nominators_distinct:
  "distinct (keys (Nominators s)) \<Longrightarrow> distinct (keys (Nominators (fst (staking_dispatch cfg origin call s))))"
  by (cases call; simp add: config_def bond_def force_onboard_def bond_extra_def bond_less_def collator_unbond_def
      nominate_def nominate_extra_def nominate_less_def nominator_leave_collator_def Let_def
      fold_invariant [where f = Nominators] split: option.split prod.split bool.split)

lemma dispatch_clipped:
  "RoundStakerClipped (fst (staking_dispatch cfg origin call s)) = RoundStakerClipped s"
  by (cases call; simp add: config_def bond_def force_onboard_def bond_extra_def bond_less_def collator_unbond_def
      nominate_def nominate_extra_def nominate_less_def nominator_leave_collator_def Let_def
      fold_invariant [where f = RoundStakerClipped] split: option.split prod.split bool.split)

lemma process_election_clipped_distinct:
  fixes s :: "('a, 'b) staking_state"
  assumes "\<forall>q. distinct (keys (RoundStakerClipped s q))"
  shows "\<forall>q. distinct (keys (RoundStakerClipped (fst (process_election cfg sps r s)) q))"
proof -
  define add where "add = (\<lambda>(stash, exposure) (s :: ('a, 'b) staking_state). deposit_event (CollatorChoosen r stash (ex_total exposure))
      (s\<lparr>RoundStakerClipped := (RoundStakerClipped s)
        (r := sm_insert (key_before cfg) stash exposure (RoundStakerClipped s r))\<rparr>))"
  have "\<forall>q. distinct (keys (RoundStakerClipped (fold add es s) q))" for es
    using assms by (induction es arbitrary: s) (auto simp: add_def)
  then show ?thesis by (simp add: process_election_def Let_def add_def)
qed

lemma enact_election_clipped_distinct:
  assumes "\<forall>q. distinct (keys (RoundStakerClipped s q))"
  shows "\<forall>q. distinct (keys (RoundStakerClipped (fst (enact_election cfg el r s)) q))"
  using assms process_election_clipped_distinct [of "s\<lparr>registered_weight := w\<rparr>" cfg _ r for w]
  by (simp add: enact_election_def Let_def case_prod_beta split: option.split)

lemma storage_wf_round_payments:
  assumes "storage_wf s"
  shows "storage_wf (round_payments cfg r s)"
  using assms
  by (auto simp: storage_wf_def round_payments_def payout_stakers_clipped update_collators_collators
      update_nominators_nominators execute_exit_queue_queue keys_map_filter distinct_map_filter
      comp_def case_prod_beta)

lemma storage_wf_on_finalize:
  assumes "storage_wf s"
  shows "storage_wf (on_finalize cfg el now s)"
proof (cases "RoundInfo_should_goto_next_round (CurrentRound s) now")
  case True
  have "storage_wf (round_payments cfg r (s\<lparr>CurrentRound := c\<rparr>))" for r c
    by (rule storage_wf_round_payments) (use assms in \<open>simp add: storage_wf_def\<close>)
  then show ?thesis
    using enact_election_clipped_distinct [of "round_payments cfg r (s\<lparr>CurrentRound := c\<rparr>)" cfg el r for r c]
    by (auto simp: on_finalize_due [OF True] storage_wf_def)
next
  case False
  then show ?thesis using assms by (simp add: on_finalize_not_due)
qed

lemma build_stakers_maps:
  "build_stakers cfg stakers t s = Some (t', s') \<Longrightarrow>
   Nominators s' = Nominators s \<and> ExitQueue s' = ExitQueue s \<and> RoundStakerClipped s' = RoundStakerClipped s"
  by (induction cfg stakers t s rule: build_stakers.induct) (auto simp: bond_def Let_def split: if_splits)

lemma build_maps:
  assumes "build cfg stakers (default_state c) = Some s"
  shows "Nominators s = []" and "ExitQueue s = []"
proof -
  obtain t u where bs: "build_stakers cfg stakers 0 (default_state c) = Some (t, u)"
    and "Nominators s = Nominators u" "ExitQueue s = ExitQueue u"
    using assms by (auto simp: build_def Let_def split: option.splits)
  then show "Nominators s = []" "ExitQueue s = []"
    using build_stakers_maps [OF bs] by (simp_all add: default_state_def)
qed

lemma storage_wf_genesis:
  fixes cfg :: "('acc::linorder, 'c, 'p, 'b) staking_config"
  assumes "staking_genesis cfg s"
  shows "storage_wf s"
proof -
  obtain stakers c t u where bs: "build_stakers cfg stakers 0 (default_state c) = Some (t, u)"
    and s: "Nominators s = Nominators u" "RoundStakerClipped s = RoundStakerClipped u" "ExitQueue s = ExitQueue u"
    using assms by (auto simp: staking_genesis_def build_def Let_def split: option.splits)
  show ?thesis
    using build_stakers_maps [OF bs] collators_invariant.inv_init [OF assms] points_invariant.inv_init [OF assms]
    by (simp add: storage_wf_def s default_state_def collators_ok_def points_inv_def)
qed

interpretation storage: inductive_invariant "staking_genesis cfg" "staking_step cfg"
    "\<lambda>s. storage_wf s \<and> collators_inv cfg s \<and> points_inv s" for cfg
proof unfold_locales
  fix s assume g: "staking_genesis cfg s"
  then show "storage_wf s \<and> collators_inv cfg s \<and> points_inv s"
    using storage_wf_genesis collators_invariant.inv_init points_invariant.inv_init by blast
next
  fix s s' assume inv: "storage_wf s \<and> collators_inv cfg s \<and> points_inv s" and step: "staking_step cfg s s'"
  have co: "collators_inv cfg s'" and po: "points_inv s'"
    using collators_invariant.inv_step [OF _ step] points_invariant.inv_step [OF _ step] inv by auto
  have "storage_wf s'"
    using step
  proof cases
    case (step_call origin call)
    then show ?thesis using inv co po
      by (simp add: storage_wf_def collators_ok_def points_inv_def dispatch_nominators_distinct dispatch_exit_distinct
          dispatch_clipped)
  next
    case (step_finalize elect now)
    then show ?thesis using storage_wf_on_finalize [OF conjunct1 [OF inv]] by simp
  next
    case (step_author author)
    then show ?thesis using inv by (simp add: storage_wf_def note_author_def Let_def)
  next
    case (step_balances c)
    then show ?thesis using inv by (simp add: storage_wf_def)
  qed
  with co po show "storage_wf s' \<and> collators_inv cfg s' \<and> points_inv s'" by simp
qed

text \<open>In every reachable state the storage maps of the pallet are maps: no account is listed twice among
  the collators, the nominators or the leaving collators, and no account has two entries of points or
  two exposures in one round.\<close>

theorem reachable_storage_maps:
  assumes "staking_reachable cfg s"
  shows "distinct (keys (Collators s)) \<and> distinct (keys (Nominators s)) \<and> distinct (keys (ExitQueue s)) \<and>
    (\<forall>r. distinct (keys (CollatorPoints s r)) \<and> distinct (keys (RoundStakerClipped s r)))"
  using storage.reachable_inv [OF assms] by (simp add: storage_wf_def)

theorem reachable_storage_maps_witness:
  "distinct (keys (Nominators (on_finalize demo_cfg None 10 demo2)))"
  using reachable_storage_maps [OF reachable_step [OF demo2_reachable step_finalize]] by blast

section \<open>The records after a round change\<close>

lemma round_change_records:
  fixes cfg :: "('acc, 'c, 'p, 'b) staking_config"
  assumes "RoundInfo_should_goto_next_round (CurrentRound s) now"
    and "distinct (keys (Collators s))" and "distinct (keys (Nominators s))" and "distinct (keys (ExitQueue s))"
  defines "r \<equiv> ri_index (CurrentRound s) + 1"
  shows "sm_get (Collators (on_finalize cfg el now s)) a = map_option (updated_collator r) (sm_get (Collators s) a)"
    and "sm_get (Nominators (on_finalize cfg el now s)) a =
      map_option (\<lambda>n. StakingNominators_consolidate_unbonded n r) (sm_get (Nominators s) a)"
    and "sm_get (ExitQueue (on_finalize cfg el now s)) a = Option.bind (sm_get (ExitQueue s) a) (exit_after r)"
proof -
  show "sm_get (Collators (on_finalize cfg el now s)) a = map_option (updated_collator r) (sm_get (Collators s) a)"
    using assms(1,2) by (simp add: on_finalize_collators update_collators_get r_def)
  have "Nominators (on_finalize cfg el now s) =
      map (\<lambda>(a, n). (a, StakingNominators_consolidate_unbonded n r)) (Nominators s)"
    using assms(1,3) by (simp add: on_finalize_def Let_def RoundInfo_update_def update_nominators_nominators r_def)
  then show "sm_get (Nominators (on_finalize cfg el now s)) a =
      map_option (\<lambda>n. StakingNominators_consolidate_unbonded n r) (sm_get (Nominators s) a)"
    by (simp add: map_of_map_snd [where f = "\<lambda>_ n. StakingNominators_consolidate_unbonded n r"])
  show "sm_get (ExitQueue (on_finalize cfg el now s)) a = Option.bind (sm_get (ExitQueue s) a) (exit_after r)"
    using assms(1,4) by (simp add: on_finalize_exit execute_exit_queue_get r_def)
qed

end
