(* ===== verification/Staking_Backing.thy ===== *)
theory Staking_Backing
  imports Staking_Storage
begin

text \<open>
  Is the stake on the books backed by reserved money? The pallet ignores the result of every
  reservation, so in general it is not. It is for every account whose own reservations succeed and
  that does not nominate: from the moment it enters, whatever all other accounts do, its reserved
  balance covers its collator record and its exit record together.
\<close>

section \<open>What an account may claim\<close>

text \<open>The amounts are added as natural numbers, so a wrap-around of the ledger's own sums cannot hide a claim.\<close>

abbreviation chunks_value :: "UnBondChunk list \<Rightarrow> nat" where
  "chunks_value chunks \<equiv> \<Sum>x \<leftarrow> chunks. unat (ub_value x)"

definition collator_claim :: "'acc StakingCollators \<Rightarrow> nat" where
  "collator_claim c =
     unat (co_active c) + (\<Sum>x \<leftarrow> co_unlocking c. unat (ul_value x)) + chunks_value (co_unbonding c)"

definition exit_claim :: "Leaving \<Rightarrow> nat" where
  "exit_claim x = unat (lv_remaining x) + chunks_value (lv_unbonding x)"

definition claim_of :: "('acc, 'c) staking_state \<Rightarrow> 'acc \<Rightarrow> nat" where
  "claim_of s a =
     (case sm_get (Collators s) a of Some c \<Rightarrow> collator_claim c | None \<Rightarrow> 0) +
     (case sm_get (ExitQueue s) a of Some x \<Rightarrow> exit_claim x | None \<Rightarrow> 0)"

abbreviation held :: "('acc, 'c, 'p, 'b) staking_config \<Rightarrow> ('acc, 'c) staking_state \<Rightarrow> 'acc \<Rightarrow> Balance" where
  "held cfg s a \<equiv> reserved_balance (Currency cfg) (currency s) a"

text \<open>An account that nominates no one, on either side of the books.\<close>

definition nominated_by :: "'acc \<Rightarrow> 'acc StakingCollators \<Rightarrow> bool" where
  "nominated_by a c \<longleftrightarrow> a \<in> owner ` set (co_nominations c)"

definition no_nominator :: "'acc \<Rightarrow> ('acc, 'c) staking_state \<Rightarrow> bool" where
  "no_nominator a s \<longleftrightarrow> sm_get (Nominators s) a = None \<and>
     (\<forall>b c. sm_get (Collators s) b = Some c \<longrightarrow> \<not> nominated_by a c)"

text \<open>
  The steps of a chain on which the account \<open>a\<close> pays for what it bonds: its calls do not nominate, and
  when it bonds, the currency can reserve the amount and the reserved balance stays in range; other
  pallets do not take reserved money from it. Everything else is free.
\<close>

definition can_reserve :: "('acc, 'c, 'p, 'b) staking_config \<Rightarrow> 'acc \<Rightarrow> Balance \<Rightarrow> ('acc, 'c) staking_state \<Rightarrow> bool" where
  "can_reserve cfg a v s \<longleftrightarrow>
     snd (reserve (Currency cfg) (currency s) a v) \<and> unat (held cfg s a) + unat v < 2 ^ 128"

fun paid_call :: "('acc, 'c, 'p, 'b) staking_config \<Rightarrow> 'acc \<Rightarrow> 'acc staking_call \<Rightarrow> ('acc, 'c) staking_state \<Rightarrow> bool" where
  "paid_call cfg a (Call_bond v) s = can_reserve cfg a v s"
| "paid_call cfg a (Call_bond_extra v) s = can_reserve cfg a v s"
| "paid_call cfg a (Call_nominate _ _) s = False"
| "paid_call cfg a _ s = True"

inductive paid_step ::
    "('acc::linorder, 'c, 'p, 'b) staking_config \<Rightarrow> 'acc \<Rightarrow> ('acc, 'c) staking_state \<Rightarrow> ('acc, 'c) staking_state \<Rightarrow> bool"
    for cfg a where
  paid_call: "(origin = Signed a \<Longrightarrow> paid_call cfg a call s) \<Longrightarrow> paid_step cfg a s (fst (staking_dispatch cfg origin call s))"
| paid_finalize: "paid_step cfg a s (on_finalize cfg elect now s)"
| paid_author: "paid_step cfg a s (note_author cfg author s)"
| paid_balances: "held cfg s a \<le> reserved_balance (Currency cfg) c a \<Longrightarrow> paid_step cfg a s (s\<lparr>currency := c\<rparr>)"

lemma paid_step_staking: "paid_step cfg a s s' \<Longrightarrow> staking_step cfg s s'"
  by (auto elim!: paid_step.cases intro: staking_step.intros)

section \<open>Claims never grow by themselves\<close>

lemma unat_sum_le: "unat (sum_list ws) \<le> (\<Sum>w \<leftarrow> ws. unat w)"
proof (induction ws)
  case (Cons w ws)
  have "unat (w + sum_list ws) \<le> unat w + unat (sum_list ws)" by (simp add: unat_word_ariths)
  with Cons show ?case by simp
qed simp

lemma unat_map_sum_le: "unat (sum_list (map f xs)) \<le> (\<Sum>x \<leftarrow> xs. unat (f x))"
  using unat_sum_le [of "map f xs"] by (simp add: comp_def)

lemma unat_add_le: "unat (v + w) \<le> unat v + unat w"
  by (simp add: unat_word_ariths)

lemma claim_updated:
  "collator_claim (updated_collator r c) + unat (collator_released r c) \<le> collator_claim c"
proof -
  note split_ul = sum_list_filter_split [of "\<lambda>x. unat (ul_value x)" "\<lambda>x. ul_round x \<le> r" "co_unlocking c"]
  note split_ub = sum_list_filter_split [of "\<lambda>x. unat (ub_value x)" "\<lambda>x. ub_round x \<le> r" "co_unbonding c"]
  have "unat (co_active (updated_collator r c)) \<le>
      unat (co_active c) + (\<Sum>x \<leftarrow> filter (\<lambda>x. ul_round x \<le> r) (co_unlocking c). unat (ul_value x))"
    using unat_add_le [of "co_active c" "unlocking_sum (filter (\<lambda>x. ul_round x \<le> r) (co_unlocking c))"]
      unat_map_sum_le [of ul_value "filter (\<lambda>x. ul_round x \<le> r) (co_unlocking c)"]
    by (simp add: ledger_simps)
  moreover have "unat (collator_released r c) \<le> chunks_value (matured r (co_unbonding c))"
    unfolding collator_released_def by (rule unat_map_sum_le)
  ultimately show ?thesis using split_ul split_ub
    by (simp add: collator_claim_def ledger_simps not_le)
qed

lemma claim_exit_after:
  "(case exit_after r x of Some y \<Rightarrow> exit_claim y | None \<Rightarrow> 0) + (\<Sum>v \<leftarrow> exit_paid r x. unat v) = exit_claim x"
  using sum_list_filter_split [of "\<lambda>c. unat (ub_value c)" "\<lambda>c. ub_round c \<le> r" "lv_unbonding x"]
  by (simp add: exit_after_def exit_paid_sum exit_claim_def not_le)

lemma claim_force_bond:
  assumes "collator_ok m c" and "\<not> StakingCollators_is_active c"
  shows "collator_claim (StakingCollators_force_bond c) \<le> collator_claim c"
proof -
  have "co_total c = unlocking_sum (co_unlocking c)" and c: "co_active c = 0" "co_unbonding c = []"
    using assms by (auto simp: collator_ok_def StakingCollators_is_active_def collator_backing_def)
  then show ?thesis using unat_map_sum_le [of ul_value "co_unlocking c"]
    by (simp add: collator_claim_def StakingCollators_force_bond_def c)
qed

lemma claim_entry:
  "collator_claim (StakingCollators_new v r) = unat v"
  "collator_claim (StakingCollators_bond_extra c v r) = collator_claim c + unat v"
  by (simp_all add: collator_claim_def StakingCollators_new_def StakingCollators_bond_extra_def)

section \<open>Calls\<close>

lemma claim_of_cong:
  "sm_get (Collators s') a = sm_get (Collators s) a \<Longrightarrow> sm_get (ExitQueue s') a = sm_get (ExitQueue s) a \<Longrightarrow>
   claim_of s' a = claim_of s a"
  by (simp add: claim_of_def)

lemma claim_of_put:
  "sm_get (Collators s') a = Some c' \<Longrightarrow> sm_get (ExitQueue s') a = sm_get (ExitQueue s) a \<Longrightarrow>
   claim_of s' a = collator_claim c' + (case sm_get (ExitQueue s) a of Some x \<Rightarrow> exit_claim x | None \<Rightarrow> 0)"
  by (simp add: claim_of_def)

lemma held_reserve_other:
  assumes "reserve_documented (Currency cfg)" and "b \<noteq> a"
  shows "reserved_balance (Currency cfg) (fst (reserve (Currency cfg) c b v)) a = reserved_balance (Currency cfg) c a"
proof (cases "reserve (Currency cfg) c b v")
  case (Pair c' ok)
  then show ?thesis
    using reserve_False [OF assms(1), of c b v c'] reserve_True(1) [OF assms(1), of c b v c'] assms(2) by (cases ok) simp_all
qed

lemma held_reserve_self:
  assumes "reserve_documented (Currency cfg)" and "can_reserve cfg a v s"
  shows "unat (reserved_balance (Currency cfg) (fst (reserve (Currency cfg) (currency s) a v)) a) =
    unat (held cfg s a) + unat v"
proof -
  obtain c' where "reserve (Currency cfg) (currency s) a v = (c', True)"
    using assms(2) unfolding can_reserve_def by (metis prod.collapse)
  then show ?thesis using reserve_True(1) [OF assms(1)] assms(2)
    by (simp add: can_reserve_def unat_word_ariths)
qed

lemma held_unreserve_others:
  assumes "unreserve_documented (Currency cfg)" and "a \<notin> owner ` set bs"
  shows "held cfg (fold (\<lambda>b. do_unreserve cfg (owner b) (amount b)) bs s) a = held cfg s a"
  using assms(2) by (induction bs arbitrary: s) (auto simp: unreserve_reserved [OF assms(1)])

lemma collator_nominations_claim:
  "StakingCollators_nominate_extra c b = (c', e) \<Longrightarrow> collator_claim c' = collator_claim c"
  "StakingCollators_nominate_less c b = (c', l) \<Longrightarrow> collator_claim c' = collator_claim c"
  "StakingCollators_rm_nomination c w = (c', e) \<Longrightarrow> collator_claim c' = collator_claim c"
  by (auto simp: StakingCollators_nominate_extra_def StakingCollators_nominate_less_def
      StakingCollators_rm_nomination_def collator_claim_def Let_def split: prod.splits option.splits)

lemma add_nomination_claim:
  "StakingCollators_add_nomination c b = (c', t) \<Longrightarrow> collator_claim c' = collator_claim c"
  by (auto simp: StakingCollators_add_nomination_def collator_claim_def split: sum.splits)

lemma claim_nominate: "claim_of (fst (nominate cfg origin cand v s)) a = claim_of s a"
  by (auto simp: nominate_def Let_def claim_of_def
      split: option.splits prod.splits bool.splits dest: add_nomination_claim)

lemma claim_nominate_extra: "claim_of (fst (nominate_extra cfg origin cand v s)) a = claim_of s a"
  by (auto simp: nominate_extra_def Let_def claim_of_def
      split: option.splits prod.splits dest: collator_nominations_claim(1))

lemma claim_nominate_less: "claim_of (fst (nominate_less cfg origin cand v s)) a = claim_of s a"
  by (auto simp: nominate_less_def Let_def claim_of_def
      split: option.splits prod.splits dest: collator_nominations_claim(2))

lemma claim_nominator_leave_collator: "claim_of (fst (nominator_leave_collator cfg origin cand s)) a = claim_of s a"
  by (auto simp: nominator_leave_collator_def Let_def claim_of_def
      split: option.splits prod.splits dest: collator_nominations_claim(3))

lemmas claim_nominator_calls = claim_nominate claim_nominate_extra claim_nominate_less claim_nominator_leave_collator

abbreviation covered :: "('acc, 'c, 'p, 'b) staking_config \<Rightarrow> 'acc \<Rightarrow> ('acc, 'c) staking_state \<Rightarrow> bool" where
  "covered cfg a s \<equiv> claim_of s a \<le> unat (held cfg s a)"

lemma covered_nominator_calls:
  assumes "covered cfg a s" and "reserve_documented (Currency cfg)" and "no_nominator a s"
  shows "origin \<noteq> Signed a \<Longrightarrow> covered cfg a (fst (nominate cfg origin cand v s))"
    and "covered cfg a (fst (nominate_extra cfg origin cand v s))"
    and "covered cfg a (fst (nominate_less cfg origin cand v s))"
    and "covered cfg a (fst (nominator_leave_collator cfg origin cand s))"
proof -
  note other = held_reserve_other [OF assms(2)]
  show "covered cfg a (fst (nominate cfg origin cand v s))" if "origin \<noteq> Signed a"
  proof (cases origin)
    case (Signed b)
    with that other [of b a] assms(1) show ?thesis unfolding claim_nominator_calls
      by (auto simp: nominate_def Let_def split: option.splits prod.splits bool.splits)
  qed (use assms(1) in \<open>simp_all add: nominate_def\<close>)
  show "covered cfg a (fst (nominate_extra cfg origin cand v s))"
  proof (cases origin)
    case (Signed b)
    show ?thesis
    proof (cases "b = a")
      case True
      then show ?thesis unfolding claim_nominator_calls using Signed assms(1,3)
        by (auto simp: nominate_extra_def Let_def no_nominator_def split: option.splits)
    next
      case False
      with Signed other [of b a] assms(1) show ?thesis unfolding claim_nominator_calls
        by (auto simp: nominate_extra_def Let_def split: option.splits prod.splits)
    qed
  qed (use assms(1) in \<open>simp_all add: nominate_extra_def\<close>)
  show "covered cfg a (fst (nominate_less cfg origin cand v s))"
    unfolding claim_nominator_calls using assms
    by (auto simp: nominate_less_def Let_def split: option.splits prod.splits)
  show "covered cfg a (fst (nominator_leave_collator cfg origin cand s))"
    unfolding claim_nominator_calls using assms
    by (auto simp: nominator_leave_collator_def Let_def split: option.splits prod.splits)
qed

lemma covered_bond:
  assumes "covered cfg a s" and "reserve_documented (Currency cfg)" and "origin = Signed a \<Longrightarrow> can_reserve cfg a v s"
  shows "covered cfg a (fst (bond cfg origin v s))"
proof (cases "snd (bond cfg origin v s) = Ok \<and> origin = Signed a")
  case True
  then have o: "origin = Signed a" and new: "sm_get (Collators s) a = None" and min: "\<not> v < MinCollatorStake cfg"
    by (auto simp: bond_def Let_def split: option.splits if_splits)
  then show ?thesis using assms(1) o new min held_reserve_self [OF assms(2) assms(3) [OF o]]
    by (simp add: bond_def Let_def claim_of_def claim_entry)
next
  case False
  then show ?thesis using assms(1)
    by (auto simp: bond_def Let_def claim_of_def held_reserve_other [OF assms(2)] split: option.splits if_splits)
qed

lemma covered_bond_extra:
  assumes "covered cfg a s" and "reserve_documented (Currency cfg)" and "origin = Signed a \<Longrightarrow> can_reserve cfg a v s"
  shows "covered cfg a (fst (bond_extra cfg origin v s))"
proof (cases "snd (bond_extra cfg origin v s) = Ok \<and> origin = Signed a")
  case True
  then obtain c where o: "origin = Signed a" and c: "sm_get (Collators s) a = Some c" "StakingCollators_is_active c"
    by (auto simp: bond_extra_def Let_def split: option.splits if_splits)
  then show ?thesis using assms(1) o c held_reserve_self [OF assms(2) assms(3) [OF o]]
    by (simp add: bond_extra_def Let_def claim_of_def claim_entry)
next
  case False
  then show ?thesis using assms(1)
    by (auto simp: bond_extra_def Let_def claim_of_def held_reserve_other [OF assms(2)] split: option.splits if_splits)
qed

lemma covered_bond_less:
  assumes "covered cfg a s"
  shows "covered cfg a (fst (bond_less cfg origin v s))"
proof -
  have "collator_claim c' = collator_claim c" if "StakingCollators_bond_less c v r = (c', Some w)"
    for c c' :: "'a StakingCollators" and r w
    using that by (auto simp: bond_less_Some collator_claim_def unat_sub [OF order_less_imp_le])
      (simp add: word_less_nat_alt)
  then have "claim_of (fst (bond_less cfg origin v s)) a = claim_of s a"
    by (auto simp: bond_less_def Let_def claim_of_def split: option.splits prod.splits)
  then show ?thesis using assms by (simp add: bond_less_def Let_def split: option.split prod.split)
qed

lemma covered_collator_unbond:
  assumes "covered cfg a s" and "unreserve_documented (Currency cfg)" and "no_nominator a s"
  shows "covered cfg a (fst (collator_unbond cfg origin s))"
proof -
  have "held cfg (fst (collator_unbond cfg origin s)) a = held cfg s a"
    using assms(3)
    by (auto simp: collator_unbond_def Let_def held_unreserve_others [OF assms(2)] no_nominator_def nominated_by_def
        split: option.splits)
  moreover have "claim_of (fst (collator_unbond cfg origin s)) a \<le> claim_of s a"
    by (auto simp: collator_unbond_def Let_def claim_of_def fold_invariant [where f = ExitQueue]
        fold_invariant [where f = Collators] collator_claim_def exit_claim_def Leaving_new_def split: option.splits)
  ultimately show ?thesis using assms(1) by simp
qed

lemma covered_force_onboard:
  assumes "covered cfg a s" and "collators_inv cfg s"
  shows "covered cfg a (fst (force_onboard cfg origin cand s))"
proof -
  have "claim_of (fst (force_onboard cfg origin cand s)) a \<le> claim_of s a"
    using claim_force_bond [OF collators_ok_get [OF assms(2)]]
    by (auto simp: force_onboard_def Let_def claim_of_def split: option.splits)
  then show ?thesis using assms(1) by (auto simp: force_onboard_def Let_def split: option.splits)
qed

section \<open>Round changes\<close>

lemma on_finalize_held:
  assumes "unreserve_documented (Currency cfg)" and "deposit_documented (Currency cfg)" and "storage_wf s"
    and "RoundInfo_should_goto_next_round (CurrentRound s) now"
  shows "unat (held cfg (on_finalize cfg el now s) a) =
    unat (held cfg s a) - (released_to (ri_index (CurrentRound s) + 1) s a + exit_due (ri_index (CurrentRound s) + 1) s a)"
  using round_payments_reserved [OF assms(1,2), of "s\<lparr>CurrentRound := c\<rparr>" "ri_index (CurrentRound s) + 1" a for c] assms(3,4)
  by (simp add: on_finalize_due released_to_def exit_due_def storage_wf_def)

lemma covered_on_finalize:
  assumes "covered cfg a s" and "unreserve_documented (Currency cfg)" and "deposit_documented (Currency cfg)"
    and "storage_wf s" and "no_nominator a s"
  shows "covered cfg a (on_finalize cfg el now s)"
proof (cases "RoundInfo_should_goto_next_round (CurrentRound s) now")
  case True
  let ?r = "ri_index (CurrentRound s) + 1" and ?s' = "on_finalize cfg el now s"
  have d: "distinct (keys (Collators s))" "distinct (keys (Nominators s))" "distinct (keys (ExitQueue s))"
    using assms(4) by (simp_all add: storage_wf_def)
  note get = round_change_records [OF True d, where cfg = cfg and el = el and a = a]
  have "claim_of ?s' a + (released_to ?r s a + exit_due ?r s a) \<le> claim_of s a"
    using claim_updated [of ?r] claim_exit_after [of ?r] assms(5)
    by (cases "sm_get (Collators s) a"; cases "sm_get (ExitQueue s) a")
      (auto simp: claim_of_def get(1,3) released_to_def exit_due_def no_nominator_def add.commute add.left_commute
        dest: add_mono)
  with assms(1) show ?thesis unfolding on_finalize_held [OF assms(2-4) True] by linarith
next
  case False
  then show ?thesis using assms(1) by (simp add: on_finalize_not_due)
qed

section \<open>An account that does not nominate stays out of the nominations\<close>

lemma nominated_by_add:
  "StakingCollators_add_nomination c b = (c', t) \<Longrightarrow> nominated_by a c' \<Longrightarrow> owner b = a \<or> nominated_by a c"
  by (auto simp: nominated_by_def StakingCollators_add_nomination_def split: sum.splits)

lemma nominated_by_after:
  "StakingCollators_nominate_extra c b = (c', e) \<Longrightarrow> nominated_by a c' \<Longrightarrow> nominated_by a c"
  "StakingCollators_nominate_less c b = (c', l) \<Longrightarrow> nominated_by a c' \<Longrightarrow> nominated_by a c"
  "StakingCollators_rm_nomination c w = (c', e) \<Longrightarrow> nominated_by a c' \<Longrightarrow> nominated_by a c"
  using bonds_extra_owners [of b "co_nominations c", THEN arg_cong [where f = set]]
    bonds_less_owners [of b "co_nominations c", THEN arg_cong [where f = set]]
    bonds_remove_fst [of w None "co_nominations c"]
  by (auto simp: nominated_by_def StakingCollators_nominate_extra_def
      StakingCollators_nominate_less_def StakingCollators_rm_nomination_def split: prod.splits option.splits)

lemma nominated_by_simps [simp]:
  "\<not> nominated_by a (StakingCollators_new v r)"
  "nominated_by a (StakingCollators_force_bond c) \<longleftrightarrow> nominated_by a c"
  "nominated_by a (StakingCollators_bond_extra c v r) \<longleftrightarrow> nominated_by a c"
  "nominated_by a (updated_collator r c) \<longleftrightarrow> nominated_by a c"
  by (simp_all add: nominated_by_def StakingCollators_new_def StakingCollators_force_bond_def
      StakingCollators_bond_extra_def ledger_simps)

lemma nominated_by_bond_less:
  "StakingCollators_bond_less c v r = (c', Some w) \<Longrightarrow> nominated_by a c' \<longleftrightarrow> nominated_by a c"
  by (auto simp: bond_less_Some nominated_by_def)

lemma no_nominator_collator_calls:
  assumes "no_nominator a s"
  shows "no_nominator a (fst (config origin st s))"
    and "no_nominator a (fst (bond cfg origin v s))"
    and "no_nominator a (fst (force_onboard cfg origin cand s))"
    and "no_nominator a (fst (bond_extra cfg origin v s))"
    and "no_nominator a (fst (bond_less cfg origin v s))"
    and "no_nominator a (fst (collator_unbond cfg origin s))"
  using assms
  by (auto simp: no_nominator_def config_def bond_def force_onboard_def bond_extra_def bond_less_def collator_unbond_def Let_def
      nominated_by_bond_less fold_invariant [where f = Nominators] fold_invariant [where f = Collators]
      split: option.splits prod.splits if_splits)

lemma no_nominator_nominate:
  assumes "no_nominator a s" and "origin \<noteq> Signed a"
  shows "no_nominator a (fst (nominate cfg origin cand v s))"
proof (cases origin)
  case (Signed b)
  then show ?thesis using assms
    by (auto simp: no_nominator_def nominate_def Let_def split: option.splits prod.splits bool.splits if_splits
        dest: nominated_by_add)
qed (use assms in \<open>simp_all add: nominate_def\<close>)

lemma no_nominator_other_calls:
  assumes "no_nominator a s"
  shows "no_nominator a (fst (nominate_extra cfg origin cand v s))"
    and "no_nominator a (fst (nominate_less cfg origin cand v s))"
    and "no_nominator a (fst (nominator_leave_collator cfg origin cand s))"
  using assms
  by (auto simp: no_nominator_def nominate_extra_def nominate_less_def nominator_leave_collator_def Let_def
      split: option.splits prod.splits if_splits dest: nominated_by_after)

lemma no_nominator_dispatch:
  assumes "no_nominator a s" and "origin = Signed a \<Longrightarrow> paid_call cfg a call s"
  shows "no_nominator a (fst (staking_dispatch cfg origin call s))"
  using assms by (cases call) (auto intro: no_nominator_collator_calls no_nominator_nominate no_nominator_other_calls)

lemma no_nominator_on_finalize:
  assumes "no_nominator a s" and "storage_wf s"
  shows "no_nominator a (on_finalize cfg el now s)"
proof (cases "RoundInfo_should_goto_next_round (CurrentRound s) now")
  case True
  have d: "distinct (keys (Collators s))" "distinct (keys (Nominators s))" "distinct (keys (ExitQueue s))"
    using assms(2) by (simp_all add: storage_wf_def)
  show ?thesis using assms(1)
    by (auto simp: no_nominator_def round_change_records [OF True d])
next
  case False
  then show ?thesis using assms(1) by (simp add: on_finalize_not_due)
qed

section \<open>The invariant\<close>

lemma covered_dispatch:
  assumes "covered cfg a s" and "reserve_documented (Currency cfg)" and "unreserve_documented (Currency cfg)"
    and "collators_inv cfg s" and "no_nominator a s" and "origin = Signed a \<Longrightarrow> paid_call cfg a call s"
  shows "covered cfg a (fst (staking_dispatch cfg origin call s))"
proof (cases call)
  case (Call_config st)
  then show ?thesis using assms(1) by (simp add: config_def claim_of_def)
qed (use assms in \<open>auto intro: covered_bond covered_bond_extra covered_bond_less covered_collator_unbond covered_force_onboard
      covered_nominator_calls\<close>)

interpretation backing: inductive_invariant
    "\<lambda>s. staking_reachable cfg s \<and> no_nominator a s \<and> covered cfg a s"
    "\<lambda>s s'. reserve_documented (Currency cfg) \<and> unreserve_documented (Currency cfg) \<and> deposit_documented (Currency cfg) \<and>
       paid_step cfg a s s'"
    "\<lambda>s. staking_reachable cfg s \<and> no_nominator a s \<and> covered cfg a s" for cfg a
proof unfold_locales
  fix s s' assume inv: "staking_reachable cfg s \<and> no_nominator a s \<and> covered cfg a s"
    and step: "reserve_documented (Currency cfg) \<and> unreserve_documented (Currency cfg) \<and> deposit_documented (Currency cfg) \<and>
       paid_step cfg a s s'"
  have wf: "storage_wf s" "collators_inv cfg s" using storage.reachable_inv inv by blast+
  have "staking_reachable cfg s'" using inv step by (blast intro: reachable_step paid_step_staking)
  moreover have "no_nominator a s' \<and> covered cfg a s'"
    using conjunct2 [OF conjunct2 [OF conjunct2 [OF step]]]
  proof cases
    case (paid_call origin call)
    then show ?thesis using inv step wf by (blast intro: no_nominator_dispatch covered_dispatch)
  next
    case (paid_finalize elect now)
    then show ?thesis using inv step wf by (blast intro: no_nominator_on_finalize covered_on_finalize)
  next
    case (paid_author author)
    then show ?thesis using inv by (simp add: note_author_def Let_def no_nominator_def claim_of_def)
  next
    case (paid_balances c)
    then show ?thesis using inv by (auto simp: no_nominator_def claim_of_def word_le_nat_alt)
  qed
  ultimately show "staking_reachable cfg s' \<and> no_nominator a s' \<and> covered cfg a s'" by simp
qed simp

text \<open>C3: The stake of a paying collator is backed by reserved money: take an account that is neither collator nor
  leaving nor nominating in a reachable state, and let the chain run on with any calls by anyone, any
  elections, rewards and round changes, as long as the account itself does not nominate, the currency
  can reserve what it bonds, and other pallets leave its reserved balance alone. Then at all times
  its reserved balance covers, without any wrap-around, everything its collator record and its exit
  record say it has: active, unlocking and unbonding stake.\<close>

theorem collator_stake_backed:
  assumes "reserve_documented (Currency cfg)" and "unreserve_documented (Currency cfg)" and "deposit_documented (Currency cfg)"
    and "staking_reachable cfg s" and "no_nominator a s" and "sm_get (Collators s) a = None" and "sm_get (ExitQueue s) a = None"
    and "(paid_step cfg a)\<^sup>*\<^sup>* s s'"
  shows "claim_of s' a \<le> unat (reserved_balance (Currency cfg) (currency s') a)"
proof -
  have "(\<lambda>s s'. reserve_documented (Currency cfg) \<and> unreserve_documented (Currency cfg) \<and> deposit_documented (Currency cfg) \<and>
       paid_step cfg a s s')\<^sup>*\<^sup>* s s'"
    using assms(8) by (rule rtranclp_mono [THEN predicate2D, rotated]) (use assms(1-3) in blast)
  then show ?thesis using backing.steps_inv assms(4-7) by (fastforce simp: claim_of_def)
qed

theorem collator_stake_backed_witness:
  "claim_of (fst (bond demo_cfg (Signed 3) 150 demo1)) 3 = 150 \<and>
   150 \<le> unat (reserved_balance (Currency demo_cfg) (currency (fst (bond demo_cfg (Signed 3) 150 demo1))) 3)"
proof -
  have cur: "reserve_documented (Currency demo_cfg)" "unreserve_documented (Currency demo_cfg)" "deposit_documented (Currency demo_cfg)"
    by (simp_all add: demo_cfg_def ledger_currency_reserve ledger_currency_unreserve ledger_currency_deposit)
  have no: "no_nominator 3 demo1" by (simp add: no_nominator_def nominated_by_def demo1_simps)
  have "can_reserve demo_cfg 3 150 demo1"
    by (simp add: can_reserve_def demo1_currency demo0_def demo_eval)
  then have "paid_step demo_cfg 3 demo1 (fst (staking_dispatch demo_cfg (Signed 3) (Call_bond 150) demo1))"
    by (intro paid_step.paid_call) simp
  then have run: "(paid_step demo_cfg 3)\<^sup>*\<^sup>* demo1 (fst (bond demo_cfg (Signed 3) 150 demo1))" by simp
  have min: "MinCollatorStake demo_cfg = 100" by (simp add: demo_cfg_def)
  have "claim_of (fst (bond demo_cfg (Signed 3) 150 demo1)) 3 = 150"
    by (simp add: bond_def demo1_simps claim_of_def Let_def min) (simp add: sm_insert_def claim_entry)
  then show ?thesis
    using no run collator_stake_backed [OF cur demo1_reachable, of 3 "fst (bond demo_cfg (Signed 3) 150 demo1)"]
    by (simp add: demo1_simps)
qed

end
