(* ===== verification/Staking_Total.thy ===== *)
theory Staking_Total
  imports Staking_Backing
begin

text \<open>
  Does \<open>TotalStaked\<close>, by which the rewards of a round are divided, cover the stake on the books? The pallet
  lowers it too little when collators take stake out and when an exit has several chunks, and never
  too much: from a genesis, as long as no sum overflows and no nomination is refused half way, the
  total is at least what all collator, nominator and exit records together say.
\<close>

section \<open>Sums over storage maps\<close>

definition weight :: "('v \<Rightarrow> nat) \<Rightarrow> ('k, 'v) smap \<Rightarrow> nat" where
  "weight f m = (\<Sum>(k, v) \<leftarrow> m. f v)"

lemma weight_simps [simp]: "weight f [] = 0" "weight f ((k, v) # m) = f v + weight f m"
  by (simp_all add: weight_def)

lemma int_weight: "int (weight f m) = (\<Sum>(k, v) \<leftarrow> m. int (f v))"
  by (induction m) (auto simp: weight_def)

abbreviation weight_at :: "('v \<Rightarrow> nat) \<Rightarrow> ('k, 'v) smap \<Rightarrow> 'k \<Rightarrow> nat" where
  "weight_at f m k \<equiv> (case sm_get m k of Some v \<Rightarrow> f v | None \<Rightarrow> 0)"

lemma weight_insert:
  assumes "distinct (keys m)"
  shows "weight f (sm_insert before k v m) + weight_at f m k = weight f m + f v"
  using sum_sm_insert [OF assms, of "\<lambda>_ v. int (f v)" before k v]
  by (simp flip: int_weight split: option.splits)

lemma weight_remove:
  "distinct (keys m) \<Longrightarrow> weight f (sm_remove k m) + weight_at f m k = weight f m"
proof (induction m)
  case (Cons p m)
  obtain j v where p: "p = (j, v)" by (cases p)
  have "sm_remove j m = m" using Cons.prems p unfolding sm_remove_def by (intro filter_True) force
  moreover have "sm_get m j = None" using Cons.prems p by (simp add: map_of_eq_None_iff)
  ultimately show ?case using Cons p by (cases "j = k") (auto simp: sm_remove_def)
qed (simp add: sm_remove_def)

lemma weight_at_le: "distinct (keys m) \<Longrightarrow> weight_at f m k \<le> weight f m"
  using weight_remove [of m f k] by simp

section \<open>What the books say\<close>

abbreviation bonds_value :: "'acc Bond list \<Rightarrow> nat" where
  "bonds_value bonds \<equiv> \<Sum>b \<leftarrow> bonds. unat (amount b)"

definition nominator_claim :: "'acc StakingNominators \<Rightarrow> nat" where
  "nominator_claim n = bonds_value (no_nominations n) + chunks_value (no_unbonding n)"

definition total_claim :: "('acc, 'c) staking_state \<Rightarrow> nat" where
  "total_claim s =
     weight collator_claim (Collators s) + weight nominator_claim (Nominators s) + weight exit_claim (ExitQueue s)"

abbreviation booked :: "('acc, 'c) staking_state \<Rightarrow> bool" where
  "booked s \<equiv> total_claim s \<le> unat (TotalStaked s)"

lemma bonds_extra_value: "bonds_value (fst (bonds_extra e bs)) \<le> bonds_value bs + unat (amount e)"
proof (induction bs)
  case (Cons b bs)
  then show ?case using unat_add_le [of "amount b" "amount e"] by (auto simp: Let_def split: prod.split)
qed simp

lemma bonds_less_value:
  "snd (bonds_less e bs) = Some (Some k) \<Longrightarrow> bonds_value (fst (bonds_less e bs)) + unat (amount e) = bonds_value bs"
proof (induction bs)
  case (Cons b bs)
  have "unat (amount b - amount e) + unat (amount e) = unat (amount b)" if "amount e < amount b"
    using that by (simp add: unat_sub [OF order_less_imp_le] word_less_nat_alt)
  with Cons show ?case by (auto simp: case_prod_beta split: if_splits)
qed simp

lemma bonds_remove_value:
  assumes "snd (bonds_remove a None bs) = Some v"
  shows "bonds_value (fst (bonds_remove a None bs)) + unat v \<le> bonds_value bs"
proof -
  have "unat v \<in> set (map (\<lambda>b. unat (amount b)) (filter (\<lambda>b. owner b = a) bs))"
    using bonds_remove_member [OF assms] by (force intro: image_eqI [where x = "\<lparr>owner = a, amount = v\<rparr>"])
  then have "unat v \<le> bonds_value (filter (\<lambda>b. owner b = a) bs)" by (rule member_le_sum_list) simp
  then show ?thesis using sum_list_filter_split [of "\<lambda>b. unat (amount b)" "\<lambda>b. owner b = a" bs]
    by (simp add: bonds_remove_fst)
qed

lemma nominator_claim_new: "nominator_claim (StakingNominators_new [\<lparr>owner = c, amount = v\<rparr>] v) = unat v"
  by (simp add: nominator_claim_def StakingNominators_new_def)

lemma nominator_claim_add:
  "StakingNominators_add_nomination n b = (n', True) \<Longrightarrow> nominator_claim n' = nominator_claim n + unat (amount b)"
  by (auto simp: nominator_claim_def StakingNominators_add_nomination_def split: sum.splits)

lemma nominator_claim_extra:
  "StakingNominators_nominate_extra n b = (n', Some k) \<Longrightarrow> nominator_claim n' \<le> nominator_claim n + unat (amount b)"
  using bonds_extra_value [of b "no_nominations n"]
  by (auto simp: nominator_claim_def StakingNominators_nominate_extra_def split: prod.splits option.splits)

lemma nominator_claim_less:
  "StakingNominators_nominate_less n b r = (n', Some (Some k)) \<Longrightarrow> nominator_claim n' = nominator_claim n"
  using bonds_less_value [of b "no_nominations n" k]
  by (auto simp: nominator_claim_def StakingNominators_nominate_less_def split: prod.splits option.splits)

lemma nominator_claim_rm:
  "StakingNominators_rm_nomination n c r = (n', Some k) \<Longrightarrow> nominator_claim n' \<le> nominator_claim n"
  using bonds_remove_value [of c "no_nominations n"]
  by (auto simp: nominator_claim_def StakingNominators_rm_nomination_def split: prod.splits option.splits)

section \<open>Calls\<close>

text \<open>
  A call that adds stake must not overflow the total, and a nomination that the collator's side refuses
  after the nominator's side has been written is left out.
\<close>

fun call_amount :: "'acc staking_call \<Rightarrow> Balance" where
  "call_amount (Call_bond v) = v"
| "call_amount (Call_bond_extra v) = v"
| "call_amount (Call_nominate _ v) = v"
| "call_amount (Call_nominate_extra _ v) = v"
| "call_amount _ = 0"

abbreviation room_for :: "('acc, 'c) staking_state \<Rightarrow> Balance \<Rightarrow> bool" where
  "room_for s v \<equiv> unat (TotalStaked s) + unat v < 2 ^ 128"

lemma unat_room: "room_for s v \<Longrightarrow> unat (TotalStaked s + v) = unat (TotalStaked s) + unat v"
  by (simp add: unat_word_ariths)

text \<open>A write adds to the books what the new record has more than the old one.\<close>

lemma put_collator_grows:
  assumes "storage_wf s" and "booked s" and "collator_claim c \<le> weight_at collator_claim (Collators s) a + k"
  shows "total_claim (put_collator cfg a c s) \<le> unat (TotalStaked s) + k"
  using weight_insert [of "Collators s" collator_claim "key_before cfg" a c] assms
  by (simp add: total_claim_def storage_wf_def)

lemma put_both_grows:
  assumes "storage_wf s" and "booked s" and "collator_claim c \<le> weight_at collator_claim (Collators s) a"
    and "nominator_claim n \<le> weight_at nominator_claim (Nominators s) b + k"
  shows "total_claim (put_collator cfg a c (put_nominator cfg b n s)) \<le> unat (TotalStaked s) + k"
  using weight_insert [of "Collators s" collator_claim "key_before cfg" a c]
    weight_insert [of "Nominators s" nominator_claim "key_before cfg" b n] assms
  by (simp add: total_claim_def storage_wf_def)

lemma put_swap: "put_nominator cfg b n (put_collator cfg a c s) = put_collator cfg a c (put_nominator cfg b n s)"
  by (simp add: put_collator_def put_nominator_def)

lemma total_claim_frame [simp]:
  "total_claim (deposit_event e s) = total_claim s"
  "total_claim (do_reserve cfg a v s) = total_claim s"
  "total_claim (do_unreserve cfg a v s) = total_claim s"
  "total_claim (s\<lparr>TotalStaked := t\<rparr>) = total_claim s"
  "total_claim (s\<lparr>currency := c\<rparr>) = total_claim s"
  "total_claim (note_author cfg a s) = total_claim s"
  by (simp_all add: total_claim_def note_author_def Let_def)

lemma booked_bond:
  assumes "storage_wf s" and "booked s" and "room_for s v"
  shows "booked (fst (bond cfg origin v s))"
proof -
  have "total_claim (put_collator cfg a (StakingCollators_new v r) s) \<le> unat (TotalStaked s) + unat v" for a r
    by (rule put_collator_grows [OF assms(1,2)]) (simp add: claim_entry)
  then show ?thesis using assms(2) unat_room [OF assms(3)]
    by (auto simp: bond_def Let_def split: option.split)
qed

lemma booked_bond_extra:
  assumes "storage_wf s" and "booked s" and "room_for s v"
  shows "booked (fst (bond_extra cfg origin v s))"
proof -
  have "total_claim (put_collator cfg a (StakingCollators_bond_extra c v r) s) \<le> unat (TotalStaked s) + unat v"
    if "sm_get (Collators s) a = Some c" for a c r
    by (rule put_collator_grows [OF assms(1,2)]) (simp add: claim_entry that)
  then show ?thesis using assms(2) unat_room [OF assms(3)]
    by (auto simp: bond_extra_def Let_def split: option.split)
qed

lemma booked_same_collator:
  assumes "storage_wf s" and "booked s" and "sm_get (Collators s) a = Some c" and "collator_claim c' \<le> collator_claim c"
  shows "booked (put_collator cfg a c' s)"
  using put_collator_grows [OF assms(1,2), of c' a 0 cfg] assms(3,4) by simp

lemma bond_less_claim:
  "StakingCollators_bond_less c v r = (c', Some w) \<Longrightarrow> collator_claim c' = collator_claim c"
  by (auto simp: bond_less_Some collator_claim_def unat_sub [OF order_less_imp_le]) (simp add: word_less_nat_alt)

lemma booked_bond_less:
  assumes "storage_wf s" and "booked s"
  shows "booked (fst (bond_less cfg origin v s))"
proof -
  have "total_claim (put_collator cfg a c' s) \<le> unat (TotalStaked s)"
    if "sm_get (Collators s) a = Some c" "StakingCollators_bond_less c v r = (c', Some w)" for a c c' r w
    using booked_same_collator [OF assms that(1), of c' cfg] bond_less_claim [OF that(2)] by simp
  then show ?thesis using assms(2) by (auto simp: bond_less_def Let_def split: option.split prod.split)
qed

lemma booked_force_onboard:
  assumes "storage_wf s" and "booked s" and "collators_inv cfg s"
  shows "booked (fst (force_onboard cfg origin cand s))"
proof -
  have "total_claim (put_collator cfg cand (StakingCollators_force_bond c) s) \<le> unat (TotalStaked s)"
    if "sm_get (Collators s) cand = Some c" "\<not> StakingCollators_is_active c" for c
    using booked_same_collator [OF assms(1,2) that(1), of _ cfg] claim_force_bond [OF collators_ok_get [OF assms(3) that(1)] that(2)] by simp
  then show ?thesis using assms(2) by (auto simp: force_onboard_def Let_def split: option.split)
qed

lemma booked_collator_unbond:
  assumes "storage_wf s" and "booked s"
  shows "booked (fst (collator_unbond cfg origin s))"
proof -
  have le: "exit_claim (Leaving_new (co_active c) (co_unbonding c) r) \<le> collator_claim c" for c :: "'a StakingCollators" and r
    by (simp add: exit_claim_def Leaving_new_def collator_claim_def)
  have "booked (fst (collator_unbond cfg (Signed a) s))" for a
  proof (cases "sm_get (Collators s) a")
    case (Some c)
    let ?x = "Leaving_new (co_active c) (co_unbonding c) (withdraw_round s)"
    show ?thesis
      using Some assms(2) le [of c "withdraw_round s"] assms(1)
        weight_remove [of "Collators s" collator_claim a] weight_insert [of "ExitQueue s" exit_claim "key_before cfg" a ?x]
      by (simp add: collator_unbond_def Let_def total_claim_def storage_wf_def fold_invariant [where f = ExitQueue]
          fold_invariant [where f = Collators] fold_invariant [where f = Nominators] fold_invariant [where f = TotalStaked])
  qed (use assms(2) in \<open>simp add: collator_unbond_def\<close>)
  then show ?thesis using assms(2) by (cases origin) (simp_all add: collator_unbond_def)
qed

lemma booked_nominate:
  assumes "storage_wf s" and "booked s" and "room_for s v"
    and "snd (nominate cfg origin cand v s) = Err (Module NominationNotExist) \<Longrightarrow> fst (nominate cfg origin cand v s) = s"
  shows "booked (fst (nominate cfg origin cand v s))"
proof (cases "snd (nominate cfg origin cand v s) = Ok")
  case True
  have new: "total_claim (put_collator cfg cand c' (put_nominator cfg a (StakingNominators_new [\<lparr>owner = cand, amount = v\<rparr>] v) s))
      \<le> unat (TotalStaked s) + unat v"
    if "sm_get (Collators s) cand = Some c" "StakingCollators_add_nomination c b = (c', t)" for a b c c' t
    by (rule put_both_grows [OF assms(1,2)]) (simp_all add: that(1) add_nomination_claim [OF that(2)] nominator_claim_new)
  have old: "total_claim (put_collator cfg cand c' (put_nominator cfg a n' s)) \<le> unat (TotalStaked s) + unat v"
    if "sm_get (Collators s) cand = Some c" "StakingCollators_add_nomination c b = (c', t)" "sm_get (Nominators s) a = Some n"
      "StakingNominators_add_nomination n \<lparr>owner = cand, amount = v\<rparr> = (n', True)" for a b c c' t n n'
    by (rule put_both_grows [OF assms(1,2)]) (simp_all add: that(1,3) add_nomination_claim [OF that(2)] nominator_claim_add [OF that(4)])
  obtain a where o: "origin = Signed a" using True by (cases origin) (simp_all add: nominate_def)
  show ?thesis
  proof (cases "sm_get (Nominators s) a")
    case None
    with True show ?thesis using assms(2) unat_room [OF assms(3)] new
      by (auto simp: o nominate_def Let_def split: option.split prod.split bool.split)
  next
    case (Some n)
    obtain n' k where n': "StakingNominators_add_nomination n \<lparr>owner = cand, amount = v\<rparr> = (n', k)" by (meson surj_pair)
    with True Some show ?thesis using assms(2) unat_room [OF assms(3)] old [OF _ _ Some] n'
      by (cases k) (auto simp: o nominate_def Let_def split: option.split prod.split bool.split)
  qed
next
  case False
  then have "fst (nominate cfg origin cand v s) = s" using assms(4)
    by (auto simp: nominate_def Let_def split: option.splits if_splits prod.splits bool.splits)
  with assms(2) show ?thesis by simp
qed

lemma booked_nominate_extra:
  assumes "storage_wf s" and "booked s" and "room_for s v"
  shows "booked (fst (nominate_extra cfg origin cand v s))"
proof -
  have "total_claim (put_collator cfg cand c' (put_nominator cfg a n' s)) \<le> unat (TotalStaked s) + unat v"
    if "sm_get (Collators s) cand = Some c" "sm_get (Nominators s) a = Some n"
      "StakingNominators_nominate_extra n \<lparr>owner = cand, amount = v\<rparr> = (n', Some k)"
      "StakingCollators_nominate_extra c \<lparr>owner = a, amount = v\<rparr> = (c', e)" for a c c' n n' k e
    using nominator_claim_extra [OF that(3)]
    by (intro put_both_grows [OF assms(1,2)]) (simp_all add: that(1,2) collator_nominations_claim(1) [OF that(4)])
  then show ?thesis using assms(2) unat_room [OF assms(3)]
    by (auto simp: nominate_extra_def Let_def put_swap split: option.split prod.split)
qed

lemma booked_nominate_less:
  assumes "storage_wf s" and "booked s"
  shows "booked (fst (nominate_less cfg origin cand v s))"
proof -
  have "total_claim (put_collator cfg cand c' (put_nominator cfg a n' s)) \<le> unat (TotalStaked s)"
    if "sm_get (Collators s) cand = Some c" "sm_get (Nominators s) a = Some n"
      "StakingNominators_nominate_less n \<lparr>owner = cand, amount = v\<rparr> r = (n', Some (Some k))"
      "StakingCollators_nominate_less c \<lparr>owner = a, amount = v\<rparr> = (c', e)" for a c c' n n' k e r
    using nominator_claim_less [OF that(3)]
    using put_both_grows [OF assms, of c' cand n' a 0 cfg] by (simp add: that(1,2) collator_nominations_claim(2) [OF that(4)])
  then show ?thesis using assms(2)
    by (auto simp: nominate_less_def Let_def put_swap split: option.split prod.split)
qed

lemma booked_nominator_leave_collator:
  assumes "storage_wf s" and "booked s"
  shows "booked (fst (nominator_leave_collator cfg origin cand s))"
proof -
  have "total_claim (put_collator cfg cand c' (put_nominator cfg a n' s)) \<le> unat (TotalStaked s)"
    if "sm_get (Collators s) cand = Some c" "sm_get (Nominators s) a = Some n"
      "StakingNominators_rm_nomination n cand r = (n', Some k)"
      "StakingCollators_rm_nomination c a = (c', e)" for a c c' n n' k e r
    using nominator_claim_rm [OF that(3)]
    using put_both_grows [OF assms, of c' cand n' a 0 cfg] by (simp add: that(1,2) collator_nominations_claim(3) [OF that(4)])
  then show ?thesis using assms(2)
    by (auto simp: nominator_leave_collator_def Let_def put_swap split: option.split prod.split)
qed

lemma booked_dispatch:
  assumes "storage_wf s" and "booked s" and "collators_inv cfg s" and "room_for s (call_amount call)"
    and "snd (staking_dispatch cfg origin call s) = Err (Module NominationNotExist) \<Longrightarrow> fst (staking_dispatch cfg origin call s) = s"
  shows "booked (fst (staking_dispatch cfg origin call s))"
proof (cases call)
  case (Call_config st)
  then show ?thesis using assms(2) by (simp add: config_def total_claim_def)
next
  case (Call_nominate c v)
  then show ?thesis using booked_nominate [OF assms(1,2), of v cfg origin c] assms(4,5) by simp
qed (use assms in \<open>auto intro: booked_bond booked_bond_extra booked_bond_less booked_force_onboard booked_collator_unbond
      booked_nominate_extra booked_nominate_less booked_nominator_leave_collator\<close>)

section \<open>Round changes\<close>

lemma weight_map_le:
  assumes "\<And>v. f (g v) + h v \<le> f v"
  shows "weight f (map (\<lambda>(k, v). (k, g v)) m) + weight h m \<le> weight f m"
proof (induction m)
  case (Cons p m)
  then show ?case using assms [of "snd p"] by (cases p) simp
qed simp

lemma unat_taken:
  fixes t v :: Balance
  assumes "m + n \<le> unat t" and "unat v \<le> n"
  shows "m \<le> unat (t - v)"
proof -
  have "v \<le> t" using assms by (simp add: word_le_nat_alt)
  then show ?thesis using assms by (simp add: unat_sub)
qed

lemma booked_update_collators:
  assumes "distinct (keys (Collators s))" and "booked s"
  shows "booked (update_collators cfg r s)"
proof -
  have "collator_claim (updated_collator r c) + 0 \<le> collator_claim c" for c :: "'a StakingCollators"
    using claim_updated [of r c] by simp
  then have "weight collator_claim (Collators (update_collators cfg r s)) \<le> weight collator_claim (Collators s)"
    using weight_map_le [of collator_claim "updated_collator r" "\<lambda>_. 0" "Collators s"]
    unfolding update_collators_collators [OF assms(1)] by simp
  then show ?thesis using assms(2) by (simp add: total_claim_def)
qed

lemma nominator_claim_updated:
  "nominator_claim (StakingNominators_consolidate_unbonded n r) + chunks_value (matured r (no_unbonding n)) = nominator_claim n"
  using sum_list_filter_split [of "\<lambda>x. unat (ub_value x)" "\<lambda>x. ub_round x \<le> r" "no_unbonding n"]
  by (simp add: nominator_claim_def ledger_simps not_le)

lemma booked_update_nominators:
  assumes "distinct (keys (Nominators s))" and "booked s"
  shows "booked (update_nominators cfg r s)"
proof -
  let ?due = "\<lambda>n. chunks_value (matured r (no_unbonding n))"
  have "unat (\<Sum>(a, n) \<leftarrow> Nominators s. nominator_released r n) \<le> (\<Sum>(a, n) \<leftarrow> Nominators s. unat (nominator_released r n))"
    using unat_map_sum_le [of "\<lambda>(a, n). nominator_released r n" "Nominators s"] unfolding case_prod_beta .
  also have "\<dots> \<le> weight ?due (Nominators s)"
    unfolding weight_def nominator_released_def case_prod_beta by (intro sum_list_mono unat_map_sum_le)
  finally have due: "unat (\<Sum>(a, n) \<leftarrow> Nominators s. nominator_released r n) \<le> weight ?due (Nominators s)" .
  have "weight nominator_claim (Nominators (update_nominators cfg r s)) + weight ?due (Nominators s) \<le> weight nominator_claim (Nominators s)"
    unfolding update_nominators_nominators [OF assms(1)] by (rule weight_map_le) (simp add: nominator_claim_updated)
  then have "total_claim (update_nominators cfg r s) + weight ?due (Nominators s) \<le> unat (TotalStaked s)"
    using assms(2) by (simp add: total_claim_def)
  then show ?thesis unfolding update_nominators_staked using due by (rule unat_taken)
qed

lemma execute_exit_total:
  "TotalStaked (execute_exit cfg r (a, x) s) =
     (if exit_paid r x = [] then TotalStaked s else TotalStaked s - last (exit_paid r x))"
proof -
  have 1: "TotalStaked (fold (\<lambda>chunk s. if ub_round chunk > r then s else release_exit_chunk cfg a t (ub_value chunk) s) cs s) =
      (if matured r cs = [] then TotalStaked s else t - ub_value (last (matured r cs)))" for cs t s
    by (induction cs arbitrary: s) (auto simp: not_less)
  have 2: "TotalStaked (fold (\<lambda>u. release_exit_chunk cfg a t (ub_value u)) cs s) =
      (if cs = [] then TotalStaked s else t - ub_value (last cs))" for cs t s
    by (induction cs arbitrary: s) auto
  show ?thesis by (auto simp: execute_exit_def Let_def exit_paid_def 1 2 last_map)
qed

lemma booked_execute_exit:
  assumes "distinct (keys (ExitQueue s))" and "sm_get (ExitQueue s) a = Some x" and "booked s"
  shows "booked (execute_exit cfg r (a, x) s)"
proof -
  have "total_claim (execute_exit cfg r (a, x) s) + (\<Sum>v \<leftarrow> exit_paid r x. unat v) = total_claim s"
    using claim_exit_after [of r x] weight_remove [OF assms(1), of exit_claim a]
      weight_insert [OF assms(1), of exit_claim "key_before cfg" a "the (exit_after r x)"] assms(2)
    by (cases "exit_after r x") (simp_all add: total_claim_def execute_exit_queue_step)
  then have *: "total_claim (execute_exit cfg r (a, x) s) + (\<Sum>v \<leftarrow> exit_paid r x. unat v) \<le> unat (TotalStaked s)"
    using assms(3) by simp
  show ?thesis
  proof (cases "exit_paid r x = []")
    case True
    then show ?thesis using * by (simp add: execute_exit_total)
  next
    case False
    then have "unat (last (exit_paid r x)) \<le> (\<Sum>v \<leftarrow> exit_paid r x. unat v)"
      by (intro member_le_sum_list) auto
    then show ?thesis using unat_taken [OF *] False by (simp add: execute_exit_total)
  qed
qed

lemma booked_execute_exit_queue:
  assumes "distinct (keys (ExitQueue s))" and "booked s"
  shows "booked (execute_exit_queue cfg r s)"
proof -
  have "booked (fold (execute_exit cfg r) es s)"
    if "distinct (keys es)" "distinct (keys (ExitQueue s))" "\<forall>(a, x) \<in> set es. sm_get (ExitQueue s) a = Some x" "booked s"
    for es and s :: "('a, 'b) staking_state"
    using that
  proof (induction es arbitrary: s)
    case (Cons p es)
    obtain a x where p: "p = (a, x)" by (cases p)
    have "distinct (keys (ExitQueue (execute_exit cfg r p s)))" using Cons.prems(2)
      by (simp add: p execute_exit_queue_step split: option.split)
    moreover have "\<forall>(b, y) \<in> set es. sm_get (ExitQueue (execute_exit cfg r p s)) b = Some y" using Cons.prems(1,3)
      by (auto simp: p execute_exit_queue_step rev_image_eqI split: option.split)
    moreover have "booked (execute_exit cfg r p s)" using Cons.prems p by (auto intro: booked_execute_exit)
    ultimately show ?case using Cons.IH Cons.prems(1) by simp
  qed simp
  then show ?thesis unfolding execute_exit_queue_def using assms by (auto intro!: map_of_is_SomeI)
qed

lemma booked_round_payments:
  assumes "storage_wf s" and "booked s"
  shows "booked (round_payments cfg r s)"
  unfolding round_payments_def using assms
  by (intro booked_execute_exit_queue booked_update_nominators booked_update_collators)
    (simp_all add: storage_wf_def total_claim_def)

lemma booked_on_finalize:
  assumes "storage_wf s" and "booked s"
  shows "booked (on_finalize cfg el now s)"
proof (cases "RoundInfo_should_goto_next_round (CurrentRound s) now")
  case True
  have "booked (round_payments cfg r (s\<lparr>CurrentRound := c\<rparr>))" for r c
    by (rule booked_round_payments) (use assms in \<open>simp_all add: storage_wf_def total_claim_def\<close>)
  then show ?thesis by (simp add: on_finalize_due [OF True] total_claim_def)
next
  case False
  then show ?thesis using assms by (simp add: on_finalize_not_due)
qed

section \<open>Genesis\<close>

lemma build_stakers_booked:
  "build_stakers cfg stakers t s = Some (t', s') \<Longrightarrow> distinct (keys (Collators s)) \<Longrightarrow>
   t' = t + (\<Sum>(a, v) \<leftarrow> stakers. v) \<and>
   weight collator_claim (Collators s') \<le> weight collator_claim (Collators s) + (\<Sum>(a, v) \<leftarrow> stakers. unat v)"
proof (induction cfg stakers t s rule: build_stakers.induct)
  case (2 cfg a v stakers t s)
  let ?s = "fst (bond cfg (Signed a) v s)"
  have "distinct (keys (Collators ?s))" using 2(3) by (simp add: bond_def Let_def)
  moreover have "weight collator_claim (Collators ?s) \<le> weight collator_claim (Collators s) + unat v"
    using weight_insert [OF 2(3), of collator_claim "key_before cfg" a "StakingCollators_new v r" for r]
    by (simp add: bond_def Let_def claim_entry) (metis add_leD1 order_refl)
  ultimately show ?case using 2 by (auto simp: add.assoc split: if_splits)
qed simp

lemma booked_genesis:
  assumes "build cfg stakers (default_state c) = Some s" and "(\<Sum>(a, v) \<leftarrow> stakers. unat v) < 2 ^ 128"
  shows "booked s"
proof -
  obtain t u where bs: "build_stakers cfg stakers 0 (default_state c) = Some (t, u)"
    and s: "Collators s = Collators u" "TotalStaked s = t"
    using assms(1) by (auto simp: build_def Let_def split: option.splits)
  have t: "t = (\<Sum>(a, v) \<leftarrow> stakers. v)" and w: "weight collator_claim (Collators u) \<le> (\<Sum>(a, v) \<leftarrow> stakers. unat v)"
    using build_stakers_booked [OF bs] by (simp_all add: default_state_def)
  have snd: "(\<lambda>(a, v). v) = (\<lambda>x. snd x)" "(\<lambda>(a, v). unat v) = (\<lambda>x. unat (snd x))" for a :: 'a and v :: Balance
    by auto
  have "unat t = (\<Sum>(a, v) \<leftarrow> stakers. unat v)"
    using unat_sum_list [of "map snd stakers"] assms(2) unfolding t snd by (simp add: comp_def)
  then show ?thesis using w by (simp add: total_claim_def build_maps [OF assms(1)] s)
qed

section \<open>The invariant\<close>

definition sound_genesis :: "('acc, 'c, 'p, 'b) staking_config \<Rightarrow> ('acc, 'c) staking_state \<Rightarrow> bool" where
  "sound_genesis cfg s \<longleftrightarrow>
     (\<exists>stakers c. build cfg stakers (default_state c) = Some s \<and> (\<Sum>(a, v) \<leftarrow> stakers. unat v) < 2 ^ 128)"

inductive booked_step ::
    "('acc::linorder, 'c, 'p, 'b) staking_config \<Rightarrow> ('acc, 'c) staking_state \<Rightarrow> ('acc, 'c) staking_state \<Rightarrow> bool"
    for cfg where
  booked_call:
    "room_for s (call_amount call) \<Longrightarrow>
     (snd (staking_dispatch cfg origin call s) = Err (Module NominationNotExist) \<Longrightarrow> fst (staking_dispatch cfg origin call s) = s) \<Longrightarrow>
     booked_step cfg s (fst (staking_dispatch cfg origin call s))"
| booked_finalize: "booked_step cfg s (on_finalize cfg elect now s)"
| booked_author: "booked_step cfg s (note_author cfg author s)"
| booked_balances: "booked_step cfg s (s\<lparr>currency := c\<rparr>)"

lemma booked_step_staking: "booked_step cfg s s' \<Longrightarrow> staking_step cfg s s'"
  by (auto elim!: booked_step.cases intro: staking_step.intros)

interpretation total: inductive_invariant "sound_genesis cfg" "booked_step cfg"
    "\<lambda>s. (storage_wf s \<and> collators_inv cfg s \<and> points_inv s) \<and> booked s" for cfg
proof unfold_locales
  fix s assume g: "sound_genesis cfg s"
  then have "staking_genesis cfg s" by (auto simp: sound_genesis_def staking_genesis_def)
  then show "(storage_wf s \<and> collators_inv cfg s \<and> points_inv s) \<and> booked s"
    using storage.inv_init booked_genesis g by (auto simp: sound_genesis_def)
next
  fix s s' assume inv: "(storage_wf s \<and> collators_inv cfg s \<and> points_inv s) \<and> booked s" and step: "booked_step cfg s s'"
  from step have "booked s'"
  proof cases
    case (booked_call call origin)
    then show ?thesis using inv booked_dispatch [of s cfg call origin] by simp
  next
    case (booked_finalize elect now)
    then show ?thesis using inv by (simp only: booked_on_finalize)
  qed (use inv in \<open>simp_all add: note_author_def Let_def total_claim_def\<close>)
  with storage.inv_step [OF _ booked_step_staking [OF step]] inv
  show "(storage_wf s' \<and> collators_inv cfg s' \<and> points_inv s') \<and> booked s'" by blast
qed

text \<open>C5: The total stake never says too little: on every run from a genesis whose stakes sum up within the
  range of balances, as long as no call overflows the total and no nomination is refused half way,
  \<open>TotalStaked\<close> is at least what all collator, nominator and exit records together hold (so the
  subtractions at a round change do not wrap around), and so is the total recorded for each new round, by
  which its rewards will be divided.\<close>

theorem stake_never_undercounted:
  assumes "build cfg stakers (default_state c) = Some s0" and "(\<Sum>(a, v) \<leftarrow> stakers. unat v) < 2 ^ 128"
    and "(booked_step cfg)\<^sup>*\<^sup>* s0 s"
  shows "total_claim s \<le> unat (TotalStaked s) \<and>
    (RoundInfo_should_goto_next_round (CurrentRound s) now \<longrightarrow>
      total_claim (on_finalize cfg el now s) \<le>
        unat (TotalStakedAt (on_finalize cfg el now s) (ri_index (CurrentRound s) + 1)))"
proof -
  have "sound_genesis cfg s0" using assms(1,2) unfolding sound_genesis_def by blast
  then have inv: "storage_wf s" "booked s" using total.steps_inv [OF assms(3)] total.inv_init [of cfg s0] by simp_all
  moreover have "TotalStakedAt (on_finalize cfg el now s) (ri_index (CurrentRound s) + 1) = TotalStaked (on_finalize cfg el now s)"
    if "RoundInfo_should_goto_next_round (CurrentRound s) now"
    by (simp add: on_finalize_due [OF that])
  ultimately show ?thesis using booked_on_finalize [OF inv, of cfg el now] by simp
qed

theorem stake_never_undercounted_witness:
  "total_claim demo1 = 500 \<and> total_claim demo1 \<le> unat (TotalStaked demo1) \<and>
   total_claim (on_finalize demo_cfg None 10 demo1) \<le> unat (TotalStakedAt (on_finalize demo_cfg None 10 demo1) 3)"
proof -
  have run: "(booked_step demo_cfg)\<^sup>*\<^sup>* demo0 demo1" unfolding demo1_def by (rule r_into_rtranclp, rule booked_finalize)
  have due: "RoundInfo_should_goto_next_round (CurrentRound demo1) 10" "ri_index (CurrentRound demo1) + 1 = 3"
    by (simp_all add: demo1_simps RoundInfo_should_goto_next_round_def)
  have "total_claim demo1 = 500"
    by (simp add: total_claim_def demo1_simps collator_claim_def)
  then show ?thesis using stake_never_undercounted [OF demo_build _ run, of 10 None] due by simp
qed

end
