(* ===== verification/Staking_Releases.thy ===== *)
theory Staking_Releases
  imports Staking_Backing
begin

text \<open>
  Stake comes back on time. Every amount that was taken out waits in a collator, a nominator or an
  exit record under a round. As long as the settings keep the bonding delay within some bound and the
  round counter does not come to its end, no round that waits is ever in the past or more than that
  bound ahead, so each of them is served within as many round changes.
\<close>

section \<open>The rounds that wait\<close>

abbreviation rounds_of :: "UnBondChunk list \<Rightarrow> RoundIndex set" where
  "rounds_of chunks \<equiv> ub_round ` set chunks"

definition exit_rounds :: "Leaving \<Rightarrow> RoundIndex set" where
  "exit_rounds x = insert (lv_when x) (rounds_of (lv_unbonding x))"

definition waiting :: "('v \<Rightarrow> RoundIndex set) \<Rightarrow> ('k, 'v) smap \<Rightarrow> RoundIndex set" where
  "waiting f m = (\<Union>(k, v) \<in> set m. f v)"

definition pending :: "('acc, 'c) staking_state \<Rightarrow> RoundIndex set" where
  "pending s =
     waiting (\<lambda>c. rounds_of (co_unbonding c)) (Collators s) \<union>
     waiting (\<lambda>n. rounds_of (no_unbonding n)) (Nominators s) \<union>
     waiting exit_rounds (ExitQueue s)"

text \<open>A step that leaves the bonding delay, which root may configure, within a bound, and the round counter in range.\<close>

definition timed_step ::
    "nat \<Rightarrow> ('acc::linorder, 'c, 'p, 'b) staking_config \<Rightarrow> ('acc, 'c) staking_state \<Rightarrow> ('acc, 'c) staking_state \<Rightarrow> bool" where
  "timed_step delay cfg s s' \<longleftrightarrow> staking_step cfg s s' \<and> unat (bond_duration (Settings s')) \<le> delay \<and>
     unat (ri_index (CurrentRound s)) + delay + 1 < 2 ^ 32"

section \<open>Calls add the withdrawal round only\<close>

lemma waiting_insert: "waiting f (sm_insert before a x m) \<subseteq> f x \<union> waiting f m"
  using set_sm_insert_subset [of before a x m] by (auto simp: waiting_def)

lemma waiting_remove: "waiting f (sm_remove a m) \<subseteq> waiting f m"
  by (auto simp: waiting_def set_sm_remove)

lemma waiting_get: "sm_get m a = Some x \<Longrightarrow> f x \<subseteq> waiting f m"
  by (auto simp: waiting_def dest!: sm_get_in_set)

lemma pending_put_collator: "pending (put_collator cfg a c s) \<subseteq> rounds_of (co_unbonding c) \<union> pending s"
  unfolding pending_def put_collator_simps by (rule order_trans, rule Un_mono, rule Un_mono, rule waiting_insert) auto

lemma pending_put_nominator: "pending (put_nominator cfg a n s) \<subseteq> rounds_of (no_unbonding n) \<union> pending s"
  unfolding pending_def put_nominator_simps
  by (rule order_trans, rule Un_mono, rule Un_mono, rule order_refl, rule waiting_insert) auto

lemma pending_put_exit: "pending (put_exit cfg a x s) \<subseteq> exit_rounds x \<union> pending s"
  unfolding pending_def put_exit_simps
  by (rule order_trans, rule Un_mono, rule order_refl, rule waiting_insert) auto

lemma pending_remove: "pending (s\<lparr>Collators := sm_remove a (Collators s)\<rparr>) \<subseteq> pending s"
  using waiting_remove [of "\<lambda>c. rounds_of (co_unbonding c)" a "Collators s"] by (auto simp: pending_def)

lemma pending_get:
  "sm_get (Collators s) a = Some c \<Longrightarrow> rounds_of (co_unbonding c) \<subseteq> pending s"
  "sm_get (Nominators s) a = Some n \<Longrightarrow> rounds_of (no_unbonding n) \<subseteq> pending s"
  unfolding pending_def
  by (rule subset_trans, rule waiting_get [where f = "\<lambda>c. rounds_of (co_unbonding c)"], assumption, blast)
    (rule subset_trans, rule waiting_get [where f = "\<lambda>n. rounds_of (no_unbonding n)"], assumption, blast)

lemma pending_cong:
  "Collators s' = Collators s \<Longrightarrow> Nominators s' = Nominators s \<Longrightarrow> ExitQueue s' = ExitQueue s \<Longrightarrow> pending s' = pending s"
  by (simp add: pending_def)

lemma pending_frame [simp]:
  "pending (deposit_event e s) = pending s"
  "pending (do_reserve cfg a v s) = pending s"
  "pending (s\<lparr>TotalStaked := t\<rparr>) = pending s"
  "pending (s\<lparr>Settings := st\<rparr>) = pending s"
  "pending (s\<lparr>currency := cu\<rparr>) = pending s"
  by (simp_all add: pending_def)

text \<open>How the methods of the records change the chunks that wait.\<close>

lemma collator_chunks:
  "StakingCollators_nominate_extra c b = (c', e) \<Longrightarrow> co_unbonding c' = co_unbonding c"
  "StakingCollators_nominate_less c b = (c', l) \<Longrightarrow> co_unbonding c' = co_unbonding c"
  "StakingCollators_rm_nomination c w = (c', e) \<Longrightarrow> co_unbonding c' = co_unbonding c"
  by (auto simp: StakingCollators_nominate_extra_def StakingCollators_nominate_less_def
      StakingCollators_rm_nomination_def Let_def split: prod.splits option.splits)

lemma collator_chunks_add:
  "StakingCollators_add_nomination c b = (c', t) \<Longrightarrow> co_unbonding c' = co_unbonding c"
  by (auto simp: StakingCollators_add_nomination_def split: sum.splits)

lemma nominator_chunks:
  "StakingNominators_nominate_extra n b = (n', e) \<Longrightarrow> no_unbonding n' = no_unbonding n"
  "StakingNominators_nominate_less n b r = (n', l) \<Longrightarrow> x \<in> set (no_unbonding n') \<Longrightarrow> ub_round x = r \<or> x \<in> set (no_unbonding n)"
  "StakingNominators_rm_nomination n cand r = (n', m) \<Longrightarrow> x \<in> set (no_unbonding n') \<Longrightarrow> ub_round x = r \<or> x \<in> set (no_unbonding n)"
  by (auto simp: StakingNominators_nominate_extra_def StakingNominators_nominate_less_def
      StakingNominators_rm_nomination_def Let_def split: prod.splits option.splits)

lemma nominator_chunks_add [simp]: "no_unbonding (fst (StakingNominators_add_nomination n b)) = no_unbonding n"
  by (auto simp: StakingNominators_add_nomination_def split: sum.splits)

lemma pending_cases:
  "r \<in> pending (put_collator cfg a c s) \<Longrightarrow> r \<in> rounds_of (co_unbonding c) \<or> r \<in> pending s"
  "r \<in> pending (put_nominator cfg a n s) \<Longrightarrow> r \<in> rounds_of (no_unbonding n) \<or> r \<in> pending s"
  "r \<in> pending (put_exit cfg a x s) \<Longrightarrow> r \<in> exit_rounds x \<or> r \<in> pending s"
  using pending_put_collator [of cfg a c s] pending_put_nominator [of cfg a n s] pending_put_exit [of cfg a x s]
  by blast+

lemma pending_leave:
  "r \<in> pending (put_exit cfg a x s\<lparr>Collators := sm_remove b (Collators s)\<rparr>) \<Longrightarrow> r \<in> exit_rounds x \<or> r \<in> pending s"
  using pending_remove [where s = "put_exit cfg a x s" and a = b] pending_put_exit [of cfg a x s] by auto

lemma pending_member:
  "sm_get (Collators s) a = Some c \<Longrightarrow> x \<in> set (co_unbonding c) \<Longrightarrow> ub_round x \<in> pending s"
  "sm_get (Nominators s) a = Some n \<Longrightarrow> x \<in> set (no_unbonding n) \<Longrightarrow> ub_round x \<in> pending s"
  by (auto dest: pending_get)

lemma pending_collator_calls:
  shows "pending (fst (config origin st s)) \<subseteq> insert (withdraw_round s) (pending s)"
    and "pending (fst (bond cfg origin v s)) \<subseteq> insert (withdraw_round s) (pending s)"
    and "pending (fst (force_onboard cfg origin cand s)) \<subseteq> insert (withdraw_round s) (pending s)"
    and "pending (fst (bond_extra cfg origin v s)) \<subseteq> insert (withdraw_round s) (pending s)"
    and "pending (fst (bond_less cfg origin v s)) \<subseteq> insert (withdraw_round s) (pending s)"
  by (auto simp: config_def bond_def force_onboard_def bond_extra_def bond_less_def Let_def StakingCollators_new_def
      StakingCollators_force_bond_def StakingCollators_bond_extra_def bond_less_Some
      split: option.splits prod.splits if_splits dest!: pending_cases dest: pending_member)

lemma pending_unreserve: "pending (fold (\<lambda>b. do_unreserve cfg (owner b) (amount b)) bs s) = pending s"
  by (rule fold_invariant) (simp add: pending_def)

lemma pending_collator_unbond:
  "pending (fst (collator_unbond cfg origin s)) \<subseteq> insert (withdraw_round s) (pending s)"
  by (auto simp: collator_unbond_def Let_def pending_unreserve Leaving_new_def exit_rounds_def
      split: option.splits dest!: pending_leave dest: pending_member)

lemma pending_nominator_calls:
  "pending (fst (nominate_extra cfg origin cand v s)) \<subseteq> insert (withdraw_round s) (pending s)"
  "pending (fst (nominate_less cfg origin cand v s)) \<subseteq> insert (withdraw_round s) (pending s)"
  "pending (fst (nominator_leave_collator cfg origin cand s)) \<subseteq> insert (withdraw_round s) (pending s)"
  by (auto simp: nominate_extra_def nominate_less_def nominator_leave_collator_def Let_def
      split: option.splits prod.splits if_splits dest!: pending_cases collator_chunks nominator_chunks(1)
      dest: nominator_chunks(2,3) pending_member)

lemma pending_nominate: "pending (fst (nominate cfg origin cand v s)) \<subseteq> insert (withdraw_round s) (pending s)"
  by (auto simp: nominate_def Let_def StakingNominators_new_def split: option.splits prod.splits if_splits bool.splits
      dest!: pending_cases collator_chunks_add dest: pending_member)

lemma pending_dispatch:
  "pending (fst (staking_dispatch cfg origin call s)) \<subseteq> insert (withdraw_round s) (pending s)"
  by (cases call)
    (simp_all only: staking_dispatch.simps pending_collator_calls pending_collator_unbond pending_nominator_calls pending_nominate)

section \<open>A round change serves all rounds up to the new one\<close>

lemma waiting_iff: "distinct (keys m) \<Longrightarrow> r \<in> waiting f m \<longleftrightarrow> (\<exists>a v. sm_get m a = Some v \<and> r \<in> f v)"
  by (force simp: waiting_def dest: sm_get_in_set map_of_is_SomeI)

lemma pending_on_finalize:
  assumes "storage_wf s" and "RoundInfo_should_goto_next_round (CurrentRound s) now"
  shows "pending (on_finalize cfg el now s) \<subseteq> {r \<in> pending s. ri_index (CurrentRound s) + 1 < r}"
proof -
  have d: "distinct (keys (Collators s))" "distinct (keys (Nominators s))" "distinct (keys (ExitQueue s))"
    using assms(1) by (simp_all add: storage_wf_def)
  have d': "distinct (keys (Collators (on_finalize cfg el now s)))" "distinct (keys (Nominators (on_finalize cfg el now s)))"
    "distinct (keys (ExitQueue (on_finalize cfg el now s)))"
    using storage_wf_on_finalize [OF assms(1), of cfg el now] by (simp_all add: storage_wf_def)
  note get = round_change_records [OF assms(2) d, where cfg = cfg and el = el]
  have "waiting (\<lambda>c. rounds_of (co_unbonding c)) (Collators (on_finalize cfg el now s)) \<subseteq>
      {r \<in> waiting (\<lambda>c. rounds_of (co_unbonding c)) (Collators s). ri_index (CurrentRound s) + 1 < r}"
    by (auto simp: waiting_iff [OF d(1)] waiting_iff [OF d'(1)] get(1) ledger_simps) blast
  moreover have "waiting (\<lambda>n. rounds_of (no_unbonding n)) (Nominators (on_finalize cfg el now s)) \<subseteq>
      {r \<in> waiting (\<lambda>n. rounds_of (no_unbonding n)) (Nominators s). ri_index (CurrentRound s) + 1 < r}"
    by (auto simp: waiting_iff [OF d(2)] waiting_iff [OF d'(2)] get(2) ledger_simps) blast
  moreover have "waiting exit_rounds (ExitQueue (on_finalize cfg el now s)) \<subseteq>
      {r \<in> waiting exit_rounds (ExitQueue s). ri_index (CurrentRound s) + 1 < r}"
    by (auto simp: waiting_iff [OF d(3)] waiting_iff [OF d'(3)] get(3) exit_rounds_def exit_after_def
        bind_eq_Some_conv split: if_splits) blast+
  ultimately show ?thesis unfolding pending_def by blast
qed

section \<open>The invariant\<close>

definition on_time :: "nat \<Rightarrow> ('acc, 'c) staking_state \<Rightarrow> bool" where
  "on_time delay s \<longleftrightarrow> unat (bond_duration (Settings s)) \<le> delay \<and>
     (\<forall>r \<in> pending s. unat (ri_index (CurrentRound s)) \<le> unat r \<and>
        unat r \<le> unat (ri_index (CurrentRound s)) + delay)"

lemma dispatch_round: "CurrentRound (fst (staking_dispatch cfg origin call s)) = CurrentRound s"
  by (cases call; simp add: config_def bond_def force_onboard_def bond_extra_def bond_less_def collator_unbond_def
      nominate_def nominate_extra_def nominate_less_def nominator_leave_collator_def Let_def
      fold_invariant [where f = CurrentRound] split: option.split prod.split bool.split)

lemma on_time_step:
  assumes "on_time delay s" and "storage_wf s" and "timed_step delay cfg s s'"
  shows "on_time delay s'"
proof -
  have step: "staking_step cfg s s'" and set: "unat (bond_duration (Settings s')) \<le> delay"
    and small: "unat (ri_index (CurrentRound s)) + delay + 1 < 2 ^ 32"
    using assms(3) by (auto simp: timed_step_def)
  have next_round: "unat (ri_index (CurrentRound s) + 1) = unat (ri_index (CurrentRound s)) + 1"
    using small by (simp add: unat_word_ariths)
  have "unat (withdraw_round s) = unat (ri_index (CurrentRound s)) + unat (bond_duration (Settings s))"
    using small assms(1) by (simp add: withdraw_round_def on_time_def unat_word_ariths)
  then have withdraw: "unat (ri_index (CurrentRound s)) \<le> unat (withdraw_round s)"
    "unat (withdraw_round s) \<le> unat (ri_index (CurrentRound s)) + delay"
    using assms(1) by (simp_all add: on_time_def)
  show ?thesis
    using step
  proof cases
    case (step_call origin call)
    then show ?thesis
      using assms(1) withdraw pending_dispatch [of cfg origin call s] set by (auto simp: on_time_def dispatch_round)
  next
    case (step_finalize elect now)
    show ?thesis
    proof (cases "RoundInfo_should_goto_next_round (CurrentRound s) now")
      case True
      then have "ri_index (CurrentRound s') = ri_index (CurrentRound s) + 1"
        by (simp add: step_finalize on_finalize_due)
      then show ?thesis
        using assms(1) set next_round pending_on_finalize [OF assms(2) True, of cfg elect]
        by (force simp: on_time_def step_finalize word_less_nat_alt)
    next
      case False
      then show ?thesis using assms(1) by (simp add: step_finalize on_finalize_not_due)
    qed
  next
    case (step_author author)
    then show ?thesis using assms(1) by (simp add: on_time_def note_author_def Let_def pending_def)
  next
    case (step_balances c)
    then show ?thesis using assms(1) by (simp add: on_time_def)
  qed
qed

lemma pending_genesis:
  fixes cfg :: "('acc::linorder, 'c, 'p, 'b) staking_config"
  assumes "staking_genesis cfg s"
  shows "pending s = {}" and "bond_duration (Settings s) = BondDuration cfg"
proof -
  obtain stakers c where b: "build cfg stakers (default_state c) = Some s"
    using assms by (auto simp: staking_genesis_def)
  have d: "distinct (keys (Collators s))" using storage_wf_genesis [OF assms] by (simp add: storage_wf_def)
  have "co_unbonding co = []" if "sm_get (Collators s) a = Some co" for a co
    using life_genesis [OF assms, of a] that by (auto elim!: life_init.cases simp: life_of_def standing_of_def)
  then show "pending s = {}"
    using build_maps [OF b] by (auto simp: pending_def waiting_iff [OF d]) (auto simp: waiting_def)
  show "bond_duration (Settings s) = BondDuration cfg" using build_round [OF b] by simp
qed

interpretation on_time: inductive_invariant "\<lambda>s. staking_genesis cfg s \<and> unat (BondDuration cfg) \<le> delay" "timed_step delay cfg"
    "\<lambda>s. on_time delay s \<and> storage_wf s \<and> collators_inv cfg s \<and> points_inv s" for cfg delay
proof unfold_locales
  fix s assume g: "staking_genesis cfg s \<and> unat (BondDuration cfg) \<le> delay"
  then show "on_time delay s \<and> storage_wf s \<and> collators_inv cfg s \<and> points_inv s"
    using pending_genesis [of cfg s] storage.inv_init [of cfg s] by (simp add: on_time_def)
next
  fix s s' assume inv: "on_time delay s \<and> storage_wf s \<and> collators_inv cfg s \<and> points_inv s" and step: "timed_step delay cfg s s'"
  then show "on_time delay s' \<and> storage_wf s' \<and> collators_inv cfg s' \<and> points_inv s'"
    using on_time_step storage.inv_step unfolding timed_step_def by blast
qed

text \<open>C4: Stake comes back on time: on every run from genesis on which root keeps the configured bonding delay within
  some bound and the round counter stays in range, every round under which stake waits to be
  released (in a collator, a nominator or an exit record) is neither past nor more than that bound
  ahead. So when later more rounds than the bound have gone by, whatever everyone did in between,
  nothing that waited then is still waiting: each round that waits now is later than each that
  waited then.\<close>

theorem releases_on_time:
  assumes "build cfg stakers (default_state cur) = Some s0" and "unat (BondDuration cfg) \<le> delay"
    and "(timed_step delay cfg)\<^sup>*\<^sup>* s0 s" and "(timed_step delay cfg)\<^sup>*\<^sup>* s s'"
    and "r \<in> pending s"
  shows "ri_index (CurrentRound s) \<le> r \<and> unat r \<le> unat (ri_index (CurrentRound s)) + delay \<and>
    (unat (ri_index (CurrentRound s)) + delay < unat (ri_index (CurrentRound s')) \<longrightarrow> (\<forall>r' \<in> pending s'. r < r'))"
proof -
  have "staking_genesis cfg s0 \<and> unat (BondDuration cfg) \<le> delay" using assms(1,2) unfolding staking_genesis_def by blast
  from on_time.inv_init [OF this] have "on_time delay s" "on_time delay s'"
    using on_time.steps_inv [OF assms(3)] on_time.steps_inv [OF assms(4)] by blast+
  with assms(5) show ?thesis by (fastforce simp: on_time_def word_le_nat_alt word_less_nat_alt)
qed

text \<open>
  The demo chain: the collator takes stake out in round 2, to wait until round 4; then root raises the
  delay to 5 rounds, within a bound of 5.
\<close>

lemma demo_timed: "timed_step 5 demo_cfg demo0 demo1"
  unfolding timed_step_def demo1_def
  using demo1_more(1) by (auto simp: demo0_simps demo1_def intro: step_finalize)

theorem releases_on_time_witness:
  "let s = fst (config Root \<lparr>bond_duration = 5, blocks_per_round = 5, desired_target = 3\<rparr> (fst (bond_less demo_cfg (Signed 1) 150 demo1))) in
   4 \<in> pending s \<and> bond_duration (Settings s) = 5 \<and>
   ri_index (CurrentRound s) \<le> 4 \<and> unat (4 :: RoundIndex) \<le> unat (ri_index (CurrentRound s)) + 5"
proof -
  let ?st = "\<lparr>bond_duration = 5, blocks_per_round = 5, desired_target = 3\<rparr>"
  let ?t = "fst (bond_less demo_cfg (Signed 1) 150 demo1)"
  let ?s = "fst (config Root ?st ?t)"
  have cfg: "MinCollatorStake demo_cfg = 100" "BondDuration demo_cfg = 2" by (simp_all add: demo_cfg_def)
  have t: "?t = deposit_event (BondLess 1 150) (put_collator demo_cfg 1 \<lparr>co_total = 500, co_active = 350, co_nominations = [],
      co_unlocking = [], co_unbonding = [\<lparr>ub_value = 150, ub_round = 4\<rparr>], co_status = Active, co_claimed_rewards = []\<rparr> demo1)"
    by (simp add: bond_less_def demo1_simps demo1_more cfg StakingCollators_is_active_def StakingCollators_bond_less_def
        withdraw_round_def)
  have "timed_step 5 demo_cfg demo1 ?t"
    unfolding timed_step_def
  proof (intro conjI)
    show "staking_step demo_cfg demo1 ?t" using step_call [of demo_cfg demo1 "Signed 1" "Call_bond_less 150"] by simp
    show "unat (bond_duration (Settings ?t)) \<le> 5" unfolding t by (simp add: demo1_more)
  qed (simp add: demo1_simps)
  moreover have "timed_step 5 demo_cfg ?t ?s"
    unfolding timed_step_def
  proof (intro conjI)
    show "staking_step demo_cfg ?t ?s" using step_call [of demo_cfg ?t Root "Call_config ?st"] by simp
    show "unat (bond_duration (Settings ?s)) \<le> 5" by (simp add: config_def)
    show "unat (ri_index (CurrentRound ?t)) + 5 + 1 < 2 ^ 32" unfolding t by (simp add: demo1_simps)
  qed
  ultimately have run: "(timed_step 5 demo_cfg)\<^sup>*\<^sup>* demo0 ?s"
    using demo_timed by (meson rtranclp.rtrancl_into_rtrancl rtranclp.rtrancl_refl)
  have "4 \<in> pending ?s"
    using pending_member(1) [where s = ?s and a = 1 and x = "\<lparr>ub_value = 150, ub_round = 4\<rparr>"] unfolding t by (simp add: config_def)
  moreover have "bond_duration (Settings ?s) = 5" by (simp add: config_def)
  ultimately show ?thesis using releases_on_time [OF demo_build _ run rtranclp.rtrancl_refl, of 4] by (simp add: cfg)
qed

end
