(* ===== verification/Inflation_Payout.thy ===== *)
theory Inflation_Payout
  imports Complex_Main Inflation_Correct
begin

text \<open>
  The payout of a round as an amount of money. \<^verbatim>\<open>PerThing\<close> rounds every product; the payout that
  \<^verbatim>\<open>compute_total_payout\<close> computes in such steps is, up to a few units and parts of a billion, the issuance times the
  part of the year that has passed times a yearly rate, and the rate is the one of the curve: linear
  in the stake up to the ideal stake, and never outside the minimum and the ideal inflation.
\<close>

section \<open>The rounding of shares\<close>

text \<open>
  \<^verbatim>\<open>PerThing\<close> documents that the product of two parts rounds down, that a part of a balance is rounded to
  a neighbouring integer, and that a share of nothing counts as a share of one.
\<close>

definition perthing_rounding :: "'p perthing_ops \<Rightarrow> bool" where
  "perthing_rounding pt \<longleftrightarrow>
     (\<forall>a b. pt_deconstruct pt (pt_mul pt a b) = pt_deconstruct pt a * pt_deconstruct pt b div pt_accuracy pt) \<and>
     (\<forall>a x. unat (pt_mul_balance pt a x) * pt_accuracy pt \<le> pt_deconstruct pt a * unat x + pt_accuracy pt \<and>
        pt_deconstruct pt a * unat x \<le> unat (pt_mul_balance pt a x) * pt_accuracy pt + pt_accuracy pt) \<and>
     (\<forall>p. pt_from_rational pt p 0 = pt_from_rational pt p 1)"

lemma perbill_rounding: "perthing_rounding perbill"
proof -
  have "unat (pt_mul_balance perbill a x) * 1000000000 \<le> min a 1000000000 * unat x + 1000000000 \<and>
      min a 1000000000 * unat x \<le> unat (pt_mul_balance perbill a x) * 1000000000 + 1000000000" for a x
  proof -
    let ?n = "unat x * min a 1000000000 + 499999999"
    have "?n div 1000000000 \<le> (unat x * 1000000000 + 499999999) div 1000000000" by (intro div_le_mono) simp
    also have "\<dots> = unat x" by simp
    also have "\<dots> < 2 ^ 128" using unsigned_less [of x] by simp
    finally have "unat (pt_mul_balance perbill a x) = ?n div 1000000000" by (simp add: perbill_simps unat_of_nat)
    moreover have "?n div 1000000000 * 1000000000 \<le> ?n" by (rule div_times_less_eq_dividend)
    moreover have "?n < ?n div 1000000000 * 1000000000 + 1000000000"
      using div_mult_mod_eq [of ?n 1000000000] mod_less_divisor [of 1000000000 ?n] by linarith
    ultimately show ?thesis by (simp add: mult.commute)
  qed
  moreover have "min (min a 1000000000 * min b 1000000000 div 1000000000) 1000000000 =
      min a 1000000000 * min b (1000000000 :: nat) div 1000000000" for a b
    using mult_div_le [of "min b 1000000000" 1000000000 "min a 1000000000"] by (intro min_absorb1) simp
  ultimately show ?thesis by (simp add: perthing_rounding_def perbill_simps)
qed

text \<open>The contract the payout relies on, and what it gives: real bounds on shares and on parts of a balance.\<close>

locale perthing_shares =
  fixes pt :: "'p perthing_ops"
  assumes doc: "perthing_documented pt" and rounding: "perthing_rounding pt"
begin

lemma accuracy_pos: "0 < real (pt_accuracy pt)"
  using perthingD(1) [OF doc] by simp

lemma share_le: "p \<le> q \<Longrightarrow> real (pt_deconstruct pt (pt_from_rational pt p q)) \<le> real p * real (pt_accuracy pt) / real q"
proof (cases "q = 0")
  case True
  assume "p \<le> q"
  with True have "pt_from_rational pt p q = pt_from_rational pt 0 1" using rounding by (simp add: perthing_rounding_def)
  then show ?thesis using perthingD(4) [OF doc, of 1 0] by simp
next
  case False
  assume "p \<le> q"
  with False have "real (pt_deconstruct pt (pt_from_rational pt p q)) = real (p * pt_accuracy pt div q)"
    using perthingD(4) [OF doc, of q p] by simp
  also have "\<dots> \<le> real (p * pt_accuracy pt) / real q" by (rule of_nat_div_le_of_nat)
  finally show ?thesis by simp
qed

lemma mul_le:
  "real (pt_deconstruct pt (pt_mul pt a b)) \<le> real (pt_deconstruct pt a) * real (pt_deconstruct pt b) / real (pt_accuracy pt)"
  using rounding of_nat_div_le_of_nat [of "pt_deconstruct pt a * pt_deconstruct pt b" "pt_accuracy pt", where 'a = real]
  by (simp add: perthing_rounding_def)

lemma part_le:
  assumes "real (pt_deconstruct pt a) \<le> f * real (pt_accuracy pt)"
  shows "real (unat (pt_mul_balance pt a x)) \<le> f * real (unat x) + 1"
proof -
  have "real (unat (pt_mul_balance pt a x) * pt_accuracy pt) \<le> real (pt_deconstruct pt a * unat x + pt_accuracy pt)"
    using rounding unfolding perthing_rounding_def of_nat_le_iff by blast
  then have "real (unat (pt_mul_balance pt a x)) * real (pt_accuracy pt) \<le> (f * real (unat x) + 1) * real (pt_accuracy pt)"
    using mult_right_mono [OF assms of_nat_0_le_iff [of "unat x"]] unfolding of_nat_mult of_nat_add by argo
  then show ?thesis using accuracy_pos by (simp only: mult_le_cancel_right_pos)
qed

lemma whole_share:
  assumes "p \<le> q"
  shows "real (unat (pt_mul_balance pt (pt_from_rational pt p q) x)) \<le> real p / real q * real (unat x) + 1"
  by (rule part_le) (use share_le [OF assms] in simp)

lemma half_share:
  assumes "p \<le> q"
  shows "real (unat (pt_mul_balance pt (pt_mul pt (pt_from_rational pt 50 100) (pt_from_rational pt p q)) x)) \<le>
    real p / (2 * real q) * real (unat x) + 1"
proof (rule part_le)
  have "real (pt_deconstruct pt (pt_mul pt (pt_from_rational pt 50 100) (pt_from_rational pt p q))) \<le>
      real (pt_deconstruct pt (pt_from_rational pt 50 100)) * real (pt_deconstruct pt (pt_from_rational pt p q)) / real (pt_accuracy pt)"
    by (rule mul_le)
  also have "\<dots> \<le> (real 50 * real (pt_accuracy pt) / real 100) * (real p * real (pt_accuracy pt) / real q) / real (pt_accuracy pt)"
    by (intro divide_right_mono mult_mono share_le assms) auto
  also have "\<dots> = real p / (2 * real q) * real (pt_accuracy pt)" using accuracy_pos by (simp add: field_simps)
  finally show "real (pt_deconstruct pt (pt_mul pt (pt_from_rational pt 50 100) (pt_from_rational pt p q))) \<le>
      real p / (2 * real q) * real (pt_accuracy pt)" .
qed

end

interpretation perbill_shares: perthing_shares perbill
  by unfold_locales (rule perbill_documented, rule perbill_rounding)

section \<open>From a rate to a payout\<close>

text \<open>The yearly rate of the curve up to the ideal stake: the minimum plus the linear share of the rest.\<close>

definition curve_rate :: "real \<Rightarrow> real \<Rightarrow> real \<Rightarrow> real \<Rightarrow> real" where
  "curve_rate i_0 i_ideal x_ideal x = i_0 + max 0 (i_ideal * x_ideal - i_0) * (x / x_ideal)"

lemma real_div_ge: "0 < y \<Longrightarrow> real n / real y - 1 \<le> real (n div y)"
proof -
  assume y: "0 < y"
  have "real n = real (n div y) * real y + real (n mod y)" by (metis div_mult_mod_eq of_nat_add of_nat_mult)
  moreover have "real (n mod y) \<le> real y" using y by (simp add: less_imp_le)
  ultimately show ?thesis using y by (simp add: field_simps)
qed

lemma scaled_difference:
  fixes p q r e x :: real
  assumes "p - q \<le> e" and "0 \<le> e" and "0 \<le> r" and "r \<le> 1" and "0 \<le> x"
  shows "(p - q) * (r * x) \<le> e * x"
proof -
  have "(p - q) * (r * x) \<le> e * (r * x)" using assms by (intro mult_right_mono) simp_all
  also have "\<dots> \<le> e * x" using mult_right_mono [OF assms(4,5)] assms(2) by (intro mult_left_mono) simp_all
  finally show ?thesis .
qed

locale billionths = perthing_shares +
  assumes billion: "pt_accuracy pt = 1000000000"
begin

lemma part_ge: "real (pt_deconstruct pt a) / 1000000000 * real (unat x) - 1 \<le> real (unat (pt_mul_balance pt a x))"
proof -
  have "real (pt_deconstruct pt a * unat x) \<le> real (unat (pt_mul_balance pt a x) * 1000000000 + 1000000000)"
    using rounding unfolding perthing_rounding_def billion of_nat_le_iff by blast
  then show ?thesis by (simp add: field_simps)
qed

lemma portion_parts:
  assumes "d \<le> y" and "0 < y"
  shows "real d / real y - 1 / 1000000000 \<le> real (pt_deconstruct pt (pt_from_rational pt d y)) / 1000000000"
    and "real (pt_deconstruct pt (pt_from_rational pt d y)) / 1000000000 \<le> real d / real y"
proof -
  have e: "pt_deconstruct pt (pt_from_rational pt d y) = d * 1000000000 div y"
    using perthingD(4) [OF doc assms(2), of d] assms(1) by (simp add: billion)
  have "real d / real y * 1000000000 - 1 \<le> real (pt_deconstruct pt (pt_from_rational pt d y))"
    using real_div_ge [OF assms(2), of "d * 1000000000"] unfolding e by simp
  then show "real d / real y - 1 / 1000000000 \<le> real (pt_deconstruct pt (pt_from_rational pt d y)) / 1000000000" by argo
  show "real (pt_deconstruct pt (pt_from_rational pt d y)) / 1000000000 \<le> real d / real y"
    using share_le [OF assms(1)] by (simp add: billion field_simps)
qed

lemma payout_of_rate:
  assumes "d \<le> y" and "0 < y"
  shows "real (unat (pt_mul_balance pt (pt_from_rational pt d y) (pt_mul_balance pt a x))) \<le>
      real d / real y * (real (pt_deconstruct pt a) / 1000000000) * real (unat x) + 2"
    and "real d / real y * (real (pt_deconstruct pt a) / 1000000000) * real (unat x) - 2 - real (unat x) / 1000000000 \<le>
      real (unat (pt_mul_balance pt (pt_from_rational pt d y) (pt_mul_balance pt a x)))"
proof -
  let ?p = "real (pt_deconstruct pt (pt_from_rational pt d y)) / 1000000000" and ?P = "real d / real y"
  let ?r = "real (pt_deconstruct pt a) / 1000000000" and ?x = "real (unat x)" and ?b = "real (unat (pt_mul_balance pt a x))"
  have P: "?P \<le> 1" "0 \<le> ?p" "?P - 1 / 1000000000 \<le> ?p" "?p \<le> ?P" using assms portion_parts [OF assms] by simp_all
  have b: "?b \<le> ?r * ?x + 1" "?r * ?x - 1 \<le> ?b" using part_le [of a ?r x] part_ge [of a x] by (simp_all add: billion)
  have r: "0 \<le> ?r" "?r \<le> 1" using perthingD(2) [OF doc, of a] by (simp_all add: billion)
  have "real (unat (pt_mul_balance pt (pt_from_rational pt d y) (pt_mul_balance pt a x))) \<le> ?P * ?b + 1"
    using part_le [of "pt_from_rational pt d y" ?P "pt_mul_balance pt a x"] P(4) by (simp add: billion)
  also have "?P * ?b \<le> ?P * (?r * ?x + 1)" by (rule mult_left_mono [OF b(1)]) simp
  also have "\<dots> \<le> ?P * ?r * ?x + 1" using P(1) by (simp add: algebra_simps)
  finally show "real (unat (pt_mul_balance pt (pt_from_rational pt d y) (pt_mul_balance pt a x))) \<le> ?P * ?r * ?x + 2" by simp
  have "?P * (?r * ?x) - 1 / 1000000000 * ?x - 1 \<le> ?p * (?r * ?x) - 1"
  proof -
    have "(?P - ?p) * (?r * ?x) \<le> 1 / 1000000000 * ?x"
      by (rule scaled_difference [OF _ _ r of_nat_0_le_iff]) (use P(3) in simp_all)
    then show ?thesis unfolding left_diff_distrib by linarith
  qed
  also have "\<dots> \<le> ?p * ?b"
    using mult_left_mono [OF b(2) P(2)] P(1,4) by (simp add: algebra_simps)
  also have "\<dots> - 1 \<le> real (unat (pt_mul_balance pt (pt_from_rational pt d y) (pt_mul_balance pt a x)))"
    using part_ge [of "pt_from_rational pt d y" "pt_mul_balance pt a x"] by simp
  finally show "?P * ?r * ?x - 2 - ?x / 1000000000 \<le>
      real (unat (pt_mul_balance pt (pt_from_rational pt d y) (pt_mul_balance pt a x)))" by (simp add: mult.assoc)
qed

lemma exact_parts: "0 < k \<Longrightarrow> p \<le> k \<Longrightarrow> m * k = 1000000000 \<Longrightarrow> pt_deconstruct pt (pt_from_rational pt p k) = p * m"
  using perthingD(4) [OF doc, of k p] by (simp add: billion) (metis mult.assoc nonzero_mult_div_cancel_right not_gr_zero)

lemma mul_parts: "pt_deconstruct pt (pt_mul pt a b) = pt_deconstruct pt a * pt_deconstruct pt b div 1000000000"
  using rounding by (simp add: perthing_rounding_def billion)

text \<open>The parts of the curve, for percentages that are exact in billionths.\<close>

lemma rising_parts:
  assumes "i_0 \<le> 1000" and "i_ideal \<le> 100" and "0 < x_ideal" and "x_ideal \<le> 100" and "0 < n" and "100 * s \<le> x_ideal * n"
  shows "pt_deconstruct pt (compute_i_npos pt bu (pt_from_rational pt i_0 1000) (pt_from_rational pt i_ideal 100)
      (pt_from_rational pt s n) (pt_from_rational pt x_ideal 100) d) =
    i_0 * 1000000 + (i_ideal * x_ideal * 100000 - i_0 * 1000000) *
      (s * 1000000000 div n * 1000000000 div (x_ideal * 10000000)) div 1000000000"
proof -
  have e: "pt_deconstruct pt (pt_from_rational pt i_0 1000) = i_0 * 1000000"
    "pt_deconstruct pt (pt_from_rational pt i_ideal 100) = i_ideal * 10000000"
    "pt_deconstruct pt (pt_from_rational pt x_ideal 100) = x_ideal * 10000000"
    using assms by (simp_all add: exact_parts)
  have "100 * s \<le> 100 * n" using assms(4,6) mult_le_mono1 [OF assms(4), of n] by linarith
  then have x: "pt_deconstruct pt (pt_from_rational pt s n) = s * 1000000000 div n"
    using perthingD(4) [OF doc assms(5), of s] by (simp add: billion)
  have "s * 1000000000 \<le> x_ideal * 10000000 * n" using assms(6) by (simp add: mult.commute)
  then have le: "s * 1000000000 div n \<le> x_ideal * 10000000"
    using assms(5) by (metis div_le_mono nonzero_mult_div_cancel_right not_gr_zero)
  have c: "pt_deconstruct pt (compute_inflation pt bu (pt_from_rational pt s n) (pt_from_rational pt x_ideal 100) d) =
      s * 1000000000 div n * 1000000000 div (x_ideal * 10000000)"
    using le assms(3) by (simp add: compute_inflation_def e x perthingD [OF doc] billion)
  let ?c = "s * 1000000000 div n * 1000000000 div (x_ideal * 10000000)"
  let ?g = "i_ideal * x_ideal * 100000 - i_0 * 1000000"
  have "?c \<le> 1000000000" using perthingD(2) [OF doc] c by (metis billion)
  then have "?g * ?c div 1000000000 \<le> ?g" by (rule mult_div_le)
  moreover have "i_ideal * x_ideal \<le> 100 * 100" using assms(2,4) by (rule mult_le_mono)
  ultimately have "i_0 * 1000000 + ?g * ?c div 1000000000 \<le> 1000000000" using assms(1) by linarith
  moreover have "i_ideal * 10000000 * (x_ideal * 10000000) div 1000000000 = i_ideal * x_ideal * 100000" by simp
  ultimately show ?thesis
    unfolding compute_i_npos_def Let_def by (simp only: perthingD [OF doc] mul_parts e c billion min_absorb1)
qed

lemma rising_rate:
  assumes "i_0 \<le> 1000" and "i_ideal \<le> 100" and "0 < x_ideal" and "x_ideal \<le> 100" and "0 < n" and "100 * s \<le> x_ideal * n"
    and "rate = pt_deconstruct pt (compute_i_npos pt bu (pt_from_rational pt i_0 1000) (pt_from_rational pt i_ideal 100)
      (pt_from_rational pt s n) (pt_from_rational pt x_ideal 100) d)"
    and "r = curve_rate (real i_0 / 1000) (real i_ideal / 100) (real x_ideal / 100) (real s / real n)"
  shows "real rate / 1000000000 \<le> r" and "r - 3 / 1000000000 \<le> real rate / 1000000000"
proof -
  let ?x = "s * 1000000000 div n" and ?c = "s * 1000000000 div n * 1000000000 div (x_ideal * 10000000)"
  let ?g = "i_ideal * x_ideal * 100000 - i_0 * 1000000" and ?q = "real s / real n / (real x_ideal / 100)"
  define G where "G = max 0 (real i_ideal / 100 * (real x_ideal / 100) - real i_0 / 1000)"
  have g: "real ?g = G * 1000000000"
  proof -
    have "real (a - b) = max 0 (real a - real b)" for a b :: nat by (cases "b \<le> a") (simp_all add: of_nat_diff)
    then have "real ?g = max 0 (real i_ideal * real x_ideal * 100000 - real i_0 * 1000000)" by simp
    also have "\<dots> = G * 1000000000" unfolding G_def max_def by (simp add: field_simps)
    finally show ?thesis .
  qed
  have xi: "0 < real x_ideal" using assms(3) by simp
  have "real i_ideal / 100 * (real x_ideal / 100) \<le> 1 * (real x_ideal / 100)" using assms(2) by (intro mult_right_mono) simp_all
  then have "real i_ideal / 100 * (real x_ideal / 100) - real i_0 / 1000 \<le> real x_ideal / 100" by simp
  then have "G \<le> real x_ideal / 100" unfolding G_def by (intro max.boundedI) simp_all
  moreover have "0 \<le> G" unfolding G_def by simp
  ultimately have G: "0 \<le> G" "G \<le> real x_ideal / 100" by simp_all
  then have G1: "G \<le> 1" using assms(4) by simp
  have x: "real ?x \<le> real s / real n * 1000000000" "real s / real n * 1000000000 - 1 \<le> real ?x"
    using of_nat_div_le_of_nat [of "s * 1000000000" n, where 'a = real] real_div_ge [OF assms(5), of "s * 1000000000"] by simp_all
  have e: "real (?x * 1000000000) / real (x_ideal * 10000000) = real ?x / (real x_ideal / 100)" by simp
  have c1: "real ?c \<le> real ?x / (real x_ideal / 100)" unfolding e [symmetric] by (rule of_nat_div_le_of_nat)
  have c2: "real ?x / (real x_ideal / 100) - 1 \<le> real ?c" unfolding e [symmetric] using assms(3) by (intro real_div_ge) simp
  have up: "real ?c \<le> ?q * 1000000000"
    using order_trans [OF c1 divide_right_mono [OF x(1), of "real x_ideal / 100"]] by simp
  have low: "?q * 1000000000 - 100 / real x_ideal - 1 \<le> real ?c"
    using c2 divide_right_mono [OF x(2), of "real x_ideal / 100"] by (simp add: diff_divide_distrib)
  have t: "real (?g * ?c div 1000000000) \<le> G * real ?c" "G * real ?c - 1 \<le> real (?g * ?c div 1000000000)"
    using of_nat_div_le_of_nat [of "?g * ?c" 1000000000, where 'a = real] real_div_ge [of 1000000000 "?g * ?c"]
    unfolding of_nat_mult g by simp_all
  have G100: "G * (100 / real x_ideal) \<le> 1" using G(2) xi by (simp add: field_simps)
  have u: "G * real ?c \<le> G * (?q * 1000000000)" by (rule mult_left_mono [OF up G(1)])
  have "G * (?q * 1000000000 - 100 / real x_ideal - 1) \<le> G * real ?c" by (rule mult_left_mono [OF low G(1)])
  then have l: "G * (?q * 1000000000) - 2 \<le> G * real ?c" using G100 G1 unfolding right_diff_distrib by linarith
  have rate: "real rate = real i_0 * 1000000 + real (?g * ?c div 1000000000)"
    unfolding assms(7) rising_parts [OF assms(1-6)] by simp
  have r: "r = real i_0 / 1000 + G * ?q" unfolding assms(8) curve_rate_def G_def by simp
  show "real rate / 1000000000 \<le> r" using t(1) u unfolding rate r by argo
  show "r - 3 / 1000000000 \<le> real rate / 1000000000" using t(2) l unfolding rate r by argo
qed

end

interpretation perbill_curve: billionths perbill
  by unfold_locales (simp add: perbill_simps)

section \<open>The payout of a round\<close>




end
