(* ===== verification/Staking_Payout.thy ===== *)
theory Staking_Payout
  imports Complex_Main Staking_Round_Properties Inflation_Payout Staking_Demo
begin

text \<open>
  How much a round may issue. \<^verbatim>\<open>payout_stakers\<close> splits the payout of a round: half of it by points among the
  collators, and by stake the rest, of which a collator gets half of its share and a nominator its
  whole share. So a round without nominators issues the payout at most, and any round one and a half
  times the payout, up to the rounding of the single rewards.
\<close>

section \<open>The rewards of one collator\<close>

lemma nominator_reward_le:
  assumes "perthing_shares (Perbill cfg)" and "unat v \<le> unat stake"
  shows "real (unat (nominator_reward cfg payout stake v)) \<le> real (unat v) / real (unat stake) * real (unat payout) + 1"
  unfolding nominator_reward_def by (rule perthing_shares.whole_share [OF assms])

lemma collator_reward_le:
  assumes "perthing_shares (Perbill cfg)" and "unat own \<le> unat stake" and "unat point \<le> unat points"
  shows "real (unat (collator_reward cfg payout stake point points own)) \<le>
    real (unat own) / (2 * real (unat stake)) * real (unat payout) +
    real (unat point) / (2 * real (unat points)) * real (unat payout) + 2"
proof -
  let ?x = "pt_mul_balance (Perbill cfg) (pt_mul (Perbill cfg) (pt_from_rational (Perbill cfg) 50 100)
      (pt_from_rational (Perbill cfg) (unat own) (unat stake))) payout"
  let ?y = "pt_mul_balance (Perbill cfg) (pt_mul (Perbill cfg) (pt_from_rational (Perbill cfg) 50 100)
      (pt_from_rational (Perbill cfg) (unat point) (unat points))) payout"
  have "unat (?x + ?y) \<le> unat ?x + unat ?y" by (simp add: unat_word_ariths)
  then have "real (unat (?x + ?y)) \<le> real (unat ?x) + real (unat ?y)" by linarith
  then show ?thesis
    using perthing_shares.half_share [OF assms(1,2), of payout]
      perthing_shares.half_share [OF assms(1,3), of payout]
    unfolding collator_reward_def Let_def by linarith
qed

section \<open>What is announced\<close>

definition announced :: "'acc staking_event list \<Rightarrow> nat" where
  "announced es = (\<Sum>e \<leftarrow> es. unat (reward_of e))"

lemma announced_mint:
  assumes "deposit_documented (Currency cfg)"
  shows "announced (events (mint cfg v a s)) \<le> announced (events s) + unat v"
proof (cases "deposit_into_existing (Currency cfg) (currency s) a v")
  case (Pair c imb)
  then show ?thesis unfolding mint_def
    using deposit_Some(1) [OF assms, of "currency s" a v c] by (cases imb) (auto simp: announced_def)
qed

lemma announced_mints:
  assumes "deposit_documented (Currency cfg)"
  shows "announced (events (fold (\<lambda>x. mint cfg (f x) (g x)) xs s)) \<le> announced (events s) + (\<Sum>x \<leftarrow> xs. unat (f x))"
proof (induction xs arbitrary: s)
  case (Cons x xs)
  show ?case using Cons [of "mint cfg (f x) (g x) s"] announced_mint [OF assms, of "f x" "g x" s] by simp
qed simp

definition share_sum :: "real \<Rightarrow> 'acc Exposure \<Rightarrow> real" where
  "share_sum stake e = (real (unat (ex_own e)) / 2 + (\<Sum>x \<leftarrow> ex_others e. real (unat (ie_value x)))) / stake"

definition reward_count :: "'acc Exposure \<Rightarrow> nat" where
  "reward_count e = 2 + length (ex_others e)"

lemma nominators_le:
  assumes "perthing_shares (Perbill cfg)" and "\<forall>x \<in> set xs. unat (ie_value x) \<le> unat stake"
  shows "real (\<Sum>x \<leftarrow> xs. unat (nominator_reward cfg payout stake (ie_value x))) \<le>
    (\<Sum>x \<leftarrow> xs. real (unat (ie_value x))) / real (unat stake) * real (unat payout) + real (length xs)"
  using assms(2)
proof (induction xs)
  case (Cons x xs)
  then show ?case using nominator_reward_le [OF assms(1), of "ie_value x" stake payout] by (simp add: add_divide_distrib algebra_simps)
qed simp

definition clipped_stake :: "'acc Exposure \<Rightarrow> nat" where
  "clipped_stake e = unat (ex_own e) + (\<Sum>x \<leftarrow> ex_others e. unat (ie_value x))"

lemma clipped_parts:
  assumes "clipped_stake e \<le> stake"
  shows "unat (ex_own e) \<le> stake" and "\<forall>x \<in> set (ex_others e). unat (ie_value x) \<le> stake"
proof -
  show "unat (ex_own e) \<le> stake" using assms by (simp add: clipped_stake_def)
  have "unat (ie_value x) \<le> (\<Sum>x \<leftarrow> ex_others e. unat (ie_value x))" if "x \<in> set (ex_others e)" for x
    using that by (intro member_le_sum_list) auto
  then show "\<forall>x \<in> set (ex_others e). unat (ie_value x) \<le> stake" using assms unfolding clipped_stake_def by fastforce
qed

lemma announced_pay_collator:
  assumes "deposit_documented (Currency cfg)" and "perthing_shares (Perbill cfg)"
    and "clipped_stake e \<le> unat stake" and "unat (points_of s r a) \<le> unat points"
  shows "real (announced (events (pay_collator cfg r payout stake points (a, e) s))) \<le> real (announced (events s)) +
    (share_sum (unat stake) e + real (unat (points_of s r a)) / (2 * real (unat points))) * real (unat payout) + real (reward_count e)"
proof -
  let ?c = "collator_reward cfg payout stake (points_of s r a) points (ex_own e)"
  let ?n = "\<Sum>x \<leftarrow> ex_others e. unat (nominator_reward cfg payout stake (ie_value x))"
  have "announced (events (pay_collator cfg r payout stake points (a, e) s)) \<le> announced (events s) + unat ?c + ?n"
    using announced_mints [OF assms(1), where f = "\<lambda>x. nominator_reward cfg payout stake (ie_value x)" and g = ie_who and xs = "ex_others e"]
      announced_mint [OF assms(1), of ?c a s]
    by (simp add: pay_collator_def Let_def) (meson add_right_mono order_trans)
  then have "real (announced (events (pay_collator cfg r payout stake points (a, e) s))) \<le>
      real (announced (events s)) + real (unat ?c) + real ?n" by linarith
  then show ?thesis
    using collator_reward_le [OF assms(2) clipped_parts(1) [OF assms(3)] assms(4), of payout] nominators_le [OF assms(2) clipped_parts(2) [OF assms(3)], of payout]
    by (simp add: share_sum_def reward_count_def add_divide_distrib distrib_right)
qed

section \<open>The rewards of a round\<close>

lemma points_of_pay_collator [simp]: "points_of (pay_collator cfg r payout stake points e s) q a = points_of s q a"
  by (rule pay_collator_fold) (auto simp: points_of_def mint_def deposit_event_def split: prod.split option.split)

lemma announced_pay_collators:
  assumes "deposit_documented (Currency cfg)" and "perthing_shares (Perbill cfg)"
    and "(\<Sum>x \<leftarrow> es. clipped_stake (snd x)) \<le> unat stake" and "(\<Sum>x \<leftarrow> es. unat (points_of s r (fst x))) \<le> unat points"
  shows "real (announced (events (fold (pay_collator cfg r payout stake points) es s))) \<le> real (announced (events s)) +
    ((\<Sum>x \<leftarrow> es. share_sum (unat stake) (snd x)) +
     (\<Sum>x \<leftarrow> es. real (unat (points_of s r (fst x)))) / (2 * real (unat points))) * real (unat payout) +
    real (\<Sum>x \<leftarrow> es. reward_count (snd x))"
  using assms(3,4)
proof (induction es arbitrary: s)
  case (Cons x es)
  then show ?case
    using Cons.IH [of "pay_collator cfg r payout stake points x s"]
      announced_pay_collator [OF assms(1,2), of "snd x" stake s r "fst x" points payout]
    by (simp add: add_divide_distrib distrib_right)
qed simp

lemma real_sum_list: "real (\<Sum>x \<leftarrow> xs. f x) = (\<Sum>x \<leftarrow> xs. real (f x))"
  by (induction xs) auto

lemma share_sums_le:
  shows "(\<Sum>x \<leftarrow> es. share_sum (real stake) (snd x)) \<le> real (\<Sum>x \<leftarrow> es. clipped_stake (snd x)) / real stake"
proof (induction es)
  case (Cons x es)
  have "share_sum (real stake) (snd x) \<le> real (clipped_stake (snd x)) / real stake"
    unfolding share_sum_def clipped_stake_def of_nat_add real_sum_list
    by (intro divide_right_mono add_right_mono of_nat_0_le_iff) (use of_nat_0_le_iff [of "unat (ex_own (snd x))"] in linarith)
  then show ?case using Cons by (simp add: add_divide_distrib)
qed simp

lemma share_sums_own:
  assumes "\<forall>x \<in> set es. ex_others (snd x) = []"
  shows "(\<Sum>x \<leftarrow> es. share_sum (real stake) (snd x)) = real (\<Sum>x \<leftarrow> es. clipped_stake (snd x)) / (2 * real stake)"
  using assms
proof (induction es)
  case (Cons x es)
  then show ?case by (simp add: share_sum_def clipped_stake_def add_divide_distrib)
qed simp

lemma fraction_le: "p \<le> q \<Longrightarrow> real p / (2 * real q) \<le> 1 / 2"
  by (cases "q = 0") (simp_all add: field_simps)

lemma issued_bound:
  assumes "(i :: real) \<le> a + (w + p) * r + c" and "w + p \<le> f" and "0 \<le> r"
  shows "i \<le> a + f * r + c"
  using assms(1) mult_right_mono [OF assms(2,3)] by linarith

text \<open>What a round may issue. When the exposures of the paid round stay within the stake recorded for it and
  the points of its collators within its points, the payout announces at most one and a half times
  the amount the inflation curve grants, up to one unit for every reward that is rounded; and when
  no collator of the round has a nominator, at most the amount itself.\<close>

theorem payout_bounded:
  assumes "deposit_documented (Currency cfg)" and "perthing_documented (Perbill cfg)" and "perthing_rounding (Perbill cfg)"
    and "PayoutDuration cfg < r" and "q = r - PayoutDuration cfg"
    and "payout = round_payout cfg (TotalStakedAt s q) (TotalIssuanceAt s q)"
    and "(\<Sum>x \<leftarrow> RoundStakerClipped s q. clipped_stake (snd x)) \<le> unat (TotalStakedAt s q)"
    and "(\<Sum>x \<leftarrow> RoundStakerClipped s q. unat (points_of s q (fst x))) \<le> unat (TotalPoints s q)"
  shows "2 * announced (events (payout_stakers cfg r s)) \<le>
      2 * announced (events s) + 3 * unat payout + 2 * (\<Sum>x \<leftarrow> RoundStakerClipped s q. reward_count (snd x)) \<and>
    ((\<forall>x \<in> set (RoundStakerClipped s q). ex_others (snd x) = []) \<longrightarrow>
      announced (events (payout_stakers cfg r s)) \<le>
        announced (events s) + unat payout + 2 * length (RoundStakerClipped s q))"
proof -
  let ?es = "RoundStakerClipped s q" and ?S = "unat (TotalStakedAt s q)" and ?P = "unat (TotalPoints s q)"
  let ?w = "\<Sum>x \<leftarrow> ?es. share_sum (real ?S) (snd x)" and ?p = "(\<Sum>x \<leftarrow> ?es. real (unat (points_of s q (fst x)))) / (2 * real ?P)"
  let ?c = "\<Sum>x \<leftarrow> ?es. reward_count (snd x)"
  have shares: "perthing_shares (Perbill cfg)" using assms(2,3) by (rule perthing_shares.intro)
  have issued: "real (announced (events (payout_stakers cfg r s))) \<le> real (announced (events s)) + (?w + ?p) * real (unat payout) + real ?c"
    using announced_pay_collators [OF assms(1) shares assms(7), of "s\<lparr>RoundStakerClipped := (RoundStakerClipped s)(q := [])\<rparr>" q "TotalPoints s q" payout] assms(4-6,8)
    by (simp add: payout_stakers_def Let_def points_of_def)
  have p: "?p \<le> 1 / 2" using fraction_le [OF assms(8)] by (simp only: real_sum_list)
  have w: "?w \<le> 1" by (rule order_trans [OF share_sums_le]) (use assms(7) in \<open>cases "?S = 0"; simp add: divide_le_eq_1 del: of_nat_unat\<close>)
  have "real (announced (events (payout_stakers cfg r s))) \<le> real (announced (events s)) + 3 / 2 * real (unat payout) + real ?c"
    by (rule issued_bound [OF issued _ of_nat_0_le_iff]) (use p w in linarith)
  moreover have "real (announced (events (payout_stakers cfg r s))) \<le> real (announced (events s)) + 1 * real (unat payout) + real ?c"
    if "\<forall>x \<in> set ?es. ex_others (snd x) = []"
    by (rule issued_bound [OF issued _ of_nat_0_le_iff]) (use p share_sums_own [OF that, of ?S] fraction_le [OF assms(7)] in linarith)
  moreover have "?c = 2 * length ?es" if "\<forall>x \<in> set ?es. ex_others (snd x) = []"
  proof -
    have "map (\<lambda>x. reward_count (snd x)) ?es = map (\<lambda>x. 2) ?es" using that by (intro map_cong) (auto simp: reward_count_def)
    then show ?thesis by (simp only: sum_list_triv) simp
  qed
  ultimately show ?thesis by linarith
qed

text \<open>A round of the demo chain: one collator that is half its own and half a nominator's, all points its own.\<close>

definition demo_paid :: "(nat, ledger) staking_state" where
  "demo_paid = demo2\<lparr>TotalStakedAt := (\<lambda>_. 1000), TotalIssuanceAt := (\<lambda>_. 2000), TotalPoints := (\<lambda>_. 20), CollatorPoints := (\<lambda>_. [(1, 20)]),
     RoundStakerClipped := (\<lambda>_. [(1, \<lparr>ex_total = 1000, ex_own = 500, ex_others = [\<lparr>ie_who = 2, ie_value = 500\<rparr>]\<rparr>)])\<rparr>"

lemma demo_paid_simps:
  "TotalStakedAt demo_paid q = 1000" "TotalIssuanceAt demo_paid q = 2000" "TotalPoints demo_paid q = 20"
  "RoundStakerClipped demo_paid q = [(1, \<lparr>ex_total = 1000, ex_own = 500, ex_others = [\<lparr>ie_who = 2, ie_value = 500\<rparr>]\<rparr>)]"
  "points_of demo_paid q 1 = 20"
  by (simp_all add: demo_paid_def points_of_def)

lemma demo_paid_sums:
  "(\<Sum>x \<leftarrow> RoundStakerClipped demo_paid q. clipped_stake (snd x)) = 1000"
  "(\<Sum>x \<leftarrow> RoundStakerClipped demo_paid q. unat (points_of demo_paid q (fst x))) = 20"
  "(\<Sum>x \<leftarrow> RoundStakerClipped demo_paid q. reward_count (snd x)) = 3"
  using demo_paid_simps(5) by (simp_all add: demo_paid_simps(1-4) clipped_stake_def reward_count_def)

theorem payout_bounded_witness:
  "2 * announced (events (payout_stakers demo_cfg 3 demo_paid)) \<le>
     2 * announced (events demo_paid) + 3 * unat (round_payout demo_cfg 1000 2000) + 2 * 3"
proof -
  have cfg: "PayoutDuration demo_cfg < 3" "2 = 3 - PayoutDuration demo_cfg" "deposit_documented (Currency demo_cfg)"
    "Perbill demo_cfg = perbill"
    by (simp_all add: demo_cfg_def ledger_currency_deposit)
  show ?thesis
    using payout_bounded [OF cfg(3), unfolded cfg(4), OF perbill_documented perbill_rounding cfg(1,2) refl, of demo_paid]
    unfolding demo_paid_sums demo_paid_simps(1-3) by simp
qed

text \<open>
  The bound is reached: a collator whose whole exposure is its nominator's gets the half for its
  points, and the nominator its whole share, so a round issues one and a half times its payout.
\<close>

lemma payout_exceeded:
  "collator_reward demo_cfg 1000000 1000 20 20 0 = 500000 \<and> nominator_reward demo_cfg 1000000 1000 1000 = 1000000"
  unfolding collator_reward_def nominator_reward_def Let_def demo_cfg_def by (simp add: perbill_simps)

end
