(* ===== verification/Staking_Issue.thy ===== *)
theory Staking_Issue
  imports Staking_Total Staking_Releases Staking_Payout Staking_Properties
begin

text \<open>
  What a round issues, from genesis on. The bound on a payout needs the exposures of the paid round to
  stay within the stake recorded for it, and the points of its collators within its points. Both hold
  on every run whose elections spend no voter's stake twice: the exposures come from the voters'
  stake, which is on the books, and the total stake covers the books.
\<close>

section \<open>Sums by account\<close>

lemma weight_sum:
  assumes "finite A" and "distinct (keys m)"
  shows "(\<Sum>a \<in> A. weight_at f m a) \<le> weight f m"
  using assms(2)
proof (induction m)
  case (Cons p m)
  obtain k v where p: "p = (k, v)" by (cases p)
  have "sm_get m k = None" using Cons.prems p by (simp add: map_of_eq_None_iff)
  then have "weight_at f (p # m) a = (if a = k then f v else 0) + weight_at f m a" for a by (simp add: p)
  then have "(\<Sum>a \<in> A. weight_at f (p # m) a) = (\<Sum>a \<in> A. if a = k then f v else 0) + (\<Sum>a \<in> A. weight_at f m a)"
    by (simp add: sum.distrib)
  also have "\<dots> \<le> f v + weight f m"
    using Cons p assms(1) by (intro add_mono) (auto simp: sum.delta')
  finally show ?case by (simp add: p)
qed simp

lemma sum_list_group:
  fixes f :: "'w \<Rightarrow> nat"
  assumes "finite A" and "fst ` set xs \<subseteq> A"
  shows "(\<Sum>(n, w) \<leftarrow> xs. f w) = (\<Sum>a \<in> A. \<Sum>(n, w) \<leftarrow> xs. if n = a then f w else 0)"
  using assms(2)
proof (induction xs)
  case (Cons p xs)
  obtain n w where p: "p = (n, w)" by (cases p)
  have "(\<Sum>a \<in> A. if n = a then f w else 0) = f w" using Cons.prems assms(1) p by (simp add: sum.delta')
  with Cons p show ?case by (simp add: sum.distrib)
qed simp

section \<open>Elections that spend no stake twice\<close>

text \<open>
  What an election result takes from an account, in the balances the pallet converts the votes to, and
  the law of the election provider: from no account more than the stake it votes with, as a collator
  and as a nominator together.
\<close>

definition spent :: "('acc, 'c, 'p, 'b) staking_config \<Rightarrow> ('acc, 'c) staking_state \<Rightarrow> 'acc Supports \<Rightarrow> 'acc \<Rightarrow> nat" where
  "spent cfg s sps a =
     (\<Sum>(n, w) \<leftarrow> concat (map (\<lambda>x. su_voters (snd x)) sps).
        if n = a then unat (to_currency cfg w (total_issuance (Currency cfg) (currency s))) else 0)"

definition elects_fairly :: "('acc, 'c, 'p, 'b) staking_config \<Rightarrow> ('acc, 'c) staking_state \<Rightarrow> 'acc Supports \<Rightarrow> bool" where
  "elects_fairly cfg s sps \<longleftrightarrow>
     (\<forall>a. spent cfg s sps a \<le> unat (slashable_balance_of s a Validator) + unat (slashable_balance_of s a Nominator))"

lemma clipped_exposure:
  "clipped_stake (exposure_of cfg s v vs) \<le>
     (\<Sum>(n, w) \<leftarrow> vs. unat (to_currency cfg w (total_issuance (Currency cfg) (currency s))))"
proof -
  let ?f = "\<lambda>(n, w). unat (to_currency cfg w (total_issuance (Currency cfg) (currency s)))"
  have "(\<Sum>x \<leftarrow> ex_others (exposure_of cfg s v vs). unat (ie_value x)) = sum_list (map ?f (filter (\<lambda>x. fst x \<noteq> v) vs))"
    by (simp add: exposure_of_simps(3) comp_def case_prod_unfold)
  moreover have "unat (ex_own (exposure_of cfg s v vs)) \<le> sum_list (map ?f (filter (\<lambda>x. fst x = v) vs))"
    by (simp add: exposure_of_simps(2) case_prod_unfold)
  ultimately show ?thesis
    using sum_list_filter_split [of ?f "\<lambda>x. fst x = v" vs] by (simp add: clipped_stake_def)
qed

lemma exposures_spent:
  "(\<Sum>x \<leftarrow> collect_exposures cfg sps s. clipped_stake (snd x)) \<le>
     (\<Sum>(n, w) \<leftarrow> concat (map (\<lambda>x. su_voters (snd x)) sps). unat (to_currency cfg w (total_issuance (Currency cfg) (currency s))))"
  unfolding collect_exposures_eq
proof (induction sps)
  case (Cons x sps)
  obtain v sp where "x = (v, sp)" by (cases x)
  with Cons clipped_exposure [of cfg s v "su_voters sp"] show ?case by simp
qed simp

lemma slashable_claims:
  assumes "nominators_ok nominator_balanced (Nominators s)"
  shows "unat (slashable_balance_of s a Validator) \<le> weight_at collator_claim (Collators s) a"
    and "unat (slashable_balance_of s a Nominator) \<le> weight_at nominator_claim (Nominators s) a"
proof -
  show "unat (slashable_balance_of s a Validator) \<le> weight_at collator_claim (Collators s) a"
    by (simp add: slashable_balance_of_def collator_claim_def split: option.split)
  have "unat (no_total n) \<le> nominator_claim n" if "nominator_balanced n" for n :: "'a StakingNominators"
    using that unat_add_le [of "bonds_sum (no_nominations n)" "unbonding_sum (no_unbonding n)"]
      unat_map_sum_le [of amount "no_nominations n"] unat_map_sum_le [of ub_value "no_unbonding n"]
    by (simp add: nominator_balanced_def nominator_claim_def)
  then show "unat (slashable_balance_of s a Nominator) \<le> weight_at nominator_claim (Nominators s) a"
    using nominators_ok_get [OF assms] by (simp add: slashable_balance_of_def split: option.split)
qed

lemma fair_exposures:
  assumes "elects_fairly cfg s sps" and "nominators_ok nominator_balanced (Nominators s)" and "storage_wf s"
  shows "(\<Sum>x \<leftarrow> collect_exposures cfg sps s. clipped_stake (snd x)) \<le> total_claim s"
proof -
  let ?all = "concat (map (\<lambda>x. su_voters (snd x)) sps)"
  let ?A = "fst ` set ?all"
  have "(\<Sum>x \<leftarrow> collect_exposures cfg sps s. clipped_stake (snd x)) \<le> (\<Sum>a \<in> ?A. spent cfg s sps a)"
    using exposures_spent [of cfg sps s] unfolding spent_def
    by (subst sum_list_group [symmetric, where f = "\<lambda>w. unat (to_currency cfg w (total_issuance (Currency cfg) (currency s)))"]) auto
  also have "\<dots> \<le> (\<Sum>a \<in> ?A. weight_at collator_claim (Collators s) a + weight_at nominator_claim (Nominators s) a)"
    using assms(1) slashable_claims [OF assms(2)] unfolding elects_fairly_def
    by (intro sum_mono) (meson add_mono order_trans)
  also have "\<dots> \<le> weight collator_claim (Collators s) + weight nominator_claim (Nominators s)"
    using assms(3) unfolding sum.distrib by (intro add_mono weight_sum) (simp_all add: storage_wf_def)
  finally show ?thesis by (simp add: total_claim_def)
qed

lemma store_exposures_weight:
  "distinct (keys m) \<Longrightarrow>
   weight clipped_stake (store_exposures cfg xs m) \<le> weight clipped_stake m + (\<Sum>x \<leftarrow> xs. clipped_stake (snd x))"
proof (induction xs arbitrary: m)
  case (Cons x xs)
  obtain v e where x: "x = (v, e)" by (cases x)
  have "weight clipped_stake (sm_insert (key_before cfg) v e m) \<le> weight clipped_stake m + clipped_stake e"
    using weight_insert [OF Cons.prems, of clipped_stake "key_before cfg" v e] by simp
  then show ?case using Cons.IH [of "sm_insert (key_before cfg) v e m"] Cons.prems by (simp add: x store_exposures_def)
qed (simp add: store_exposures_def)

lemma election_weight:
  assumes "elects_fairly cfg s sps" and "nominators_ok nominator_balanced (Nominators s)" and "storage_wf s"
    and "RoundStakerClipped s r = []"
  shows "weight clipped_stake (RoundStakerClipped (fst (enact_election cfg (Some (sps, w)) r s)) r) \<le> total_claim s"
proof -
  have same: "collect_exposures cfg sps (s\<lparr>registered_weight := ws\<rparr>) = collect_exposures cfg sps s" for ws
    by (simp add: collect_exposures_def)
  show ?thesis
    using store_exposures_weight [of "[]" cfg "collect_exposures cfg sps s"] fair_exposures [OF assms(1-3)]
    by (simp add: enact_election_def Let_def case_prod_beta process_election_clipped same assms(4))
qed

section \<open>Runs with fair elections\<close>

text \<open>
  The steps on which the books stay in order: no sum overflows, no nomination is refused half way, no
  nominator gets two bonds with one collator, and the election spends no stake twice in the state in
  which the round change asks for it.
\<close>

definition single_bonds :: "('acc, 'c) staking_state \<Rightarrow> bool" where
  "single_bonds s \<longleftrightarrow> (\<forall>(a, n) \<in> set (Nominators s). distinct (map owner (no_nominations n)))"

definition election_state ::
    "('acc, 'c, 'p, 'b) staking_config \<Rightarrow> BlockNumber \<Rightarrow> ('acc, 'c) staking_state \<Rightarrow> ('acc, 'c) staking_state" where
  "election_state cfg now s =
     (let r = ri_index (CurrentRound s) + 1 in
      round_payments cfg r (s\<lparr>CurrentRound := \<lparr>ri_index = r, ri_start_in = now, ri_length = blocks_per_round (Settings s)\<rparr>\<rparr>))"

inductive fair_step ::
    "('acc::linorder, 'c, 'p, 'b) staking_config \<Rightarrow> ('acc, 'c) staking_state \<Rightarrow> ('acc, 'c) staking_state \<Rightarrow> bool"
    for cfg where
  fair_call:
    "room_for s (call_amount call) \<Longrightarrow>
     (snd (staking_dispatch cfg origin call s) = Err (Module NominationNotExist) \<Longrightarrow> fst (staking_dispatch cfg origin call s) = s) \<Longrightarrow>
     single_bonds (fst (staking_dispatch cfg origin call s)) \<Longrightarrow>
     fair_step cfg s (fst (staking_dispatch cfg origin call s))"
| fair_finalize:
    "unat (ri_index (CurrentRound s)) + 1 < 2 ^ 32 \<Longrightarrow>
     (\<And>sps w. elect = Some (sps, w) \<Longrightarrow> elects_fairly cfg (election_state cfg now s) sps) \<Longrightarrow>
     fair_step cfg s (on_finalize cfg elect now s)"
| fair_author: "unat (TotalPoints s (ri_index (CurrentRound s))) + 20 < 2 ^ 32 \<Longrightarrow> fair_step cfg s (note_author cfg author s)"
| fair_balances: "fair_step cfg s (s\<lparr>currency := c\<rparr>)"

lemma fair_step_booked: "fair_step cfg s s' \<Longrightarrow> booked_step cfg s s'"
  by (auto elim!: fair_step.cases intro: booked_step.intros)

text \<open>The exposures of a round are within its stake, later rounds have none, and points add up without overflow.\<close>

definition rounds_covered :: "('acc, 'c) staking_state \<Rightarrow> bool" where
  "rounds_covered s \<longleftrightarrow>
     (\<forall>r. ri_index (CurrentRound s) < r \<longrightarrow> RoundStakerClipped s r = []) \<and>
     (\<forall>r. weight clipped_stake (RoundStakerClipped s r) \<le> unat (TotalStakedAt s r)) \<and>
     (\<forall>r. weight unat (CollatorPoints s r) \<le> unat (TotalPoints s r))"

lemma rounds_coveredD:
  assumes "rounds_covered s"
  shows "ri_index (CurrentRound s) < r \<Longrightarrow> RoundStakerClipped s r = []"
    and "weight clipped_stake (RoundStakerClipped s r) \<le> unat (TotalStakedAt s r)"
    and "weight unat (CollatorPoints s r) \<le> unat (TotalPoints s r)"
  using assms by (simp_all add: rounds_covered_def)

lemma dispatch_staked_at [simp]:
  "TotalStakedAt (fst (staking_dispatch cfg origin call s)) = TotalStakedAt s"
  by (cases call; simp add: call_defs Let_def fold_invariant [where f = TotalStakedAt] split: option.split prod.split bool.split)

lemma rounds_covered_dispatch: "rounds_covered s \<Longrightarrow> rounds_covered (fst (staking_dispatch cfg origin call s))"
  using dispatch_round [of cfg origin call s] by (simp add: rounds_covered_def dispatch_clipped)

lemma rounds_covered_author:
  assumes "rounds_covered s" and "points_inv s" and "unat (TotalPoints s (ri_index (CurrentRound s))) + 20 < 2 ^ 32"
  shows "rounds_covered (note_author cfg author s)"
proof -
  let ?now = "ri_index (CurrentRound s)" and ?p = "points_of s (ri_index (CurrentRound s)) author"
  have d: "distinct (keys (CollatorPoints s ?now))" using assms(2) by (simp add: points_inv_def)
  have "unat ?p = weight_at unat (CollatorPoints s ?now) author" by (simp add: points_of_def split: option.split)
  moreover have "unat (?p + 20) \<le> unat ?p + 20" using unat_add_le [of ?p 20] by simp
  ultimately have "weight unat (sm_insert (key_before cfg) author (?p + 20) (CollatorPoints s ?now)) \<le> unat (TotalPoints s ?now) + 20"
    using weight_insert [OF d, of unat "key_before cfg" author "?p + 20"] rounds_coveredD(3) [OF assms(1), of ?now] by simp
  moreover have "unat (TotalPoints s ?now + 20) = unat (TotalPoints s ?now) + 20"
    using assms(3) by (simp add: unat_word_ariths)
  ultimately show ?thesis using assms(1) by (simp add: rounds_covered_def note_author_def Let_def)
qed

lemma round_payments_clipped:
  "RoundStakerClipped (round_payments cfg r s) q =
     (if PayoutDuration cfg < r \<and> q = r - PayoutDuration cfg then [] else RoundStakerClipped s q)"
  by (simp add: round_payments_def payout_stakers_clipped)

lemma election_state_sound:
  assumes "storage_wf s" and "booked s" and "nominators_ok nominator_sound (Nominators s)"
  shows "storage_wf (election_state cfg now s)" and "booked (election_state cfg now s)"
    and "nominators_ok nominator_balanced (Nominators (election_state cfg now s))"
proof -
  have wf: "storage_wf (s\<lparr>CurrentRound := c\<rparr>)" "booked (s\<lparr>CurrentRound := c\<rparr>)" for c
    using assms(1,2) by (simp_all add: storage_wf_def total_claim_def)
  show "storage_wf (election_state cfg now s)" "booked (election_state cfg now s)"
    unfolding election_state_def Let_def by (intro storage_wf_round_payments booked_round_payments wf)+
  show "nominators_ok nominator_balanced (Nominators (election_state cfg now s))"
    unfolding election_state_def Let_def round_payments_def using assms(1,3)
    by (auto simp: update_nominators_nominators storage_wf_def intro!: nominators_ok_map nominator_balanced_consolidate)
qed

lemma election_clipped:
  "RoundStakerClipped (fst (enact_election cfg el r s)) q = (if q = r \<and> el \<noteq> None
     then RoundStakerClipped (fst (enact_election cfg el r s)) q else RoundStakerClipped s q)"
  by (auto simp: enact_election_def Let_def case_prod_beta process_election_clipped split: option.split)

lemma rounds_covered_finalize:
  assumes "rounds_covered s" and "storage_wf s" and "booked s" and "nominators_ok nominator_sound (Nominators s)"
    and "unat (ri_index (CurrentRound s)) + 1 < 2 ^ 32"
    and "\<And>sps w. el = Some (sps, w) \<Longrightarrow> elects_fairly cfg (election_state cfg now s) sps"
  shows "rounds_covered (on_finalize cfg el now s)"
proof (cases "RoundInfo_should_goto_next_round (CurrentRound s) now")
  case True
  let ?r = "ri_index (CurrentRound s) + 1" and ?s1 = "election_state cfg now s"
  let ?s2 = "fst (enact_election cfg el ?r ?s1)"
  note sound = election_state_sound [OF assms(2-4), of cfg now]
  have later: "ri_index (CurrentRound s) < ?r" using assms(5) by (simp add: word_less_nat_alt unat_word_ariths)
  have f: "on_finalize cfg el now s = deposit_event (NewRoundStart ?r (?r * blocks_per_round (Settings s)))
      (?s2\<lparr>TotalStakedAt := (TotalStakedAt ?s2)(?r := TotalStaked ?s2),
           TotalIssuanceAt := (TotalIssuanceAt ?s2)(?r := total_issuance (Currency cfg) (currency ?s2))\<rparr>)"
    unfolding on_finalize_due [OF True] election_state_def Let_def ..
  have s1: "RoundStakerClipped ?s1 q = (if PayoutDuration cfg < ?r \<and> q = ?r - PayoutDuration cfg then [] else RoundStakerClipped s q)"
    "TotalStakedAt ?s1 = TotalStakedAt s" "CollatorPoints ?s1 = CollatorPoints s" "TotalPoints ?s1 = TotalPoints s"
    "ri_index (CurrentRound ?s1) = ?r" for q
    by (simp_all add: election_state_def Let_def round_payments_clipped) (simp_all add: round_payments_def)
  have new: "weight clipped_stake (RoundStakerClipped ?s2 ?r) \<le> unat (TotalStaked ?s1)"
  proof (cases el)
    case None
    then show ?thesis using rounds_coveredD(1) [OF assms(1) later] by (simp add: enact_election_def s1)
  next
    case (Some e)
    obtain sps w where e: "e = (sps, w)" by (cases e)
    have "RoundStakerClipped ?s1 ?r = []" using rounds_coveredD(1) [OF assms(1) later] by (simp add: s1)
    from election_weight [OF assms(6) sound(3,1) this, of sps w w] sound(2) show ?thesis by (simp add: Some e)
  qed
  have old: "RoundStakerClipped ?s2 q = RoundStakerClipped ?s1 q" if "q \<noteq> ?r" for q
    using that by (subst election_clipped) simp
  show ?thesis
    unfolding rounds_covered_def
  proof (intro conjI allI impI)
    fix q
    assume "ri_index (CurrentRound (on_finalize cfg el now s)) < q"
    then have q: "?r < q" by (simp add: f s1(5))
    then have "ri_index (CurrentRound s) < q" using later by (rule less_trans [rotated])
    with q show "RoundStakerClipped (on_finalize cfg el now s) q = []"
      using rounds_coveredD(1) [OF assms(1), of q] by (simp add: f old s1(1))
  next
    fix q
    show "weight clipped_stake (RoundStakerClipped (on_finalize cfg el now s) q) \<le> unat (TotalStakedAt (on_finalize cfg el now s) q)"
      using new rounds_coveredD(2) [OF assms(1), of q] by (cases "q = ?r") (simp_all add: f old s1(1,2))
  next
    fix q
    show "weight unat (CollatorPoints (on_finalize cfg el now s) q) \<le> unat (TotalPoints (on_finalize cfg el now s) q)"
      using rounds_coveredD(3) [OF assms(1), of q] by simp
  qed
next
  case False
  then show ?thesis using assms(1) by (simp add: on_finalize_not_due)
qed

lemma genesis_rounds:
  assumes "build cfg stakers (default_state c) = Some s"
  shows "RoundStakerClipped s = (\<lambda>_. [])" and "CollatorPoints s = (\<lambda>_. [])"
proof -
  obtain t u where bs: "build_stakers cfg stakers 0 (default_state c) = Some (t, u)"
    and s: "RoundStakerClipped s = RoundStakerClipped u" "CollatorPoints s = CollatorPoints u"
    using assms by (auto simp: build_def Let_def split: option.splits)
  show "RoundStakerClipped s = (\<lambda>_. [])" "CollatorPoints s = (\<lambda>_. [])"
    using build_stakers_maps [OF bs] build_stakers_points [OF bs] by (simp_all add: s default_state_def)
qed

interpretation issue: inductive_invariant "sound_genesis cfg" "fair_step cfg"
    "\<lambda>s. (storage_wf s \<and> collators_inv cfg s \<and> points_inv s) \<and> booked s \<and> nominators_ok nominator_sound (Nominators s) \<and> rounds_covered s"
    for cfg
proof unfold_locales
  fix s assume g: "sound_genesis cfg s"
  then obtain stakers c where "build cfg stakers (default_state c) = Some s" by (auto simp: sound_genesis_def)
  then show "(storage_wf s \<and> collators_inv cfg s \<and> points_inv s) \<and> booked s \<and> nominators_ok nominator_sound (Nominators s) \<and> rounds_covered s"
    using total.inv_init [OF g] by (simp add: build_maps genesis_rounds nominators_ok_def rounds_covered_def)
next
  fix s s'
  assume inv: "(storage_wf s \<and> collators_inv cfg s \<and> points_inv s) \<and> booked s \<and> nominators_ok nominator_sound (Nominators s) \<and> rounds_covered s"
    and step: "fair_step cfg s s'"
  have old: "(storage_wf s' \<and> collators_inv cfg s' \<and> points_inv s') \<and> booked s'"
    using total.inv_step [OF _ fair_step_booked [OF step]] inv by blast
  from step have "nominators_ok nominator_sound (Nominators s') \<and> rounds_covered s'"
  proof cases
    case (fair_call call origin)
    then show ?thesis using inv nominators_ok_dispatch [of s cfg origin call]
      by (auto simp: rounds_covered_dispatch nominators_ok_def single_bonds_def)
  next
    case (fair_finalize elect now)
    have "nominators_ok nominator_sound (Nominators s')"
      using inv by (auto simp: fair_finalize(1) on_finalize_nominators storage_wf_def
          intro!: nominators_ok_map nominator_balanced_consolidate simp: ledger_simps)
    moreover have "rounds_covered s'"
      unfolding fair_finalize(1) using inv fair_finalize(2,3) by (intro rounds_covered_finalize) auto
    ultimately show ?thesis ..
  next
    case (fair_author author)
    then show ?thesis using inv rounds_covered_author [of s cfg author] by (simp add: note_author_def Let_def)
  next
    case (fair_balances c)
    then show ?thesis using inv by (simp add: rounds_covered_def)
  qed
  with old show "(storage_wf s' \<and> collators_inv cfg s' \<and> points_inv s') \<and> booked s' \<and> nominators_ok nominator_sound (Nominators s') \<and> rounds_covered s'"
    by blast
qed

section \<open>The issue of a round\<close>

lemma announced_append [simp]: "announced (es @ [e]) = announced es + unat (reward_of e)"
  by (simp add: announced_def)

lemma announced_election: "announced (events (fst (enact_election cfg el r s))) = announced (events s)"
proof -
  have "announced (events (fst (process_election cfg sps r t))) = announced (events t)" for sps t
    unfolding process_election_def Let_def fst_conv by (rule fold_invariant) (auto split: prod.split)
  then show ?thesis by (simp add: enact_election_def Let_def case_prod_beta split: option.split)
qed

lemma announced_on_finalize:
  assumes "RoundInfo_should_goto_next_round (CurrentRound s) now"
  shows "announced (events (on_finalize cfg el now s)) =
    announced (events (payout_stakers cfg (ri_index (CurrentRound s) + 1)
      (s\<lparr>CurrentRound := \<lparr>ri_index = ri_index (CurrentRound s) + 1, ri_start_in = now, ri_length = blocks_per_round (Settings s)\<rparr>\<rparr>)))"
  by (simp add: on_finalize_due [OF assms] announced_election) (simp add: round_payments_def)

lemma points_within:
  assumes "rounds_covered s" and "storage_wf s"
  shows "(\<Sum>x \<leftarrow> RoundStakerClipped s q. unat (points_of s q (fst x))) \<le> unat (TotalPoints s q)"
proof -
  have d: "distinct (keys (RoundStakerClipped s q))" "distinct (keys (CollatorPoints s q))"
    using assms(2) by (simp_all add: storage_wf_def)
  have p: "unat (points_of s q a) = weight_at unat (CollatorPoints s q) a" for a by (simp add: points_of_def split: option.split)
  have "(\<Sum>x \<leftarrow> RoundStakerClipped s q. unat (points_of s q (fst x))) = (\<Sum>a \<leftarrow> keys (RoundStakerClipped s q). weight_at unat (CollatorPoints s q) a)"
    by (simp add: p comp_def)
  also have "\<dots> = (\<Sum>a \<in> set (keys (RoundStakerClipped s q)). weight_at unat (CollatorPoints s q) a)"
    by (rule sum_list_distinct_conv_sum_set [OF d(1)])
  also have "\<dots> \<le> weight unat (CollatorPoints s q)" by (rule weight_sum [OF _ d(2)]) simp
  also have "\<dots> \<le> unat (TotalPoints s q)" by (rule rounds_coveredD(3) [OF assms(1)])
  finally show ?thesis .
qed

text \<open>C12: What a round change may issue, from genesis on: on every run whose elections spend no voter's stake
  twice and on which no sum overflows (the total stake at a call, the round and the points counter), no nomination is
  refused half way and no nominator has two bonds with one collator, the end of a block that pays a
  round announces at most one and a half times the amount the inflation curve grants for the paid
  round, up to one unit for every reward that is rounded, also when the round has no points or no
  stake. The genesis stake is within the range of balances.\<close>

theorem round_issue_bounded:
  assumes "deposit_documented (Currency cfg)" and "perthing_documented (Perbill cfg)" and "perthing_rounding (Perbill cfg)"
    and "build cfg stakers (default_state c) = Some s0" and "(\<Sum>(a, v) \<leftarrow> stakers. unat v) < 2 ^ 128"
    and "(fair_step cfg)\<^sup>*\<^sup>* s0 s"
    and "RoundInfo_should_goto_next_round (CurrentRound s) now"
    and "r = ri_index (CurrentRound s) + 1" and "PayoutDuration cfg < r" and "q = r - PayoutDuration cfg"
  shows "2 * announced (events (on_finalize cfg el now s)) \<le>
    2 * announced (events s) + 3 * unat (round_payout cfg (TotalStakedAt s q) (TotalIssuanceAt s q)) +
    2 * (\<Sum>x \<leftarrow> RoundStakerClipped s q. reward_count (snd x))"
proof -
  let ?s = "s\<lparr>CurrentRound := \<lparr>ri_index = r, ri_start_in = now, ri_length = blocks_per_round (Settings s)\<rparr>\<rparr>"
  have "sound_genesis cfg s0" using assms(4,5) unfolding sound_genesis_def by blast
  then have inv: "storage_wf s" "rounds_covered s" using issue.steps_inv [OF assms(6)] issue.inv_init [of cfg s0] by simp_all
  have "(\<Sum>x \<leftarrow> RoundStakerClipped s q. clipped_stake (snd x)) \<le> unat (TotalStakedAt s q)"
    using rounds_coveredD(2) [OF inv(2), of q] by (simp add: weight_def case_prod_unfold)
  moreover have "(\<Sum>x \<leftarrow> RoundStakerClipped s q. unat (points_of s q (fst x))) \<le> unat (TotalPoints s q)"
    by (rule points_within [OF inv(2,1)])
  ultimately show ?thesis
    using payout_bounded [OF assms(1-3,9,10) refl, of ?s]
    unfolding announced_on_finalize [OF assms(7)] assms(8) by (simp add: points_of_def)
qed

text \<open>The demo chain elects its collator, notes a block of it, and pays the round.\<close>

definition demo_elected :: "nat Supports" where
  "demo_elected = [(1, \<lparr>su_total = 500, su_voters = [(1, 500)]\<rparr>)]"

definition demo_round2 :: "(nat, ledger) staking_state" where
  "demo_round2 = note_author demo_cfg 1 (on_finalize demo_cfg (Some (demo_elected, 9)) 5 demo0)"

lemma demo0_due: "RoundInfo_should_goto_next_round (CurrentRound demo0) 5"
  by (simp add: demo0_simps RoundInfo_should_goto_next_round_def)

lemma demo_round2_simps:
  "CurrentRound demo_round2 = \<lparr>ri_index = 2, ri_start_in = 5, ri_length = 5\<rparr>"
  "TotalStakedAt demo_round2 2 = 500" "TotalPoints demo_round2 2 = 20"
  by (simp_all add: demo_round2_def note_author_def on_finalize_due [OF demo0_due] demo0_simps Let_def)
    (simp_all add: round_payments_def update_nominators_staked demo0_simps execute_exit_queue_def demo0_def demo_eval)

lemma demo_fair: "(fair_step demo_cfg)\<^sup>*\<^sup>* demo0 demo_round2"
proof -
  have co: "Collators (election_state demo_cfg 5 demo0) = [(1, \<lparr>co_total = 500, co_active = 500, co_nominations = [], co_unlocking = [],
      co_unbonding = [], co_status = Active, co_claimed_rewards = []\<rparr>)]"
    by (simp add: election_state_def Let_def round_payments_def update_collators_collators demo0_simps updated_collator_def
        StakingCollators_active_onboard_def StakingCollators_consolidate_active_def StakingCollators_consolidate_unbonded_def)
  have "elects_fairly demo_cfg (election_state demo_cfg 5 demo0) demo_elected"
    unfolding elects_fairly_def spent_def slashable_balance_of_def co
    by (simp add: demo_elected_def StakingCollators_is_active_def) (simp add: demo_cfg_def)
  then have "fair_step demo_cfg demo0 (on_finalize demo_cfg (Some (demo_elected, 9)) 5 demo0)"
    by (intro fair_step.fair_finalize) (simp_all add: demo0_simps)
  moreover have "fair_step demo_cfg (on_finalize demo_cfg (Some (demo_elected, 9)) 5 demo0) demo_round2"
    unfolding demo_round2_def by (rule fair_step.fair_author) (simp add: on_finalize_points demo0_def demo_eval)
  ultimately show ?thesis by (meson rtranclp.rtrancl_into_rtrancl r_into_rtranclp)
qed

theorem round_issue_bounded_witness:
  "2 * announced (events (on_finalize demo_cfg None 10 demo_round2)) \<le>
     2 * announced (events demo_round2) + 3 * unat (round_payout demo_cfg (TotalStakedAt demo_round2 2) (TotalIssuanceAt demo_round2 2)) +
     2 * (\<Sum>x \<leftarrow> RoundStakerClipped demo_round2 2. reward_count (snd x))"
proof -
  have cfg: "deposit_documented (Currency demo_cfg)" "perthing_documented (Perbill demo_cfg)" "perthing_rounding (Perbill demo_cfg)"
    "PayoutDuration demo_cfg < 3" "2 = 3 - PayoutDuration demo_cfg"
    using perbill_documented perbill_rounding by (simp_all add: demo_cfg_def ledger_currency_deposit)
  have "RoundInfo_should_goto_next_round (CurrentRound demo_round2) 10" "3 = ri_index (CurrentRound demo_round2) + 1"
    by (simp_all add: demo_round2_simps RoundInfo_should_goto_next_round_def)
  then show ?thesis
    by (intro round_issue_bounded [OF cfg(1-3) demo_build _ demo_fair _ _ cfg(4,5)]) (simp_all add: demo_round2_simps)
qed

end
