(* ===== verification/Staking_Minimum.thy ===== *)
theory Staking_Minimum
  imports Staking_Total Staking_Properties
begin

text \<open>
  A collator keeps the minimum stake. \<^verbatim>\<open>bond\<close> asks for it and \<^verbatim>\<open>bond_less\<close> refuses to go below it; this theory shows
  that no other call and no round change can undercut it: what is active or waiting to become active is
  never less than \<^verbatim>\<open>MinCollatorStake\<close>, as long as the total stake does not overflow.
\<close>

section \<open>Stake that works or will\<close>

definition kept_stake :: "'acc StakingCollators \<Rightarrow> nat" where
  "kept_stake c = unat (co_active c) + (\<Sum>x \<leftarrow> co_unlocking c. unat (ul_value x))"

lemma kept_le_claim: "kept_stake c \<le> collator_claim c"
  by (simp add: kept_stake_def collator_claim_def)

lemma unat_chunks:
  "(\<Sum>x \<leftarrow> xs. unat (f x)) < 2 ^ 128 \<Longrightarrow> unat (\<Sum>x \<leftarrow> xs. f x :: Balance) = (\<Sum>x \<leftarrow> xs. unat (f x))"
  using unat_sum_list [of "map f xs"] by (simp add: comp_def)

lemma kept_backing: "kept_stake c < 2 ^ 128 \<Longrightarrow> unat (collator_backing c) = kept_stake c"
  using unat_chunks [where f = ul_value and xs = "co_unlocking c"]
  by (simp add: kept_stake_def collator_backing_def unat_word_ariths)

lemma kept_entry:
  "kept_stake (StakingCollators_new v r) = unat v"
  "kept_stake c \<le> kept_stake (StakingCollators_bond_extra c v r)"
  by (simp_all add: kept_stake_def StakingCollators_new_def StakingCollators_bond_extra_def)

lemma kept_bond_less: "StakingCollators_bond_less c v r = (c', Some w) \<Longrightarrow> unat w \<le> kept_stake c'"
  by (auto simp: kept_stake_def StakingCollators_bond_less_def Let_def split: if_splits)

lemma kept_nominations: "kept_stake (c\<lparr>co_nominations := bs\<rparr>) = kept_stake c"
  by (simp add: kept_stake_def)

lemma kept_nomination_calls:
  "StakingCollators_add_nomination c b = (c', t) \<Longrightarrow> kept_stake c' = kept_stake c"
  "StakingCollators_nominate_extra c b = (c', e) \<Longrightarrow> kept_stake c' = kept_stake c"
  "StakingCollators_nominate_less c b = (c', l) \<Longrightarrow> kept_stake c' = kept_stake c"
  "StakingCollators_rm_nomination c a = (c', v) \<Longrightarrow> kept_stake c' = kept_stake c"
  by (auto simp: StakingCollators_add_nomination_def StakingCollators_nominate_extra_def StakingCollators_nominate_less_def
      StakingCollators_rm_nomination_def kept_nominations split: sum.splits prod.splits option.splits)

lemma kept_force_bond:
  assumes "collator_ok m c" and "\<not> StakingCollators_is_active c" and "kept_stake c < 2 ^ 128"
  shows "kept_stake (StakingCollators_force_bond c) = kept_stake c"
  using assms kept_backing [OF assms(3)]
  by (auto simp: kept_stake_def collator_ok_def StakingCollators_is_active_def StakingCollators_force_bond_def)

lemma kept_updated:
  assumes "kept_stake c < 2 ^ 128"
  shows "kept_stake (updated_collator r c) = kept_stake c"
proof -
  let ?due = "filter (\<lambda>x. ul_round x \<le> r) (co_unlocking c)"
  have split: "(\<Sum>x \<leftarrow> ?due. unat (ul_value x)) + (\<Sum>x \<leftarrow> filter (\<lambda>x. \<not> ul_round x \<le> r) (co_unlocking c). unat (ul_value x)) =
      (\<Sum>x \<leftarrow> co_unlocking c. unat (ul_value x))"
    using sum_list_filter_split [of "\<lambda>x. unat (ul_value x)" "\<lambda>x. ul_round x \<le> r" "co_unlocking c"] by simp
  then have lt: "unat (co_active c) + (\<Sum>x \<leftarrow> ?due. unat (ul_value x)) < 2 ^ 128"
    using assms unfolding kept_stake_def by linarith
  then have "unat (co_active c + unlocking_sum ?due) = unat (co_active c) + (\<Sum>x \<leftarrow> ?due. unat (ul_value x))"
    using unat_chunks [where f = ul_value and xs = ?due] by (simp add: unat_word_ariths)
  then show ?thesis using split by (simp add: kept_stake_def updated_collator_def ledger_simps not_le)
qed

section \<open>The invariant\<close>

definition funded :: "Balance \<Rightarrow> ('acc, 'acc StakingCollators) smap \<Rightarrow> bool" where
  "funded m cs \<longleftrightarrow> (\<forall>(a, c) \<in> set cs. unat m \<le> kept_stake c)"

lemma funded_get: "funded m cs \<Longrightarrow> sm_get cs a = Some c \<Longrightarrow> unat m \<le> kept_stake c"
  unfolding funded_def by (auto dest: map_of_SomeD)

lemma funded_insert: "funded m cs \<Longrightarrow> unat m \<le> kept_stake c \<Longrightarrow> funded m (sm_insert before a c cs)"
  unfolding funded_def using set_sm_insert_subset [of before a c cs] by auto

lemma funded_remove: "funded m cs \<Longrightarrow> funded m (sm_remove a cs)"
  unfolding funded_def by (auto simp: set_sm_remove)

lemma booked_kept:
  assumes "storage_wf s" and "booked s" and "sm_get (Collators s) a = Some c"
  shows "kept_stake c < 2 ^ 128"
proof -
  have "collator_claim c \<le> weight collator_claim (Collators s)"
    using weight_at_le [of "Collators s" collator_claim a] assms(1,3) by (simp add: storage_wf_def)
  also have "\<dots> \<le> unat (TotalStaked s)" using assms(2) by (simp add: total_claim_def)
  also have "\<dots> < 2 ^ 128" using unsigned_less [of "TotalStaked s"] by simp
  finally show ?thesis using kept_le_claim [of c] by simp
qed

lemma funded_dispatch:
  assumes "storage_wf s" and "booked s" and "collators_inv cfg s" and "funded (MinCollatorStake cfg) (Collators s)"
  shows "funded (MinCollatorStake cfg) (Collators (fst (staking_dispatch cfg origin call s)))"
proof -
  note get = funded_get [OF assms(4)]
  have force: "unat (MinCollatorStake cfg) \<le> kept_stake (StakingCollators_force_bond c)"
    if "sm_get (Collators s) a = Some c" "\<not> StakingCollators_is_active c" for a c
    using kept_force_bond [OF collators_ok_get [OF assms(3) that(1)] that(2) booked_kept [OF assms(1,2) that(1)]] get [OF that(1)] by simp
  have extra: "unat (MinCollatorStake cfg) \<le> kept_stake (StakingCollators_bond_extra c v r)"
    if "sm_get (Collators s) a = Some c" for a c v r
    using get [OF that] kept_entry(2) [of c v r] by simp
  have less: "unat (MinCollatorStake cfg) \<le> kept_stake c'"
    if "StakingCollators_bond_less c v r = (c', Some w)" "MinCollatorStake cfg \<le> w" for c v r c' w
    using kept_bond_less [OF that(1)] that(2) by (simp add: word_le_nat_alt)
  have nomination: "unat (MinCollatorStake cfg) \<le> kept_stake c'"
    if "sm_get (Collators s) a = Some c" "kept_stake c' = kept_stake c" for a c c'
    using get [OF that(1)] that(2) by simp
  show ?thesis
    using assms(4)
    by (cases call; auto simp: call_defs Let_def fold_invariant [where f = Collators] kept_entry(1) word_le_nat_alt not_less
        split: option.splits prod.splits bool.splits
        intro!: funded_insert funded_remove intro: force extra less [unfolded word_le_nat_alt] nomination dest: kept_nomination_calls)
qed

lemma funded_on_finalize:
  assumes "storage_wf s" and "booked s" and "funded (MinCollatorStake cfg) (Collators s)"
  shows "funded (MinCollatorStake cfg) (Collators (on_finalize cfg el now s))"
proof -
  have "unat (MinCollatorStake cfg) \<le> kept_stake (updated_collator r c)" if "(a, c) \<in> set (Collators s)" for a c r
  proof -
    have get: "sm_get (Collators s) a = Some c" using that assms(1) by (simp add: storage_wf_def)
    then show ?thesis using funded_get [OF assms(3) get] kept_updated [OF booked_kept [OF assms(1,2) get]] by simp
  qed
  then show ?thesis
    using assms(1,3) by (auto simp: on_finalize_collators update_collators_collators storage_wf_def funded_def)
qed

lemma funded_build_stakers:
  "build_stakers cfg stakers t s = Some (t', s') \<Longrightarrow> funded (MinCollatorStake cfg) (Collators s) \<Longrightarrow>
   funded (MinCollatorStake cfg) (Collators s')"
proof (induction cfg stakers t s rule: build_stakers.induct)
  case (2 cfg a v stakers t s)
  have "funded (MinCollatorStake cfg) (Collators (fst (bond cfg (Signed a) v s)))"
    using 2(3) by (auto simp: bond_def Let_def kept_entry(1) word_le_nat_alt not_less split: option.split intro!: funded_insert)
  then show ?case using 2 by (auto split: if_splits)
qed simp

interpretation minimum: inductive_invariant "sound_genesis cfg" "booked_step cfg"
    "\<lambda>s. ((storage_wf s \<and> collators_inv cfg s \<and> points_inv s) \<and> booked s) \<and> funded (MinCollatorStake cfg) (Collators s)" for cfg
proof unfold_locales
  fix s assume g: "sound_genesis cfg s"
  then obtain stakers c t u where "build_stakers cfg stakers 0 (default_state c) = Some (t, u)" "Collators s = Collators u"
    by (auto simp: sound_genesis_def build_def Let_def split: option.splits)
  then show "((storage_wf s \<and> collators_inv cfg s \<and> points_inv s) \<and> booked s) \<and> funded (MinCollatorStake cfg) (Collators s)"
    using total.inv_init [OF g] funded_build_stakers [of cfg stakers 0 "default_state c" t u] by (simp add: funded_def default_state_def)
next
  fix s s'
  assume inv: "((storage_wf s \<and> collators_inv cfg s \<and> points_inv s) \<and> booked s) \<and> funded (MinCollatorStake cfg) (Collators s)"
    and step: "booked_step cfg s s'"
  from step have "funded (MinCollatorStake cfg) (Collators s')"
  proof cases
    case (booked_call call origin)
    then show ?thesis using inv funded_dispatch [of s cfg origin call] by simp
  next
    case (booked_finalize elect now)
    then show ?thesis using inv funded_on_finalize [of s cfg elect now] by simp
  qed (use inv in \<open>simp_all add: note_author_def Let_def\<close>)
  with total.inv_step [OF _ step] inv
  show "((storage_wf s' \<and> collators_inv cfg s' \<and> points_inv s') \<and> booked s') \<and> funded (MinCollatorStake cfg) (Collators s')" by blast
qed

text \<open>C2: A collator keeps the minimum stake: on every run from a genesis whose stakes sum up within the range of
  balances, as long as no call overflows the total stake and no nomination is refused half way, every
  collator has at least \<^verbatim>\<open>MinCollatorStake\<close> active or waiting to become active, whoever calls what; it is active, or
  onboarding with no active stake and no nominations; it is within the nomination limit; and without
  nominations and unbonding stake its total is its active plus its waiting stake.\<close>

theorem collators_keep_minimum:
  assumes "build cfg stakers (default_state cur) = Some s0" and "(\<Sum>(a, v) \<leftarrow> stakers. unat v) < 2 ^ 128"
    and "(booked_step cfg)\<^sup>*\<^sup>* s0 s" and "sm_get (Collators s) a = Some c"
  shows "unat (MinCollatorStake cfg) \<le> unat (co_active c) + (\<Sum>x \<leftarrow> co_unlocking c. unat (ul_value x)) \<and>
    (co_status c = Active \<or> co_status c = Onboarding \<and> co_active c = 0 \<and> co_nominations c = []) \<and>
    length (co_nominations c) \<le> unat (MaxNominationsPerCollator cfg) \<and>
    (co_nominations c = [] \<longrightarrow> co_unbonding c = [] \<longrightarrow>
      unat (co_total c) = unat (co_active c) + (\<Sum>x \<leftarrow> co_unlocking c. unat (ul_value x)))"
proof -
  have "sound_genesis cfg s0" using assms(1,2) unfolding sound_genesis_def by blast
  then have inv: "storage_wf s" "booked s" "collators_inv cfg s" "funded (MinCollatorStake cfg) (Collators s)"
    using minimum.steps_inv [OF assms(3)] minimum.inv_init [of cfg s0] by simp_all
  show ?thesis
    using funded_get [OF inv(4) assms(4)] collators_ok_get [OF inv(3) assms(4)] kept_backing [OF booked_kept [OF inv(1,2) assms(4)]]
    by (auto simp: collator_ok_def kept_stake_def)
qed

text \<open>The demo chain after its first round: the collator takes 150 of its 500 out, which leaves 350 above the minimum of 100.\<close>

theorem collators_keep_minimum_witness:
  "unat (MinCollatorStake demo_cfg) = 100 \<and>
   (\<exists>c. sm_get (Collators (fst (bond_less demo_cfg (Signed 1) 150 demo1))) 1 = Some c \<and> co_active c = 350 \<and>
      unat (MinCollatorStake demo_cfg) \<le> unat (co_active c) + (\<Sum>x \<leftarrow> co_unlocking c. unat (ul_value x)))"
proof -
  let ?s = "fst (bond_less demo_cfg (Signed 1) 150 demo1)"
  let ?c = "\<lparr>co_total = 500, co_active = 350, co_nominations = [], co_unlocking = [], co_unbonding = [\<lparr>ub_value = 150, ub_round = 4\<rparr>],
      co_status = Active, co_claimed_rewards = []\<rparr>"
  have cfg: "MinCollatorStake demo_cfg = 100" by (simp add: demo_cfg_def)
  have c: "sm_get (Collators ?s) 1 = Some ?c"
    by (simp add: bond_less_def demo1_simps demo1_more cfg StakingCollators_is_active_def StakingCollators_bond_less_def withdraw_round_def)
  have "(booked_step demo_cfg)\<^sup>*\<^sup>* demo0 demo1" unfolding demo1_def by (rule r_into_rtranclp, rule booked_finalize)
  moreover have "booked_step demo_cfg demo1 ?s"
    using booked_call [of demo1 "Call_bond_less 150" demo_cfg "Signed 1"]
    by (simp add: bond_less_def demo1_simps demo1_more cfg StakingCollators_is_active_def StakingCollators_bond_less_def withdraw_round_def)
  ultimately have run: "(booked_step demo_cfg)\<^sup>*\<^sup>* demo0 ?s" by (meson rtranclp.rtrancl_into_rtrancl)
  from collators_keep_minimum [OF demo_build _ run c] c show ?thesis by (simp add: cfg)
qed

end
