(* ===== verification/Runtime_Compose.thy ===== *)
theory Runtime_Compose
  imports Runtime_Config Crowdloan
begin

text \<open>
  How the runtimes are put together (\<^verbatim>\<open>runtime/*/src/lib.rs\<close>): the tables of \<^verbatim>\<open>construct_runtime!\<close> with the
  indices they give the pallets, the parameters of the FRAME and Cumulus pallets, the filter for
  messages of the relay chain, the conversion of Ethereum transactions, the parts of the runtime API
  that compute something, and the Halongbay runtime as the composition of the two own pallets it
  includes, crowdloan rewards and treasury, over one currency. The three files differ only in the
  pallets of the table, the token constant and their configuration, as far as they are modelled here.
\<close>

section \<open>The pallet tables\<close>

datatype pallet_part = P_Pallet | P_Call | P_Storage | P_Config | P_Event | P_Inherent | P_Origin | P_ValidateUnsigned

record pallet_entry =
  pe_name :: string
  pe_crate :: string
  pe_parts :: "pallet_part list"
  pe_index :: "u8 option"

abbreviation pallet :: "string \<Rightarrow> string \<Rightarrow> pallet_part list \<Rightarrow> pallet_entry" where
  "pallet name crate parts \<equiv> \<lparr>pe_name = name, pe_crate = crate, pe_parts = parts, pe_index = None\<rparr>"

definition halongbay_pallets :: "pallet_entry list" where
  "halongbay_pallets =
     [pallet ''System'' ''frame_system'' [P_Pallet, P_Call, P_Config, P_Storage, P_Event],
      pallet ''RandomnessCollectiveFlip'' ''pallet_randomness_collective_flip'' [P_Pallet, P_Call, P_Storage],
      pallet ''Timestamp'' ''pallet_timestamp'' [P_Pallet, P_Call, P_Storage, P_Inherent],
      pallet ''Balances'' ''pallet_balances'' [P_Pallet, P_Call, P_Storage, P_Config, P_Event],
      pallet ''ParachainSystem'' ''cumulus_pallet_parachain_system'' [P_Pallet, P_Call, P_Storage, P_Inherent, P_Event],
      pallet ''TransactionPayment'' ''pallet_transaction_payment'' [P_Pallet, P_Storage],
      pallet ''ParachainInfo'' ''parachain_info'' [P_Pallet, P_Storage, P_Config],
      pallet ''Sudo'' ''pallet_sudo'' [P_Pallet, P_Call, P_Config, P_Storage, P_Event],
      pallet ''EVM'' ''pallet_evm'' [P_Pallet, P_Call, P_Storage, P_Config, P_Event],
      pallet ''Ethereum'' ''pallet_ethereum'' [P_Pallet, P_Call, P_Storage, P_Event, P_Config, P_ValidateUnsigned],
      pallet ''Crowdloan'' ''pallet_crowdloan_rewards'' [P_Pallet, P_Call, P_Storage, P_Event],
      pallet ''Treasury'' ''pallet_treasury'' [P_Pallet, P_Call, P_Storage, P_Event],
      pallet ''Aura'' ''pallet_aura'' [P_Pallet, P_Config],
      pallet ''AuraExt'' ''cumulus_pallet_aura_ext'' [P_Pallet, P_Config],
      pallet ''XcmpQueue'' ''cumulus_pallet_xcmp_queue'' [P_Pallet, P_Call, P_Storage, P_Event],
      pallet ''PolkadotXcm'' ''pallet_xcm'' [P_Pallet, P_Call, P_Event, P_Origin],
      pallet ''CumulusXcm'' ''cumulus_pallet_xcm'' [P_Pallet, P_Call, P_Event, P_Origin],
      pallet ''DmpQueue'' ''cumulus_pallet_dmp_queue'' [P_Pallet, P_Call, P_Storage, P_Event],
      \<lparr>pe_name = ''Spambot'', pe_crate = ''cumulus_ping'', pe_parts = [P_Pallet, P_Call, P_Storage, P_Event], pe_index = Some 99\<rparr>]"

definition polkasmith_pallets :: "pallet_entry list" where
  "polkasmith_pallets =
     [pallet ''System'' ''frame_system'' [P_Pallet, P_Call, P_Config, P_Storage, P_Event],
      pallet ''RandomnessCollectiveFlip'' ''pallet_randomness_collective_flip'' [P_Pallet, P_Call, P_Storage],
      pallet ''Timestamp'' ''pallet_timestamp'' [P_Pallet, P_Call, P_Storage, P_Inherent],
      pallet ''Balances'' ''pallet_balances'' [P_Pallet, P_Call, P_Storage, P_Config, P_Event],
      pallet ''ParachainSystem'' ''cumulus_pallet_parachain_system'' [P_Pallet, P_Call, P_Storage, P_Inherent, P_Event],
      pallet ''TransactionPayment'' ''pallet_transaction_payment'' [P_Pallet, P_Storage],
      pallet ''ParachainInfo'' ''parachain_info'' [P_Pallet, P_Storage, P_Config],
      pallet ''Sudo'' ''pallet_sudo'' [P_Pallet, P_Call, P_Config, P_Storage, P_Event],
      pallet ''EVM'' ''pallet_evm'' [P_Pallet, P_Call, P_Storage, P_Config, P_Event],
      pallet ''Ethereum'' ''pallet_ethereum'' [P_Pallet, P_Call, P_Storage, P_Event, P_Config, P_ValidateUnsigned],
      pallet ''Aura'' ''pallet_aura'' [P_Pallet, P_Config],
      pallet ''AuraExt'' ''cumulus_pallet_aura_ext'' [P_Pallet, P_Config],
      pallet ''XcmpQueue'' ''cumulus_pallet_xcmp_queue'' [P_Pallet, P_Call, P_Storage, P_Event],
      pallet ''PolkadotXcm'' ''pallet_xcm'' [P_Pallet, P_Call, P_Event, P_Origin],
      pallet ''CumulusXcm'' ''cumulus_pallet_xcm'' [P_Pallet, P_Call, P_Event, P_Origin],
      pallet ''DmpQueue'' ''cumulus_pallet_dmp_queue'' [P_Pallet, P_Call, P_Storage, P_Event],
      \<lparr>pe_name = ''Spambot'', pe_crate = ''cumulus_ping'', pe_parts = [P_Pallet, P_Call, P_Storage, P_Event], pe_index = Some 99\<rparr>]"

definition polkafoundry_pallets :: "pallet_entry list" where
  "polkafoundry_pallets =
     [pallet ''System'' ''frame_system'' [P_Pallet, P_Call, P_Config, P_Storage, P_Event],
      pallet ''RandomnessCollectiveFlip'' ''pallet_randomness_collective_flip'' [P_Pallet, P_Call, P_Storage],
      pallet ''Timestamp'' ''pallet_timestamp'' [P_Pallet, P_Call, P_Storage, P_Inherent],
      pallet ''Balances'' ''pallet_balances'' [P_Pallet, P_Call, P_Storage, P_Config, P_Event],
      pallet ''ParachainSystem'' ''cumulus_pallet_parachain_system'' [P_Pallet, P_Call, P_Storage, P_Inherent, P_Event],
      pallet ''TransactionPayment'' ''pallet_transaction_payment'' [P_Pallet, P_Storage],
      pallet ''ParachainInfo'' ''parachain_info'' [P_Pallet, P_Storage, P_Config],
      pallet ''Sudo'' ''pallet_sudo'' [P_Pallet, P_Call, P_Config, P_Storage, P_Event],
      pallet ''EVM'' ''pallet_evm'' [P_Pallet, P_Call, P_Storage, P_Config, P_Event],
      pallet ''Ethereum'' ''pallet_ethereum'' [P_Pallet, P_Call, P_Storage, P_Event, P_Config, P_ValidateUnsigned],
      pallet ''Aura'' ''pallet_aura'' [P_Pallet, P_Config],
      pallet ''AuraExt'' ''cumulus_pallet_aura_ext'' [P_Pallet, P_Config],
      pallet ''XcmpQueue'' ''cumulus_pallet_xcmp_queue'' [P_Pallet, P_Call, P_Storage, P_Event],
      pallet ''PolkadotXcm'' ''pallet_xcm'' [P_Pallet, P_Call, P_Event, P_Origin],
      pallet ''CumulusXcm'' ''cumulus_pallet_xcm'' [P_Pallet, P_Call, P_Event, P_Origin],
      pallet ''DmpQueue'' ''cumulus_pallet_dmp_queue'' [P_Pallet, P_Call, P_Storage, P_Event],
      \<lparr>pe_name = ''Spambot'', pe_crate = ''cumulus_ping'', pe_parts = [P_Pallet, P_Call, P_Storage, P_Event], pe_index = Some 99\<rparr>]"

definition pallets :: "runtime \<Rightarrow> pallet_entry list" where
  "pallets r = (case r of PolkaFoundry \<Rightarrow> polkafoundry_pallets | PolkaSmith \<Rightarrow> polkasmith_pallets | Halongbay \<Rightarrow> halongbay_pallets)"

text \<open>
  The index \<^verbatim>\<open>construct_runtime!\<close> gives a pallet: the explicit one, else the successor of the previous
  pallet's, starting at 0. The index is the first byte of an encoded call of the pallet and the index
  of its errors.
\<close>

fun pallet_indices :: "nat \<Rightarrow> pallet_entry list \<Rightarrow> (string \<times> nat) list" where
  "pallet_indices next [] = []"
| "pallet_indices next (p # ps) =
     (let i = (case pe_index p of Some k \<Rightarrow> unat k | None \<Rightarrow> next) in (pe_name p, i) # pallet_indices (Suc i) ps)"

definition pallet_index :: "runtime \<Rightarrow> string \<Rightarrow> nat option" where
  "pallet_index r name = map_of (pallet_indices 0 (pallets r)) name"

definition callable :: "runtime \<Rightarrow> string list" where
  "callable r = map pe_name (filter (\<lambda>p. P_Call \<in> set (pe_parts p)) (pallets r))"

lemmas pallets_defs = pallets_def halongbay_pallets_def polkasmith_pallets_def polkafoundry_pallets_def

text \<open>The table of every runtime is well-formed: no two pallets share a name or an index, every index fits
  in a byte, and the ten pallets every runtime starts with have the same indices in all of them, so
  an encoded call of one of these means the same in every runtime. The crowdloan and treasury pallets
  are in the Halongbay runtime, at 10 and 11, and in no other; only the timestamp and the parachain
  system take inherents.\<close>

theorem pallet_tables_wellformed:
  "distinct (map fst (pallet_indices 0 (pallets r))) \<and> distinct (map snd (pallet_indices 0 (pallets r))) \<and>
   list_all (\<lambda>(n, i). i < 256) (pallet_indices 0 (pallets r)) \<and>
   take 10 (pallet_indices 0 (pallets r)) = zip [''System'', ''RandomnessCollectiveFlip'', ''Timestamp'', ''Balances'',
     ''ParachainSystem'', ''TransactionPayment'', ''ParachainInfo'', ''Sudo'', ''EVM'', ''Ethereum''] [0..<10] \<and>
   pallet_index r ''Crowdloan'' = (if r = Halongbay then Some 10 else None) \<and>
   pallet_index r ''Treasury'' = (if r = Halongbay then Some 11 else None) \<and>
   map pe_name (filter (\<lambda>p. P_Inherent \<in> set (pe_parts p)) (pallets r)) = [''Timestamp'', ''ParachainSystem'']"
  by (cases r) (simp_all add: pallets_defs pallet_index_def upt_rec)

section \<open>Parameters of the library pallets\<close>

definition SS58Prefix :: "runtime \<Rightarrow> u8" where
  "SS58Prefix r = SS58PREFIX (time_of r)"

definition evm_ChainId :: "runtime \<Rightarrow> u64" where
  "evm_ChainId r = CHAIN_ID (time_of r)"

definition ExistentialDeposit :: Balance where
  "ExistentialDeposit = 500"

definition MaxLocks :: u32 where
  "MaxLocks = 50"

definition TransactionByteFee :: Balance where
  "TransactionByteFee = 1"

definition ReservedXcmpWeight :: "u64 \<Rightarrow> u64" where
  "ReservedXcmpWeight weight_per_second = MAXIMUM_BLOCK_WEIGHT weight_per_second div 4"

definition ReservedDmpWeight :: "u64 \<Rightarrow> u64" where
  "ReservedDmpWeight weight_per_second = MAXIMUM_BLOCK_WEIGHT weight_per_second div 4"

definition MaxDownwardMessageWeight :: "u64 \<Rightarrow> u64" where
  "MaxDownwardMessageWeight weight_per_second = MAXIMUM_BLOCK_WEIGHT weight_per_second div 10"

definition UnitWeightCost :: u64 where
  "UnitWeightCost = 1000"

definition BlockGasLimit :: "256 word" where
  "BlockGasLimit = 2 ^ 32 - 1"

definition TreasuryPalletId :: string where
  "TreasuryPalletId = ''Treasury''"

text \<open>The weight reserved for incoming messages, of siblings and of the relay chain together, is at most half
  of the block, so it leaves the other half to extrinsics.\<close>

lemma message_weight_bounded:
  "2 * (unat (ReservedXcmpWeight w) + unat (ReservedDmpWeight w)) \<le> unat (MAXIMUM_BLOCK_WEIGHT w)"
  unfolding ReservedXcmpWeight_def ReservedDmpWeight_def unat_div by simp

section \<open>Messages of the relay chain\<close>

text \<open>
  A location of the XCM library is a list of at most eight junctions; only the junctions the runtime
  mentions are told apart.
\<close>

datatype body_id = UnitBody | OtherBody string

datatype network_id = AnyNetwork | NamedNetwork "u8 list" | PolkadotNetwork | KusamaNetwork

datatype junction =
    Parent
  | Parachain u32
  | AccountId32 network_id "u8 list"
  | Plurality body_id string
  | OtherJunction string

type_synonym multi_location = "junction list"

definition RococoLocation :: multi_location where
  "RococoLocation = [Parent]"

definition Ancestry :: "u32 \<Rightarrow> multi_location" where
  "Ancestry parachain_id = [Parachain parachain_id]"

definition WeightPrice :: "multi_location \<times> u128" where
  "WeightPrice = ([Parent], 1000)"

definition ParentOrParentsUnitPlurality :: "multi_location \<Rightarrow> bool" where
  "ParentOrParentsUnitPlurality loc =
     (case loc of
        [Parent] \<Rightarrow> True
      | [Parent, Plurality UnitBody _] \<Rightarrow> True
      | _ \<Rightarrow> False)"

text \<open>
  The barrier executes a message if one of its three parts lets it through. The parts are functions
  of the XCM library; two of them take a filter of origins.
\<close>

definition Barrier ::
    "(multi_location \<Rightarrow> 'msg \<Rightarrow> bool) \<Rightarrow> ((multi_location \<Rightarrow> bool) \<Rightarrow> multi_location \<Rightarrow> 'msg \<Rightarrow> bool) \<Rightarrow>
     ((multi_location \<Rightarrow> bool) \<Rightarrow> multi_location \<Rightarrow> 'msg \<Rightarrow> bool) \<Rightarrow> multi_location \<Rightarrow> 'msg \<Rightarrow> bool" where
  "Barrier take_weight_credit allow_top_level_paid allow_unpaid origin msg =
     (take_weight_credit origin msg \<or>
      allow_top_level_paid (\<lambda>_. True) origin msg \<or>
      allow_unpaid ParentOrParentsUnitPlurality origin msg)"

lemma unpaid_only_from_parent:
  assumes "\<And>f loc m. allow_unpaid f loc m \<Longrightarrow> f loc" and "Barrier credit paid allow_unpaid origin msg"
    and "\<not> credit origin msg" and "\<not> paid (\<lambda>_. True) origin msg"
  shows "\<exists>part. origin = [Parent] \<or> origin = [Parent, Plurality UnitBody part]"
  using assms
  by (auto simp: Barrier_def ParentOrParentsUnitPlurality_def split: list.splits junction.splits body_id.splits
      dest!: assms(1))

section \<open>Ethereum\<close>

text \<open>
  An extrinsic is a call with an optional signature. The codec and the type of opaque extrinsics belong
  to libraries; a failed \<^verbatim>\<open>expect\<close> is \<open>None\<close>.
\<close>

record ('call, 'sig) extrinsic =
  ex_signature :: "'sig option"
  ex_function :: 'call

definition new_unsigned :: "'call \<Rightarrow> ('call, 'sig) extrinsic" where
  "new_unsigned call = \<lparr>ex_signature = None, ex_function = call\<rparr>"

definition convert_transaction :: "('tx \<Rightarrow> 'call) \<Rightarrow> 'tx \<Rightarrow> ('call, 'sig) extrinsic" where
  "convert_transaction transact transaction = new_unsigned (transact transaction)"

definition convert_transaction_opaque ::
    "('tx \<Rightarrow> 'call) \<Rightarrow> (('call, 'sig) extrinsic \<Rightarrow> u8 list) \<Rightarrow> (u8 list \<Rightarrow> 'opaque option) \<Rightarrow> 'tx \<Rightarrow> 'opaque option" where
  "convert_transaction_opaque transact encode decode_opaque transaction =
     (let extrinsic = new_unsigned (transact transaction); encoded = encode extrinsic in decode_opaque encoded)"

type_synonym U256 = "256 word"

text \<open>The bytes of a storage key are those the library's \<^verbatim>\<open>to_big_endian\<close> writes for the index.\<close>

definition storage_at :: "(U256 \<Rightarrow> u8 list) \<Rightarrow> ('addr \<Rightarrow> u8 list \<Rightarrow> 'h) \<Rightarrow> 'addr \<Rightarrow> U256 \<Rightarrow> 'h" where
  "storage_at to_big_endian account_storages address index = account_storages address (to_big_endian index)"

record 'x evm_config =
  evm_estimate :: bool
  evm_rest :: 'x

definition evm_config_for :: "'x evm_config \<Rightarrow> bool \<Rightarrow> 'x evm_config" where
  "evm_config_for conf estimate =
     (let overriden = (if estimate then Some (conf\<lparr>evm_estimate := True\<rparr>) else None)
      in case overriden of Some c \<Rightarrow> c | None \<Rightarrow> conf)"

definition eth_call ::
    "('addr \<Rightarrow> 'addr \<Rightarrow> u8 list \<Rightarrow> U256 \<Rightarrow> u64 \<Rightarrow> U256 option \<Rightarrow> U256 option \<Rightarrow> 'x evm_config \<Rightarrow> 'err + 'info) \<Rightarrow>
     ('err \<Rightarrow> 'derr) \<Rightarrow> 'x evm_config \<Rightarrow> 'addr \<Rightarrow> 'addr \<Rightarrow> u8 list \<Rightarrow> U256 \<Rightarrow> U256 \<Rightarrow> U256 option \<Rightarrow> U256 option \<Rightarrow> bool \<Rightarrow>
     'derr + 'info" where
  "eth_call runner_call into conf source target data value gas_limit gas_price nonce estimate =
     (case runner_call source target data value (ucast gas_limit) gas_price nonce (evm_config_for conf estimate) of
        Inl err \<Rightarrow> Inl (into err)
      | Inr info \<Rightarrow> Inr info)"

definition eth_create ::
    "('addr \<Rightarrow> u8 list \<Rightarrow> U256 \<Rightarrow> u64 \<Rightarrow> U256 option \<Rightarrow> U256 option \<Rightarrow> 'x evm_config \<Rightarrow> 'err + 'info) \<Rightarrow>
     ('err \<Rightarrow> 'derr) \<Rightarrow> 'x evm_config \<Rightarrow> 'addr \<Rightarrow> u8 list \<Rightarrow> U256 \<Rightarrow> U256 \<Rightarrow> U256 option \<Rightarrow> U256 option \<Rightarrow> bool \<Rightarrow>
     'derr + 'info" where
  "eth_create runner_create into conf source data value gas_limit gas_price nonce estimate =
     (case runner_create source data value (ucast gas_limit) gas_price nonce (evm_config_for conf estimate) of
        Inl err \<Rightarrow> Inl (into err)
      | Inr info \<Rightarrow> Inr info)"

definition current_all :: "('s \<Rightarrow> 'block option) \<Rightarrow> ('s \<Rightarrow> 'rec option) \<Rightarrow> ('s \<Rightarrow> 'st option) \<Rightarrow> 's \<Rightarrow>
    'block option \<times> 'rec option \<times> 'st option" where
  "current_all current_block current_receipts current_transaction_statuses s =
     (current_block s, current_receipts s, current_transaction_statuses s)"

lemma evm_config_for_eq: "evm_config_for conf estimate = conf\<lparr>evm_estimate := estimate \<or> evm_estimate conf\<rparr>"
  by (simp add: evm_config_for_def)

section \<open>The Halongbay runtime\<close>

text \<open>
  The two own pallets of Halongbay share the balances of the chain: the crowdloan pallet pays its
  rewards from the account of the treasury pallet (\<^verbatim>\<open>pallet_crowdloan_rewards::Config\<close> extends
  \<^verbatim>\<open>pallet_treasury::Config\<close>). An error of a pallet is reported under the pallet's index. The calls below are
  those of these two pallets. The other pallets of the runtime are library pallets; some of their
  calls (of Balances, Sudo, EVM) move balances too and are not part of this dispatch.
\<close>

record ('acc, 'relay, 'c) halongbay_state =
  hb_block :: BlockNumber
  hb_balances :: 'c
  hb_crowdloan :: "('acc, 'relay, 'c) crowdloan_state"
  hb_treasury_events :: "'acc treasury_event list"

datatype ('acc, 'relay, 'sig) halongbay_call =
    Crowdloan "('acc, 'relay, 'sig) crowdloan_call"
  | Treasury_donate Balance
  | Treasury_allocate 'acc Balance

datatype halongbay_error = CrowdloanError crowdloan_error | TreasuryError treasury_error

definition module_index :: "halongbay_error \<Rightarrow> nat option" where
  "module_index e = (case e of CrowdloanError _ \<Rightarrow> pallet_index Halongbay ''Crowdloan''
     | TreasuryError _ \<Rightarrow> pallet_index Halongbay ''Treasury'')"

fun into_outcome :: "('e \<Rightarrow> halongbay_error) \<Rightarrow> 'e outcome \<Rightarrow> halongbay_error outcome" where
  "into_outcome f Ok = Ok"
| "into_outcome f (Err BadOrigin) = Err BadOrigin"
| "into_outcome f (Err (Module e)) = Err (Module (f e))"
| "into_outcome f Panic = Panic"

definition crowdloan_view :: "('acc, 'relay, 'c) halongbay_state \<Rightarrow> ('acc, 'relay, 'c) crowdloan_state" where
  "crowdloan_view s = (hb_crowdloan s)\<lparr>cl_currency := hb_balances s\<rparr>"

definition treasury_view :: "('acc, 'relay, 'c) halongbay_state \<Rightarrow> ('acc, 'c) treasury_state" where
  "treasury_view s = \<lparr>tr_currency = hb_balances s, tr_events = hb_treasury_events s\<rparr>"

definition put_crowdloan ::
    "('acc, 'relay, 'c) crowdloan_state \<Rightarrow> ('acc, 'relay, 'c) halongbay_state \<Rightarrow> ('acc, 'relay, 'c) halongbay_state" where
  "put_crowdloan c s = s\<lparr>hb_crowdloan := c, hb_balances := cl_currency c\<rparr>"

definition put_treasury ::
    "('acc, 'c) treasury_state \<Rightarrow> ('acc, 'relay, 'c) halongbay_state \<Rightarrow> ('acc, 'relay, 'c) halongbay_state" where
  "put_treasury t s = s\<lparr>hb_balances := tr_currency t, hb_treasury_events := tr_events t\<rparr>"

fun halongbay_dispatch ::
    "('acc, 'relay, 'sig, 'c) crowdloan_config \<Rightarrow> 'acc raw_origin \<Rightarrow> ('acc, 'relay, 'sig) halongbay_call \<Rightarrow>
     ('acc, 'relay, 'c) halongbay_state \<Rightarrow> ('acc, 'relay, 'c) halongbay_state \<times> halongbay_error outcome" where
  "halongbay_dispatch cfg origin (Crowdloan call) s =
     (let (c, out) = crowdloan_dispatch cfg origin (hb_block s) call (crowdloan_view s)
      in (put_crowdloan c s, into_outcome CrowdloanError out))"
| "halongbay_dispatch cfg origin (Treasury_donate amt) s =
     (let (t, out) = donate (cl_treasury cfg) origin amt (treasury_view s)
      in (put_treasury t s, into_outcome TreasuryError out))"
| "halongbay_dispatch cfg origin (Treasury_allocate dest amt) s =
     (let (t, out) = allocate (cl_treasury cfg) origin dest amt (treasury_view s)
      in (put_treasury t s, into_outcome TreasuryError out))"

abbreviation treasury_balance ::
    "('acc, 'relay, 'sig, 'c) crowdloan_config \<Rightarrow> ('acc, 'relay, 'c) halongbay_state \<Rightarrow> Balance" where
  "treasury_balance cfg s \<equiv>
     free_balance (tr_Currency (cl_treasury cfg)) (hb_balances s) (account_id (cl_treasury cfg))"

lemma into_outcome_Ok [simp]: "into_outcome f x = Ok \<longleftrightarrow> x = Ok"
  by (cases "(f, x)" rule: into_outcome.cases) auto

lemma get_money_currency:
  assumes "transfer_documented (tr_Currency (cl_treasury cfg))"
  shows "cl_currency (fst (get_money cfg origin now s)) = cl_currency s \<or>
    (snd (get_money cfg origin now s) = Ok \<and>
     (\<exists>who r info. origin = Signed who \<and> AssociatedAccount s who = Some r \<and> Contributors s r = Some info \<and>
        claimed_reward info < total_reward info))"
  using assms
  by (auto simp: get_money_def Let_def split: option.splits prod.splits bool.splits dest: transfer_False)

lemma crowdloan_currency:
  assumes "transfer_documented (tr_Currency (cl_treasury cfg))"
    and "cl_currency (fst (crowdloan_dispatch cfg origin now call s)) \<noteq> cl_currency s"
  shows "call = Call_get_money \<and> snd (crowdloan_dispatch cfg origin now call s) = Ok \<and>
     (\<exists>who r info. origin = Signed who \<and> AssociatedAccount s who = Some r \<and> Contributors s r = Some info \<and>
        claimed_reward info < total_reward info)"
proof (cases call)
  case Call_get_money
  then show ?thesis using get_money_currency [OF assms(1), of origin now s] assms(2) by auto
qed (use assms(2) in \<open>auto simp: initialize_reward_def associate_account_def update_associate_account_def Let_def
      split: option.splits if_splits\<close>)

text \<open>C31: The two own pallets of the composed runtime guard the treasury: whatever call of the crowdloan or
  the treasury pallet anyone but the treasury account itself makes, the free balance of the treasury
  changes only by a successful root allocation, by a successful claim of an account tied to a
  contributor that has not yet claimed its whole reward, or by a successful donation, which adds
  exactly the donated amount. Calls of library pallets are not covered.\<close>

theorem treasury_guarded:
  assumes "transfer_documented (tr_Currency (cl_treasury cfg))"
    and "origin \<noteq> Signed (account_id (cl_treasury cfg))"
    and "halongbay_dispatch cfg origin call s = (s', out)" and "treasury_balance cfg s' \<noteq> treasury_balance cfg s"
  shows "out = Ok \<and>
    ((\<exists>dest v. call = Treasury_allocate dest v \<and> origin = Root) \<or>
     (call = Crowdloan Call_get_money \<and>
      (\<exists>who r info. origin = Signed who \<and> AssociatedAccount (hb_crowdloan s) who = Some r \<and>
         Contributors (hb_crowdloan s) r = Some info \<and> claimed_reward info < total_reward info)) \<or>
     (\<exists>v. call = Treasury_donate v \<and> treasury_balance cfg s' = treasury_balance cfg s + v))"
proof (cases call)
  case (Crowdloan c)
  let ?d = "crowdloan_dispatch cfg origin (hb_block s) c (crowdloan_view s)"
  have s': "s' = put_crowdloan (fst ?d) s" "out = into_outcome CrowdloanError (snd ?d)"
    using assms(3) Crowdloan by (auto simp: case_prod_beta)
  then have "cl_currency (fst ?d) \<noteq> cl_currency (crowdloan_view s)"
    using assms(4) by (auto simp: put_crowdloan_def crowdloan_view_def)
  note paid = crowdloan_currency [OF assms(1) this]
  have "out = Ok" unfolding s'(2) into_outcome_Ok using paid by (rule conjunct1 [OF conjunct2])
  moreover have "AssociatedAccount (crowdloan_view s) = AssociatedAccount (hb_crowdloan s)"
    "Contributors (crowdloan_view s) = Contributors (hb_crowdloan s)" by (simp_all add: crowdloan_view_def)
  ultimately show ?thesis using paid Crowdloan by auto
next
  case (Treasury_donate v)
  then show ?thesis using assms
    by (auto simp: donate_def put_treasury_def treasury_view_def ensure_signed_def split: raw_origin.splits prod.splits bool.splits if_splits
        dest: transfer_False transfer_True(3))
next
  case (Treasury_allocate dest v)
  then show ?thesis using assms
    by (auto simp: allocate_def put_treasury_def treasury_view_def ensure_root_def split: raw_origin.splits prod.splits bool.splits if_splits
        dest: transfer_False)
qed

definition demo_halongbay :: "(nat, nat, ledger) halongbay_state" where
  "demo_halongbay = \<lparr>hb_block = 13, hb_balances = cl_currency demo_cl2, hb_crowdloan = demo_cl2, hb_treasury_events = []\<rparr>"

lemma demo_donation:
  "halongbay_dispatch demo_crowdloan (Signed 1) (Treasury_donate 100) demo_halongbay =
    (fst (halongbay_dispatch demo_crowdloan (Signed 1) (Treasury_donate 100) demo_halongbay), Ok)"
  "treasury_balance demo_crowdloan (fst (halongbay_dispatch demo_crowdloan (Signed 1) (Treasury_donate 100) demo_halongbay)) = 5100"
  "treasury_balance demo_crowdloan demo_halongbay = 5000"
  by (simp_all add: demo_halongbay_def donate_def treasury_view_def put_treasury_def demo_crowdloan_def demo_treasury_def
      demo_cl2_eq demo_cl1_eq demo_cl0_def ledger_currency_def ledger_of_def ensure_signed_def case_prod_beta Let_def)

theorem treasury_guarded_witness:
  "\<exists>v. Treasury_donate 100 = Treasury_donate v \<and>
     treasury_balance demo_crowdloan (fst (halongbay_dispatch demo_crowdloan (Signed 1) (Treasury_donate 100) demo_halongbay)) =
     treasury_balance demo_crowdloan demo_halongbay + v"
proof -
  have "transfer_documented (tr_Currency (cl_treasury demo_crowdloan))" "Signed 1 \<noteq> Signed (account_id (cl_treasury demo_crowdloan))"
    by (simp_all add: demo_crowdloan_def demo_treasury_def ledger_currency_transfer)
  from treasury_guarded [OF this demo_donation(1)] demo_donation(2,3) show ?thesis by auto
qed

end
