(* ===== verification/Author_Inherent.thy ===== *)
theory Author_Inherent
  imports Staking_Demo
begin

text \<open>
  The author-inherent pallet (\<^verbatim>\<open>pallets/author-inherent/src/lib.rs\<close>): the author of a block is set once per
  block by an inherent, a block without one cannot be finalized, and the inherent data the node
  provides is turned into the call. The codec of accounts and byte vectors and the container of
  inherent data belong to libraries and are parameters. The traits \<^verbatim>\<open>EventHandler\<close> and \<^verbatim>\<open>CanAuthor\<close> are the locale
  \<open>authorship\<close>, interpreted for \<^verbatim>\<open>()\<close> and for the staking pallet.
\<close>

section \<open>The pallet\<close>

datatype author_error = AuthorAlreadySet | CannotBeAuthor

datatype InherentError = Other string

datatype 'acc author_call = Call_set_author 'acc

type_synonym inherent_identifier = string

definition ENGINE_ID :: string where
  "ENGINE_ID = ''auth''"

definition INHERENT_IDENTIFIER :: inherent_identifier where
  "INHERENT_IDENTIFIER = ''author__''"

type_synonym inherent_data = "inherent_identifier \<rightharpoonup> u8 list"

datatype inherent_error = InherentDataExists inherent_identifier | Application string

record 'acc author_codec =
  encode_account :: "'acc \<Rightarrow> u8 list"
  decode_account :: "u8 list \<Rightarrow> 'acc option"
  encode_vec :: "u8 list \<Rightarrow> u8 list"
  decode_vec :: "u8 list \<Rightarrow> u8 list option"
  decode_error :: "u8 list \<Rightarrow> InherentError option"
  show_error :: "InherentError \<Rightarrow> string"

definition codec_documented :: "'acc author_codec \<Rightarrow> bool" where
  "codec_documented codec \<longleftrightarrow>
     (\<forall>a. decode_account codec (encode_account codec a) = Some a) \<and>
     (\<forall>v. decode_vec codec (encode_vec codec v) = Some v)"

record 'acc author_state =
  Author :: "'acc option"
  digest :: "(string \<times> u8 list) list"

definition author_on_initialize :: "'acc author_state \<Rightarrow> 'acc author_state \<times> u64" where
  "author_on_initialize s = (s\<lparr>Author := None\<rparr>, 0)"

definition set_author ::
    "'acc author_codec \<Rightarrow> 'acc raw_origin \<Rightarrow> 'acc \<Rightarrow> 'acc author_state \<Rightarrow> 'acc author_state \<times> author_error outcome" where
  "set_author codec origin author s =
     (if \<not> ensure_none origin then (s, Err BadOrigin)
      else if Author s \<noteq> None then (s, Err (Module AuthorAlreadySet))
      else (s\<lparr>Author := Some author, digest := digest s @ [(ENGINE_ID, encode_account codec author)]\<rparr>, Ok))"

text \<open>The assertion of the hook is the \<open>Panic\<close> outcome.\<close>

definition author_on_finalize :: "'acc author_state \<Rightarrow> author_error outcome" where
  "author_on_finalize s = (if Author s \<noteq> None then Ok else Panic)"

text \<open>
  \<^verbatim>\<open>find_author\<close> takes the bytes 4 to 24 of the encoded author; slicing a shorter encoding panics
  (\<open>None\<close> inside the \<open>Some\<close>).
\<close>

definition find_author :: "'acc author_codec \<Rightarrow> 'acc author_state \<Rightarrow> u8 list option option" where
  "find_author codec s =
     map_option (\<lambda>authority_id. let bytes = encode_account codec authority_id in
       if length bytes < 24 then None else Some (drop 4 (take 24 bytes))) (Author s)"

definition is_fatal_error :: "InherentError \<Rightarrow> bool" where
  "is_fatal_error e = (case e of Other _ \<Rightarrow> True)"

definition InherentError_try_from :: "'acc author_codec \<Rightarrow> inherent_identifier \<Rightarrow> u8 list \<Rightarrow> InherentError option" where
  "InherentError_try_from codec ident data = (if ident = INHERENT_IDENTIFIER then decode_error codec data else None)"

text \<open>
  The library's \<^verbatim>\<open>InherentData::put_data\<close> is a parameter. It is documented to store the encoded data under an identifier
  that has none yet, and to return an error otherwise.
\<close>

type_synonym put_data_op = "inherent_identifier \<Rightarrow> u8 list \<Rightarrow> inherent_data \<Rightarrow> inherent_data \<times> inherent_error option"

definition put_data_documented :: "put_data_op \<Rightarrow> bool" where
  "put_data_documented put_data \<longleftrightarrow>
     (\<forall>i bytes d. d i = None \<longrightarrow> put_data i bytes d = (d(i \<mapsto> bytes), None)) \<and>
     (\<forall>i bytes d. d i \<noteq> None \<longrightarrow> (\<exists>e. put_data i bytes d = (d, Some e)))"

definition provide_inherent_data ::
    "put_data_op \<Rightarrow> 'acc author_codec \<Rightarrow> u8 list \<Rightarrow> inherent_data \<Rightarrow> inherent_data \<times> inherent_error option" where
  "provide_inherent_data put_data codec self d = put_data INHERENT_IDENTIFIER (encode_vec codec self) d"

definition try_handle_error ::
    "'acc author_codec \<Rightarrow> inherent_identifier \<Rightarrow> u8 list \<Rightarrow> inherent_error option" where
  "try_handle_error codec identifier error =
     (if identifier \<noteq> INHERENT_IDENTIFIER then None
      else map_option (\<lambda>e. Application (show_error codec e)) (decode_error codec error))"

definition is_inherent_required :: "inherent_data \<Rightarrow> InherentError option" where
  "is_inherent_required d = Some (Other ''AuthorInherentRequired'')"

text \<open>\<^verbatim>\<open>create_inherent\<close>: \<open>Inr\<close> is its result, \<open>Inl ()\<close> a failed \<^verbatim>\<open>expect\<close>.\<close>

definition create_inherent :: "'acc author_codec \<Rightarrow> inherent_data \<Rightarrow> unit + 'acc author_call option" where
  "create_inherent codec d =
     (case d INHERENT_IDENTIFIER of
        None \<Rightarrow> Inr None
      | Some bytes \<Rightarrow>
          (case decode_vec codec bytes of
             None \<Rightarrow> Inl ()
           | Some author_raw \<Rightarrow>
               (case decode_account codec author_raw of
                  None \<Rightarrow> Inl ()
                | Some author \<Rightarrow> Inr (Some (Call_set_author author)))))"

definition check_inherent :: "'acc author_call \<Rightarrow> inherent_data \<Rightarrow> InherentError option" where
  "check_inherent call d = None"

definition is_inherent :: "'acc author_call \<Rightarrow> bool" where
  "is_inherent call = (case call of Call_set_author _ \<Rightarrow> True)"

section \<open>Other pallets and authorship\<close>

text \<open>The implementations of the two traits for \<^verbatim>\<open>()\<close>.\<close>

definition unit_note_author :: "'acc \<Rightarrow> 's \<Rightarrow> 's" where
  "unit_note_author author s = s"

definition unit_can_author :: "'s \<Rightarrow> 'acc \<Rightarrow> bool" where
  "unit_can_author s account = True"

locale authorship =
  fixes noted :: "'acc \<Rightarrow> 's \<Rightarrow> 's" and eligible :: "'s \<Rightarrow> 'acc \<Rightarrow> bool"
  assumes eligible_note: "eligible (noted a s) = eligible s"
begin

lemma eligible_notes: "eligible (fold noted authors s) = eligible s"
  by (induction authors arbitrary: s) (simp_all add: eligible_note)

end

interpretation unit_authorship: authorship unit_note_author unit_can_author
  by unfold_locales (simp add: fun_eq_iff unit_can_author_def)

lemma note_author_simps [simp]:
  "Collators (note_author cfg a s) = Collators s" "CurrentRound (note_author cfg a s) = CurrentRound s"
  by (simp_all add: note_author_def Let_def)

interpretation staking_authorship: authorship "note_author cfg" can_author for cfg
  by unfold_locales (simp add: fun_eq_iff can_author_def)

lemma note_author_points:
  "points_of (note_author cfg a s) r b =
     points_of s r b + (if r = ri_index (CurrentRound s) \<and> b = a then 20 else 0)"
  by (auto simp: note_author_def Let_def points_of_def)

lemma note_author_total:
  "TotalPoints (note_author cfg a s) r = TotalPoints s r + (if r = ri_index (CurrentRound s) then 20 else 0)"
  by (simp add: note_author_def Let_def)

text \<open>Noting the authors of a sequence of blocks gives each of them 20 points per block in the current
  round, adds 20 points per block to the total of that round, leaves every other round alone, and
  does not change who may author.\<close>

theorem authors_get_points:
  "(\<forall>r b. points_of (fold (note_author cfg) authors s) r b =
      points_of s r b + (if r = ri_index (CurrentRound s) then 20 * of_nat (count_list authors b) else 0)) \<and>
   (\<forall>r. TotalPoints (fold (note_author cfg) authors s) r =
      TotalPoints s r + (if r = ri_index (CurrentRound s) then 20 * of_nat (length authors) else 0)) \<and>
   can_author (fold (note_author cfg) authors s) = can_author s"
proof -
  have "points_of (fold (note_author cfg) authors s) r b =
      points_of s r b + (if r = ri_index (CurrentRound s) then 20 * of_nat (count_list authors b) else 0)" for r b
    by (induction authors arbitrary: s) (auto simp: note_author_points algebra_simps)
  moreover have "TotalPoints (fold (note_author cfg) authors s) r =
      TotalPoints s r + (if r = ri_index (CurrentRound s) then 20 * of_nat (length authors) else 0)" for r
    by (induction authors arbitrary: s) (auto simp: note_author_total algebra_simps)
  ultimately show ?thesis using staking_authorship.eligible_notes by blast
qed

section \<open>Properties\<close>

text \<open>A block: initialization, the dispatched author calls with their origins, finalization.\<close>

fun author_calls :: "'acc author_codec \<Rightarrow> ('acc raw_origin \<times> 'acc) list \<Rightarrow> 'acc author_state \<Rightarrow> 'acc author_state" where
  "author_calls codec [] s = s"
| "author_calls codec ((origin, a) # cs) s = author_calls codec cs (fst (set_author codec origin a s))"

definition author_block ::
    "'acc author_codec \<Rightarrow> ('acc raw_origin \<times> 'acc) list \<Rightarrow> 'acc author_state \<Rightarrow> 'acc author_state \<times> author_error outcome" where
  "author_block codec cs s =
     (let s1 = author_calls codec cs (fst (author_on_initialize s)) in (s1, author_on_finalize s1))"

lemma author_calls_set: "Author s \<noteq> None \<Longrightarrow> author_calls codec cs s = s"
  by (induction codec cs s rule: author_calls.induct) (auto simp: set_author_def)

lemma author_calls_first:
  "Author s = None \<Longrightarrow>
   Author (author_calls codec cs s) = (case filter (\<lambda>(o', a). o' = NoneOrigin) cs of [] \<Rightarrow> None | (_, a) # _ \<Rightarrow> Some a) \<and>
   digest (author_calls codec cs s) =
     digest s @ (case filter (\<lambda>(o', a). o' = NoneOrigin) cs of [] \<Rightarrow> [] | (_, a) # _ \<Rightarrow> [(ENGINE_ID, encode_account codec a)])"
  by (induction codec cs s rule: author_calls.induct) (auto simp: set_author_def author_calls_set)

text \<open>C33: A block is finalized if and only if some unsigned \<^verbatim>\<open>set_author\<close> ran in it, whatever the author of the
  block before and whatever signed calls were tried. The author is then the one of the first such
  call, later calls change nothing, and exactly one digest item, naming that author, is logged.\<close>

theorem author_block_correct:
  "case filter (\<lambda>(o', a). o' = NoneOrigin) cs of
     [] \<Rightarrow> snd (author_block codec cs s) = Panic \<and> digest (fst (author_block codec cs s)) = digest s
   | (_, a) # _ \<Rightarrow> snd (author_block codec cs s) = Ok \<and> Author (fst (author_block codec cs s)) = Some a \<and>
       digest (fst (author_block codec cs s)) = digest s @ [(ENGINE_ID, encode_account codec a)]"
  using author_calls_first [of "s\<lparr>Author := None\<rparr>" codec cs]
  by (auto simp: author_block_def author_on_initialize_def author_on_finalize_def Let_def split: list.splits)

text \<open>C34: What the node puts into the inherent data comes out as the call: if no data is there under the
  pallet's identifier, providing the encoded author and creating the inherent gives the call that
  sets that author, the pallet recognises it as its inherent, and the unsigned call sets it.\<close>

theorem inherent_roundtrip:
  assumes "codec_documented codec" and "put_data_documented put_data" and "d INHERENT_IDENTIFIER = None"
  shows "\<exists>d'. provide_inherent_data put_data codec (encode_account codec a) d = (d', None) \<and>
    create_inherent codec d' = Inr (Some (Call_set_author a)) \<and> is_inherent (Call_set_author a) \<and>
    (\<forall>i. i \<noteq> INHERENT_IDENTIFIER \<longrightarrow> d' i = d i) \<and> check_inherent (Call_set_author a) d' = None \<and>
    Author (fst (set_author codec NoneOrigin a (fst (author_on_initialize s)))) = Some a"
  using assms
  by (simp add: provide_inherent_data_def put_data_documented_def create_inherent_def codec_documented_def is_inherent_def
      check_inherent_def set_author_def author_on_initialize_def)

definition byte_codec :: "u8 author_codec" where
  "byte_codec = \<lparr>encode_account = (\<lambda>a. [a]), decode_account = (\<lambda>bs. case bs of b # _ \<Rightarrow> Some b | [] \<Rightarrow> None),
     encode_vec = (\<lambda>v. of_nat (length v) # v), decode_vec = (\<lambda>bs. case bs of _ # v \<Rightarrow> Some v | [] \<Rightarrow> None),
     decode_error = (\<lambda>bs. None), show_error = (\<lambda>e. '''')\<rparr>"

definition map_put_data :: put_data_op where
  "map_put_data i bytes d = (if d i = None then (d(i \<mapsto> bytes), None) else (d, Some (InherentDataExists i)))"

theorem inherent_roundtrip_witness:
  "\<exists>d'. provide_inherent_data map_put_data byte_codec [7] Map.empty = (d', None) \<and>
     create_inherent byte_codec d' = Inr (Some (Call_set_author 7))"
proof -
  have "codec_documented byte_codec" by (simp add: codec_documented_def byte_codec_def)
  moreover have "put_data_documented map_put_data" by (simp add: put_data_documented_def map_put_data_def)
  ultimately show ?thesis using inherent_roundtrip [of byte_codec map_put_data Map.empty 7 "\<lparr>Author = None, digest = []\<rparr>"]
    by (auto simp: byte_codec_def)
qed

end
