(* ===== verification/Mocks.thy ===== *)
theory Mocks
  imports Runtime_Compose Staking_Storage Author_Inherent
begin

text \<open>
  The mock runtimes of the pallets' unit tests (\<^verbatim>\<open>pallets/*/src/mock.rs\<close>) as concrete configurations of the
  models, and the scenarios of the unit tests (\<^verbatim>\<open>pallets/*/src/tests.rs\<close>) replayed on them: what the tests
  assert of the code holds of the models. The balances pallet of the mocks is the concrete ledger;
  the account of the treasury and the relay-chain keys are distinct numbers.
\<close>

section \<open>The treasury tests\<close>

definition ONE_COIN_UNIT :: Balance where
  "ONE_COIN_UNIT = 1000000000000"

definition MINIMUM_BALANCE :: Balance where
  "MINIMUM_BALANCE = 500"

definition treasury_Test :: "nat \<Rightarrow> (nat, ledger) treasury_config" where
  "treasury_Test treasury_account = \<lparr>tr_Currency = ledger_currency 500, account_id = treasury_account\<rparr>"

definition treasury_mock_test :: "(nat, ledger) treasury_state" where
  "treasury_mock_test = \<lparr>tr_currency = ledger_of [(1, 1000 * ONE_COIN_UNIT), (2, 1000 * ONE_COIN_UNIT)], tr_events = []\<rparr>"

lemmas treasury_test_defs = treasury_Test_def treasury_mock_test_def donate_def allocate_def pot_def ledger_currency_def
  ledger_of_def ensure_signed_def ensure_root_def ONE_COIN_UNIT_def MINIMUM_BALANCE_def saturating_sub_def Let_def

lemma treasury_errors_tests:
  assumes "t \<noteq> 1" "t \<noteq> 2" "t \<noteq> 3"
  shows "donate (treasury_Test t) (Signed 1) 1 treasury_mock_test = (treasury_mock_test, Err (Module ScantyAmount))"
    and "allocate (treasury_Test t) Root 1 1 treasury_mock_test = (treasury_mock_test, Err (Module ScantyAmount))"
    and "allocate (treasury_Test t) Root 1 (100000 * ONE_COIN_UNIT) treasury_mock_test =
      (treasury_mock_test, Err (Module FailedAllocation))"
    and "donate (treasury_Test t) (Signed 1) (1000000 * ONE_COIN_UNIT) treasury_mock_test =
      (treasury_mock_test, Err (Module FailedDonation))"
  using assms by (simp_all add: treasury_test_defs word_le_nat_alt)

lemma treasury_work_tests:
  assumes "t \<noteq> 1" "t \<noteq> 2" "t \<noteq> 3"
  defines "s1 \<equiv> donate (treasury_Test t) (Signed 1) (100 * ONE_COIN_UNIT) treasury_mock_test"
  defines "s2 \<equiv> allocate (treasury_Test t) Root 3 (50 * ONE_COIN_UNIT) (fst s1)"
  shows "snd s1 = Ok" and "snd s2 = Ok"
    and "tr_events (fst s2) =
      [DonationReceived 1 (100 * ONE_COIN_UNIT) (100 * ONE_COIN_UNIT - MINIMUM_BALANCE),
       FundsAllocated 3 (50 * ONE_COIN_UNIT) (50 * ONE_COIN_UNIT - MINIMUM_BALANCE)]"
  using assms by (simp_all add: treasury_test_defs)

section \<open>The crowdloan tests\<close>

text \<open>
  A signature of the mock is the key that signed with the account it signed for. The runtime of the
  crowdloan mock holds the balances, the crowdloan and the treasury pallet, like that of Halongbay.
\<close>

definition crowdloan_Test :: "nat \<Rightarrow> (nat, nat, nat \<times> nat, ledger) crowdloan_config" where
  "crowdloan_Test treasury_account =
     \<lparr>cl_treasury = \<lparr>tr_Currency = ledger_currency 1, account_id = treasury_account\<rparr>,
      verify = (\<lambda>(key, msg) who relay. key = relay \<and> msg = who)\<rparr>"

definition crowdloan_ext_build :: "(nat \<times> u32) list \<Rightarrow> (nat, nat, ledger) halongbay_state" where
  "crowdloan_ext_build contributions =
     (let balances = ledger_of [(100, 100000000)];
          empty = \<lparr>Contributors = Map.empty, AssociatedAccount = Map.empty, CurrentRewardEndIn = 0, RewardPeriod = 0,
                   cl_currency = balances, cl_events = []\<rparr>
      in \<lparr>hb_block = 1, hb_balances = balances, hb_crowdloan = fst (initialize_reward Root 0 contributions 10 10 empty),
          hb_treasury_events = []\<rparr>)"

definition crowdloan_mock_test :: "nat list \<Rightarrow> (nat, nat, ledger) halongbay_state" where
  "crowdloan_mock_test pairs = crowdloan_ext_build [(1, 500), (2, 500), (pairs ! 0, 500)]"

definition crowdloan_run_to_block :: "BlockNumber \<Rightarrow> (nat, nat, ledger) halongbay_state \<Rightarrow> (nat, nat, ledger) halongbay_state" where
  "crowdloan_run_to_block n s = (if hb_block s < n then s\<lparr>hb_block := n\<rparr> else s)"

text \<open>A test is a sequence of calls, each at a block, with the outcomes it asserts.\<close>

fun replay ::
    "(nat, nat, nat \<times> nat, ledger) crowdloan_config \<Rightarrow>
     (BlockNumber \<times> nat raw_origin \<times> (nat, nat, nat \<times> nat) halongbay_call) list \<Rightarrow>
     (nat, nat, ledger) halongbay_state \<Rightarrow> (nat, nat, ledger) halongbay_state \<times> halongbay_error outcome list" where
  "replay cfg [] s = (s, [])"
| "replay cfg ((n, origin, call) # calls) s =
     (let (s1, out) = halongbay_dispatch cfg origin call (crowdloan_run_to_block n s);
          (s2, outs) = replay cfg calls s1
      in (s2, out # outs))"

lemmas crowdloan_test_defs = crowdloan_Test_def crowdloan_ext_build_def crowdloan_mock_test_def crowdloan_run_to_block_def
  initialize_reward_def associate_account_def update_associate_account_def get_money_def donate_def pot_def
  crowdloan_view_def treasury_view_def put_crowdloan_def put_treasury_def
  ensure_signed_def ensure_root_def ledger_currency_def ledger_of_def saturating_sub_def saturating_add_def saturating_mul_def Let_def

abbreviation cl_err :: "crowdloan_error \<Rightarrow> halongbay_error outcome" where
  "cl_err e \<equiv> Err (Module (CrowdloanError e))"

lemma init_reward_test:
  "snd (replay (crowdloan_Test 0)
     [(1, Root, Crowdloan (Call_initialize_reward [(1, 500), (2, 500)] 10 10)),
      (10, Root, Crowdloan (Call_initialize_reward [(1, 500), (2, 500)] 10 10)),
      (10, Root, Crowdloan (Call_initialize_reward [(1, 500), (2, 500)] 10 20))]
     (crowdloan_mock_test [7, 8])) =
   [cl_err AlreadyInitReward, cl_err InvalidEndBlock, Ok]"
  by (simp add: crowdloan_test_defs word_le_nat_alt)

lemma get_money_test:
  "map_prod (\<lambda>s. cl_events (hb_crowdloan s)) id (replay (crowdloan_Test 0)
     [(1, Signed 100, Treasury_donate 10000000),
      (1, Signed 1, Crowdloan Call_get_money),
      (1, Signed 11, Crowdloan (Call_associate_account 8 (8, 11))),
      (1, Signed 11, Crowdloan Call_get_money),
      (1, Signed 1, Crowdloan (Call_associate_account 7 (7, 1))),
      (2, Signed 1, Crowdloan Call_get_money),
      (2, Signed 1, Crowdloan Call_get_money),
      (8, Signed 1, Crowdloan Call_get_money),
      (11, Signed 1, Crowdloan Call_get_money),
      (11, Signed 1, Crowdloan Call_get_money)]
     (crowdloan_mock_test [7, 8])) =
   ([EvAssociatedAccount 11 8, EvAssociatedAccount 1 7, EvRewardPaid 1 1000, EvRewardPaid 1 3000, EvRewardPaid 1 1000],
    [Ok, cl_err NoAssociatedAccount, Ok, cl_err NotContributedYet, Ok, Ok, cl_err ScantyReward, Ok, Ok, cl_err AlreadyPaid])"
  by (simp add: crowdloan_test_defs)

lemma update_associate_account_test:
  "snd (replay (crowdloan_Test 0)
     [(1, Signed 100, Treasury_donate 10000000),
      (1, Signed 1, Crowdloan (Call_associate_account 7 (7, 1))),
      (1, Signed 2, Crowdloan (Call_update_associate_account 1 8 (8, 2))),
      (1, Signed 2, Crowdloan (Call_update_associate_account 1 7 (8, 2))),
      (1, Signed 2, Crowdloan (Call_update_associate_account 2 8 (8, 2))),
      (5, Signed 1, Crowdloan Call_get_money),
      (5, Signed 3, Crowdloan (Call_update_associate_account 1 7 (7, 3))),
      (6, Signed 3, Crowdloan Call_get_money),
      (6, Signed 1, Crowdloan Call_get_money)]
     (crowdloan_mock_test [7, 8])) =
   [Ok, Ok, cl_err BadRelayAccount, cl_err InvalidSignature, cl_err NoAssociatedAccount, Ok, Ok, Ok, cl_err NoAssociatedAccount]"
  by (simp add: crowdloan_test_defs)

section \<open>The staking tests\<close>

definition staking_Test :: "(nat, ledger, nat, nat) staking_config" where
  "staking_Test =
     \<lparr>Currency = ledger_currency 1, BlocksPerRound = 10, MAX_COLLATORS_PER_NOMINATOR = 5, MaxNominationsPerCollator = 2,
      BondDuration = 2, MinCollatorStake = 500, MinNominatorStake = 100, PayoutDuration = 2,
      to_vote = (\<lambda>v issuance. if v > 2 ^ 64 - 1 then 2 ^ 64 - 1 else ucast v), to_currency = (\<lambda>v issuance. v),
      DesiredTarget = 2, key_before = (<), Perbill = perbill, BigUint = nat_biguint, db_reads = (\<lambda>n. 0)\<rparr>"

definition staking_ext_build :: "(nat \<times> Balance) list \<Rightarrow> (nat \<times> Balance) list \<Rightarrow> (nat \<times> (nat, ledger) staking_state) option" where
  "staking_ext_build balances stakers =
     map_option (Pair 1) (build staking_Test stakers (default_state (ledger_of balances)))"

definition staking_mock_test :: "(nat \<times> (nat, ledger) staking_state) option" where
  "staking_mock_test =
     staking_ext_build
       [(1, 1000), (2, 500), (3, 800), (100, 5000), (200, 2000), (300, 3000), (400, 3000),
        (10, 1000), (20, 500), (30, 800), (999, 200000000)]
       [(100, 500), (200, 500), (300, 600), (400, 400)]"

text \<open>The hooks of the other pallets of the mock do not touch the staking pallet.\<close>

function run_to_block ::
    "(nat \<Rightarrow> (nat Supports \<times> Weight) option) \<Rightarrow> nat \<Rightarrow> nat \<times> (nat, ledger) staking_state \<Rightarrow> nat \<times> (nat, ledger) staking_state" where
  "run_to_block el n (block_number, s) =
     (if block_number < n
      then run_to_block el n (Suc block_number, on_finalize staking_Test (el block_number) (of_nat block_number) s)
      else (block_number, s))"
  by pat_completeness auto
termination by (relation "measure (\<lambda>(el, n, b, s). n - b)") auto

declare run_to_block.simps [simp del]

definition mock_set_author :: "RoundIndex \<Rightarrow> nat \<Rightarrow> RewardPoint \<Rightarrow> (nat, ledger) staking_state \<Rightarrow> (nat, ledger) staking_state" where
  "mock_set_author r acc pts s =
     s\<lparr>TotalPoints := (TotalPoints s)(r := TotalPoints s r + pts),
       CollatorPoints := (CollatorPoints s)
         (r := sm_insert (key_before staking_Test) acc (points_of s r acc + pts) (CollatorPoints s r))\<rparr>"

text \<open>Running to a block finalizes every block before it once: it is the run of the chain without extrinsics.\<close>

lemma run_to_block_run_blocks:
  assumes "b \<le> n" and "1 \<le> b"
  shows "run_to_block el n (b, run_blocks staking_Test (\<lambda>_ t. t) el (b - 1) s) =
    (n, run_blocks staking_Test (\<lambda>_ t. t) el (n - 1) s)"
  using assms
proof (induction "n - b" arbitrary: b)
  case 0
  then show ?case by (simp add: run_to_block.simps)
next
  case (Suc k)
  then have lt: "b < n" and "k = n - Suc b" by linarith+
  have "run_blocks staking_Test (\<lambda>_ t. t) el b s =
      on_finalize staking_Test (el b) (of_nat b) (run_blocks staking_Test (\<lambda>_ t. t) el (b - 1) s)"
    using Suc.prems(2) by (cases b) simp_all
  with Suc.hyps(1) [OF \<open>k = n - Suc b\<close>] lt show ?case
    by (subst run_to_block.simps) (simp del: run_blocks.simps)
qed

text \<open>The test driver runs the chain: for every block number, \<^verbatim>\<open>run_to_block\<close> ends at that block, has
  finalized every earlier block exactly once and in order, and leaves the staking pallet in round
  one plus the number of whole rounds finalized, whatever the elections return.\<close>

theorem run_to_block_rounds:
  assumes "staking_ext_build balances stakers = Some (1, s)" and "1 \<le> n" and "n \<le> 2 ^ 32"
  shows "run_to_block el n (1, s) = (n, run_blocks staking_Test (\<lambda>_ t. t) el (n - 1) s) \<and>
    ri_index (CurrentRound (snd (run_to_block el n (1, s)))) = of_nat (1 + (n - 1) div 10)"
proof -
  have run: "run_to_block el n (1, s) = (n, run_blocks staking_Test (\<lambda>_ t. t) el (n - 1) s)"
    using run_to_block_run_blocks [of 1 n el s] assms(2) by simp
  obtain s0 where "build staking_Test stakers s0 = Some s"
    using assms(1) by (auto simp: staking_ext_build_def)
  from run_blocks_round [OF this, of "n - 1" "\<lambda>_ t. t" el] assms(2,3) run show ?thesis
    by (simp add: staking_Test_def)
qed

text \<open>Genesis leaves an account alone that is not among the stakers, and succeeds if every staker can pay.\<close>

lemma staking_Test_simps [simp]:
  "Currency staking_Test = ledger_currency 1" "BlocksPerRound staking_Test = 10" "BondDuration staking_Test = 2"
  "MinCollatorStake staking_Test = 500" "MinNominatorStake staking_Test = 100" "MaxNominationsPerCollator staking_Test = 2"
  by (simp_all add: staking_Test_def)

lemma ledger_currency_simps [simp]:
  "free_balance (ledger_currency ed) = led_free" "reserved_balance (ledger_currency ed) = led_reserved"
  by (simp_all add: ledger_currency_def)

lemma bond_other:
  assumes "Currency cfg = ledger_currency ed" and "a \<noteq> who"
  shows "led_free (currency (fst (bond cfg (Signed who) v s))) a = led_free (currency s) a"
    and "led_reserved (currency (fst (bond cfg (Signed who) v s))) a = led_reserved (currency s) a"
    and "sm_get (Collators (fst (bond cfg (Signed who) v s))) a = sm_get (Collators s) a"
  using assms by (simp_all add: bond_def Let_def ensure_signed_def ledger_currency_def)

lemma build_stakers_other:
  assumes "build_stakers cfg stakers t s = Some (t', s')" and "Currency cfg = ledger_currency ed" and "a \<notin> fst ` set stakers"
  shows "led_free (currency s') a = led_free (currency s) a \<and> led_reserved (currency s') a = led_reserved (currency s) a \<and>
    sm_get (Collators s') a = sm_get (Collators s) a"
  using assms
  by (induction cfg stakers t s rule: build_stakers.induct) (auto simp: bond_other split: if_splits)

lemma build_stakers_succeeds:
  assumes "Currency cfg = ledger_currency ed" and "distinct (map fst stakers)"
    and "\<And>a v. (a, v) \<in> set stakers \<Longrightarrow> v \<le> led_free (currency s) a"
  shows "build_stakers cfg stakers t s \<noteq> None"
  using assms
proof (induction cfg stakers t s rule: build_stakers.induct)
  case (1 cfg t s)
  then show ?case by simp
next
  case (2 cfg staker balance stakers t s)
  have "v \<le> led_free (currency (fst (bond cfg (Signed staker) balance s))) a" if "(a, v) \<in> set stakers" for a v
  proof -
    have "a \<noteq> staker" using that "2.prems"(2) by (auto simp: image_iff)
    with that show ?thesis using "2.prems"(3) [of a v] bond_other(1) [OF "2.prems"(1)] by simp
  qed
  then show ?case using "2.IH" "2.prems" by auto
qed

lemma staking_mock_test_genesis:
  obtains c s where "staking_mock_test = Some (1, s)"
    and "build staking_Test [(100, 500), (200, 500), (300, 600), (400, 400)] (default_state c) = Some s"
    and "led_free (currency s) 1 = 1000" and "led_reserved (currency s) 1 = 0" and "sm_get (Collators s) 1 = None"
proof -
  define c where "c = ledger_of [(1, 1000), (2, 500), (3, 800), (100, 5000), (200, 2000), (300, 3000), (400, 3000),
        (10, 1000), (20, 500), (30, 800), (999, 200000000)]"
  define stakers :: "(nat \<times> Balance) list" where "stakers = [(100, 500), (200, 500), (300, 600), (400, 400)]"
  have "build_stakers staking_Test stakers 0 (default_state c) \<noteq> None"
    by (rule build_stakers_succeeds) (auto simp: stakers_def c_def default_state_def ledger_of_def)
  then obtain t u where b: "build_stakers staking_Test stakers 0 (default_state c) = Some (t, u)" by auto
  then obtain s where s: "build staking_Test stakers (default_state c) = Some s" "currency s = currency u" "Collators s = Collators u"
    by (auto simp: build_def Let_def)
  have "1 \<notin> fst ` set stakers" by (simp add: stakers_def)
  from build_stakers_other [OF b staking_Test_simps(1) this] that [of s c] s show thesis
    by (simp add: staking_mock_test_def staking_ext_build_def c_def stakers_def default_state_def ledger_of_def)
qed

text \<open>From within a round to the first block of the next one.\<close>

lemma run_to_next_round:
  assumes "CurrentRound s = \<lparr>ri_index = r, ri_start_in = of_nat st, ri_length = 10\<rparr>"
    and "st < b" and "b \<le> st + 10" and "st < 1000"
  shows "run_to_block el (st + 11) (b, s) = (st + 11, on_finalize staking_Test (el (st + 10)) (of_nat (st + 10)) s)"
  using assms(2,3)
proof (induction "st + 10 - b" arbitrary: b)
  case 0
  then have "b = st + 10" by simp
  then show ?case by (simp add: run_to_block.simps)
next
  case (Suc k)
  then have lt: "b < st + 10" and k: "k = st + 10 - Suc b" by linarith+
  have "(of_nat b - of_nat st :: u32) = of_nat (b - st)" using Suc.prems(1) by simp
  moreover have "unat (of_nat (b - st) :: u32) = b - st" using lt by (simp add: unat_of_nat)
  ultimately have "\<not> RoundInfo_should_goto_next_round (CurrentRound s) (of_nat b)"
    using lt Suc.prems(1) by (simp add: RoundInfo_should_goto_next_round_def assms(1) word_le_nat_alt)
  then have "on_finalize staking_Test (el b) (of_nat b) s = s" by (rule on_finalize_not_due)
  then show ?case using Suc.hyps(1) [OF k] lt Suc.prems by (subst run_to_block.simps) simp
qed

text \<open>What the tests look at: the round, the record of account 1 and its reserved balance.\<close>

definition observed ::
    "(nat, ledger) staking_state \<Rightarrow> RoundIndex \<Rightarrow> nat \<Rightarrow> nat StakingCollators option \<Rightarrow> nat \<Rightarrow> bool" where
  "observed s r st c v \<longleftrightarrow>
     staking_reachable staking_Test s \<and> CurrentRound s = \<lparr>ri_index = r, ri_start_in = of_nat st, ri_length = 10\<rparr> \<and>
     Settings s = \<lparr>bond_duration = 2, blocks_per_round = 10, desired_target = 2\<rparr> \<and>
     sm_get (Collators s) 1 = c \<and> sm_get (Nominators s) 1 = None \<and> sm_get (ExitQueue s) 1 = None \<and>
     unat (led_reserved (currency s) 1) = v"

lemma observed_next_round:
  assumes "observed s r st (Some c) v" and "st < b" and "b \<le> st + 10" and "st < 1000"
  shows "\<exists>s'. run_to_block el (st + 11) (b, s) = (st + 11, s') \<and>
    observed s' (r + 1) (st + 10) (Some (updated_collator (r + 1) c)) (v - unat (collator_released (r + 1) c))"
proof (intro exI conjI)
  define now :: BlockNumber where "now = of_nat (st + 10)"
  let ?s = "on_finalize staking_Test (el (st + 10)) now s"
  have reach: "staking_reachable staking_Test s" and co: "sm_get (Collators s) 1 = Some c"
    and no: "sm_get (Nominators s) 1 = None" and ex: "sm_get (ExitQueue s) 1 = None"
    and set: "Settings s = \<lparr>bond_duration = 2, blocks_per_round = 10, desired_target = 2\<rparr>"
    and round: "CurrentRound s = \<lparr>ri_index = r, ri_start_in = of_nat st, ri_length = 10\<rparr>"
    and v: "unat (led_reserved (currency s) 1) = v"
    using assms(1) by (simp_all only: observed_def)
  show "run_to_block el (st + 11) (b, s) = (st + 11, ?s)"
    unfolding now_def by (rule run_to_next_round [OF round assms(2-4)])
  have wf: "distinct (keys (Collators s))" "distinct (keys (Nominators s))" "distinct (keys (ExitQueue s))"
    using storage.reachable_inv [OF reach] by (simp_all only: storage_wf_def)
  have due: "RoundInfo_should_goto_next_round (CurrentRound s) now"
    by (simp add: RoundInfo_should_goto_next_round_def round now_def)
  have doc: "unreserve_documented (Currency staking_Test)" "deposit_documented (Currency staking_Test)"
    by (simp_all add: ledger_currency_unreserve ledger_currency_deposit)
  have paid: "released_to (r + 1) (s\<lparr>CurrentRound := x\<rparr>) 1 = unat (collator_released (r + 1) c)"
      "exit_due (r + 1) (s\<lparr>CurrentRound := x\<rparr>) 1 = 0" for x
    using co no ex by (simp_all add: released_to_def exit_due_def)
  have "unat (led_reserved (currency (round_payments staking_Test (r + 1) (s\<lparr>CurrentRound := x\<rparr>))) 1) =
      v - unat (collator_released (r + 1) c)" for x
    using round_payments_reserved [OF doc, of "s\<lparr>CurrentRound := x\<rparr>" "r + 1" 1] wf v
    unfolding paid by simp
  then have "unat (led_reserved (currency ?s) 1) = v - unat (collator_released (r + 1) c)"
    by (simp add: on_finalize_due [OF due] round)
  moreover note round_change_records [OF due wf, of staking_Test "el (st + 10)" 1, unfolded co no ex round RoundInfo.simps option.map bind.simps]
  moreover have "CurrentRound ?s = \<lparr>ri_index = r + 1, ri_start_in = of_nat (st + 10), ri_length = 10\<rparr>" "Settings ?s = Settings s"
    using due set by (simp_all add: on_finalize_def Let_def RoundInfo_update_def round now_def)
  ultimately show "observed ?s (r + 1) (st + 10) (Some (updated_collator (r + 1) c)) (v - unat (collator_released (r + 1) c))"
    using set reachable_step [OF reach step_finalize] by (simp only: observed_def)
qed

lemma observed_bond:
  assumes "observed s r st None 0" and "led_free (currency s) 1 = 1000" and "500 \<le> v" and "v \<le> 1000"
  shows "snd (bond staking_Test (Signed 1) v s) = Ok"
    and "observed (fst (bond staking_Test (Signed 1) v s)) r st (Some (StakingCollators_new v (r + 1))) (unat v)"
proof -
  show "snd (bond staking_Test (Signed 1) v s) = Ok"
    using assms by (auto simp: observed_def bond_def Let_def ensure_signed_def)
  have "staking_step staking_Test s (fst (staking_dispatch staking_Test (Signed 1) (Call_bond v) s))" by (rule step_call)
  then have "staking_reachable staking_Test (fst (bond staking_Test (Signed 1) v s))"
    using assms(1) reachable_step unfolding observed_def by fastforce
  then show "observed (fst (bond staking_Test (Signed 1) v s)) r st (Some (StakingCollators_new v (r + 1))) (unat v)"
    using assms
    by (auto simp: observed_def bond_def Let_def ensure_signed_def RoundInfo_next_round_index_def ledger_currency_def unat_eq_zero)
qed

text \<open>The result of the reservation does not matter to the record, only to the balance.\<close>

lemma observed_bond_extra:
  assumes "observed s r st (Some c) n" and "co_status c = Active"
  shows "snd (bond_extra staking_Test (Signed 1) v s) = Ok"
    and "\<exists>w. observed (fst (bond_extra staking_Test (Signed 1) v s)) r st (Some (StakingCollators_bond_extra c v (r + 1))) w"
proof -
  show "snd (bond_extra staking_Test (Signed 1) v s) = Ok"
    using assms by (simp add: observed_def bond_extra_def Let_def ensure_signed_def StakingCollators_is_active_def)
  have "staking_step staking_Test s (fst (staking_dispatch staking_Test (Signed 1) (Call_bond_extra v) s))" by (rule step_call)
  then have "staking_reachable staking_Test (fst (bond_extra staking_Test (Signed 1) v s))"
    using assms(1) reachable_step unfolding observed_def by fastforce
  then show "\<exists>w. observed (fst (bond_extra staking_Test (Signed 1) v s)) r st (Some (StakingCollators_bond_extra c v (r + 1))) w"
    using assms
    by (auto simp: observed_def bond_extra_def Let_def ensure_signed_def StakingCollators_is_active_def
        RoundInfo_next_round_index_def)
qed

lemma observed_bond_less:
  assumes "observed s r st (Some c) v" and "co_status c = Active" and "w < co_active c" and "500 \<le> co_active c - w"
  shows "snd (bond_less staking_Test (Signed 1) w s) = Ok"
    and "observed (fst (bond_less staking_Test (Signed 1) w s)) r st
      (Some (c\<lparr>co_active := co_active c - w, co_unbonding := co_unbonding c @ [\<lparr>ub_value = w, ub_round = r + 2\<rparr>]\<rparr>)) v"
proof -
  let ?r = "bond_less staking_Test (Signed 1) w s"
  have r: "?r = (deposit_event (BondLess 1 w) (put_collator staking_Test 1
      (c\<lparr>co_active := co_active c - w, co_unbonding := co_unbonding c @ [\<lparr>ub_value = w, ub_round = r + 2\<rparr>]\<rparr>) s), Ok)"
    using assms by (simp add: observed_def bond_less_def ensure_signed_def StakingCollators_is_active_def
        StakingCollators_bond_less_def withdraw_round_def)
  then show "snd ?r = Ok" by simp
  have "staking_step staking_Test s (fst (staking_dispatch staking_Test (Signed 1) (Call_bond_less w) s))" by (rule step_call)
  then have "staking_reachable staking_Test (fst ?r)"
    using assms(1) reachable_step unfolding observed_def by fastforce
  with r assms(1) show "observed (fst ?r) r st
      (Some (c\<lparr>co_active := co_active c - w, co_unbonding := co_unbonding c @ [\<lparr>ub_value = w, ub_round = r + 2\<rparr>]\<rparr>)) v"
    by (simp add: observed_def)
qed

text \<open>The test \<^verbatim>\<open>bond_less_work\<close>, for all results of the elections at the round changes.\<close>

abbreviation mock_collator :: "Balance \<Rightarrow> Balance \<Rightarrow> UnlockChunk list \<Rightarrow> UnBondChunk list \<Rightarrow> StakerStatus \<Rightarrow> nat StakingCollators" where
  "mock_collator tot active unlocking unbonding status \<equiv>
     \<lparr>co_total = tot, co_active = active, co_nominations = [], co_unlocking = unlocking, co_unbonding = unbonding,
      co_status = status, co_claimed_rewards = []\<rparr>"

lemmas update_defs = updated_collator_def StakingCollators_active_onboard_def StakingCollators_consolidate_active_def
  StakingCollators_consolidate_unbonded_def collator_released_def

lemma mock_start:
  obtains s where "staking_mock_test = Some (1, s)" and "observed s 1 0 None 0" and "led_free (currency s) 1 = 1000"
proof -
  obtain c0 s0 where g: "staking_mock_test = Some (1, s0)"
    and b: "build staking_Test [(100, 500), (200, 500), (300, 600), (400, 400)] (default_state c0) = Some s0"
    and one: "led_free (currency s0) 1 = 1000" "led_reserved (currency s0) 1 = 0" "sm_get (Collators s0) 1 = None"
    by (rule staking_mock_test_genesis)
  have gen: "staking_genesis staking_Test s0" using b unfolding staking_genesis_def by blast
  have "Nominators s0 = []" "ExitQueue s0 = []" by (rule build_maps [OF b])+
  then have "observed s0 1 0 None 0"
    using reachable_init [where init = "staking_genesis staking_Test" and step = "staking_step staking_Test", OF gen] one build_round [OF b]
    by (simp add: observed_def staking_Test_def)
  then show thesis using that g one(1) by blast
qed

lemma bond_less_work_test:
  fixes el
  obtains s1 s2 s3 s4 s5 s6 where
    "\<exists>s0. staking_mock_test = Some (1, s0) \<and> s1 = fst (bond staking_Test (Signed 1) 1000 s0)"
    "bond_less staking_Test (Signed 1) 800 s1 = (s1, Err (Module CandidateNotActive))"
    "run_to_block el 11 (1, s1) = (11, s2)" "snd (bond_less staking_Test (Signed 1) 150 s2) = Ok"
    "run_to_block el 21 (11, fst (bond_less staking_Test (Signed 1) 150 s2)) = (21, s3)"
    "bond_less staking_Test (Signed 1) 800 s3 = (s3, Err (Module BondBelowMin))"
    "bond_less staking_Test (Signed 1) 6000 s3 = (s3, Err (Module Underflow))"
    "s4 = fst (bond_less staking_Test (Signed 1) 100 s3)" "snd (bond_less staking_Test (Signed 1) 100 s3) = Ok"
    "map_option (\<lambda>c. (co_total c, co_active c, co_unbonding c)) (sm_get (Collators s4) 1) =
       Some (1000, 750, [\<lparr>ub_value = 150, ub_round = 4\<rparr>, \<lparr>ub_value = 100, ub_round = 5\<rparr>])"
    "run_to_block el 31 (21, s4) = (31, s5)" "unat (led_reserved (currency s5) 1) = 850"
    "map_option (\<lambda>c. (co_total c, co_active c, co_unbonding c)) (sm_get (Collators s5) 1) =
       Some (850, 750, [\<lparr>ub_value = 100, ub_round = 5\<rparr>])"
    "run_to_block el 41 (31, s5) = (41, s6)" "unat (led_reserved (currency s6) 1) = 750"
    "map_option (\<lambda>c. (co_total c, co_active c, co_unbonding c)) (sm_get (Collators s6) 1) = Some (750, 750, [])"
proof -
  obtain s0 where g: "staking_mock_test = Some (1, s0)" and o0: "observed s0 1 0 None 0" and one: "led_free (currency s0) 1 = 1000"
    by (rule mock_start)
  let ?s1 = "fst (bond staking_Test (Signed 1) 1000 s0)"
  have o1: "observed ?s1 1 0 (Some (mock_collator 1000 0 [\<lparr>ul_value = 1000, ul_round = 2\<rparr>] [] Onboarding)) 1000"
    using observed_bond(2) [OF o0 one, of 1000] by (simp add: StakingCollators_new_def StakerStatus_default_def)
  obtain s2 where r2: "run_to_block el 11 (1, ?s1) = (11, s2)"
    and o2: "observed s2 2 10 (Some (mock_collator 1000 1000 [] [] Active)) 1000"
    using observed_next_round [OF o1, of 1 el] by (auto simp: update_defs)
  note l2 = observed_bond_less [OF o2, of 150]
  obtain s3 where r3: "run_to_block el 21 (11, fst (bond_less staking_Test (Signed 1) 150 s2)) = (21, s3)"
    and o3: "observed s3 3 20 (Some (mock_collator 1000 850 [] [\<lparr>ub_value = 150, ub_round = 4\<rparr>] Active)) 1000"
    using observed_next_round [OF l2(2), of 11 el] by (auto simp: update_defs)
  note l3 = observed_bond_less [OF o3, of 100]
  let ?s4 = "fst (bond_less staking_Test (Signed 1) 100 s3)"
  have o4: "observed ?s4 3 20 (Some (mock_collator 1000 750 []
      [\<lparr>ub_value = 150, ub_round = 4\<rparr>, \<lparr>ub_value = 100, ub_round = 5\<rparr>] Active)) 1000"
    using l3(2) by simp
  obtain s5 where r5: "run_to_block el 31 (21, ?s4) = (31, s5)"
    and o5: "observed s5 4 30 (Some (mock_collator 850 750 [] [\<lparr>ub_value = 100, ub_round = 5\<rparr>] Active)) 850"
    using observed_next_round [OF o4, of 21 el] by (auto simp: update_defs)
  obtain s6 where r6: "run_to_block el 41 (31, s5) = (41, s6)"
    and o6: "observed s6 5 40 (Some (mock_collator 750 750 [] [] Active)) 750"
    using observed_next_round [OF o5, of 31 el] by (auto simp: update_defs)
  have e1: "bond_less staking_Test (Signed 1) 800 ?s1 = (?s1, Err (Module CandidateNotActive))"
    using o1 unfolding observed_def by (simp add: bond_less_def ensure_signed_def StakingCollators_is_active_def)
  have e3: "bond_less staking_Test (Signed 1) 800 s3 = (s3, Err (Module BondBelowMin))"
    "bond_less staking_Test (Signed 1) 6000 s3 = (s3, Err (Module Underflow))"
    using o3 unfolding observed_def
    by (simp_all add: bond_less_def ensure_signed_def StakingCollators_is_active_def StakingCollators_bond_less_def Let_def)
  show thesis
  proof (rule that [of ?s1 s2 s3 ?s4 s5 s6, OF _ e1 r2 _ r3 e3 refl _ _ r5 _ _ r6])
    show "\<exists>s0'. staking_mock_test = Some (1, s0') \<and> ?s1 = fst (bond staking_Test (Signed 1) 1000 s0')" using g by blast
    show "snd (bond_less staking_Test (Signed 1) 150 s2) = Ok" "snd (bond_less staking_Test (Signed 1) 100 s3) = Ok"
      using l2(1) l3(1) by simp_all
  qed (use o4 o5 o6 in \<open>simp_all add: observed_def\<close>)
qed

text \<open>The tests \<^verbatim>\<open>bond_work\<close> and \<^verbatim>\<open>bond_extra_work\<close>, the latter again for all election results.\<close>

lemma bond_work_test:
  obtains s s1 where "staking_mock_test = Some (1, s)" "bond staking_Test (Signed 1) 1000 s = (s1, Ok)"
    "unat (led_reserved (currency s1) 1) = 1000"
    "bond staking_Test (Signed 1) 1000 s1 = (s1, Err (Module AlreadyBonded))"
proof -
  obtain s where g: "staking_mock_test = Some (1, s)" and o: "observed s 1 0 None 0" and one: "led_free (currency s) 1 = 1000"
    by (rule mock_start)
  note b = observed_bond [OF o one, of 1000]
  let ?s1 = "fst (bond staking_Test (Signed 1) 1000 s)"
  have "bond staking_Test (Signed 1) 1000 ?s1 = (?s1, Err (Module AlreadyBonded))"
    using b(2) unfolding observed_def by (simp add: bond_def ensure_signed_def)
  moreover have "bond staking_Test (Signed 1) 1000 s = (?s1, Ok)" using b(1) by (simp add: prod_eq_iff)
  ultimately show thesis using that [OF g, of ?s1] b(2) by (simp add: observed_def)
qed

lemma bond_extra_work_test:
  fixes el
  obtains s0 s1 s2 s3 s4 where
    "staking_mock_test = Some (1, s0)" "bond_extra staking_Test (Signed 1) 1000 s0 = (s0, Err (Module BondNotExist))"
    "bond staking_Test (Signed 1) 500 s0 = (s1, Ok)"
    "bond_extra staking_Test (Signed 1) 100 s1 = (s1, Err (Module CandidateNotActive))"
    "map_option co_unlocking (sm_get (Collators s1) 1) = Some [\<lparr>ul_value = 500, ul_round = 2\<rparr>]"
    "run_to_block el 11 (1, s1) = (11, s2)" "bond_extra staking_Test (Signed 1) 300 s2 = (s3, Ok)"
    "map_option (\<lambda>c. (co_total c, co_active c, co_unlocking c)) (sm_get (Collators s3) 1) =
       Some (800, 500, [\<lparr>ul_value = 300, ul_round = 3\<rparr>])"
    "run_to_block el 21 (11, s3) = (21, s4)"
    "map_option (\<lambda>c. (co_active c, co_unlocking c)) (sm_get (Collators s4) 1) = Some (800, [])"
proof -
  obtain s0 where g: "staking_mock_test = Some (1, s0)" and o0: "observed s0 1 0 None 0" and one: "led_free (currency s0) 1 = 1000"
    by (rule mock_start)
  let ?s1 = "fst (bond staking_Test (Signed 1) 500 s0)"
  note b = observed_bond [OF o0 one, of 500]
  have b1: "bond staking_Test (Signed 1) 500 s0 = (?s1, Ok)" using b(1) by (simp add: prod_eq_iff)
  have o1: "observed ?s1 1 0 (Some (mock_collator 500 0 [\<lparr>ul_value = 500, ul_round = 2\<rparr>] [] Onboarding)) 500"
    using b(2) by (simp add: StakingCollators_new_def StakerStatus_default_def)
  obtain s2 where r2: "run_to_block el 11 (1, ?s1) = (11, s2)"
    and o2: "observed s2 2 10 (Some (mock_collator 500 500 [] [] Active)) 500"
    using observed_next_round [OF o1, of 1 el] by (auto simp: update_defs)
  let ?s3 = "fst (bond_extra staking_Test (Signed 1) 300 s2)"
  note e = observed_bond_extra [OF o2, of 300]
  have e3: "bond_extra staking_Test (Signed 1) 300 s2 = (?s3, Ok)" using e(1) by (simp add: prod_eq_iff)
  obtain w where o3: "observed ?s3 2 10 (Some (mock_collator 800 500 [\<lparr>ul_value = 300, ul_round = 3\<rparr>] [] Active)) w"
    using e(2) by (auto simp: StakingCollators_bond_extra_def)
  obtain s4 where r4: "run_to_block el 21 (11, ?s3) = (21, s4)"
    and o4: "\<exists>w. observed s4 3 20 (Some (mock_collator 800 800 [] [] Active)) w"
    using observed_next_round [OF o3, of 11 el] by (auto simp: update_defs)
  have "bond_extra staking_Test (Signed 1) 1000 s0 = (s0, Err (Module BondNotExist))"
    using o0 unfolding observed_def by (simp add: bond_extra_def ensure_signed_def)
  moreover have "bond_extra staking_Test (Signed 1) 100 ?s1 = (?s1, Err (Module CandidateNotActive))"
    using o1 unfolding observed_def by (simp add: bond_extra_def ensure_signed_def StakingCollators_is_active_def)
  ultimately show thesis
    using that [OF g _ b1 _ _ r2 e3 _ r4] o1 o3 o4 by (auto simp: observed_def)
qed

text \<open>
  Every round change announces the new round, so the events of the test \<^verbatim>\<open>payout_stakers_work\<close> contain
  \<open>NewRoundStart\<close>, which the list the test expects does not.
\<close>

lemma new_round_announced:
  assumes "RoundInfo_should_goto_next_round (CurrentRound s) now"
  shows "last (events (on_finalize cfg el now s)) =
    NewRoundStart (ri_index (CurrentRound s) + 1) ((ri_index (CurrentRound s) + 1) * blocks_per_round (Settings s))"
  by (simp add: on_finalize_due [OF assms])

section \<open>The author-inherent tests\<close>

text \<open>The mock pallet codes an account in its eight little-endian bytes; the tests do not look at the digest.\<close>

function author_roll_to :: "nat \<Rightarrow> nat \<times> 'acc author_state \<Rightarrow> nat \<times> 'acc author_state" where
  "author_roll_to n (block_number, s) =
     (if block_number < n then author_roll_to n (Suc block_number, fst (author_on_initialize s)) else (block_number, s))"
  by pat_completeness auto
termination by (relation "measure (\<lambda>(n, b, s). n - b)") auto

declare author_roll_to.simps [simp del]

definition author_new_test_ext :: "nat \<times> nat author_state" where
  "author_new_test_ext = (0, \<lparr>Author = None, digest = []\<rparr>)"

lemma set_author_works:
  "snd (set_author codec NoneOrigin 1 (snd author_new_test_ext)) = Ok"
  "author_roll_to 1 (0, fst (set_author codec NoneOrigin 1 (snd author_new_test_ext))) = (1, s) \<Longrightarrow>
   snd (set_author codec NoneOrigin 1 s) = Ok"
  by (auto simp: set_author_def author_new_test_ext_def author_on_initialize_def author_roll_to.simps ensure_none_def)

lemma double_author_fails:
  assumes "set_author codec NoneOrigin 1 (snd author_new_test_ext) = (s, out)"
  shows "set_author codec NoneOrigin 1 s = (s, Err (Module AuthorAlreadySet))"
  using assms by (auto simp: set_author_def author_new_test_ext_def ensure_none_def split: if_splits)

end
