(* ===== verification/Service.thy ===== *)
theory Service
  imports Node Author_Inherent "HOL-Library.Sublist"
begin

text \<open>
  The services of the node (\<^verbatim>\<open>node/src/service.rs\<close>): \<^verbatim>\<open>new_partial\<close>, \<^verbatim>\<open>start_node_impl\<close> with the consensus
  builder of \<^verbatim>\<open>start_node\<close>, \<^verbatim>\<open>start_dev\<close> and the mocked parachain inherent. What they do is call the
  Substrate, Cumulus and Polkadot libraries in an order that the configuration decides, stop at the
  first call that fails, and wire the parts together. A library call is a value of \<open>service_call\<close>
  with the arguments the source chooses; a service is a computation that logs the calls it makes.
  Which calls fail, and how, is a parameter (\<open>service_lib\<close>).
\<close>

section \<open>Library calls\<close>

datatype role = Full | Light | Authority

definition is_authority :: "role \<Rightarrow> bool" where
  "is_authority r = (r = Authority)"

record service_config =
  svc_role :: role
  telemetry_endpoints :: "string list option"
  offchain_worker_enabled :: bool
  force_authoring :: bool

text \<open>
  A flag of a call says whether an optional argument is given: the telemetry handle, the telemetry
  worker handle, the block announce validator, proof recording. The slot duration is asked for twice,
  for the import queue and for the consensus of an authority; each time the call may fail on its own.
\<close>

datatype slot_user = For_import | For_authoring

datatype service_call =
    TelemetryWorker_new nat
  | New_telemetry "string list"
  | New_full_parts runtime bool
  | Spawn string
  | Spawn_essential string
  | Spawn_essential_blocking string
  | BasicPool_new_full bool
  | FrontierBlockImport_new
  | Slot_duration slot_user
  | LongestChain_new
  | Manual_seal_import_queue
  | Aura_import_queue bool
  | Prepare_node_config
  | Build_polkadot_full_node bool
  | Build_block_announce_validator u32
  | Build_network bool
  | Build_offchain_workers
  | Spawn_tasks bool "rpc_module list"
  | ProposerFactory_new bool
  | Build_aura_consensus bool
  | Start_collator u32
  | Start_full_node u32
  | Start_network

text \<open>The calls whose result the source passes on with \<^verbatim>\<open>?\<close>; the others return no \<^verbatim>\<open>Result\<close>.\<close>

fun fallible :: "service_call \<Rightarrow> bool" where
  "fallible (TelemetryWorker_new _) = True"
| "fallible (New_full_parts _ _) = True"
| "fallible (Slot_duration _) = True"
| "fallible (Aura_import_queue _) = True"
| "fallible (Build_polkadot_full_node _) = True"
| "fallible (Build_network _) = True"
| "fallible (Spawn_tasks _ _) = True"
| "fallible (Start_collator _) = True"
| "fallible (Start_full_node _) = True"
| "fallible _ = False"

text \<open>An error of the Polkadot service wraps one of \<^verbatim>\<open>sc_service\<close> or is shown as a string.\<close>

datatype 'e polkadot_error = Sub 'e | Polkadot string

datatype 'e service_error = Library 'e | Message string

record 'e service_lib =
  lib_error :: "service_call \<Rightarrow> 'e option"
  relay_error :: "'e polkadot_error option"
  lib_features :: features

datatype ('e, 'a) service_outcome = Started 'a | Failed "'e service_error" | Panicked string

type_synonym ('e, 'a) service = "'e service_lib \<Rightarrow> service_call list \<times> ('e, 'a) service_outcome"

definition done_with :: "'a \<Rightarrow> ('e, 'a) service" where
  "done_with a lib = ([], Started a)"

definition and_then :: "('e, 'a) service \<Rightarrow> ('a \<Rightarrow> ('e, 'b) service) \<Rightarrow> ('e, 'b) service" where
  "and_then m f lib =
     (case m lib of
        (cs, Started a) \<Rightarrow> (let (ds, out) = f a lib in (cs @ ds, out))
      | (cs, Failed e) \<Rightarrow> (cs, Failed e)
      | (cs, Panicked msg) \<Rightarrow> (cs, Panicked msg))"

definition map_polkadot_error :: "'e polkadot_error \<Rightarrow> 'e service_error" where
  "map_polkadot_error e = (case e of Sub x \<Rightarrow> Library x | Polkadot s \<Rightarrow> Message s)"

definition call_error :: "'e service_lib \<Rightarrow> service_call \<Rightarrow> 'e service_error option" where
  "call_error lib c =
     (case c of
        Build_polkadot_full_node _ \<Rightarrow> map_option map_polkadot_error (relay_error lib)
      | _ \<Rightarrow> if fallible c then map_option Library (lib_error lib c) else None)"

definition call :: "service_call \<Rightarrow> ('e, unit) service" where
  "call c lib = ([c], case call_error lib c of None \<Rightarrow> Started () | Some e \<Rightarrow> Failed e)"

definition call_if :: "bool \<Rightarrow> service_call \<Rightarrow> ('e, unit) service" where
  "call_if b c = (if b then call c else done_with ())"

definition panic_if :: "bool \<Rightarrow> string \<Rightarrow> ('e, unit) service" where
  "panic_if b msg lib = ([], if b then Panicked msg else Started ())"

section \<open>The partial components\<close>

record partial_components =
  pc_select_chain :: bool
  pc_telemetry :: bool
  pc_telemetry_worker_handle :: bool
  pc_pending_transactions :: bool
  pc_filter_pool :: bool

definition start_telemetry :: "service_config \<Rightarrow> ('e, bool) service" where
  "start_telemetry conf =
     (case telemetry_endpoints conf of
        None \<Rightarrow> done_with False
      | Some endpoints \<Rightarrow>
          if endpoints = [] then done_with False
          else and_then (call (TelemetryWorker_new 16)) (\<lambda>_.
               and_then (call (New_telemetry endpoints)) (\<lambda>_. done_with True)))"

definition new_partial :: "runtime \<Rightarrow> service_config \<Rightarrow> bool \<Rightarrow> ('e, partial_components) service" where
  "new_partial r conf dev =
     and_then (start_telemetry conf) (\<lambda>telemetry.
     and_then (call (New_full_parts r telemetry)) (\<lambda>_.
     and_then (call_if telemetry (Spawn ''telemetry'')) (\<lambda>_.
     and_then (call (BasicPool_new_full (is_authority (svc_role conf)))) (\<lambda>_.
     and_then (call FrontierBlockImport_new) (\<lambda>_.
     and_then (call (Slot_duration For_import)) (\<lambda>_.
     and_then (call_if dev LongestChain_new) (\<lambda>_.
     and_then (call (if dev then Manual_seal_import_queue else Aura_import_queue telemetry)) (\<lambda>_.
       done_with \<lparr>pc_select_chain = dev, pc_telemetry = telemetry, pc_telemetry_worker_handle = telemetry,
         pc_pending_transactions = True, pc_filter_pool = True\<rparr>))))))))"

section \<open>A parachain node\<close>

text \<open>
  Spawning the tasks of the service, among them the RPC server with the modules of \<^verbatim>\<open>rpc::create_full\<close>, which panics
  when the runtime is not compiled in.
\<close>

definition spawn_tasks :: "bool \<Rightarrow> runtime option \<Rightarrow> bool \<Rightarrow> bool \<Rightarrow> ('e, unit) service" where
  "spawn_tasks telemetry chain has_filter_pool has_command_sink lib =
     (case create_full (lib_features lib) chain has_filter_pool has_command_sink of
        None \<Rightarrow> ([], Panicked (not_available (case chain of Some r \<Rightarrow> r | None \<Rightarrow> Halongbay)))
      | Some modules \<Rightarrow> call (Spawn_tasks telemetry modules) lib)"

definition spawn_frontier_maintenance :: "partial_components \<Rightarrow> ('e, unit) service" where
  "spawn_frontier_maintenance params =
     and_then (call_if (pc_filter_pool params) (Spawn_essential ''frontier-filter-pool'')) (\<lambda>_.
       call_if (pc_pending_transactions params) (Spawn_essential ''frontier-pending-transactions''))"

text \<open>The closure \<^verbatim>\<open>build_consensus\<close> that \<^verbatim>\<open>start_node\<close> passes on.\<close>

definition build_consensus :: "bool \<Rightarrow> ('e, unit) service" where
  "build_consensus force =
     and_then (call (Slot_duration For_authoring)) (\<lambda>_.
     and_then (call (ProposerFactory_new True)) (\<lambda>_.
       call (Build_aura_consensus force)))"

definition start_parachain ::
    "service_config \<Rightarrow> u32 \<Rightarrow> (bool \<Rightarrow> ('e, unit) service) \<Rightarrow> ('e, unit) service" where
  "start_parachain conf ident consensus =
     (if is_authority (svc_role conf)
      then and_then (consensus (force_authoring conf)) (\<lambda>_. call (Start_collator ident))
      else call (Start_full_node ident))"

definition start_node_impl ::
    "service_config \<Rightarrow> u32 \<Rightarrow> (bool \<Rightarrow> ('e, unit) service) \<Rightarrow> runtime \<Rightarrow> ('e, unit) service" where
  "start_node_impl conf ident consensus r =
     (if svc_role conf = Light then (\<lambda>lib. ([], Failed (Message ''Light client not supported!'')))
      else
        and_then (call Prepare_node_config) (\<lambda>_.
        and_then (new_partial r conf False) (\<lambda>params.
        and_then (call (Build_polkadot_full_node (pc_telemetry_worker_handle params))) (\<lambda>_.
        and_then (call (Build_block_announce_validator ident)) (\<lambda>_.
        and_then (call (Build_network True)) (\<lambda>_.
        and_then (call_if (offchain_worker_enabled conf) Build_offchain_workers) (\<lambda>_.
        and_then (spawn_tasks (pc_telemetry params) (Some r) (pc_filter_pool params) False) (\<lambda>_.
        and_then (spawn_frontier_maintenance params) (\<lambda>_.
        and_then (start_parachain conf ident consensus) (\<lambda>_.
          call Start_network))))))))))"

definition start_node :: "service_config \<Rightarrow> u32 \<Rightarrow> runtime \<Rightarrow> ('e, unit) service" where
  "start_node conf ident r = start_node_impl conf ident build_consensus r"

section \<open>A development node\<close>

definition start_dev_node :: "service_config \<Rightarrow> Sealing \<Rightarrow> bool \<Rightarrow> ('e, unit) service" where
  "start_dev_node conf seal is_validator =
     and_then (new_partial Halongbay conf True) (\<lambda>params.
     and_then (panic_if (\<not> pc_select_chain params) ''In PolkaFoundry dev mode, `new_partial` will use `LongestChainRule`; qed'') (\<lambda>_.
     and_then (call (Build_network False)) (\<lambda>_.
     and_then (call_if (offchain_worker_enabled conf) Build_offchain_workers) (\<lambda>_.
     and_then (call_if is_validator (ProposerFactory_new False)) (\<lambda>_.
     and_then (call_if is_validator (Spawn_essential_blocking ''authorship_task'')) (\<lambda>_.
     and_then (spawn_tasks False None (pc_filter_pool params) (dev_command_sink seal is_validator)) (\<lambda>_.
     and_then (spawn_frontier_maintenance params) (\<lambda>_.
       call Start_network))))))))"

text \<open>The command that seals a block when a transaction enters the pool of an instantly sealing node.\<close>

record 'h seal_command =
  create_empty :: bool
  finalize :: bool
  parent_hash :: "'h option"
  has_sender :: bool

definition instant_seal_command :: "'tx \<Rightarrow> 'h seal_command" where
  "instant_seal_command imported = \<lparr>create_empty = False, finalize = False, parent_hash = None, has_sender = False\<rparr>"

section \<open>Inherent data\<close>

text \<open>
  The mocked parachain inherent of a development node. The identifier of the parachain inherent, the
  codec of its data and the mocked relay state root with its proof come from the Cumulus libraries.
\<close>

record ('root, 'proof, 'msg) parachain_inherent_data =
  parent_head :: "u8 list"
  relay_parent_storage_root :: 'root
  relay_parent_number :: u32
  max_pov_size :: u32
  downward_messages :: "'msg list"
  horizontal_messages :: "(u32 \<times> 'msg list) list"
  relay_chain_state :: 'proof

definition mock_parachain_inherent :: "'root \<times> 'proof \<Rightarrow> ('root, 'proof, 'msg) parachain_inherent_data" where
  "mock_parachain_inherent sproof =
     \<lparr>parent_head = [], relay_parent_storage_root = fst sproof, relay_parent_number = 0, max_pov_size = 0,
      downward_messages = [], horizontal_messages = [], relay_chain_state = snd sproof\<rparr>"

definition mock_provide_inherent_data ::
    "put_data_op \<Rightarrow> inherent_identifier \<Rightarrow> (('root, 'proof, 'msg) parachain_inherent_data \<Rightarrow> u8 list) \<Rightarrow> 'root \<times> 'proof \<Rightarrow>
     inherent_data \<Rightarrow> inherent_data \<times> inherent_error option" where
  "mock_provide_inherent_data put_data parachain_ident encode sproof d =
     put_data parachain_ident (encode (mock_parachain_inherent sproof)) d"

definition mock_try_handle_error ::
    "inherent_identifier \<Rightarrow> (u8 list \<Rightarrow> 'err option) \<Rightarrow> ('err \<Rightarrow> string) \<Rightarrow> inherent_identifier \<Rightarrow> u8 list \<Rightarrow>
     inherent_error option" where
  "mock_try_handle_error parachain_ident decode shw identifier error =
     (if identifier \<noteq> parachain_ident then None
      else map_option (\<lambda>e. Application (shw e)) (decode error))"

text \<open>
  The inherents of an imported and of an authored parachain block: the time, the slot the library
  computes from it, and for an authored block the parachain inherent made from the relay parent.
\<close>

definition import_inherents :: "(u64 \<Rightarrow> u64 \<Rightarrow> 'slot) \<Rightarrow> u64 \<Rightarrow> u64 \<Rightarrow> string + u64 \<times> 'slot" where
  "import_inherents slot_of slot_dur now = Inr (now, slot_of now slot_dur)"

definition author_inherents ::
    "(u64 \<Rightarrow> u64 \<Rightarrow> 'slot) \<Rightarrow> u64 \<Rightarrow> 'inh option \<Rightarrow> u64 \<Rightarrow> string + u64 \<times> 'slot \<times> 'inh" where
  "author_inherents slot_of slot_dur parachain_inherent now =
     (case parachain_inherent of
        None \<Rightarrow> Inl ''Failed to create parachain inherent''
      | Some inh \<Rightarrow> Inr (now, slot_of now slot_dur, inh))"

section \<open>Straight-line services\<close>

text \<open>
  A service is straight when, whatever the library answers, it makes the calls of a fixed plan in
  order up to the first that fails, and returns a fixed value if none does. Both kinds of node are.
\<close>

fun run_plan :: "'e service_lib \<Rightarrow> service_call list \<Rightarrow> 'a \<Rightarrow> service_call list \<times> ('e, 'a) service_outcome" where
  "run_plan lib [] a = ([], Started a)"
| "run_plan lib (c # cs) a =
     (case call_error lib c of
        Some e \<Rightarrow> ([c], Failed e)
      | None \<Rightarrow> (let (ds, out) = run_plan lib cs a in (c # ds, out)))"

definition straight :: "'e service_lib \<Rightarrow> ('e, 'a) service \<Rightarrow> service_call list \<Rightarrow> 'a \<Rightarrow> bool" where
  "straight lib m cs a \<longleftrightarrow> m lib = run_plan lib cs a"

lemma straight_done: "straight lib (done_with a) [] a"
  by (simp add: straight_def done_with_def)

lemma straight_call: "straight lib (call c) [c] ()"
  by (simp add: straight_def call_def split: option.split)

lemma straight_call_if: "straight lib (call_if b c) (if b then [c] else []) ()"
  by (simp add: call_if_def straight_call straight_done)

lemma straight_panic_if: "\<not> b \<Longrightarrow> straight lib (panic_if b msg) [] ()"
  by (simp add: straight_def panic_if_def)

lemma run_plan_append:
  "run_plan lib (cs @ ds) b =
     (case run_plan lib cs a of
        (es, Started _) \<Rightarrow> (let (fs, out) = run_plan lib ds b in (es @ fs, out))
      | (es, Failed e) \<Rightarrow> (es, Failed e)
      | (es, Panicked msg) \<Rightarrow> (es, Panicked msg))"
  by (induction cs) (auto split: option.split prod.split service_outcome.split)

lemma run_plan_Started: "run_plan lib cs a = (ds, Started b) \<Longrightarrow> b = a"
  by (induction cs arbitrary: ds) (auto split: option.splits prod.splits)

lemma straight_and_then:
  assumes "straight lib m cs a" and "straight lib (f a) ds b"
  shows "straight lib (and_then m f) (cs @ ds) b"
  using assms run_plan_Started [of lib cs a]
  by (auto simp: straight_def and_then_def run_plan_append [of lib cs ds b a] split: prod.split service_outcome.split)

definition rpc_modules :: "features \<Rightarrow> runtime option \<Rightarrow> bool \<Rightarrow> bool \<Rightarrow> rpc_module list" where
  "rpc_modules fs chain has_filter_pool has_command_sink = the (create_full fs chain has_filter_pool has_command_sink)"

lemma straight_spawn_tasks:
  assumes "create_full (lib_features lib) chain f sink \<noteq> None"
  shows "straight lib (spawn_tasks t chain f sink) [Spawn_tasks t (rpc_modules (lib_features lib) chain f sink)] ()"
proof -
  obtain ms where ms: "create_full (lib_features lib) chain f sink = Some ms" using assms by auto
  show ?thesis using straight_call [of lib "Spawn_tasks t ms"] by (simp only: straight_def spawn_tasks_def rpc_modules_def ms option.case option.sel)
qed

lemma run_plan_no_panic: "\<forall>msg. snd (run_plan lib cs a) \<noteq> Panicked msg"
  by (induction cs) (auto split: option.split prod.split)

text \<open>A service panics after a plan when it makes the calls of the plan, unless one fails, and then panics.\<close>

definition panics :: "'e service_lib \<Rightarrow> ('e, 'a) service \<Rightarrow> service_call list \<Rightarrow> string \<Rightarrow> bool" where
  "panics lib m cs msg \<longleftrightarrow> m lib =
     (case run_plan lib cs () of (es, Failed e) \<Rightarrow> (es, Failed e) | (es, _) \<Rightarrow> (es, Panicked msg))"

lemma panics_spawn_tasks:
  "create_full (lib_features lib) chain f sink = None \<Longrightarrow>
   panics lib (spawn_tasks t chain f sink) [] (not_available (case chain of Some r \<Rightarrow> r | None \<Rightarrow> Halongbay))"
  by (simp add: panics_def spawn_tasks_def)

lemma panics_first: "panics lib m cs msg \<Longrightarrow> panics lib (and_then m f) cs msg"
  by (auto simp: panics_def and_then_def split: prod.splits service_outcome.splits)

lemma panics_later:
  assumes "straight lib m cs a" and "panics lib (f a) ds msg"
  shows "panics lib (and_then m f) (cs @ ds) msg"
  using assms run_plan_Started [of lib cs a] run_plan_no_panic [of lib cs a]
  by (auto simp: panics_def straight_def and_then_def run_plan_append [of lib cs ds "()" a] split: prod.splits service_outcome.splits)

text \<open>A run of a plan either makes all its calls, or stops at the first call that fails.\<close>

lemma run_plan_ok: "\<forall>c \<in> set cs. call_error lib c = None \<Longrightarrow> run_plan lib cs a = (cs, Started a)"
  by (induction cs) auto

lemma run_plan_fails:
  "call_error lib c = Some e \<Longrightarrow> \<forall>d \<in> set ds. call_error lib d = None \<Longrightarrow>
   run_plan lib (ds @ c # es) a = (ds @ [c], Failed e)"
  by (induction ds) auto

lemma run_plan_cases:
  obtains (all_calls) "\<forall>c \<in> set cs. call_error lib c = None" "run_plan lib cs a = (cs, Started a)"
  | (first_failure) ds c es e where "cs = ds @ c # es" "run_plan lib cs a = (ds @ [c], Failed e)"
      "call_error lib c = Some e" "\<forall>d \<in> set ds. call_error lib d = None"
proof (cases "\<forall>c \<in> set cs. call_error lib c = None")
  case True
  then show thesis using all_calls [OF _ run_plan_ok] by simp
next
  case False
  then have "\<exists>c \<in> set cs. call_error lib c \<noteq> None" by blast
  from split_list_first_prop [OF this] obtain ds c es where cs: "cs = ds @ c # es" and "call_error lib c \<noteq> None"
    and ok: "\<forall>d \<in> set ds. call_error lib d = None" by auto
  then obtain e where e: "call_error lib c = Some e" by auto
  show thesis by (rule first_failure [OF cs _ e ok]) (simp add: cs run_plan_fails [OF e ok])
qed

section \<open>The plans of the two kinds of node\<close>

definition has_telemetry :: "service_config \<Rightarrow> bool" where
  "has_telemetry conf = (case telemetry_endpoints conf of None \<Rightarrow> False | Some es \<Rightarrow> es \<noteq> [])"

definition partial_plan :: "runtime \<Rightarrow> service_config \<Rightarrow> bool \<Rightarrow> service_call list" where
  "partial_plan r conf dev =
     (if has_telemetry conf then [TelemetryWorker_new 16, New_telemetry (the (telemetry_endpoints conf))] else []) @
     [New_full_parts r (has_telemetry conf)] @ (if has_telemetry conf then [Spawn ''telemetry''] else []) @
     [BasicPool_new_full (is_authority (svc_role conf)), FrontierBlockImport_new, Slot_duration For_import] @
     (if dev then [LongestChain_new, Manual_seal_import_queue] else [Aura_import_queue (has_telemetry conf)])"

definition maintenance_plan :: "service_call list" where
  "maintenance_plan = [Spawn_essential ''frontier-filter-pool'', Spawn_essential ''frontier-pending-transactions'']"

definition parachain_plan :: "service_config \<Rightarrow> u32 \<Rightarrow> service_call list" where
  "parachain_plan conf ident =
     (if is_authority (svc_role conf)
      then [Slot_duration For_authoring, ProposerFactory_new True, Build_aura_consensus (force_authoring conf), Start_collator ident]
      else [Start_full_node ident])"

definition before_maintenance :: "features \<Rightarrow> service_config \<Rightarrow> u32 \<Rightarrow> runtime \<Rightarrow> service_call list" where
  "before_maintenance fs conf ident r =
     [Prepare_node_config] @ partial_plan r conf False @
     [Build_polkadot_full_node (has_telemetry conf), Build_block_announce_validator ident, Build_network True] @
     (if offchain_worker_enabled conf then [Build_offchain_workers] else []) @
     [Spawn_tasks (has_telemetry conf) (rpc_modules fs (Some r) True False)]"

definition node_plan :: "features \<Rightarrow> service_config \<Rightarrow> u32 \<Rightarrow> runtime \<Rightarrow> service_call list" where
  "node_plan fs conf ident r =
     (before_maintenance fs conf ident r @ maintenance_plan @ parachain_plan conf ident) @ [Start_network]"

definition before_dev_maintenance :: "features \<Rightarrow> service_config \<Rightarrow> Sealing \<Rightarrow> bool \<Rightarrow> service_call list" where
  "before_dev_maintenance fs conf seal is_validator =
     partial_plan Halongbay conf True @ [Build_network False] @
     (if offchain_worker_enabled conf then [Build_offchain_workers] else []) @
     (if is_validator then [ProposerFactory_new False, Spawn_essential_blocking ''authorship_task''] else []) @
     [Spawn_tasks False (rpc_modules fs None True (dev_command_sink seal is_validator))]"

definition dev_plan :: "features \<Rightarrow> service_config \<Rightarrow> Sealing \<Rightarrow> bool \<Rightarrow> service_call list" where
  "dev_plan fs conf seal is_validator = (before_dev_maintenance fs conf seal is_validator @ maintenance_plan) @ [Start_network]"

definition partial_result :: "service_config \<Rightarrow> bool \<Rightarrow> partial_components" where
  "partial_result conf dev =
     \<lparr>pc_select_chain = dev, pc_telemetry = has_telemetry conf, pc_telemetry_worker_handle = has_telemetry conf,
      pc_pending_transactions = True, pc_filter_pool = True\<rparr>"

lemma straight_eqI: "straight lib m cs a \<Longrightarrow> cs = ds \<Longrightarrow> a = b \<Longrightarrow> straight lib m ds b"
  by simp

lemma straight_telemetry:
  "straight lib (start_telemetry conf)
     (if has_telemetry conf then [TelemetryWorker_new 16, New_telemetry (the (telemetry_endpoints conf))] else [])
     (has_telemetry conf)"
  using straight_and_then [OF straight_call straight_and_then [OF straight_call straight_done]]
  by (auto simp: start_telemetry_def has_telemetry_def straight_done split: option.split)

lemma straight_new_partial:
  "straight lib (new_partial r conf dev) (partial_plan r conf dev) (partial_result conf dev)"
  unfolding new_partial_def
  by (rule straight_eqI, (rule straight_and_then straight_telemetry straight_done straight_call straight_call_if)+)
    (simp_all add: partial_plan_def partial_result_def)

lemma straight_maintenance:
  "straight lib (spawn_frontier_maintenance (partial_result conf dev)) maintenance_plan ()"
  unfolding spawn_frontier_maintenance_def
  by (rule straight_eqI, (rule straight_and_then straight_call_if)+) (simp_all add: maintenance_plan_def partial_result_def)

lemma straight_parachain: "straight lib (start_parachain conf ident build_consensus) (parachain_plan conf ident) ()"
  using straight_and_then [OF straight_and_then [OF straight_call straight_and_then [OF straight_call straight_call]] straight_call]
  by (auto simp: start_parachain_def parachain_plan_def build_consensus_def straight_call)

lemma straight_start_node:
  assumes "svc_role conf \<noteq> Light" and "create_full (lib_features lib) (Some r) True False \<noteq> None"
  shows "straight lib (start_node conf ident r) (node_plan (lib_features lib) conf ident r) ()"
proof -
  have spawn: "straight lib (spawn_tasks (pc_telemetry (partial_result conf False)) (Some r) (pc_filter_pool (partial_result conf False)) False)
      [Spawn_tasks (has_telemetry conf) (rpc_modules (lib_features lib) (Some r) True False)] ()"
    using straight_spawn_tasks [OF assms(2)] by (simp add: partial_result_def)
  show ?thesis
    unfolding start_node_def start_node_impl_def if_not_P [OF assms(1)]
    by (rule straight_eqI, (rule straight_and_then straight_new_partial straight_maintenance straight_parachain
        straight_call straight_call_if spawn)+) (simp_all add: node_plan_def before_maintenance_def partial_result_def)
qed

lemma panics_start_node:
  assumes "svc_role conf \<noteq> Light" and "create_full (lib_features lib) (Some r) True False = None"
  shows "panics lib (start_node conf ident r) (butlast (before_maintenance (lib_features lib) conf ident r)) (not_available r)"
proof -
  have spawn: "panics lib (and_then (spawn_tasks (pc_telemetry (partial_result conf False)) (Some r) (pc_filter_pool (partial_result conf False)) False) f)
      [] (not_available r)" for f :: "unit \<Rightarrow> ('a, unit) service"
    using panics_first [OF panics_spawn_tasks [OF assms(2), of "has_telemetry conf"], of f] by (simp add: partial_result_def)
  have "panics lib (start_node conf ident r)
     ([Prepare_node_config] @ partial_plan r conf False @ [Build_polkadot_full_node (pc_telemetry_worker_handle (partial_result conf False))] @
      [Build_block_announce_validator ident] @ [Build_network True] @ (if offchain_worker_enabled conf then [Build_offchain_workers] else []) @ [])
     (not_available r)"
    unfolding start_node_def start_node_impl_def if_not_P [OF assms(1)]
    by (rule panics_later [OF straight_call] panics_later [OF straight_new_partial] panics_later [OF straight_call_if] spawn)+
  then show ?thesis by (simp add: before_maintenance_def partial_result_def butlast_append)
qed

lemma straight_select_chain: "straight lib (panic_if (\<not> pc_select_chain (partial_result conf True)) msg) [] ()"
  by (rule straight_panic_if) (simp add: partial_result_def)

lemma straight_start_dev:
  assumes "create_full (lib_features lib) None True (dev_command_sink seal is_validator) \<noteq> None"
  shows "straight lib (start_dev_node conf seal is_validator) (dev_plan (lib_features lib) conf seal is_validator) ()"
proof -
  have spawn: "straight lib (spawn_tasks False None (pc_filter_pool (partial_result conf True)) (dev_command_sink seal is_validator))
      [Spawn_tasks False (rpc_modules (lib_features lib) None True (dev_command_sink seal is_validator))] ()"
    using straight_spawn_tasks [OF assms] by (simp add: partial_result_def)
  show ?thesis
    unfolding start_dev_node_def
    by (rule straight_eqI, (rule straight_and_then straight_new_partial straight_maintenance straight_select_chain
        straight_call straight_call_if spawn)+) (simp_all add: dev_plan_def before_dev_maintenance_def partial_result_def)
qed

lemma panics_start_dev:
  assumes "create_full (lib_features lib) None True (dev_command_sink seal is_validator) = None"
  shows "panics lib (start_dev_node conf seal is_validator) (butlast (before_dev_maintenance (lib_features lib) conf seal is_validator))
    (not_available Halongbay)"
proof -
  have spawn: "panics lib (and_then (spawn_tasks False None (pc_filter_pool (partial_result conf True)) (dev_command_sink seal is_validator)) f)
      [] (not_available Halongbay)" for f :: "unit \<Rightarrow> ('a, unit) service"
    using panics_first [OF panics_spawn_tasks [OF assms, of False], of f] by (simp add: partial_result_def)
  have "panics lib (start_dev_node conf seal is_validator)
     (partial_plan Halongbay conf True @ [] @ [Build_network False] @ (if offchain_worker_enabled conf then [Build_offchain_workers] else []) @
      (if is_validator then [ProposerFactory_new False] else []) @
      (if is_validator then [Spawn_essential_blocking ''authorship_task''] else []) @ [])
     (not_available Halongbay)"
    unfolding start_dev_node_def
    by (rule panics_later [OF straight_new_partial] panics_later [OF straight_select_chain] panics_later [OF straight_call]
        panics_later [OF straight_call_if] spawn)+
  then show ?thesis by (simp add: before_dev_maintenance_def butlast_append split: if_splits)
qed

section \<open>Properties\<close>

text \<open>The contract of starting a node, for a plan that ends with the network.\<close>

lemma plan_network_last:
  assumes "straight lib m (cs @ [Start_network]) ()" and "Start_network \<notin> set cs"
  shows "(snd (m lib) = Started () \<and> fst (m lib) = cs @ [Start_network] \<and>
        (\<forall>c \<in> set (fst (m lib)). call_error lib c = None)) \<or>
     (\<exists>e. snd (m lib) = Failed e \<and> Start_network \<notin> set (fst (m lib)) \<and> prefix (fst (m lib)) cs \<and>
        call_error lib (last (fst (m lib))) = Some e \<and> (\<forall>c \<in> set (butlast (fst (m lib))). call_error lib c = None))"
proof (cases rule: run_plan_cases [of "cs @ [Start_network]" lib "()"])
  case all_calls
  then show ?thesis using assms(1) by (simp add: straight_def)
next
  case (first_failure ds c es e)
  have "c \<noteq> Start_network" using first_failure(3) by (auto simp: call_error_def)
  then have "prefix (ds @ [c]) cs" using first_failure(1)
    by (cases es rule: rev_cases) (auto simp: prefix_def)
  moreover from this have "Start_network \<notin> set (ds @ [c])" using assms(2) set_mono_prefix by blast
  ultimately show ?thesis using assms(1) first_failure by (simp add: straight_def)
qed

lemmas plan_defs = before_maintenance_def before_dev_maintenance_def partial_plan_def maintenance_plan_def
  parachain_plan_def is_authority_def

text \<open>A start either succeeded, all calls in order, or stopped at a failed call.\<close>

abbreviation stopped_at_failure :: "'e service_lib \<Rightarrow> service_call list \<times> ('e, unit) service_outcome \<Rightarrow> bool" where
  "stopped_at_failure lib result \<equiv>
     \<exists>e. snd result = Failed e \<and> Start_network \<notin> set (fst result) \<and>
        call_error lib (last (fst result)) = Some e \<and> (\<forall>c \<in> set (butlast (fst result)). call_error lib c = None)"

lemma panics_stopped:
  assumes "panics lib m cs msg" and "Start_network \<notin> set cs"
  shows "stopped_at_failure lib (m lib) \<or> (snd (m lib) = Panicked msg \<and> fst (m lib) = cs)"
proof (cases rule: run_plan_cases [of cs lib "()"])
  case all_calls
  then show ?thesis using assms(1) by (simp add: panics_def)
next
  case (first_failure ds c es e)
  then have "m lib = (ds @ [c], Failed e)" using assms(1) by (simp add: panics_def)
  then show ?thesis using first_failure assms(2) by simp
qed

text \<open>A runtime that is not compiled in has no RPC modules: setting them up panics, before anything is served.\<close>

abbreviation panicked_uncompiled :: "features \<Rightarrow> runtime \<Rightarrow> service_call list \<times> ('e, unit) service_outcome \<Rightarrow> bool" where
  "panicked_uncompiled fs r result \<equiv>
     \<not> feature fs r \<and> snd result = Panicked (not_available r) \<and> Start_network \<notin> set (fst result)"

lemma create_full_compiled:
  "create_full fs (Some r) fp sink \<noteq> None \<longleftrightarrow> feature fs r"
  "create_full fs None fp sink \<noteq> None \<longleftrightarrow> feature fs Halongbay"
  by (cases r; simp add: create_full_def) (simp add: create_full_def)

lemma rpc_modules_Some:
  "feature fs r \<Longrightarrow> create_full fs (Some r) fp sink = Some (rpc_modules fs (Some r) fp sink)"
  "feature fs Halongbay \<Longrightarrow> create_full fs None fp sink = Some (rpc_modules fs None fp sink)"
  using create_full_compiled [of fs] by (auto simp: rpc_modules_def)

text \<open>C35: Starting a parachain node is all or nothing. A light client is refused before any library call. Any
  other node stops at the first library call that fails and returns its error, having made no further
  call, and without the network when its runtime is not compiled in, as the RPC modules then panic; otherwise
  it starts, and the network is started exactly then, as the last call, after the
  chain database of the given runtime is open, the Aura import queue is in place, the RPC modules of
  that runtime are served, both Frontier maintenance tasks run, and it has become a collator (if and
  only if its role is authority, on an Aura consensus with the configured forcing) or a full node of
  the given parachain.\<close>

theorem start_node_all_or_nothing:
  "if svc_role conf = Light
   then start_node conf ident r lib = ([], Failed (Message ''Light client not supported!''))
   else stopped_at_failure lib (start_node conf ident r lib) \<or>
     panicked_uncompiled (lib_features lib) r (start_node conf ident r lib) \<or>
     (snd (start_node conf ident r lib) = Started () \<and>
      (\<exists>pre modules. fst (start_node conf ident r lib) = pre @
         [Spawn_essential ''frontier-filter-pool'', Spawn_essential ''frontier-pending-transactions''] @
         (if svc_role conf = Authority
          then [Slot_duration For_authoring, ProposerFactory_new True, Build_aura_consensus (force_authoring conf), Start_collator ident]
          else [Start_full_node ident]) @ [Start_network] \<and>
         New_full_parts r (has_telemetry conf) \<in> set pre \<and> Aura_import_queue (has_telemetry conf) \<in> set pre \<and>
         create_full (lib_features lib) (Some r) True False = Some modules \<and> Spawn_tasks (has_telemetry conf) modules \<in> set pre \<and>
         Start_network \<notin> set pre))"
proof (cases "svc_role conf = Light")
  case True
  then show ?thesis by (simp add: start_node_def start_node_impl_def)
next
  case role: False
  let ?pre = "before_maintenance (lib_features lib) conf ident r" and ?ms = "rpc_modules (lib_features lib) (Some r) True False"
  have pre: "Start_network \<notin> set ?pre" "New_full_parts r (has_telemetry conf) \<in> set ?pre"
    "Aura_import_queue (has_telemetry conf) \<in> set ?pre" "Spawn_tasks (has_telemetry conf) ?ms \<in> set ?pre"
    by (auto simp: plan_defs)
  show ?thesis
  proof (cases "feature (lib_features lib) r")
    case True
    have "Start_network \<notin> set (?pre @ maintenance_plan @ parachain_plan conf ident)" using pre(1) by (auto simp: plan_defs)
    from plan_network_last [OF straight_start_node [OF role, unfolded node_plan_def create_full_compiled, OF True] this] show ?thesis
    proof (elim disjE conjE)
      assume "snd (start_node conf ident r lib) = Started ()"
        "fst (start_node conf ident r lib) = (?pre @ maintenance_plan @ parachain_plan conf ident) @ [Start_network]"
      with role pre show ?thesis
        by (intro if_not_P [THEN iffD2] disjI2 conjI exI [of _ ?pre] exI [of _ ?ms])
          (simp_all add: maintenance_plan_def parachain_plan_def is_authority_def rpc_modules_Some(1) [OF True])
    qed (use role in auto)
  next
    case False
    then have none: "create_full (lib_features lib) (Some r) True False = None" using create_full_compiled(1) [of "lib_features lib" r] by blast
    have "Start_network \<notin> set (butlast ?pre)" using pre(1) in_set_butlastD by fast
    from panics_stopped [OF panics_start_node [OF role none, of ident] this] show ?thesis
      using role False \<open>Start_network \<notin> set (butlast ?pre)\<close> by auto
  qed
qed

definition demo_lib :: "(service_call \<Rightarrow> string option) \<Rightarrow> string service_lib" where
  "demo_lib fails = \<lparr>lib_error = fails, relay_error = None, lib_features = all_features\<rparr>"

definition demo_conf :: service_config where
  "demo_conf = \<lparr>svc_role = Authority, telemetry_endpoints = None, offchain_worker_enabled = False, force_authoring = True\<rparr>"

lemma demo_conf_simps [simp]:
  "svc_role demo_conf = Authority" "has_telemetry demo_conf = False" "force_authoring demo_conf = True"
  by (simp_all add: demo_conf_def has_telemetry_def)

lemma demo_lib_ok [simp]: "call_error (demo_lib (\<lambda>_. None)) c = None"
  by (cases c) (simp_all add: call_error_def demo_lib_def)

lemma demo_lib_features: "lib_features (demo_lib fails) = all_features"
  by (simp add: demo_lib_def)

theorem start_node_all_or_nothing_witness:
  "snd (start_node demo_conf 2009 PolkaSmith (demo_lib (\<lambda>_. None))) = Started () \<and>
   (\<exists>pre. fst (start_node demo_conf 2009 PolkaSmith (demo_lib (\<lambda>_. None))) = pre @
       [Spawn_essential ''frontier-filter-pool'', Spawn_essential ''frontier-pending-transactions'', Slot_duration For_authoring,
        ProposerFactory_new True, Build_aura_consensus True, Start_collator 2009, Start_network] \<and>
       New_full_parts PolkaSmith False \<in> set pre)"
  using start_node_all_or_nothing [of demo_conf 2009 PolkaSmith "demo_lib (\<lambda>_. None)"]
  by (auto simp: demo_lib_features feature_def all_features_def)

text \<open>C36: A development node never panics when the Halongbay runtime, which it needs, is compiled in: the chain
  selection it expects is always there, because it builds
  its partial components in development mode. It stops at the first library call that fails;
  otherwise it opens the Halongbay chain with the manual seal import queue, authors blocks if and only
  if it is a validator, serves the sealing RPC if and only if it is a validator that seals manually,
  runs both Frontier maintenance tasks, and starts the network last.\<close>

theorem start_dev_never_panics:
  "stopped_at_failure lib (start_dev_node conf seal is_validator lib) \<or>
   panicked_uncompiled (lib_features lib) Halongbay (start_dev_node conf seal is_validator lib) \<or>
   (snd (start_dev_node conf seal is_validator lib) = Started () \<and>
    (\<exists>pre modules. fst (start_dev_node conf seal is_validator lib) = pre @
       [Spawn_tasks False modules,
        Spawn_essential ''frontier-filter-pool'', Spawn_essential ''frontier-pending-transactions'', Start_network] \<and>
       create_full (lib_features lib) None True (is_validator \<and> seal = Manual) = Some modules \<and>
       New_full_parts Halongbay (has_telemetry conf) \<in> set pre \<and> Manual_seal_import_queue \<in> set pre \<and>
       (Spawn_essential_blocking ''authorship_task'' \<in> set pre \<longleftrightarrow> is_validator)))"
proof -
  let ?fs = "lib_features lib" and ?pre = "before_dev_maintenance (lib_features lib) conf seal is_validator"
  have sink: "dev_command_sink seal is_validator \<longleftrightarrow> is_validator \<and> seal = Manual"
    by (cases seal) (simp_all add: dev_command_sink_def)
  have pre: "Start_network \<notin> set ?pre" by (auto simp: plan_defs)
  show ?thesis
  proof (cases "feature ?fs Halongbay")
    case True
    have "Start_network \<notin> set (?pre @ maintenance_plan)" by (auto simp: plan_defs)
    from plan_network_last [OF straight_start_dev [unfolded dev_plan_def create_full_compiled, OF True] this] show ?thesis
    proof (elim disjE conjE)
      assume "snd (start_dev_node conf seal is_validator lib) = Started ()"
        "fst (start_dev_node conf seal is_validator lib) = (?pre @ maintenance_plan) @ [Start_network]"
      then show ?thesis
        by (intro disjI2 conjI exI [of _ "butlast ?pre"] exI [of _ "rpc_modules ?fs None True (is_validator \<and> seal = Manual)"])
          (auto simp: plan_defs sink butlast_append rpc_modules_Some(2) [OF True])
    qed auto
  next
    case False
    then have none: "create_full ?fs None True (dev_command_sink seal is_validator) = None" using create_full_compiled(2) [of ?fs] by blast
    have "Start_network \<notin> set (butlast ?pre)" using pre in_set_butlastD by fast
    from panics_stopped [OF panics_start_dev [OF none, of conf] this] show ?thesis
      using False \<open>Start_network \<notin> set (butlast ?pre)\<close> by auto
  qed
qed

theorem start_dev_never_panics_witness:
  "snd (start_dev_node demo_conf Manual True (demo_lib (\<lambda>_. None))) = Started ()"
  using start_dev_never_panics [where lib = "demo_lib (\<lambda>_. None)" and conf = demo_conf and seal = Manual and is_validator = True]
  by (auto simp: demo_lib_features feature_def all_features_def)

end
