(* ===== verification/Client.thy ===== *)
theory Client
  imports Service
begin

text \<open>
  The client wrapper of the node (\<^verbatim>\<open>node/src/client.rs\<close>): one enum over the full clients of the three
  runtimes, whose methods call the method of the same name of the client inside. The full clients
  are library objects; \<open>full_client\<close> is the interface the wrapper uses. The rest of the file holds the
  names the command line prints and the settings of the relay chain node
  (\<^verbatim>\<open>node/src/command.rs\<close>).
\<close>

section \<open>The client wrapper\<close>

datatype 'h block_id = Hash 'h | Number u32

type_synonym storage_key = "u8 list"
type_synonym storage_data = "u8 list"

record ('h, 'ext, 'info, 'child, 'just, 'iter, 'status, 'block) full_client =
  fc_usage_info :: 'info
  fc_storage :: "'h block_id \<Rightarrow> storage_key \<Rightarrow> string + storage_data option"
  fc_storage_keys :: "'h block_id \<Rightarrow> storage_key \<Rightarrow> string + storage_key list"
  fc_storage_hash :: "'h block_id \<Rightarrow> storage_key \<Rightarrow> string + 'h option"
  fc_storage_pairs :: "'h block_id \<Rightarrow> storage_key \<Rightarrow> string + (storage_key \<times> storage_data) list"
  fc_storage_keys_iter :: "'h block_id \<Rightarrow> storage_key option \<Rightarrow> storage_key option \<Rightarrow> string + 'iter"
  fc_child_storage :: "'h block_id \<Rightarrow> 'child \<Rightarrow> storage_key \<Rightarrow> string + storage_data option"
  fc_child_storage_keys :: "'h block_id \<Rightarrow> 'child \<Rightarrow> storage_key \<Rightarrow> string + storage_key list"
  fc_child_storage_hash :: "'h block_id \<Rightarrow> 'child \<Rightarrow> storage_key \<Rightarrow> string + 'h option"
  fc_max_key_changes_range :: "u32 \<Rightarrow> 'h block_id \<Rightarrow> string + (u32 \<times> 'h block_id) option"
  fc_key_changes :: "u32 \<Rightarrow> 'h block_id \<Rightarrow> storage_key option \<Rightarrow> storage_key \<Rightarrow> string + (u32 \<times> u32) list"
  fc_block_body :: "'h block_id \<Rightarrow> string + 'ext list option"
  fc_block :: "'h block_id \<Rightarrow> string + 'block option"
  fc_block_status :: "'h block_id \<Rightarrow> string + 'status"
  fc_justifications :: "'h block_id \<Rightarrow> string + 'just option"
  fc_block_hash :: "u32 \<Rightarrow> string + 'h option"
  fc_indexed_transaction :: "'h \<Rightarrow> string + u8 list option"
  fc_has_indexed_transaction :: "'h \<Rightarrow> string + bool"

definition Client_usage_info ::
    "('h, 'ext, 'info, 'child, 'just, 'iter, 'status, 'block) full_client Client \<Rightarrow> 'info" where
  "Client_usage_info self =
     (case self of
        PolkaFoundryClient client \<Rightarrow> fc_usage_info client
      | PolkaSmithClient client \<Rightarrow> fc_usage_info client
      | HalongbayClient client \<Rightarrow> fc_usage_info client)"

definition Client_storage ::
    "('h, 'ext, 'info, 'child, 'just, 'iter, 'status, 'block) full_client Client \<Rightarrow> 'h block_id \<Rightarrow> storage_key \<Rightarrow> string + storage_data option" where
  "Client_storage self ident key =
     (case self of
        PolkaFoundryClient client \<Rightarrow> fc_storage client ident key
      | PolkaSmithClient client \<Rightarrow> fc_storage client ident key
      | HalongbayClient client \<Rightarrow> fc_storage client ident key)"

definition Client_storage_keys ::
    "('h, 'ext, 'info, 'child, 'just, 'iter, 'status, 'block) full_client Client \<Rightarrow> 'h block_id \<Rightarrow> storage_key \<Rightarrow> string + storage_key list" where
  "Client_storage_keys self ident key_prefix =
     (case self of
        PolkaFoundryClient client \<Rightarrow> fc_storage_keys client ident key_prefix
      | PolkaSmithClient client \<Rightarrow> fc_storage_keys client ident key_prefix
      | HalongbayClient client \<Rightarrow> fc_storage_keys client ident key_prefix)"

definition Client_storage_hash ::
    "('h, 'ext, 'info, 'child, 'just, 'iter, 'status, 'block) full_client Client \<Rightarrow> 'h block_id \<Rightarrow> storage_key \<Rightarrow> string + 'h option" where
  "Client_storage_hash self ident key =
     (case self of
        PolkaFoundryClient client \<Rightarrow> fc_storage_hash client ident key
      | PolkaSmithClient client \<Rightarrow> fc_storage_hash client ident key
      | HalongbayClient client \<Rightarrow> fc_storage_hash client ident key)"

definition Client_storage_pairs ::
    "('h, 'ext, 'info, 'child, 'just, 'iter, 'status, 'block) full_client Client \<Rightarrow> 'h block_id \<Rightarrow> storage_key \<Rightarrow> string + (storage_key \<times> storage_data) list" where
  "Client_storage_pairs self ident key_prefix =
     (case self of
        PolkaFoundryClient client \<Rightarrow> fc_storage_pairs client ident key_prefix
      | PolkaSmithClient client \<Rightarrow> fc_storage_pairs client ident key_prefix
      | HalongbayClient client \<Rightarrow> fc_storage_pairs client ident key_prefix)"

definition Client_storage_keys_iter ::
    "('h, 'ext, 'info, 'child, 'just, 'iter, 'status, 'block) full_client Client \<Rightarrow> 'h block_id \<Rightarrow> storage_key option \<Rightarrow> storage_key option \<Rightarrow> string + 'iter" where
  "Client_storage_keys_iter self ident prefx start_key =
     (case self of
        PolkaFoundryClient client \<Rightarrow> fc_storage_keys_iter client ident prefx start_key
      | PolkaSmithClient client \<Rightarrow> fc_storage_keys_iter client ident prefx start_key
      | HalongbayClient client \<Rightarrow> fc_storage_keys_iter client ident prefx start_key)"

definition Client_child_storage ::
    "('h, 'ext, 'info, 'child, 'just, 'iter, 'status, 'block) full_client Client \<Rightarrow> 'h block_id \<Rightarrow> 'child \<Rightarrow> storage_key \<Rightarrow> string + storage_data option" where
  "Client_child_storage self ident child_info key =
     (case self of
        PolkaFoundryClient client \<Rightarrow> fc_child_storage client ident child_info key
      | PolkaSmithClient client \<Rightarrow> fc_child_storage client ident child_info key
      | HalongbayClient client \<Rightarrow> fc_child_storage client ident child_info key)"

definition Client_child_storage_keys ::
    "('h, 'ext, 'info, 'child, 'just, 'iter, 'status, 'block) full_client Client \<Rightarrow> 'h block_id \<Rightarrow> 'child \<Rightarrow> storage_key \<Rightarrow> string + storage_key list" where
  "Client_child_storage_keys self ident child_info key_prefix =
     (case self of
        PolkaFoundryClient client \<Rightarrow> fc_child_storage_keys client ident child_info key_prefix
      | PolkaSmithClient client \<Rightarrow> fc_child_storage_keys client ident child_info key_prefix
      | HalongbayClient client \<Rightarrow> fc_child_storage_keys client ident child_info key_prefix)"

definition Client_child_storage_hash ::
    "('h, 'ext, 'info, 'child, 'just, 'iter, 'status, 'block) full_client Client \<Rightarrow> 'h block_id \<Rightarrow> 'child \<Rightarrow> storage_key \<Rightarrow> string + 'h option" where
  "Client_child_storage_hash self ident child_info key =
     (case self of
        PolkaFoundryClient client \<Rightarrow> fc_child_storage_hash client ident child_info key
      | PolkaSmithClient client \<Rightarrow> fc_child_storage_hash client ident child_info key
      | HalongbayClient client \<Rightarrow> fc_child_storage_hash client ident child_info key)"

definition Client_max_key_changes_range ::
    "('h, 'ext, 'info, 'child, 'just, 'iter, 'status, 'block) full_client Client \<Rightarrow> u32 \<Rightarrow> 'h block_id \<Rightarrow> string + (u32 \<times> 'h block_id) option" where
  "Client_max_key_changes_range self first last_id =
     (case self of
        PolkaFoundryClient client \<Rightarrow> fc_max_key_changes_range client first last_id
      | PolkaSmithClient client \<Rightarrow> fc_max_key_changes_range client first last_id
      | HalongbayClient client \<Rightarrow> fc_max_key_changes_range client first last_id)"

definition Client_key_changes ::
    "('h, 'ext, 'info, 'child, 'just, 'iter, 'status, 'block) full_client Client \<Rightarrow> u32 \<Rightarrow> 'h block_id \<Rightarrow> storage_key option \<Rightarrow> storage_key \<Rightarrow> string + (u32 \<times> u32) list" where
  "Client_key_changes self first last_id storage_key key =
     (case self of
        PolkaFoundryClient client \<Rightarrow> fc_key_changes client first last_id storage_key key
      | PolkaSmithClient client \<Rightarrow> fc_key_changes client first last_id storage_key key
      | HalongbayClient client \<Rightarrow> fc_key_changes client first last_id storage_key key)"

definition Client_block_body ::
    "('h, 'ext, 'info, 'child, 'just, 'iter, 'status, 'block) full_client Client \<Rightarrow> 'h block_id \<Rightarrow> string + 'ext list option" where
  "Client_block_body self ident =
     (case self of
        PolkaFoundryClient client \<Rightarrow> fc_block_body client ident
      | PolkaSmithClient client \<Rightarrow> fc_block_body client ident
      | HalongbayClient client \<Rightarrow> fc_block_body client ident)"

definition Client_block ::
    "('h, 'ext, 'info, 'child, 'just, 'iter, 'status, 'block) full_client Client \<Rightarrow> 'h block_id \<Rightarrow> string + 'block option" where
  "Client_block self ident =
     (case self of
        PolkaFoundryClient client \<Rightarrow> fc_block client ident
      | PolkaSmithClient client \<Rightarrow> fc_block client ident
      | HalongbayClient client \<Rightarrow> fc_block client ident)"

definition Client_block_status ::
    "('h, 'ext, 'info, 'child, 'just, 'iter, 'status, 'block) full_client Client \<Rightarrow> 'h block_id \<Rightarrow> string + 'status" where
  "Client_block_status self ident =
     (case self of
        PolkaFoundryClient client \<Rightarrow> fc_block_status client ident
      | PolkaSmithClient client \<Rightarrow> fc_block_status client ident
      | HalongbayClient client \<Rightarrow> fc_block_status client ident)"

definition Client_justifications ::
    "('h, 'ext, 'info, 'child, 'just, 'iter, 'status, 'block) full_client Client \<Rightarrow> 'h block_id \<Rightarrow> string + 'just option" where
  "Client_justifications self ident =
     (case self of
        PolkaFoundryClient client \<Rightarrow> fc_justifications client ident
      | PolkaSmithClient client \<Rightarrow> fc_justifications client ident
      | HalongbayClient client \<Rightarrow> fc_justifications client ident)"

definition Client_block_hash ::
    "('h, 'ext, 'info, 'child, 'just, 'iter, 'status, 'block) full_client Client \<Rightarrow> u32 \<Rightarrow> string + 'h option" where
  "Client_block_hash self number =
     (case self of
        PolkaFoundryClient client \<Rightarrow> fc_block_hash client number
      | PolkaSmithClient client \<Rightarrow> fc_block_hash client number
      | HalongbayClient client \<Rightarrow> fc_block_hash client number)"

definition Client_indexed_transaction ::
    "('h, 'ext, 'info, 'child, 'just, 'iter, 'status, 'block) full_client Client \<Rightarrow> 'h \<Rightarrow> string + u8 list option" where
  "Client_indexed_transaction self hash =
     (case self of
        PolkaFoundryClient client \<Rightarrow> fc_indexed_transaction client hash
      | PolkaSmithClient client \<Rightarrow> fc_indexed_transaction client hash
      | HalongbayClient client \<Rightarrow> fc_indexed_transaction client hash)"

definition Client_has_indexed_transaction ::
    "('h, 'ext, 'info, 'child, 'just, 'iter, 'status, 'block) full_client Client \<Rightarrow> 'h \<Rightarrow> string + bool" where
  "Client_has_indexed_transaction self hash =
     (case self of
        PolkaFoundryClient client \<Rightarrow> fc_has_indexed_transaction client hash
      | PolkaSmithClient client \<Rightarrow> fc_has_indexed_transaction client hash
      | HalongbayClient client \<Rightarrow> fc_has_indexed_transaction client hash)"

text \<open>The wrapper seen as a client: its eighteen methods put together.\<close>

definition client_view ::
    "('h, 'ext, 'info, 'child, 'just, 'iter, 'status, 'block) full_client Client \<Rightarrow>
     ('h, 'ext, 'info, 'child, 'just, 'iter, 'status, 'block) full_client" where
  "client_view self =
     \<lparr>fc_usage_info = Client_usage_info self,
      fc_storage = Client_storage self,
      fc_storage_keys = Client_storage_keys self,
      fc_storage_hash = Client_storage_hash self,
      fc_storage_pairs = Client_storage_pairs self,
      fc_storage_keys_iter = Client_storage_keys_iter self,
      fc_child_storage = Client_child_storage self,
      fc_child_storage_keys = Client_child_storage_keys self,
      fc_child_storage_hash = Client_child_storage_hash self,
      fc_max_key_changes_range = Client_max_key_changes_range self,
      fc_key_changes = Client_key_changes self,
      fc_block_body = Client_block_body self,
      fc_block = Client_block self,
      fc_block_status = Client_block_status self,
      fc_justifications = Client_justifications self,
      fc_block_hash = Client_block_hash self,
      fc_indexed_transaction = Client_indexed_transaction self,
      fc_has_indexed_transaction = Client_has_indexed_transaction self\<rparr>"

lemmas Client_defs = Client_usage_info_def Client_storage_def Client_storage_keys_def Client_storage_hash_def Client_storage_pairs_def Client_storage_keys_iter_def Client_child_storage_def Client_child_storage_keys_def Client_child_storage_hash_def Client_max_key_changes_range_def Client_key_changes_def Client_block_body_def Client_block_def Client_block_status_def Client_justifications_def Client_block_hash_def Client_indexed_transaction_def Client_has_indexed_transaction_def

lemma client_view_inside: "client_view client = client_inside client"
  by (cases client) (simp_all add: client_view_def Client_defs [abs_def])

text \<open>C37: A chain operation sees the chain it was asked for: when the client of an operation is built, it is the
  variant of the runtime whose version is reported for the specification, which is compiled in; it
  wraps the client opened for that runtime with the keystore in memory, and every one of its methods
  (storage, child storage, blocks, justifications, indexed transactions) answers exactly as that
  client does.\<close>

theorem chain_ops_client_transparent:
  assumes "snd (new_chain_ops fs open_client conf) = Inr (client, parts)"
  shows "feature fs (client_runtime client) \<and>
    native_runtime_version fs (nc_chain_id conf) = Some (VERSION (client_runtime client)) \<and>
    (\<exists>dev. open_client (client_runtime client) (conf\<lparr>nc_keystore := InMemory\<rparr>) dev = Inr (client_view client, parts))"
  using new_chain_ops_Inr [OF assms] by (simp add: client_view_inside)

definition demo_client :: "(nat, nat, nat, nat, nat, nat, nat, nat) full_client" where
  "demo_client =
     \<lparr>fc_usage_info = 0, fc_storage = (\<lambda>_ k. Inr (Some k)), fc_storage_keys = (\<lambda>_ _. Inr []), fc_storage_hash = (\<lambda>_ _. Inr None),
      fc_storage_pairs = (\<lambda>_ _. Inr []), fc_storage_keys_iter = (\<lambda>_ _ _. Inr 0), fc_child_storage = (\<lambda>_ _ _. Inr None),
      fc_child_storage_keys = (\<lambda>_ _ _. Inr []), fc_child_storage_hash = (\<lambda>_ _ _. Inr None),
      fc_max_key_changes_range = (\<lambda>_ _. Inr None), fc_key_changes = (\<lambda>_ _ _ _. Inr []), fc_block_body = (\<lambda>_. Inr None),
      fc_block = (\<lambda>_. Inr None), fc_block_status = (\<lambda>_. Inr 1), fc_justifications = (\<lambda>_. Inr None),
      fc_block_hash = (\<lambda>n. Inr (Some (unat n))), fc_indexed_transaction = (\<lambda>_. Inr None),
      fc_has_indexed_transaction = (\<lambda>_. Inr False)\<rparr>"

theorem chain_ops_client_transparent_witness:
  "let open_client = (\<lambda>r _ _. if r = PolkaSmith then Inr (demo_client, 7 :: nat) else Inl ''no such chain'');
       conf = \<lparr>nc_chain_id = ''pks'', nc_keystore = OnDisk ''k''\<rparr>;
       client = PolkaSmithClient demo_client in
   snd (new_chain_ops all_features open_client conf) = Inr (client, 7) \<and>
   native_runtime_version all_features ''pks'' = Some (VERSION PolkaSmith) \<and>
   client_view client = demo_client \<and> Client_storage client (Number 3) [7] = Inr (Some [7])"
proof -
  let ?open = "\<lambda>r (_ :: node_config) (_ :: bool). if r = PolkaSmith then Inr (demo_client, 7 :: nat) else Inl ''no such chain''"
  have ops: "snd (new_chain_ops all_features ?open \<lparr>nc_chain_id = ''pks'', nc_keystore = OnDisk ''k''\<rparr>) =
      Inr (PolkaSmithClient demo_client, 7)"
    by (simp add: new_chain_ops_def Let_def is_polkafoundry_def is_polkasmith_def starts_with_def all_features_def)
  from chain_ops_client_transparent [OF this] ops show ?thesis by (simp add: Client_storage_def demo_client_def)
qed

section \<open>What the command line says about itself\<close>

definition newline :: string where
  "newline = [CHR 0x0A]"

definition Cli_impl_name :: "features \<Rightarrow> string option" where
  "Cli_impl_name fs = map_option (\<lambda>name. name @ '' Parachain Collator'') (chain_name fs)"

definition Cli_usage :: string where
  "Cli_usage = ''The command-line arguments provided first will be passed to the parachain node, while the arguments provided after -- will be passed to the relaychain node.''"

definition Cli_description :: "features \<Rightarrow> string \<Rightarrow> string option" where
  "Cli_description fs executable_name =
     map_option (\<lambda>name. name @ '' Parachain Collator'' @ newline @ newline @ Cli_usage @ newline @ newline @
       executable_name @ '' [parachain-args] -- [relaychain-args]'') (chain_name fs)"

definition Cli_support_url :: string where
  "Cli_support_url = ''https://github.com/polkafoundry/newpolka/issues/new''"

definition Cli_copyright_start_year :: int where
  "Cli_copyright_start_year = 2019"

definition RelayChainCli_impl_name :: "features \<Rightarrow> string option" where
  "RelayChainCli_impl_name fs = map_option (\<lambda>name. name @ '' Parachain Collator'') (chain_name fs)"

definition RelayChainCli_description :: "features \<Rightarrow> string option" where
  "RelayChainCli_description fs =
     map_option (\<lambda>name. name @ '' Parachain Collator'' @ newline @ newline @ Cli_usage @ newline @ newline @
       ''rococo-collator [parachain-args] -- [relaychain-args]'') (chain_name fs)"

definition RelayChainCli_support_url :: string where
  "RelayChainCli_support_url = ''https://github.com/polkafoundry/newpolka/issues/new''"

definition RelayChainCli_copyright_start_year :: int where
  "RelayChainCli_copyright_start_year = 2019"

text \<open>
  The relay chain node loads specifications and reports versions with the Polkadot command line,
  which is a parameter, so it knows the relay chains and none of the parachain runtimes.
\<close>

definition RelayChainCli_load_spec :: "(string \<Rightarrow> string + 'spec) \<Rightarrow> string \<Rightarrow> string + 'spec" where
  "RelayChainCli_load_spec polkadot_load ident = polkadot_load ident"

definition RelayChainCli_native_runtime_version :: "('spec \<Rightarrow> runtime_version) \<Rightarrow> 'spec \<Rightarrow> runtime_version" where
  "RelayChainCli_native_runtime_version polkadot_version spec = polkadot_version spec"

section \<open>The settings of the relay chain node\<close>

text \<open>
  The queries of \<^verbatim>\<open>CliConfiguration\<close> the relay chain command line answers. All but three are passed on
  to the base command, whose answer (of any type \<open>'v\<close>) is a parameter; \<open>None\<close> is the panic of \<^verbatim>\<open>init\<close>.
\<close>

datatype cli_query =
    Q_shared_params | Q_import_params | Q_network_params | Q_keystore_params | Q_base_path
  | Q_rpc_http u16 | Q_rpc_ipc | Q_rpc_ws u16 | Q_prometheus_config u16 | Q_init | Q_chain_id bool | Q_role bool
  | Q_transaction_pool | Q_state_cache_child_ratio | Q_rpc_methods | Q_rpc_ws_max_connections | Q_rpc_cors bool
  | Q_telemetry_external_transport | Q_default_heap_pages | Q_force_authoring | Q_disable_grandpa
  | Q_max_runtime_instances | Q_announce_block

datatype 'v cli_answer = Value 'v | BasePath "string option" | ChainId string

definition RelayChainCli_configuration ::
    "(cli_query \<Rightarrow> string + 'v) \<Rightarrow> RelayChainCli \<Rightarrow> cli_query \<Rightarrow> (string + 'v cli_answer) option" where
  "RelayChainCli_configuration base self q =
     (case q of
        Q_base_path \<Rightarrow> Some (Inr (BasePath (RelayChainCli_base_path self)))
      | Q_chain_id is_dev \<Rightarrow> Some (map_sum id ChainId (RelayChainCli_chain_id self is_dev))
      | Q_init \<Rightarrow> None
      | _ \<Rightarrow> Some (map_sum id Value (base q)))"

lemma RelayChainCli_configuration_base:
  "q \<notin> {Q_base_path, Q_init} \<Longrightarrow> (\<And>d. q \<noteq> Q_chain_id d) \<Longrightarrow>
   RelayChainCli_configuration base self q = Some (map_sum id Value (base q))"
  by (cases q) (auto simp: RelayChainCli_configuration_def)

end
