(* ===== verification/Runtime_Xcm.thy ===== *)
theory Runtime_Xcm
  imports Runtime_Compose
begin

text \<open>
  How the Halongbay runtime treats messages of other chains (\<^verbatim>\<open>runtime/halongbay/src/lib.rs\<close>): which account a
  location stands for, which origin a \<^verbatim>\<open>Transact\<close> of it gets, how messages are routed, and the
  configuration of the executor. The parts it puts together belong to the XCM builder library and are
  the fields of \<open>xcm_lib\<close>; what the comments of the runtime say of them is \<open>xcm_documented\<close>.
\<close>

section \<open>The library\<close>

text \<open>The kinds of origin a \<^verbatim>\<open>Transact\<close> may ask for, and the origins of the runtime's calls.\<close>

datatype origin_kind = Native | SovereignAccount | Superuser | XcmKind

datatype xcm_origin = Relay | SiblingParachain u32

datatype runtime_origin = System_origin "u8 list raw_origin" | CumulusXcm_origin xcm_origin

type_synonym account_converter = "multi_location \<Rightarrow> u8 list option"

type_synonym origin_converter = "multi_location \<Rightarrow> origin_kind \<Rightarrow> runtime_origin option"

datatype 'h send_result = Sent 'h | CannotReachDestination | SendFailed

record ('msg, 'asset, 'ta, 'tr, 'h) xcm_lib =
  ParentIsDefault :: account_converter
  SiblingParachainConvertsVia :: account_converter
  AccountId32Aliases :: "network_id \<Rightarrow> account_converter"
  SovereignSignedViaLocation :: "account_converter \<Rightarrow> origin_converter"
  RelayChainAsNative :: "runtime_origin \<Rightarrow> origin_converter"
  SiblingParachainAsNative :: origin_converter
  ParentAsSuperuser :: origin_converter
  SignedAccountId32AsNative :: "network_id \<Rightarrow> origin_converter"
  IsConcrete :: "multi_location \<Rightarrow> 'asset \<Rightarrow> Balance option"
  CurrencyAdapter :: "('asset \<Rightarrow> Balance option) \<Rightarrow> account_converter \<Rightarrow> 'ta"
  NativeAsset :: "'asset \<Rightarrow> multi_location \<Rightarrow> bool"
  LocationInverter :: "multi_location \<Rightarrow> multi_location \<Rightarrow> multi_location"
  TakeWeightCredit :: "multi_location \<Rightarrow> 'msg \<Rightarrow> bool"
  AllowTopLevelPaidExecutionFrom :: "(multi_location \<Rightarrow> bool) \<Rightarrow> multi_location \<Rightarrow> 'msg \<Rightarrow> bool"
  AllowUnpaidExecutionFrom :: "(multi_location \<Rightarrow> bool) \<Rightarrow> multi_location \<Rightarrow> 'msg \<Rightarrow> bool"
  FixedWeightBounds :: "u64 \<Rightarrow> 'msg \<Rightarrow> u64"
  UsingComponents :: "multi_location \<Rightarrow> 'tr"
  ParentAsUmp :: "multi_location \<Rightarrow> 'msg \<Rightarrow> 'h send_result"
  XcmpQueue :: "multi_location \<Rightarrow> 'msg \<Rightarrow> 'h send_result"

text \<open>The library tries the members of a tuple of converters in order and takes the first answer.\<close>

fun first_some :: "('a \<Rightarrow> 'b option) list \<Rightarrow> 'a \<Rightarrow> 'b option" where
  "first_some [] x = None"
| "first_some (f # fs) x = (case f x of Some y \<Rightarrow> Some y | None \<Rightarrow> first_some fs x)"

text \<open>A tuple of routers tries the next one only if a destination cannot be reached.\<close>

fun first_route :: "('d \<Rightarrow> 'm \<Rightarrow> 'h send_result) list \<Rightarrow> 'd \<Rightarrow> 'm \<Rightarrow> 'h send_result" where
  "first_route [] dest msg = CannotReachDestination"
| "first_route (f # fs) dest msg = (case f dest msg of CannotReachDestination \<Rightarrow> first_route fs dest msg | r \<Rightarrow> r)"

section \<open>The configuration of Halongbay\<close>

definition RococoNetwork :: network_id where
  "RococoNetwork = PolkadotNetwork"

definition RelayChainOrigin :: runtime_origin where
  "RelayChainOrigin = CumulusXcm_origin Relay"

definition LocationToAccountId :: "('msg, 'asset, 'ta, 'tr, 'h) xcm_lib \<Rightarrow> account_converter" where
  "LocationToAccountId lib =
     first_some [ParentIsDefault lib, SiblingParachainConvertsVia lib, AccountId32Aliases lib RococoNetwork]"

definition LocalAssetTransactor :: "('msg, 'asset, 'ta, 'tr, 'h) xcm_lib \<Rightarrow> 'ta" where
  "LocalAssetTransactor lib = CurrencyAdapter lib (IsConcrete lib RococoLocation) (LocationToAccountId lib)"

definition XcmOriginToTransactDispatchOrigin :: "('msg, 'asset, 'ta, 'tr, 'h) xcm_lib \<Rightarrow> origin_converter" where
  "XcmOriginToTransactDispatchOrigin lib loc kind =
     first_some (map (\<lambda>f (l, k). f l k)
       [SovereignSignedViaLocation lib (LocationToAccountId lib), RelayChainAsNative lib RelayChainOrigin,
        SiblingParachainAsNative lib, ParentAsSuperuser lib, SignedAccountId32AsNative lib RococoNetwork]) (loc, kind)"

definition XcmRouter :: "('msg, 'asset, 'ta, 'tr, 'h) xcm_lib \<Rightarrow> multi_location \<Rightarrow> 'msg \<Rightarrow> 'h send_result" where
  "XcmRouter lib = first_route [ParentAsUmp lib, XcmpQueue lib]"

record ('msg, 'asset, 'ta, 'tr, 'h) xcm_executor_config =
  XcmSender :: "multi_location \<Rightarrow> 'msg \<Rightarrow> 'h send_result"
  AssetTransactor :: 'ta
  OriginConverter :: origin_converter
  IsReserve :: "'asset \<Rightarrow> multi_location \<Rightarrow> bool"
  IsTeleporter :: "'asset \<Rightarrow> multi_location \<Rightarrow> bool"
  Inverter :: "multi_location \<Rightarrow> multi_location"
  ExecBarrier :: "multi_location \<Rightarrow> 'msg \<Rightarrow> bool"
  Weigher :: "'msg \<Rightarrow> u64"
  Trader :: 'tr

definition XcmConfig :: "('msg, 'asset, 'ta, 'tr, 'h) xcm_lib \<Rightarrow> u32 \<Rightarrow> ('msg, 'asset, 'ta, 'tr, 'h) xcm_executor_config" where
  "XcmConfig lib parachain_id =
     \<lparr>XcmSender = XcmRouter lib,
      AssetTransactor = LocalAssetTransactor lib,
      OriginConverter = XcmOriginToTransactDispatchOrigin lib,
      IsReserve = NativeAsset lib,
      IsTeleporter = NativeAsset lib,
      Inverter = LocationInverter lib (Ancestry parachain_id),
      ExecBarrier = Barrier (TakeWeightCredit lib) (AllowTopLevelPaidExecutionFrom lib) (AllowUnpaidExecutionFrom lib),
      Weigher = FixedWeightBounds lib UnitWeightCost,
      Trader = UsingComponents lib RococoLocation\<rparr>"

section \<open>Who may act as whom\<close>

text \<open>
  What the comments at the uses say of the converters: the parent is the default account and the only
  superuser; sibling chains have accounts of their own and a native origin; a local account is itself
  if its network is ours or any; the sovereign account is signed for; the relay chain has its native
  origin.
\<close>

definition xcm_documented :: "u8 list \<Rightarrow> (u32 \<Rightarrow> u8 list) \<Rightarrow> ('msg, 'asset, 'ta, 'tr, 'h) xcm_lib \<Rightarrow> bool" where
  "xcm_documented default_account sibling_account lib \<longleftrightarrow>
     (\<forall>l. ParentIsDefault lib l = (if l = [Parent] then Some default_account else None)) \<and>
     (\<forall>l. SiblingParachainConvertsVia lib l =
        (case l of [Parent, Parachain i] \<Rightarrow> Some (sibling_account i) | _ \<Rightarrow> None)) \<and>
     (\<forall>n l. AccountId32Aliases lib n l =
        (case l of [AccountId32 m a] \<Rightarrow> if m = AnyNetwork \<or> m = n then Some a else None | _ \<Rightarrow> None)) \<and>
     (\<forall>f l k. SovereignSignedViaLocation lib f l k =
        (if k = SovereignAccount then map_option (\<lambda>a. System_origin (Signed a)) (f l) else None)) \<and>
     (\<forall>orig l k. RelayChainAsNative lib orig l k = (if k = Native \<and> l = [Parent] then Some orig else None)) \<and>
     (\<forall>l k. SiblingParachainAsNative lib l k =
        (case l of [Parent, Parachain i] \<Rightarrow> if k = Native then Some (CumulusXcm_origin (SiblingParachain i)) else None
         | _ \<Rightarrow> None)) \<and>
     (\<forall>l k. ParentAsSuperuser lib l k = (if k = Superuser \<and> l = [Parent] then Some (System_origin Root) else None)) \<and>
     (\<forall>n l k. SignedAccountId32AsNative lib n l k =
        (case l of [AccountId32 m a] \<Rightarrow>
           if k = Native \<and> (m = AnyNetwork \<or> m = n) then Some (System_origin (Signed a)) else None
         | _ \<Rightarrow> None))"

text \<open>The same as one table: the origin a location gets for each kind, and nothing else gets one.\<close>

fun transact_origin :: "u8 list \<Rightarrow> (u32 \<Rightarrow> u8 list) \<Rightarrow> multi_location \<Rightarrow> origin_kind \<Rightarrow> runtime_origin option" where
  "transact_origin d sib [Parent] SovereignAccount = Some (System_origin (Signed d))"
| "transact_origin d sib [Parent] Native = Some (CumulusXcm_origin Relay)"
| "transact_origin d sib [Parent] Superuser = Some (System_origin Root)"
| "transact_origin d sib [Parent, Parachain i] SovereignAccount = Some (System_origin (Signed (sib i)))"
| "transact_origin d sib [Parent, Parachain i] Native = Some (CumulusXcm_origin (SiblingParachain i))"
| "transact_origin d sib [AccountId32 n a] k =
     (if (k = Native \<or> k = SovereignAccount) \<and> (n = AnyNetwork \<or> n = PolkadotNetwork) then Some (System_origin (Signed a)) else None)"
| "transact_origin d sib _ _ = None"

lemma origin_converter_table:
  assumes "xcm_documented d sib lib"
  shows "XcmOriginToTransactDispatchOrigin lib loc kind = transact_origin d sib loc kind"
  using assms
  by (cases "(d, sib, loc, kind)" rule: transact_origin.cases)
    (auto simp: xcm_documented_def XcmOriginToTransactDispatchOrigin_def LocationToAccountId_def RococoNetwork_def RelayChainOrigin_def
      split: list.splits junction.splits)

fun needs_root :: "('acc, 'relay, 'sig) halongbay_call \<Rightarrow> bool" where
  "needs_root (Treasury_allocate _ _) = True"
| "needs_root (Crowdloan (Call_initialize_reward _ _ _)) = True"
| "needs_root _ = False"

lemma needs_root_Ok:
  assumes "snd (halongbay_dispatch cfg orig call s) = Ok" and "needs_root call"
  shows "orig = Root"
  using assms
  by (cases call rule: needs_root.cases; cases orig)
    (auto simp: allocate_def initialize_reward_def ensure_root_def split: prod.splits)

definition demo_xcm :: "(unit, unit, unit, unit, unit) xcm_lib" where
  "demo_xcm =
     \<lparr>ParentIsDefault = (\<lambda>l. if l = [Parent] then Some [0] else None),
      SiblingParachainConvertsVia = (\<lambda>l. case l of [Parent, Parachain i] \<Rightarrow> Some [1, ucast i] | _ \<Rightarrow> None),
      AccountId32Aliases = (\<lambda>n l. case l of [AccountId32 m a] \<Rightarrow> if m = AnyNetwork \<or> m = n then Some a else None | _ \<Rightarrow> None),
      SovereignSignedViaLocation = (\<lambda>f l k. if k = SovereignAccount then map_option (\<lambda>a. System_origin (Signed a)) (f l) else None),
      RelayChainAsNative = (\<lambda>orig l k. if k = Native \<and> l = [Parent] then Some orig else None),
      SiblingParachainAsNative = (\<lambda>l k. case l of [Parent, Parachain i] \<Rightarrow>
        if k = Native then Some (CumulusXcm_origin (SiblingParachain i)) else None | _ \<Rightarrow> None),
      ParentAsSuperuser = (\<lambda>l k. if k = Superuser \<and> l = [Parent] then Some (System_origin Root) else None),
      SignedAccountId32AsNative = (\<lambda>n l k. case l of [AccountId32 m a] \<Rightarrow>
        if k = Native \<and> (m = AnyNetwork \<or> m = n) then Some (System_origin (Signed a)) else None | _ \<Rightarrow> None),
      IsConcrete = (\<lambda>_ _. None), CurrencyAdapter = (\<lambda>_ _. ()), NativeAsset = (\<lambda>_ _. False), LocationInverter = (\<lambda>_ l. l),
      TakeWeightCredit = (\<lambda>_ _. False), AllowTopLevelPaidExecutionFrom = (\<lambda>_ _ _. False),
      AllowUnpaidExecutionFrom = (\<lambda>f l _. f l), FixedWeightBounds = (\<lambda>w _. w), UsingComponents = (\<lambda>_. ()),
      ParentAsUmp = (\<lambda>l _. if l = [Parent] then Sent () else CannotReachDestination),
      XcmpQueue = (\<lambda>l _. case l of [Parent, Parachain _] \<Rightarrow> Sent () | _ \<Rightarrow> CannotReachDestination)\<rparr>"

lemma demo_xcm_documented: "xcm_documented [0] (\<lambda>i. [1, ucast i]) demo_xcm"
  by (simp add: xcm_documented_def demo_xcm_def)

definition demo_xcm_runtime :: "(u8 list, nat, nat, unit) crowdloan_config" where
  "demo_xcm_runtime =
     \<lparr>cl_treasury = \<lparr>tr_Currency = \<lparr>total_issuance = (\<lambda>_. 9), minimum_balance = 1, free_balance = (\<lambda>_ _. 9),
        reserved_balance = (\<lambda>_ _. 0), reserve = (\<lambda>c _ _. (c, False)), unreserve = (\<lambda>c _ v. (c, v)),
        deposit_into_existing = (\<lambda>c _ _. (c, None)), transfer_allow_death = (\<lambda>c _ _ _. (c, False))\<rparr>,
        account_id = [7]\<rparr>, verify = (\<lambda>_ _ _. False)\<rparr>"

definition demo_xcm_state :: "(u8 list, nat, unit) halongbay_state" where
  "demo_xcm_state = \<lparr>hb_block = 1, hb_balances = (), hb_crowdloan = \<lparr>Contributors = Map.empty, AssociatedAccount = Map.empty,
     CurrentRewardEndIn = 0, RewardPeriod = 0, cl_currency = (), cl_events = []\<rparr>, hb_treasury_events = []\<rparr>"

text \<open>Messages leave for the relay chain and for sibling chains only, each by its own queue.\<close>

lemma xcm_routes:
  assumes "\<And>l m. ParentAsUmp lib l m = CannotReachDestination \<longleftrightarrow> l \<noteq> [Parent]"
    and "\<And>l m. XcmpQueue lib l m = CannotReachDestination \<longleftrightarrow> (\<forall>i. l \<noteq> [Parent, Parachain i])"
  shows "XcmRouter lib [Parent] m = ParentAsUmp lib [Parent] m"
    and "XcmRouter lib [Parent, Parachain i] m = XcmpQueue lib [Parent, Parachain i] m"
    and "l \<noteq> [Parent] \<Longrightarrow> \<forall>i. l \<noteq> [Parent, Parachain i] \<Longrightarrow> XcmRouter lib l m = CannotReachDestination"
proof -
  have "ParentAsUmp lib l m = CannotReachDestination" if "l \<noteq> [Parent]" for l using assms(1) that by simp
  moreover have "XcmpQueue lib l m = CannotReachDestination" if "\<forall>i. l \<noteq> [Parent, Parachain i]" for l using assms(2) that by simp
  ultimately show "l \<noteq> [Parent] \<Longrightarrow> \<forall>i. l \<noteq> [Parent, Parachain i] \<Longrightarrow> XcmRouter lib l m = CannotReachDestination"
    and "XcmRouter lib [Parent, Parachain i] m = XcmpQueue lib [Parent, Parachain i] m"
    by (auto simp: XcmRouter_def split: send_result.split)
  show "XcmRouter lib [Parent] m = ParentAsUmp lib [Parent] m"
    using assms(1) [of "[Parent]" m] by (auto simp: XcmRouter_def split: send_result.splits)
qed

end
