(* ===== verification/Runtime_Xcm_Copies.thy ===== *)
theory Runtime_Xcm_Copies
  imports Runtime_Xcm
begin

text \<open>
  The XCM configuration of the other two runtimes (\<^verbatim>\<open>runtime/polkasmith/src/lib.rs\<close> and
  \<^verbatim>\<open>runtime/polkafoundry/src/lib.rs\<close>). Each file has its own copy of it; the copies are translated one by
  one and shown to be the configuration of Halongbay, so that what is proved of one runtime's policy
  holds for all three.
\<close>

section \<open>PolkaSmith\<close>

definition polkasmith_RococoLocation :: multi_location where
  "polkasmith_RococoLocation = [Parent]"

definition polkasmith_RococoNetwork :: network_id where
  "polkasmith_RococoNetwork = PolkadotNetwork"

definition polkasmith_RelayChainOrigin :: runtime_origin where
  "polkasmith_RelayChainOrigin = CumulusXcm_origin Relay"

definition polkasmith_Ancestry :: "u32 \<Rightarrow> multi_location" where
  "polkasmith_Ancestry parachain_id = [Parachain parachain_id]"

definition polkasmith_LocationToAccountId :: "('msg, 'asset, 'ta, 'tr, 'h) xcm_lib \<Rightarrow> account_converter" where
  "polkasmith_LocationToAccountId lib =
     first_some [ParentIsDefault lib, SiblingParachainConvertsVia lib, AccountId32Aliases lib polkasmith_RococoNetwork]"

definition polkasmith_LocalAssetTransactor :: "('msg, 'asset, 'ta, 'tr, 'h) xcm_lib \<Rightarrow> 'ta" where
  "polkasmith_LocalAssetTransactor lib =
     CurrencyAdapter lib (IsConcrete lib polkasmith_RococoLocation) (polkasmith_LocationToAccountId lib)"

definition polkasmith_XcmOriginToTransactDispatchOrigin :: "('msg, 'asset, 'ta, 'tr, 'h) xcm_lib \<Rightarrow> origin_converter" where
  "polkasmith_XcmOriginToTransactDispatchOrigin lib loc kind =
     first_some (map (\<lambda>f (l, k). f l k)
       [SovereignSignedViaLocation lib (polkasmith_LocationToAccountId lib), RelayChainAsNative lib polkasmith_RelayChainOrigin,
        SiblingParachainAsNative lib, ParentAsSuperuser lib, SignedAccountId32AsNative lib polkasmith_RococoNetwork]) (loc, kind)"

definition polkasmith_UnitWeightCost :: u64 where
  "polkasmith_UnitWeightCost = 1000"

definition polkasmith_ParentOrParentsUnitPlurality :: "multi_location \<Rightarrow> bool" where
  "polkasmith_ParentOrParentsUnitPlurality loc =
     (case loc of
        [Parent] \<Rightarrow> True
      | [Parent, Plurality UnitBody _] \<Rightarrow> True
      | _ \<Rightarrow> False)"

definition polkasmith_Barrier :: "('msg, 'asset, 'ta, 'tr, 'h) xcm_lib \<Rightarrow> multi_location \<Rightarrow> 'msg \<Rightarrow> bool" where
  "polkasmith_Barrier lib origin msg =
     (TakeWeightCredit lib origin msg \<or>
      AllowTopLevelPaidExecutionFrom lib (\<lambda>_. True) origin msg \<or>
      AllowUnpaidExecutionFrom lib polkasmith_ParentOrParentsUnitPlurality origin msg)"

definition polkasmith_XcmRouter :: "('msg, 'asset, 'ta, 'tr, 'h) xcm_lib \<Rightarrow> multi_location \<Rightarrow> 'msg \<Rightarrow> 'h send_result" where
  "polkasmith_XcmRouter lib = first_route [ParentAsUmp lib, XcmpQueue lib]"

definition polkasmith_XcmConfig ::
    "('msg, 'asset, 'ta, 'tr, 'h) xcm_lib \<Rightarrow> u32 \<Rightarrow> ('msg, 'asset, 'ta, 'tr, 'h) xcm_executor_config" where
  "polkasmith_XcmConfig lib parachain_id =
     \<lparr>XcmSender = polkasmith_XcmRouter lib,
      AssetTransactor = polkasmith_LocalAssetTransactor lib,
      OriginConverter = polkasmith_XcmOriginToTransactDispatchOrigin lib,
      IsReserve = NativeAsset lib,
      IsTeleporter = NativeAsset lib,
      Inverter = LocationInverter lib (polkasmith_Ancestry parachain_id),
      ExecBarrier = polkasmith_Barrier lib,
      Weigher = FixedWeightBounds lib polkasmith_UnitWeightCost,
      Trader = UsingComponents lib polkasmith_RococoLocation\<rparr>"

lemmas polkasmith_xcm_defs = polkasmith_RococoLocation_def polkasmith_RococoNetwork_def polkasmith_RelayChainOrigin_def polkasmith_Ancestry_def
  polkasmith_LocationToAccountId_def polkasmith_LocalAssetTransactor_def polkasmith_UnitWeightCost_def polkasmith_XcmRouter_def

lemma polkasmith_XcmConfig_eq: "polkasmith_XcmConfig = XcmConfig"
  by (intro ext)
    (simp add: polkasmith_XcmConfig_def XcmConfig_def polkasmith_xcm_defs RococoLocation_def RococoNetwork_def RelayChainOrigin_def
      Ancestry_def LocationToAccountId_def LocalAssetTransactor_def UnitWeightCost_def XcmRouter_def fun_eq_iff
      polkasmith_XcmOriginToTransactDispatchOrigin_def XcmOriginToTransactDispatchOrigin_def polkasmith_Barrier_def Barrier_def
      polkasmith_ParentOrParentsUnitPlurality_def [abs_def] ParentOrParentsUnitPlurality_def [abs_def])

section \<open>PolkaFoundry\<close>

definition polkafoundry_RococoLocation :: multi_location where
  "polkafoundry_RococoLocation = [Parent]"

definition polkafoundry_RococoNetwork :: network_id where
  "polkafoundry_RococoNetwork = PolkadotNetwork"

definition polkafoundry_RelayChainOrigin :: runtime_origin where
  "polkafoundry_RelayChainOrigin = CumulusXcm_origin Relay"

definition polkafoundry_Ancestry :: "u32 \<Rightarrow> multi_location" where
  "polkafoundry_Ancestry parachain_id = [Parachain parachain_id]"

definition polkafoundry_LocationToAccountId :: "('msg, 'asset, 'ta, 'tr, 'h) xcm_lib \<Rightarrow> account_converter" where
  "polkafoundry_LocationToAccountId lib =
     first_some [ParentIsDefault lib, SiblingParachainConvertsVia lib, AccountId32Aliases lib polkafoundry_RococoNetwork]"

definition polkafoundry_LocalAssetTransactor :: "('msg, 'asset, 'ta, 'tr, 'h) xcm_lib \<Rightarrow> 'ta" where
  "polkafoundry_LocalAssetTransactor lib =
     CurrencyAdapter lib (IsConcrete lib polkafoundry_RococoLocation) (polkafoundry_LocationToAccountId lib)"

definition polkafoundry_XcmOriginToTransactDispatchOrigin :: "('msg, 'asset, 'ta, 'tr, 'h) xcm_lib \<Rightarrow> origin_converter" where
  "polkafoundry_XcmOriginToTransactDispatchOrigin lib loc kind =
     first_some (map (\<lambda>f (l, k). f l k)
       [SovereignSignedViaLocation lib (polkafoundry_LocationToAccountId lib), RelayChainAsNative lib polkafoundry_RelayChainOrigin,
        SiblingParachainAsNative lib, ParentAsSuperuser lib, SignedAccountId32AsNative lib polkafoundry_RococoNetwork]) (loc, kind)"

definition polkafoundry_UnitWeightCost :: u64 where
  "polkafoundry_UnitWeightCost = 1000"

definition polkafoundry_ParentOrParentsUnitPlurality :: "multi_location \<Rightarrow> bool" where
  "polkafoundry_ParentOrParentsUnitPlurality loc =
     (case loc of
        [Parent] \<Rightarrow> True
      | [Parent, Plurality UnitBody _] \<Rightarrow> True
      | _ \<Rightarrow> False)"

definition polkafoundry_Barrier :: "('msg, 'asset, 'ta, 'tr, 'h) xcm_lib \<Rightarrow> multi_location \<Rightarrow> 'msg \<Rightarrow> bool" where
  "polkafoundry_Barrier lib origin msg =
     (TakeWeightCredit lib origin msg \<or>
      AllowTopLevelPaidExecutionFrom lib (\<lambda>_. True) origin msg \<or>
      AllowUnpaidExecutionFrom lib polkafoundry_ParentOrParentsUnitPlurality origin msg)"

definition polkafoundry_XcmRouter :: "('msg, 'asset, 'ta, 'tr, 'h) xcm_lib \<Rightarrow> multi_location \<Rightarrow> 'msg \<Rightarrow> 'h send_result" where
  "polkafoundry_XcmRouter lib = first_route [ParentAsUmp lib, XcmpQueue lib]"

definition polkafoundry_XcmConfig ::
    "('msg, 'asset, 'ta, 'tr, 'h) xcm_lib \<Rightarrow> u32 \<Rightarrow> ('msg, 'asset, 'ta, 'tr, 'h) xcm_executor_config" where
  "polkafoundry_XcmConfig lib parachain_id =
     \<lparr>XcmSender = polkafoundry_XcmRouter lib,
      AssetTransactor = polkafoundry_LocalAssetTransactor lib,
      OriginConverter = polkafoundry_XcmOriginToTransactDispatchOrigin lib,
      IsReserve = NativeAsset lib,
      IsTeleporter = NativeAsset lib,
      Inverter = LocationInverter lib (polkafoundry_Ancestry parachain_id),
      ExecBarrier = polkafoundry_Barrier lib,
      Weigher = FixedWeightBounds lib polkafoundry_UnitWeightCost,
      Trader = UsingComponents lib polkafoundry_RococoLocation\<rparr>"

lemmas polkafoundry_xcm_defs = polkafoundry_RococoLocation_def polkafoundry_RococoNetwork_def polkafoundry_RelayChainOrigin_def polkafoundry_Ancestry_def
  polkafoundry_LocationToAccountId_def polkafoundry_LocalAssetTransactor_def polkafoundry_UnitWeightCost_def polkafoundry_XcmRouter_def

lemma polkafoundry_XcmConfig_eq: "polkafoundry_XcmConfig = XcmConfig"
  by (intro ext)
    (simp add: polkafoundry_XcmConfig_def XcmConfig_def polkafoundry_xcm_defs RococoLocation_def RococoNetwork_def RelayChainOrigin_def
      Ancestry_def LocationToAccountId_def LocalAssetTransactor_def UnitWeightCost_def XcmRouter_def fun_eq_iff
      polkafoundry_XcmOriginToTransactDispatchOrigin_def XcmOriginToTransactDispatchOrigin_def polkafoundry_Barrier_def Barrier_def
      polkafoundry_ParentOrParentsUnitPlurality_def [abs_def] ParentOrParentsUnitPlurality_def [abs_def])

section \<open>All three\<close>

definition runtime_XcmConfig ::
    "runtime \<Rightarrow> ('msg, 'asset, 'ta, 'tr, 'h) xcm_lib \<Rightarrow> u32 \<Rightarrow> ('msg, 'asset, 'ta, 'tr, 'h) xcm_executor_config" where
  "runtime_XcmConfig r = (case r of PolkaFoundry \<Rightarrow> polkafoundry_XcmConfig | PolkaSmith \<Rightarrow> polkasmith_XcmConfig | Halongbay \<Rightarrow> XcmConfig)"

lemma runtime_XcmConfig_eq: "OriginConverter (runtime_XcmConfig r lib parachain_id) = XcmOriginToTransactDispatchOrigin lib"
  by (cases r) (simp_all add: runtime_XcmConfig_def polkasmith_XcmConfig_eq polkafoundry_XcmConfig_eq XcmConfig_def)

lemma runtime_barrier:
  "ExecBarrier (runtime_XcmConfig r lib parachain_id) =
     Barrier (TakeWeightCredit lib) (AllowTopLevelPaidExecutionFrom lib) (AllowUnpaidExecutionFrom lib)"
  by (cases r) (simp_all add: runtime_XcmConfig_def polkasmith_XcmConfig_eq polkafoundry_XcmConfig_eq XcmConfig_def)

text \<open>C32: Who another chain may act as, in each of the three runtimes: when a \<^verbatim>\<open>Transact\<close> is converted to a local origin, that origin is root if and
  only if the message comes from the relay chain and asks for the superuser; a signed origin is that
  of the default account (for the relay chain), of the sibling chain's own account, or of the local
  account that sent the message, never of anyone else. So the calls of Halongbay's own pallets
  that need root, allocating the treasury and setting up the crowdloan rewards, can be reached from
  outside by the relay chain only.\<close>

theorem transact_authority:
  assumes "xcm_documented d sib lib" and "OriginConverter (runtime_XcmConfig r lib parachain_id) loc kind = Some (System_origin orig)"
  shows "(orig = Root \<longleftrightarrow> loc = [Parent] \<and> kind = Superuser) \<and>
    (\<forall>a. orig = Signed a \<longrightarrow> (loc = [Parent] \<and> a = d \<and> kind = SovereignAccount) \<or>
       (\<exists>i. loc = [Parent, Parachain i] \<and> a = sib i \<and> kind = SovereignAccount) \<or>
       (\<exists>n. loc = [AccountId32 n a] \<and> n \<in> {AnyNetwork, PolkadotNetwork} \<and> kind \<in> {Native, SovereignAccount})) \<and>
    (needs_root call \<and> snd (halongbay_dispatch cfg orig call s) = Ok \<longrightarrow> loc = [Parent] \<and> kind = Superuser)"
proof -
  have t: "transact_origin d sib loc kind = Some (System_origin orig)"
    using assms(2) unfolding runtime_XcmConfig_eq origin_converter_table [OF assms(1)] .
  have root: "orig = Root \<longleftrightarrow> loc = [Parent] \<and> kind = Superuser"
    using t by (cases "(d, sib, loc, kind)" rule: transact_origin.cases) (auto split: if_splits)
  moreover have "(loc = [Parent] \<and> a = d \<and> kind = SovereignAccount) \<or>
      (\<exists>i. loc = [Parent, Parachain i] \<and> a = sib i \<and> kind = SovereignAccount) \<or>
      (\<exists>n. loc = [AccountId32 n a] \<and> n \<in> {AnyNetwork, PolkadotNetwork} \<and> kind \<in> {Native, SovereignAccount})"
    if "orig = Signed a" for a
    using t that by (cases "(d, sib, loc, kind)" rule: transact_origin.cases) (auto split: if_splits)
  ultimately show ?thesis using needs_root_Ok [of cfg orig call s] by (intro conjI allI impI) blast+
qed

theorem transact_authority_witness:
  "OriginConverter (runtime_XcmConfig Halongbay demo_xcm 1111) [Parent, Parachain 2000] SovereignAccount = Some (System_origin (Signed [1, 208])) \<and>
   snd (halongbay_dispatch demo_xcm_runtime (Signed [1, 208]) (Treasury_allocate [5] 3) demo_xcm_state) \<noteq> Ok"
proof
  show o: "OriginConverter (runtime_XcmConfig Halongbay demo_xcm 1111) [Parent, Parachain 2000] SovereignAccount = Some (System_origin (Signed [1, 208]))"
    unfolding runtime_XcmConfig_eq origin_converter_table [OF demo_xcm_documented] by simp
  show "snd (halongbay_dispatch demo_xcm_runtime (Signed [1, 208]) (Treasury_allocate [5] 3) demo_xcm_state) \<noteq> Ok"
    using transact_authority [OF demo_xcm_documented o, of "Treasury_allocate [5] 3" demo_xcm_runtime demo_xcm_state] by auto
qed

end
