(* ===== verification/Runtime_Pallets.thy ===== *)
theory Runtime_Pallets
  imports Runtime_Xcm_Copies
begin

text \<open>
  How the three runtimes configure the library's pallets (\<^verbatim>\<open>impl \<dots>::Config for Runtime\<close> in their \<^verbatim>\<open>lib.rs\<close>, and
  \<^verbatim>\<open>runtime/common\<close>): which calls are let through, what runs when accounts, timestamps and fees come
  and go, how messages are handed on, and which checks a signed transaction has to pass. A pallet's
  configuration is a record of values and functions; what belongs to the library is a field of
  \<open>pallet_lib\<close>. The unit type means, by the traits it stands for, a filter that lets everything
  through, a hook that does nothing, a handler that drops what it gets, and a set with no members.
\<close>

section \<open>The library\<close>

record ('s, 'v, 'len, 'xcfg, 'ex) pallet_lib =
  AccountIdLookup :: "(u8 list, unit) MultiAddress \<Rightarrow> u8 list option"
  ParachainSetCode :: "u8 list \<Rightarrow> 's \<Rightarrow> 's"
  RocksDbWeight :: db_weight
  ratio_of_weight :: "nat \<Rightarrow> u64 \<Rightarrow> u64"
  ratio_of_length :: "nat \<Rightarrow> u32 \<Rightarrow> u32"
  max_with_normal_ratio :: "u32 \<Rightarrow> nat \<Rightarrow> 'len"
  max_of_normal :: "'len \<Rightarrow> u32"
  WEIGHT_PER_SECOND :: u64
  BlockExecutionWeight :: u64
  ExtrinsicBaseWeight :: u64
  IdentityFee :: "u64 \<Rightarrow> Balance"
  drop_imbalance :: "Balance \<Rightarrow> 's \<Rightarrow> 's"
  XcmExecutor :: "'xcfg \<Rightarrow> 'ex"
  EnsureXcmOrigin :: "(runtime_origin \<Rightarrow> multi_location option) \<Rightarrow> runtime_origin \<Rightarrow> multi_location option"
  XcmpQueue_pallet :: 'v
  DmpQueue_pallet :: 'v
  ParachainSystem_pallet :: 'v
  parachain_id :: "'s \<Rightarrow> u32"

section \<open>Limits common to the runtimes\<close>

text \<open>The ratios are numbers of parts of a \<^verbatim>\<open>Perbill\<close>.\<close>

definition AVERAGE_ON_INITIALIZE_RATIO :: nat where
  "AVERAGE_ON_INITIALIZE_RATIO = 100000000"

definition NORMAL_DISPATCH_RATIO :: nat where
  "NORMAL_DISPATCH_RATIO = 750000000"

definition BlockHashCount :: BlockNumber where
  "BlockHashCount = 250"

definition BlockLength :: "('s, 'v, 'len, 'xcfg, 'ex) pallet_lib \<Rightarrow> 'len" where
  "BlockLength lib = max_with_normal_ratio lib (5 * 1024 * 1024) NORMAL_DISPATCH_RATIO"

definition OffchainSolutionLengthLimit :: "('s, 'v, 'len, 'xcfg, 'ex) pallet_lib \<Rightarrow> u32" where
  "OffchainSolutionLengthLimit lib = ratio_of_length lib 900000000 (max_of_normal lib (BlockLength lib))"

definition common_BlockWeights :: "('s, 'v, 'len, 'xcfg, 'ex) pallet_lib \<Rightarrow> block_weights" where
  "common_BlockWeights lib =
     BlockWeights (ratio_of_weight lib NORMAL_DISPATCH_RATIO) (WEIGHT_PER_SECOND lib) (BlockExecutionWeight lib) (ExtrinsicBaseWeight lib)"

text \<open>Where a ratio of a length never exceeds it, an off-chain solution is within the limit of normal extrinsics.\<close>

lemma solution_fits_block:
  assumes "\<And>p x. ratio_of_length lib p x \<le> x"
  shows "OffchainSolutionLengthLimit lib \<le> max_of_normal lib (BlockLength lib)"
  unfolding OffchainSolutionLengthLimit_def by (rule assms)

section \<open>Configurations\<close>

record ('call, 's, 'len) system_config =
  BaseCallFilter :: "'call \<Rightarrow> bool"
  sys_BlockWeights :: block_weights
  sys_BlockLength :: 'len
  sys_Lookup :: "(u8 list, unit) MultiAddress \<Rightarrow> u8 list option"
  sys_BlockHashCount :: BlockNumber
  sys_DbWeight :: db_weight
  sys_Version :: runtime_version
  OnNewAccount :: "u8 list \<Rightarrow> 's \<Rightarrow> 's"
  OnKilledAccount :: "u8 list \<Rightarrow> 's \<Rightarrow> 's"
  sys_SS58Prefix :: u8
  OnSetCode :: "u8 list \<Rightarrow> 's \<Rightarrow> 's"

record 's timestamp_config =
  OnTimestampSet :: "Moment \<Rightarrow> 's \<Rightarrow> 's"
  ts_MinimumPeriod :: u64

record 's balances_config =
  bal_MaxLocks :: u32
  DustRemoval :: "Balance \<Rightarrow> 's \<Rightarrow> 's"
  bal_ExistentialDeposit :: Balance

record ('s, 'm) payment_config =
  OnUnbalanced :: "Balance \<Rightarrow> 's \<Rightarrow> 's"
  pay_TransactionByteFee :: Balance
  WeightToFee :: "u64 \<Rightarrow> Balance"
  FeeMultiplierUpdate :: "'m \<Rightarrow> 'm"

record 'ex dmp_queue_config =
  dmp_XcmExecutor :: 'ex
  ExecuteOverweightOrigin :: "u8 list raw_origin \<Rightarrow> bool"

record ('s, 'v) parachain_system_config =
  OnValidationData :: "'v \<Rightarrow> 's \<Rightarrow> 's"
  SelfParaId :: "'s \<Rightarrow> u32"
  OutboundXcmpMessageSource :: 'v
  DmpMessageHandler :: 'v
  ps_ReservedDmpWeight :: u64
  XcmpMessageHandler :: 'v
  ps_ReservedXcmpWeight :: u64

record ('msg, 'asset, 'h, 'ex) pallet_xcm_config =
  SendXcmOrigin :: "runtime_origin \<Rightarrow> multi_location option"
  px_XcmRouter :: "multi_location \<Rightarrow> 'msg \<Rightarrow> 'h send_result"
  ExecuteXcmOrigin :: "runtime_origin \<Rightarrow> multi_location option"
  XcmExecuteFilter :: "multi_location \<times> 'msg \<Rightarrow> bool"
  px_XcmExecutor :: 'ex
  XcmTeleportFilter :: "multi_location \<times> 'asset list \<Rightarrow> bool"
  XcmReserveTransferFilter :: "multi_location \<times> 'asset list \<Rightarrow> bool"
  px_Weigher :: "'msg \<Rightarrow> u64"

record ('ex, 'v) xcmp_queue_config =
  xq_XcmExecutor :: 'ex
  ChannelInfo :: 'v

text \<open>The checks of the library a signed transaction goes through; the answer of a check is an error or nothing.\<close>

record ('x, 'e) signed_checks =
  CheckSpecVersion :: "'x \<Rightarrow> 'e option"
  CheckTxVersion :: "'x \<Rightarrow> 'e option"
  CheckGenesis :: "'x \<Rightarrow> 'e option"
  CheckEra :: "'x \<Rightarrow> 'e option"
  CheckNonce :: "'x \<Rightarrow> 'e option"
  CheckWeight :: "'x \<Rightarrow> 'e option"
  ChargeTransactionPayment :: "'x \<Rightarrow> 'e option"

type_synonym ('msg, 'asset, 'ta, 'tr, 'h, 's, 'v, 'len, 'ex) runtime_lib =
  "('s, 'v, 'len, ('msg, 'asset, 'ta, 'tr, 'h) xcm_executor_config, 'ex) pallet_lib"

record native_runtime_version =
  nv_runtime_version :: runtime_version
  can_author_with :: "u32 list"

section \<open>Halongbay\<close>

definition halongbay_native_version :: native_runtime_version where
  "halongbay_native_version = \<lparr>nv_runtime_version = halongbay_VERSION, can_author_with = []\<rparr>"

definition halongbay_system_Config :: "('s, 'v, 'len, 'xcfg, 'ex) pallet_lib \<Rightarrow> ('call, 's, 'len) system_config" where
  "halongbay_system_Config lib =
     \<lparr>BaseCallFilter = (\<lambda>_. True), sys_BlockWeights = common_BlockWeights lib, sys_BlockLength = BlockLength lib,
      sys_Lookup = AccountIdLookup lib, sys_BlockHashCount = BlockHashCount, sys_DbWeight = RocksDbWeight lib,
      sys_Version = halongbay_VERSION, OnNewAccount = (\<lambda>_ s. s), OnKilledAccount = (\<lambda>_ s. s),
      sys_SS58Prefix = SS58PREFIX halongbay_time, OnSetCode = ParachainSetCode lib\<rparr>"

definition halongbay_timestamp_Config :: "'s timestamp_config" where
  "halongbay_timestamp_Config = \<lparr>OnTimestampSet = (\<lambda>_ s. s), ts_MinimumPeriod = SLOT_DURATION halongbay_time div 2\<rparr>"

definition halongbay_balances_Config :: "('s, 'v, 'len, 'xcfg, 'ex) pallet_lib \<Rightarrow> 's balances_config" where
  "halongbay_balances_Config lib = \<lparr>bal_MaxLocks = 50, DustRemoval = drop_imbalance lib, bal_ExistentialDeposit = 500\<rparr>"

definition halongbay_transaction_payment_Config :: "('s, 'v, 'len, 'xcfg, 'ex) pallet_lib \<Rightarrow> ('s, 'm) payment_config" where
  "halongbay_transaction_payment_Config lib =
     \<lparr>OnUnbalanced = drop_imbalance lib, pay_TransactionByteFee = 1, WeightToFee = IdentityFee lib, FeeMultiplierUpdate = (\<lambda>m. m)\<rparr>"

definition halongbay_dmp_queue_Config ::
    "('msg, 'asset, 'ta, 'tr, 'h, 's, 'v, 'len, 'ex) runtime_lib \<Rightarrow> ('msg, 'asset, 'ta, 'tr, 'h) xcm_lib \<Rightarrow> u32 \<Rightarrow> 'ex dmp_queue_config" where
  "halongbay_dmp_queue_Config lib xlib para =
     \<lparr>dmp_XcmExecutor = XcmExecutor lib (XcmConfig xlib para), ExecuteOverweightOrigin = ensure_root\<rparr>"

definition halongbay_parachain_system_Config :: "('s, 'v, 'len, 'xcfg, 'ex) pallet_lib \<Rightarrow> ('s, 'v) parachain_system_config" where
  "halongbay_parachain_system_Config lib =
     \<lparr>OnValidationData = (\<lambda>_ s. s), SelfParaId = parachain_id lib, OutboundXcmpMessageSource = XcmpQueue_pallet lib,
      DmpMessageHandler = DmpQueue_pallet lib, ps_ReservedDmpWeight = MAXIMUM_BLOCK_WEIGHT (WEIGHT_PER_SECOND lib) div 4,
      XcmpMessageHandler = XcmpQueue_pallet lib, ps_ReservedXcmpWeight = MAXIMUM_BLOCK_WEIGHT (WEIGHT_PER_SECOND lib) div 4\<rparr>"

definition halongbay_LocalOriginToLocation :: "runtime_origin \<Rightarrow> multi_location option" where
  "halongbay_LocalOriginToLocation = first_some []"

definition halongbay_pallet_xcm_Config ::
    "('msg, 'asset, 'ta, 'tr, 'h, 's, 'v, 'len, 'ex) runtime_lib \<Rightarrow> ('msg, 'asset, 'ta, 'tr, 'h) xcm_lib \<Rightarrow> u32 \<Rightarrow>
     ('msg, 'asset, 'h, 'ex) pallet_xcm_config" where
  "halongbay_pallet_xcm_Config lib xlib para =
     \<lparr>SendXcmOrigin = EnsureXcmOrigin lib halongbay_LocalOriginToLocation, px_XcmRouter = XcmRouter xlib,
      ExecuteXcmOrigin = EnsureXcmOrigin lib halongbay_LocalOriginToLocation, XcmExecuteFilter = (\<lambda>_. True),
      px_XcmExecutor = XcmExecutor lib (XcmConfig xlib para), XcmTeleportFilter = (\<lambda>_. True),
      XcmReserveTransferFilter = (\<lambda>_. False), px_Weigher = FixedWeightBounds xlib UnitWeightCost\<rparr>"

definition halongbay_cumulus_xcm_Config ::
    "('msg, 'asset, 'ta, 'tr, 'h, 's, 'v, 'len, 'ex) runtime_lib \<Rightarrow> ('msg, 'asset, 'ta, 'tr, 'h) xcm_lib \<Rightarrow> u32 \<Rightarrow> 'ex" where
  "halongbay_cumulus_xcm_Config lib xlib para = XcmExecutor lib (XcmConfig xlib para)"

definition halongbay_xcmp_queue_Config ::
    "('msg, 'asset, 'ta, 'tr, 'h, 's, 'v, 'len, 'ex) runtime_lib \<Rightarrow> ('msg, 'asset, 'ta, 'tr, 'h) xcm_lib \<Rightarrow> u32 \<Rightarrow> ('ex, 'v) xcmp_queue_config" where
  "halongbay_xcmp_queue_Config lib xlib para =
     \<lparr>xq_XcmExecutor = XcmExecutor lib (XcmConfig xlib para), ChannelInfo = ParachainSystem_pallet lib\<rparr>"

definition halongbay_ping_XcmSender :: "('msg, 'asset, 'ta, 'tr, 'h) xcm_lib \<Rightarrow> multi_location \<Rightarrow> 'msg \<Rightarrow> 'h send_result" where
  "halongbay_ping_XcmSender xlib = XcmRouter xlib"

definition halongbay_SignedExtra :: "('x, 'e) signed_checks \<Rightarrow> 'x \<Rightarrow> 'e option" where
  "halongbay_SignedExtra lib =
     first_some [CheckSpecVersion lib, CheckTxVersion lib, CheckGenesis lib, CheckEra lib, CheckNonce lib, CheckWeight lib,
       ChargeTransactionPayment lib]"

section \<open>PolkaSmith\<close>

definition polkasmith_native_version :: native_runtime_version where
  "polkasmith_native_version = \<lparr>nv_runtime_version = polkasmith_VERSION, can_author_with = []\<rparr>"

definition polkasmith_system_Config :: "('s, 'v, 'len, 'xcfg, 'ex) pallet_lib \<Rightarrow> ('call, 's, 'len) system_config" where
  "polkasmith_system_Config lib =
     \<lparr>BaseCallFilter = (\<lambda>_. True), sys_BlockWeights = common_BlockWeights lib, sys_BlockLength = BlockLength lib,
      sys_Lookup = AccountIdLookup lib, sys_BlockHashCount = BlockHashCount, sys_DbWeight = RocksDbWeight lib,
      sys_Version = polkasmith_VERSION, OnNewAccount = (\<lambda>_ s. s), OnKilledAccount = (\<lambda>_ s. s),
      sys_SS58Prefix = SS58PREFIX polkasmith_time, OnSetCode = ParachainSetCode lib\<rparr>"

definition polkasmith_timestamp_Config :: "'s timestamp_config" where
  "polkasmith_timestamp_Config = \<lparr>OnTimestampSet = (\<lambda>_ s. s), ts_MinimumPeriod = SLOT_DURATION polkasmith_time div 2\<rparr>"

definition polkasmith_balances_Config :: "('s, 'v, 'len, 'xcfg, 'ex) pallet_lib \<Rightarrow> 's balances_config" where
  "polkasmith_balances_Config lib = \<lparr>bal_MaxLocks = 50, DustRemoval = drop_imbalance lib, bal_ExistentialDeposit = 500\<rparr>"

definition polkasmith_transaction_payment_Config :: "('s, 'v, 'len, 'xcfg, 'ex) pallet_lib \<Rightarrow> ('s, 'm) payment_config" where
  "polkasmith_transaction_payment_Config lib =
     \<lparr>OnUnbalanced = drop_imbalance lib, pay_TransactionByteFee = 1, WeightToFee = IdentityFee lib, FeeMultiplierUpdate = (\<lambda>m. m)\<rparr>"

definition polkasmith_dmp_queue_Config ::
    "('msg, 'asset, 'ta, 'tr, 'h, 's, 'v, 'len, 'ex) runtime_lib \<Rightarrow> ('msg, 'asset, 'ta, 'tr, 'h) xcm_lib \<Rightarrow> u32 \<Rightarrow> 'ex dmp_queue_config" where
  "polkasmith_dmp_queue_Config lib xlib para =
     \<lparr>dmp_XcmExecutor = XcmExecutor lib (polkasmith_XcmConfig xlib para), ExecuteOverweightOrigin = ensure_root\<rparr>"

definition polkasmith_parachain_system_Config :: "('s, 'v, 'len, 'xcfg, 'ex) pallet_lib \<Rightarrow> ('s, 'v) parachain_system_config" where
  "polkasmith_parachain_system_Config lib =
     \<lparr>OnValidationData = (\<lambda>_ s. s), SelfParaId = parachain_id lib, OutboundXcmpMessageSource = XcmpQueue_pallet lib,
      DmpMessageHandler = DmpQueue_pallet lib, ps_ReservedDmpWeight = MAXIMUM_BLOCK_WEIGHT (WEIGHT_PER_SECOND lib) div 4,
      XcmpMessageHandler = XcmpQueue_pallet lib, ps_ReservedXcmpWeight = MAXIMUM_BLOCK_WEIGHT (WEIGHT_PER_SECOND lib) div 4\<rparr>"

definition polkasmith_LocalOriginToLocation :: "runtime_origin \<Rightarrow> multi_location option" where
  "polkasmith_LocalOriginToLocation = first_some []"

definition polkasmith_pallet_xcm_Config ::
    "('msg, 'asset, 'ta, 'tr, 'h, 's, 'v, 'len, 'ex) runtime_lib \<Rightarrow> ('msg, 'asset, 'ta, 'tr, 'h) xcm_lib \<Rightarrow> u32 \<Rightarrow>
     ('msg, 'asset, 'h, 'ex) pallet_xcm_config" where
  "polkasmith_pallet_xcm_Config lib xlib para =
     \<lparr>SendXcmOrigin = EnsureXcmOrigin lib polkasmith_LocalOriginToLocation, px_XcmRouter = polkasmith_XcmRouter xlib,
      ExecuteXcmOrigin = EnsureXcmOrigin lib polkasmith_LocalOriginToLocation, XcmExecuteFilter = (\<lambda>_. True),
      px_XcmExecutor = XcmExecutor lib (polkasmith_XcmConfig xlib para), XcmTeleportFilter = (\<lambda>_. True),
      XcmReserveTransferFilter = (\<lambda>_. False), px_Weigher = FixedWeightBounds xlib polkasmith_UnitWeightCost\<rparr>"

definition polkasmith_cumulus_xcm_Config ::
    "('msg, 'asset, 'ta, 'tr, 'h, 's, 'v, 'len, 'ex) runtime_lib \<Rightarrow> ('msg, 'asset, 'ta, 'tr, 'h) xcm_lib \<Rightarrow> u32 \<Rightarrow> 'ex" where
  "polkasmith_cumulus_xcm_Config lib xlib para = XcmExecutor lib (polkasmith_XcmConfig xlib para)"

definition polkasmith_xcmp_queue_Config ::
    "('msg, 'asset, 'ta, 'tr, 'h, 's, 'v, 'len, 'ex) runtime_lib \<Rightarrow> ('msg, 'asset, 'ta, 'tr, 'h) xcm_lib \<Rightarrow> u32 \<Rightarrow> ('ex, 'v) xcmp_queue_config" where
  "polkasmith_xcmp_queue_Config lib xlib para =
     \<lparr>xq_XcmExecutor = XcmExecutor lib (polkasmith_XcmConfig xlib para), ChannelInfo = ParachainSystem_pallet lib\<rparr>"

definition polkasmith_ping_XcmSender :: "('msg, 'asset, 'ta, 'tr, 'h) xcm_lib \<Rightarrow> multi_location \<Rightarrow> 'msg \<Rightarrow> 'h send_result" where
  "polkasmith_ping_XcmSender xlib = polkasmith_XcmRouter xlib"

definition polkasmith_SignedExtra :: "('x, 'e) signed_checks \<Rightarrow> 'x \<Rightarrow> 'e option" where
  "polkasmith_SignedExtra lib =
     first_some [CheckSpecVersion lib, CheckTxVersion lib, CheckGenesis lib, CheckEra lib, CheckNonce lib, CheckWeight lib,
       ChargeTransactionPayment lib]"

section \<open>PolkaFoundry\<close>

definition polkafoundry_native_version :: native_runtime_version where
  "polkafoundry_native_version = \<lparr>nv_runtime_version = polkafoundry_VERSION, can_author_with = []\<rparr>"

definition polkafoundry_system_Config :: "('s, 'v, 'len, 'xcfg, 'ex) pallet_lib \<Rightarrow> ('call, 's, 'len) system_config" where
  "polkafoundry_system_Config lib =
     \<lparr>BaseCallFilter = (\<lambda>_. True), sys_BlockWeights = common_BlockWeights lib, sys_BlockLength = BlockLength lib,
      sys_Lookup = AccountIdLookup lib, sys_BlockHashCount = BlockHashCount, sys_DbWeight = RocksDbWeight lib,
      sys_Version = polkafoundry_VERSION, OnNewAccount = (\<lambda>_ s. s), OnKilledAccount = (\<lambda>_ s. s),
      sys_SS58Prefix = SS58PREFIX polkafoundry_time, OnSetCode = ParachainSetCode lib\<rparr>"

definition polkafoundry_timestamp_Config :: "'s timestamp_config" where
  "polkafoundry_timestamp_Config = \<lparr>OnTimestampSet = (\<lambda>_ s. s), ts_MinimumPeriod = SLOT_DURATION polkafoundry_time div 2\<rparr>"

definition polkafoundry_balances_Config :: "('s, 'v, 'len, 'xcfg, 'ex) pallet_lib \<Rightarrow> 's balances_config" where
  "polkafoundry_balances_Config lib = \<lparr>bal_MaxLocks = 50, DustRemoval = drop_imbalance lib, bal_ExistentialDeposit = 500\<rparr>"

definition polkafoundry_transaction_payment_Config :: "('s, 'v, 'len, 'xcfg, 'ex) pallet_lib \<Rightarrow> ('s, 'm) payment_config" where
  "polkafoundry_transaction_payment_Config lib =
     \<lparr>OnUnbalanced = drop_imbalance lib, pay_TransactionByteFee = 1, WeightToFee = IdentityFee lib, FeeMultiplierUpdate = (\<lambda>m. m)\<rparr>"

definition polkafoundry_dmp_queue_Config ::
    "('msg, 'asset, 'ta, 'tr, 'h, 's, 'v, 'len, 'ex) runtime_lib \<Rightarrow> ('msg, 'asset, 'ta, 'tr, 'h) xcm_lib \<Rightarrow> u32 \<Rightarrow> 'ex dmp_queue_config" where
  "polkafoundry_dmp_queue_Config lib xlib para =
     \<lparr>dmp_XcmExecutor = XcmExecutor lib (polkafoundry_XcmConfig xlib para), ExecuteOverweightOrigin = ensure_root\<rparr>"

definition polkafoundry_parachain_system_Config :: "('s, 'v, 'len, 'xcfg, 'ex) pallet_lib \<Rightarrow> ('s, 'v) parachain_system_config" where
  "polkafoundry_parachain_system_Config lib =
     \<lparr>OnValidationData = (\<lambda>_ s. s), SelfParaId = parachain_id lib, OutboundXcmpMessageSource = XcmpQueue_pallet lib,
      DmpMessageHandler = DmpQueue_pallet lib, ps_ReservedDmpWeight = MAXIMUM_BLOCK_WEIGHT (WEIGHT_PER_SECOND lib) div 4,
      XcmpMessageHandler = XcmpQueue_pallet lib, ps_ReservedXcmpWeight = MAXIMUM_BLOCK_WEIGHT (WEIGHT_PER_SECOND lib) div 4\<rparr>"

definition polkafoundry_LocalOriginToLocation :: "runtime_origin \<Rightarrow> multi_location option" where
  "polkafoundry_LocalOriginToLocation = first_some []"

definition polkafoundry_pallet_xcm_Config ::
    "('msg, 'asset, 'ta, 'tr, 'h, 's, 'v, 'len, 'ex) runtime_lib \<Rightarrow> ('msg, 'asset, 'ta, 'tr, 'h) xcm_lib \<Rightarrow> u32 \<Rightarrow>
     ('msg, 'asset, 'h, 'ex) pallet_xcm_config" where
  "polkafoundry_pallet_xcm_Config lib xlib para =
     \<lparr>SendXcmOrigin = EnsureXcmOrigin lib polkafoundry_LocalOriginToLocation, px_XcmRouter = polkafoundry_XcmRouter xlib,
      ExecuteXcmOrigin = EnsureXcmOrigin lib polkafoundry_LocalOriginToLocation, XcmExecuteFilter = (\<lambda>_. True),
      px_XcmExecutor = XcmExecutor lib (polkafoundry_XcmConfig xlib para), XcmTeleportFilter = (\<lambda>_. True),
      XcmReserveTransferFilter = (\<lambda>_. False), px_Weigher = FixedWeightBounds xlib polkafoundry_UnitWeightCost\<rparr>"

definition polkafoundry_cumulus_xcm_Config ::
    "('msg, 'asset, 'ta, 'tr, 'h, 's, 'v, 'len, 'ex) runtime_lib \<Rightarrow> ('msg, 'asset, 'ta, 'tr, 'h) xcm_lib \<Rightarrow> u32 \<Rightarrow> 'ex" where
  "polkafoundry_cumulus_xcm_Config lib xlib para = XcmExecutor lib (polkafoundry_XcmConfig xlib para)"

definition polkafoundry_xcmp_queue_Config ::
    "('msg, 'asset, 'ta, 'tr, 'h, 's, 'v, 'len, 'ex) runtime_lib \<Rightarrow> ('msg, 'asset, 'ta, 'tr, 'h) xcm_lib \<Rightarrow> u32 \<Rightarrow> ('ex, 'v) xcmp_queue_config" where
  "polkafoundry_xcmp_queue_Config lib xlib para =
     \<lparr>xq_XcmExecutor = XcmExecutor lib (polkafoundry_XcmConfig xlib para), ChannelInfo = ParachainSystem_pallet lib\<rparr>"

definition polkafoundry_ping_XcmSender :: "('msg, 'asset, 'ta, 'tr, 'h) xcm_lib \<Rightarrow> multi_location \<Rightarrow> 'msg \<Rightarrow> 'h send_result" where
  "polkafoundry_ping_XcmSender xlib = polkafoundry_XcmRouter xlib"

definition polkafoundry_SignedExtra :: "('x, 'e) signed_checks \<Rightarrow> 'x \<Rightarrow> 'e option" where
  "polkafoundry_SignedExtra lib =
     first_some [CheckSpecVersion lib, CheckTxVersion lib, CheckGenesis lib, CheckEra lib, CheckNonce lib, CheckWeight lib,
       ChargeTransactionPayment lib]"

section \<open>Ethereum transactions in the other runtimes\<close>

definition polkasmith_convert_transaction :: "('tx \<Rightarrow> 'call) \<Rightarrow> 'tx \<Rightarrow> ('call, 'sig) extrinsic" where
  "polkasmith_convert_transaction transact transaction = new_unsigned (transact transaction)"

definition polkasmith_convert_transaction_opaque ::
    "('tx \<Rightarrow> 'call) \<Rightarrow> (('call, 'sig) extrinsic \<Rightarrow> u8 list) \<Rightarrow> (u8 list \<Rightarrow> 'opaque option) \<Rightarrow> 'tx \<Rightarrow> 'opaque option" where
  "polkasmith_convert_transaction_opaque transact encode decode_opaque transaction =
     (let extrinsic = new_unsigned (transact transaction); encoded = encode extrinsic in decode_opaque encoded)"

definition polkafoundry_convert_transaction :: "('tx \<Rightarrow> 'call) \<Rightarrow> 'tx \<Rightarrow> ('call, 'sig) extrinsic" where
  "polkafoundry_convert_transaction transact transaction = new_unsigned (transact transaction)"

definition polkafoundry_convert_transaction_opaque ::
    "('tx \<Rightarrow> 'call) \<Rightarrow> (('call, 'sig) extrinsic \<Rightarrow> u8 list) \<Rightarrow> (u8 list \<Rightarrow> 'opaque option) \<Rightarrow> 'tx \<Rightarrow> 'opaque option" where
  "polkafoundry_convert_transaction_opaque transact encode decode_opaque transaction =
     (let extrinsic = new_unsigned (transact transaction); encoded = encode extrinsic in decode_opaque encoded)"

text \<open>
  The three converters agree, and where the opaque form only wraps the encoding nothing is lost: the
  runtime decodes the transaction it was given, unsigned.
\<close>

lemma converters_agree:
  "polkasmith_convert_transaction = convert_transaction" "polkafoundry_convert_transaction = convert_transaction"
  "polkasmith_convert_transaction_opaque = convert_transaction_opaque" "polkafoundry_convert_transaction_opaque = convert_transaction_opaque"
  by (simp_all add: fun_eq_iff convert_transaction_def convert_transaction_opaque_def polkasmith_convert_transaction_def
      polkafoundry_convert_transaction_def polkasmith_convert_transaction_opaque_def polkafoundry_convert_transaction_opaque_def)

lemma converted_decodes:
  assumes "\<And>x. decode (encode x) = Some x" and "\<And>bs. decode_opaque bs = Some (wrap bs)"
  shows "\<exists>bs. convert_transaction_opaque transact encode decode_opaque tx = Some (wrap bs) \<and> decode bs = Some (convert_transaction transact tx)"
  using assms by (intro exI [of _ "encode (new_unsigned (transact tx))"]) (simp add: convert_transaction_opaque_def convert_transaction_def)

section \<open>Parameters for staking\<close>

text \<open>The parameters Halongbay keeps for the staking pallet, whose configuration is commented out.\<close>

record staking_parameters =
  sp_BlocksPerRound :: u32
  sp_MaxCollatorsPerNominator :: u32
  sp_MaxNominationsPerCollator :: u32
  sp_BondDuration :: u32
  sp_MinCollatorStake :: u32
  sp_MinNominatorStake :: u32
  sp_PayoutDuration :: u32
  sp_DesiredTarget :: u32

definition halongbay_staking_parameters :: staking_parameters where
  "halongbay_staking_parameters =
     \<lparr>sp_BlocksPerRound = 600, sp_MaxCollatorsPerNominator = 5, sp_MaxNominationsPerCollator = 2, sp_BondDuration = 2,
      sp_MinCollatorStake = 500, sp_MinNominatorStake = 100, sp_PayoutDuration = 2, sp_DesiredTarget = 2\<rparr>"

text \<open>
  A round of the configured length lasts two hours on Halongbay, of which the staking pallet, which
  counts six seconds for a block, would pay one.
\<close>

lemma halongbay_round_paid_half:
  "unat (sp_BlocksPerRound halongbay_staking_parameters) * unat (MILLISECS_PER_BLOCK halongbay_time) =
   2 * (unat (sp_BlocksPerRound halongbay_staking_parameters) * 6000)"
  by (simp add: halongbay_staking_parameters_def halongbay_time_def time_module_def Let_def)

section \<open>What the configurations promise\<close>

definition system_Config_of :: "runtime \<Rightarrow> ('s, 'v, 'len, 'xcfg, 'ex) pallet_lib \<Rightarrow> ('call, 's, 'len) system_config" where
  "system_Config_of r = (case r of PolkaFoundry \<Rightarrow> polkafoundry_system_Config | PolkaSmith \<Rightarrow> polkasmith_system_Config
     | Halongbay \<Rightarrow> halongbay_system_Config)"

definition pallet_xcm_Config_of ::
    "runtime \<Rightarrow> ('msg, 'asset, 'ta, 'tr, 'h, 's, 'v, 'len, 'ex) runtime_lib \<Rightarrow> ('msg, 'asset, 'ta, 'tr, 'h) xcm_lib \<Rightarrow> u32 \<Rightarrow>
     ('msg, 'asset, 'h, 'ex) pallet_xcm_config" where
  "pallet_xcm_Config_of r = (case r of PolkaFoundry \<Rightarrow> polkafoundry_pallet_xcm_Config | PolkaSmith \<Rightarrow> polkasmith_pallet_xcm_Config
     | Halongbay \<Rightarrow> halongbay_pallet_xcm_Config)"

definition SignedExtra_of :: "runtime \<Rightarrow> ('x, 'e) signed_checks \<Rightarrow> 'x \<Rightarrow> 'e option" where
  "SignedExtra_of r = (case r of PolkaFoundry \<Rightarrow> polkafoundry_SignedExtra | PolkaSmith \<Rightarrow> polkasmith_SignedExtra
     | Halongbay \<Rightarrow> halongbay_SignedExtra)"

lemmas pallet_config_defs =
  halongbay_native_version_def halongbay_system_Config_def halongbay_timestamp_Config_def halongbay_balances_Config_def halongbay_transaction_payment_Config_def halongbay_dmp_queue_Config_def halongbay_parachain_system_Config_def halongbay_LocalOriginToLocation_def halongbay_pallet_xcm_Config_def halongbay_cumulus_xcm_Config_def halongbay_xcmp_queue_Config_def halongbay_ping_XcmSender_def halongbay_SignedExtra_def
  polkasmith_native_version_def polkasmith_system_Config_def polkasmith_timestamp_Config_def polkasmith_balances_Config_def polkasmith_transaction_payment_Config_def polkasmith_dmp_queue_Config_def polkasmith_parachain_system_Config_def polkasmith_LocalOriginToLocation_def polkasmith_pallet_xcm_Config_def polkasmith_cumulus_xcm_Config_def polkasmith_xcmp_queue_Config_def polkasmith_ping_XcmSender_def polkasmith_SignedExtra_def
  polkafoundry_native_version_def polkafoundry_system_Config_def polkafoundry_timestamp_Config_def polkafoundry_balances_Config_def polkafoundry_transaction_payment_Config_def polkafoundry_dmp_queue_Config_def polkafoundry_parachain_system_Config_def polkafoundry_LocalOriginToLocation_def polkafoundry_pallet_xcm_Config_def polkafoundry_cumulus_xcm_Config_def polkafoundry_xcmp_queue_Config_def polkafoundry_ping_XcmSender_def polkafoundry_SignedExtra_def
  system_Config_of_def pallet_xcm_Config_of_def SignedExtra_of_def

lemma first_some_None: "first_some fs x = None \<longleftrightarrow> (\<forall>f \<in> set fs. f x = None)"
  by (induction fs) (auto split: option.split)

lemma first_some_append: "first_some (fs @ gs) x = (case first_some fs x of Some y \<Rightarrow> Some y | None \<Rightarrow> first_some gs x)"
  by (induction fs) (auto split: option.split)

text \<open>The system pallet is configured alike but for the version and the address prefix: all calls are let through and the account hooks do nothing.\<close>

lemma system_configs_agree:
  "system_Config_of r lib = (system_Config_of q lib)\<lparr>sys_Version := VERSION r, sys_SS58Prefix := SS58Prefix r\<rparr>"
  by (cases r; cases q) (simp_all add: pallet_config_defs VERSION_def SS58Prefix_def time_of_def)

lemma system_hooks:
  "BaseCallFilter (system_Config_of r lib) call" "OnNewAccount (system_Config_of r lib) a s = s" "OnKilledAccount (system_Config_of r lib) a s = s"
  by (cases r; simp add: pallet_config_defs)+

text \<open>
  What the library documents of \<^verbatim>\<open>EnsureXcmOrigin\<close>: an origin counts as the location the converter gives; where the
  converter gives none, only root counts, as the chain itself.
\<close>

definition ensure_xcm_documented :: "('s, 'v, 'len, 'xcfg, 'ex) pallet_lib \<Rightarrow> bool" where
  "ensure_xcm_documented lib \<longleftrightarrow>
     (\<forall>conv orig. EnsureXcmOrigin lib conv orig =
        (case conv orig of Some l \<Rightarrow> Some l | None \<Rightarrow> if orig = System_origin Root then Some [] else None))"

text \<open>No account of the chain may send a message or have one executed, and no one may transfer reserves; a signed
  transaction passes if and only if all seven checks do, and is charged only if the others pass.\<close>

lemma local_messages_refused:
  assumes "ensure_xcm_documented lib" and "orig \<noteq> System_origin Root"
  shows "SendXcmOrigin (pallet_xcm_Config_of r lib xlib para) orig = None"
    and "ExecuteXcmOrigin (pallet_xcm_Config_of r lib xlib para) orig = None"
    and "\<not> XcmReserveTransferFilter (pallet_xcm_Config_of r lib xlib para) x"
  using assms by (cases r; simp add: pallet_config_defs ensure_xcm_documented_def)+

lemma signed_extra_passes:
  "SignedExtra_of r lib x = None \<longleftrightarrow>
     CheckSpecVersion lib x = None \<and> CheckTxVersion lib x = None \<and> CheckGenesis lib x = None \<and> CheckEra lib x = None \<and>
     CheckNonce lib x = None \<and> CheckWeight lib x = None \<and> ChargeTransactionPayment lib x = None"
  by (cases r) (simp_all add: pallet_config_defs first_some_None del: first_some.simps)

text \<open>Every queue hands its messages to the executor with the configuration whose authority is bounded.\<close>

lemma queues_use_XcmConfig:
  "dmp_XcmExecutor (halongbay_dmp_queue_Config lib xlib para) = XcmExecutor lib (runtime_XcmConfig Halongbay xlib para)"
  "xq_XcmExecutor (halongbay_xcmp_queue_Config lib xlib para) = XcmExecutor lib (runtime_XcmConfig Halongbay xlib para)"
  "dmp_XcmExecutor (polkasmith_dmp_queue_Config lib xlib para) = XcmExecutor lib (runtime_XcmConfig PolkaSmith xlib para)"
  "xq_XcmExecutor (polkasmith_xcmp_queue_Config lib xlib para) = XcmExecutor lib (runtime_XcmConfig PolkaSmith xlib para)"
  "dmp_XcmExecutor (polkafoundry_dmp_queue_Config lib xlib para) = XcmExecutor lib (runtime_XcmConfig PolkaFoundry xlib para)"
  "xq_XcmExecutor (polkafoundry_xcmp_queue_Config lib xlib para) = XcmExecutor lib (runtime_XcmConfig PolkaFoundry xlib para)"
  by (simp_all add: pallet_config_defs runtime_XcmConfig_def)

end
