(* ===== verification/Runtime_Evm.thy ===== *)
theory Runtime_Evm
  imports Runtime_Pallets
begin

text \<open>
  The Ethereum side of the runtimes and the benchmark API: the set of precompiled contracts
  (\<^verbatim>\<open>runtime/precompiles\<close>), the configurations of the EVM and the Ethereum pallet, and \<^verbatim>\<open>dispatch_benchmark\<close>
  (\<^verbatim>\<open>lib.rs\<close> of each runtime). Contracts, origin checks, address mapping and the benchmarks of a pallet belong
  to the library and are fields of \<open>frontier_lib\<close> and \<open>benchmark_lib\<close>.
\<close>

section \<open>Precompiled contracts\<close>

text \<open>An address is the number its 20 bytes spell; a contract maps its input to a result of the library.\<close>

type_synonym H160 = "160 word"
type_synonym 'r precompile = "u8 list \<Rightarrow> 'r"

record ('r, 's, 'e) frontier_lib =
  ECRecover :: "'r precompile"
  Sha256 :: "'r precompile"
  Ripemd160 :: "'r precompile"
  Identity :: "'r precompile"
  Modexp :: "'r precompile"
  Dispatch :: "'r precompile"
  precompile_tuple :: "'r precompile list \<Rightarrow> H160 \<Rightarrow> u8 list \<Rightarrow> 'r option"
  unit_FeeCalculator :: "256 word"
  unit_gas_to_weight :: "u64 \<Rightarrow> u64"
  EnsureAddressTruncated :: "H160 \<Rightarrow> u8 list raw_origin \<Rightarrow> bool"
  HashedAddressMapping :: "H160 \<Rightarrow> u8 list"
  EvmRunner :: "'s \<Rightarrow> 'e"
  unit_OnChargeTransaction :: "H160 \<Rightarrow> 256 word \<Rightarrow> 's \<Rightarrow> 's"
  unit_FindAuthor :: "'s \<Rightarrow> H160 option"
  IntermediateStateRoot :: "'s \<Rightarrow> 256 word"

definition PolkafoundryPrecompiles :: "('r, 's, 'e) frontier_lib \<Rightarrow> H160 \<Rightarrow> u8 list \<Rightarrow> 'r option" where
  "PolkafoundryPrecompiles lib =
     precompile_tuple lib [ECRecover lib, Sha256 lib, Ripemd160 lib, Identity lib, Modexp lib, Dispatch lib]"

text \<open>What the library documents of a tuple of precompiles: the contract at place \<open>i\<close>, from 1, answers at address \<open>i\<close>.\<close>

definition tuple_documented :: "('r, 's, 'e) frontier_lib \<Rightarrow> bool" where
  "tuple_documented lib \<longleftrightarrow> (\<forall>ps a input. precompile_tuple lib ps a input =
     (if 0 < unat a \<and> unat a \<le> length ps then Some ((ps ! (unat a - 1)) input) else None))"

text \<open>
  The first five addresses are those of Ethereum's contracts; at address 6, where Ethereum adds points of
  a curve, the runtimes dispatch their own calls; every other address is an ordinary account.
\<close>

lemma precompile_addresses:
  assumes "tuple_documented lib"
  shows "PolkafoundryPrecompiles lib 1 input = Some (ECRecover lib input)"
    and "PolkafoundryPrecompiles lib 2 input = Some (Sha256 lib input)"
    and "PolkafoundryPrecompiles lib 3 input = Some (Ripemd160 lib input)"
    and "PolkafoundryPrecompiles lib 4 input = Some (Identity lib input)"
    and "PolkafoundryPrecompiles lib 5 input = Some (Modexp lib input)"
    and "PolkafoundryPrecompiles lib 6 input = Some (Dispatch lib input)"
    and "PolkafoundryPrecompiles lib a input = None \<longleftrightarrow> a = 0 \<or> 6 < a"
  using assms by (simp_all add: tuple_documented_def PolkafoundryPrecompiles_def word_less_nat_alt unat_gt_0 not_le)

section \<open>Configurations\<close>

record ('r, 's, 'e) evm_pallet_config =
  min_gas_price :: "256 word"
  gas_to_weight :: "u64 \<Rightarrow> u64"
  CallOrigin :: "H160 \<Rightarrow> u8 list raw_origin \<Rightarrow> bool"
  WithdrawOrigin :: "H160 \<Rightarrow> u8 list raw_origin \<Rightarrow> bool"
  AddressMapping :: "H160 \<Rightarrow> u8 list"
  Runner :: "'s \<Rightarrow> 'e"
  Precompiles :: "H160 \<Rightarrow> u8 list \<Rightarrow> 'r option"
  evm_chain_id :: u64
  evm_block_gas_limit :: "256 word"
  OnChargeTransaction :: "H160 \<Rightarrow> 256 word \<Rightarrow> 's \<Rightarrow> 's"

record 's ethereum_config =
  eth_FindAuthor :: "'s \<Rightarrow> H160 option"
  StateRoot :: "'s \<Rightarrow> 256 word"

section \<open>Benchmarks\<close>

text \<open>The library's macro adds the batches a pallet has for the requested configuration, or fails with the error of a benchmark.\<close>

record ('cfg, 'batch) benchmark_lib =
  add_benchmark :: "'cfg \<times> u8 list list \<Rightarrow> 'batch list \<Rightarrow> string \<Rightarrow> string \<Rightarrow> string + 'batch list"

section \<open>Halongbay\<close>

definition halongbay_ethereum_Config :: "('r, 's, 'e) frontier_lib \<Rightarrow> 's ethereum_config" where
  "halongbay_ethereum_Config lib = \<lparr>eth_FindAuthor = unit_FindAuthor lib, StateRoot = IntermediateStateRoot lib\<rparr>"

definition halongbay_evm_Config :: "('r, 's, 'e) frontier_lib \<Rightarrow> ('r, 's, 'e) evm_pallet_config" where
  "halongbay_evm_Config lib =
     \<lparr>min_gas_price = unit_FeeCalculator lib,
      gas_to_weight = unit_gas_to_weight lib,
      CallOrigin = EnsureAddressTruncated lib,
      WithdrawOrigin = EnsureAddressTruncated lib,
      AddressMapping = HashedAddressMapping lib,
      Runner = EvmRunner lib,
      Precompiles = PolkafoundryPrecompiles lib,
      evm_chain_id = evm_ChainId Halongbay,
      evm_block_gas_limit = BlockGasLimit,
      OnChargeTransaction = unit_OnChargeTransaction lib\<rparr>"

definition halongbay_whitelist :: "u8 list list" where
  "halongbay_whitelist = [
       [0x26, 0xaa, 0x39, 0x4e, 0xea, 0x56, 0x30, 0xe0, 0x7c, 0x48, 0xae, 0x0c, 0x95, 0x58, 0xce, 0xf7,
        0x02, 0xa5, 0xc1, 0xb1, 0x9a, 0xb7, 0xa0, 0x4f, 0x53, 0x6c, 0x51, 0x9a, 0xca, 0x49, 0x83, 0xac],
       [0xc2, 0x26, 0x12, 0x76, 0xcc, 0x9d, 0x1f, 0x85, 0x98, 0xea, 0x4b, 0x6a, 0x74, 0xb1, 0x5c, 0x2f,
        0x57, 0xc8, 0x75, 0xe4, 0xcf, 0xf7, 0x41, 0x48, 0xe4, 0x62, 0x8f, 0x26, 0x4b, 0x97, 0x4c, 0x80],
       [0x26, 0xaa, 0x39, 0x4e, 0xea, 0x56, 0x30, 0xe0, 0x7c, 0x48, 0xae, 0x0c, 0x95, 0x58, 0xce, 0xf7,
        0xff, 0x55, 0x3b, 0x5a, 0x98, 0x62, 0xa5, 0x16, 0x93, 0x9d, 0x82, 0xb3, 0xd3, 0xd8, 0x66, 0x1a],
       [0x26, 0xaa, 0x39, 0x4e, 0xea, 0x56, 0x30, 0xe0, 0x7c, 0x48, 0xae, 0x0c, 0x95, 0x58, 0xce, 0xf7,
        0x0a, 0x98, 0xfd, 0xbe, 0x9c, 0xe6, 0xc5, 0x58, 0x37, 0x57, 0x6c, 0x60, 0xc7, 0xaf, 0x38, 0x50],
       [0x26, 0xaa, 0x39, 0x4e, 0xea, 0x56, 0x30, 0xe0, 0x7c, 0x48, 0xae, 0x0c, 0x95, 0x58, 0xce, 0xf7,
        0x80, 0xd4, 0x1e, 0x5e, 0x16, 0x05, 0x67, 0x65, 0xbc, 0x84, 0x61, 0x85, 0x10, 0x72, 0xc9, 0xd7]]"

definition halongbay_dispatch_benchmark :: "('cfg, 'batch) benchmark_lib \<Rightarrow> 'cfg \<Rightarrow> string + 'batch list" where
  "halongbay_dispatch_benchmark lib cfg =
     (let params = (cfg, halongbay_whitelist) in
      case add_benchmark lib params [] ''frame_system'' ''SystemBench::<Runtime>'' of Inl e \<Rightarrow> Inl e | Inr batches \<Rightarrow>
      case add_benchmark lib params batches ''pallet_balances'' ''Balances'' of Inl e \<Rightarrow> Inl e | Inr batches \<Rightarrow>
      case add_benchmark lib params batches ''pallet_timestamp'' ''Timestamp'' of Inl e \<Rightarrow> Inl e | Inr batches \<Rightarrow>
      if batches = [] then Inl ''Benchmark not found for this pallet.'' else Inr batches)"

section \<open>PolkaSmith\<close>

definition polkasmith_ethereum_Config :: "('r, 's, 'e) frontier_lib \<Rightarrow> 's ethereum_config" where
  "polkasmith_ethereum_Config lib = \<lparr>eth_FindAuthor = unit_FindAuthor lib, StateRoot = IntermediateStateRoot lib\<rparr>"

definition polkasmith_evm_Config :: "('r, 's, 'e) frontier_lib \<Rightarrow> ('r, 's, 'e) evm_pallet_config" where
  "polkasmith_evm_Config lib =
     \<lparr>min_gas_price = unit_FeeCalculator lib,
      gas_to_weight = unit_gas_to_weight lib,
      CallOrigin = EnsureAddressTruncated lib,
      WithdrawOrigin = EnsureAddressTruncated lib,
      AddressMapping = HashedAddressMapping lib,
      Runner = EvmRunner lib,
      Precompiles = PolkafoundryPrecompiles lib,
      evm_chain_id = evm_ChainId PolkaSmith,
      evm_block_gas_limit = BlockGasLimit,
      OnChargeTransaction = unit_OnChargeTransaction lib\<rparr>"

definition polkasmith_whitelist :: "u8 list list" where
  "polkasmith_whitelist = [
       [0x26, 0xaa, 0x39, 0x4e, 0xea, 0x56, 0x30, 0xe0, 0x7c, 0x48, 0xae, 0x0c, 0x95, 0x58, 0xce, 0xf7,
        0x02, 0xa5, 0xc1, 0xb1, 0x9a, 0xb7, 0xa0, 0x4f, 0x53, 0x6c, 0x51, 0x9a, 0xca, 0x49, 0x83, 0xac],
       [0xc2, 0x26, 0x12, 0x76, 0xcc, 0x9d, 0x1f, 0x85, 0x98, 0xea, 0x4b, 0x6a, 0x74, 0xb1, 0x5c, 0x2f,
        0x57, 0xc8, 0x75, 0xe4, 0xcf, 0xf7, 0x41, 0x48, 0xe4, 0x62, 0x8f, 0x26, 0x4b, 0x97, 0x4c, 0x80],
       [0x26, 0xaa, 0x39, 0x4e, 0xea, 0x56, 0x30, 0xe0, 0x7c, 0x48, 0xae, 0x0c, 0x95, 0x58, 0xce, 0xf7,
        0xff, 0x55, 0x3b, 0x5a, 0x98, 0x62, 0xa5, 0x16, 0x93, 0x9d, 0x82, 0xb3, 0xd3, 0xd8, 0x66, 0x1a],
       [0x26, 0xaa, 0x39, 0x4e, 0xea, 0x56, 0x30, 0xe0, 0x7c, 0x48, 0xae, 0x0c, 0x95, 0x58, 0xce, 0xf7,
        0x0a, 0x98, 0xfd, 0xbe, 0x9c, 0xe6, 0xc5, 0x58, 0x37, 0x57, 0x6c, 0x60, 0xc7, 0xaf, 0x38, 0x50],
       [0x26, 0xaa, 0x39, 0x4e, 0xea, 0x56, 0x30, 0xe0, 0x7c, 0x48, 0xae, 0x0c, 0x95, 0x58, 0xce, 0xf7,
        0x80, 0xd4, 0x1e, 0x5e, 0x16, 0x05, 0x67, 0x65, 0xbc, 0x84, 0x61, 0x85, 0x10, 0x72, 0xc9, 0xd7]]"

definition polkasmith_dispatch_benchmark :: "('cfg, 'batch) benchmark_lib \<Rightarrow> 'cfg \<Rightarrow> string + 'batch list" where
  "polkasmith_dispatch_benchmark lib cfg =
     (let params = (cfg, polkasmith_whitelist) in
      case add_benchmark lib params [] ''frame_system'' ''SystemBench::<Runtime>'' of Inl e \<Rightarrow> Inl e | Inr batches \<Rightarrow>
      case add_benchmark lib params batches ''pallet_balances'' ''Balances'' of Inl e \<Rightarrow> Inl e | Inr batches \<Rightarrow>
      case add_benchmark lib params batches ''pallet_timestamp'' ''Timestamp'' of Inl e \<Rightarrow> Inl e | Inr batches \<Rightarrow>
      if batches = [] then Inl ''Benchmark not found for this pallet.'' else Inr batches)"

section \<open>PolkaFoundry\<close>

definition polkafoundry_ethereum_Config :: "('r, 's, 'e) frontier_lib \<Rightarrow> 's ethereum_config" where
  "polkafoundry_ethereum_Config lib = \<lparr>eth_FindAuthor = unit_FindAuthor lib, StateRoot = IntermediateStateRoot lib\<rparr>"

definition polkafoundry_evm_Config :: "('r, 's, 'e) frontier_lib \<Rightarrow> ('r, 's, 'e) evm_pallet_config" where
  "polkafoundry_evm_Config lib =
     \<lparr>min_gas_price = unit_FeeCalculator lib,
      gas_to_weight = unit_gas_to_weight lib,
      CallOrigin = EnsureAddressTruncated lib,
      WithdrawOrigin = EnsureAddressTruncated lib,
      AddressMapping = HashedAddressMapping lib,
      Runner = EvmRunner lib,
      Precompiles = PolkafoundryPrecompiles lib,
      evm_chain_id = evm_ChainId PolkaFoundry,
      evm_block_gas_limit = BlockGasLimit,
      OnChargeTransaction = unit_OnChargeTransaction lib\<rparr>"

definition polkafoundry_whitelist :: "u8 list list" where
  "polkafoundry_whitelist = [
       [0x26, 0xaa, 0x39, 0x4e, 0xea, 0x56, 0x30, 0xe0, 0x7c, 0x48, 0xae, 0x0c, 0x95, 0x58, 0xce, 0xf7,
        0x02, 0xa5, 0xc1, 0xb1, 0x9a, 0xb7, 0xa0, 0x4f, 0x53, 0x6c, 0x51, 0x9a, 0xca, 0x49, 0x83, 0xac],
       [0xc2, 0x26, 0x12, 0x76, 0xcc, 0x9d, 0x1f, 0x85, 0x98, 0xea, 0x4b, 0x6a, 0x74, 0xb1, 0x5c, 0x2f,
        0x57, 0xc8, 0x75, 0xe4, 0xcf, 0xf7, 0x41, 0x48, 0xe4, 0x62, 0x8f, 0x26, 0x4b, 0x97, 0x4c, 0x80],
       [0x26, 0xaa, 0x39, 0x4e, 0xea, 0x56, 0x30, 0xe0, 0x7c, 0x48, 0xae, 0x0c, 0x95, 0x58, 0xce, 0xf7,
        0xff, 0x55, 0x3b, 0x5a, 0x98, 0x62, 0xa5, 0x16, 0x93, 0x9d, 0x82, 0xb3, 0xd3, 0xd8, 0x66, 0x1a],
       [0x26, 0xaa, 0x39, 0x4e, 0xea, 0x56, 0x30, 0xe0, 0x7c, 0x48, 0xae, 0x0c, 0x95, 0x58, 0xce, 0xf7,
        0x0a, 0x98, 0xfd, 0xbe, 0x9c, 0xe6, 0xc5, 0x58, 0x37, 0x57, 0x6c, 0x60, 0xc7, 0xaf, 0x38, 0x50],
       [0x26, 0xaa, 0x39, 0x4e, 0xea, 0x56, 0x30, 0xe0, 0x7c, 0x48, 0xae, 0x0c, 0x95, 0x58, 0xce, 0xf7,
        0x80, 0xd4, 0x1e, 0x5e, 0x16, 0x05, 0x67, 0x65, 0xbc, 0x84, 0x61, 0x85, 0x10, 0x72, 0xc9, 0xd7]]"

definition polkafoundry_dispatch_benchmark :: "('cfg, 'batch) benchmark_lib \<Rightarrow> 'cfg \<Rightarrow> string + 'batch list" where
  "polkafoundry_dispatch_benchmark lib cfg =
     (let params = (cfg, polkafoundry_whitelist) in
      case add_benchmark lib params [] ''frame_system'' ''SystemBench::<Runtime>'' of Inl e \<Rightarrow> Inl e | Inr batches \<Rightarrow>
      case add_benchmark lib params batches ''pallet_balances'' ''Balances'' of Inl e \<Rightarrow> Inl e | Inr batches \<Rightarrow>
      case add_benchmark lib params batches ''pallet_timestamp'' ''Timestamp'' of Inl e \<Rightarrow> Inl e | Inr batches \<Rightarrow>
      if batches = [] then Inl ''Benchmark not found for this pallet.'' else Inr batches)"

section \<open>What they promise\<close>

definition evm_Config_of :: "runtime \<Rightarrow> ('r, 's, 'e) frontier_lib \<Rightarrow> ('r, 's, 'e) evm_pallet_config" where
  "evm_Config_of r lib = (case r of
       Halongbay \<Rightarrow> halongbay_evm_Config lib
     | PolkaSmith \<Rightarrow> polkasmith_evm_Config lib
     | PolkaFoundry \<Rightarrow> polkafoundry_evm_Config lib)"

definition dispatch_benchmark_of :: "runtime \<Rightarrow> ('cfg, 'batch) benchmark_lib \<Rightarrow> 'cfg \<Rightarrow> string + 'batch list" where
  "dispatch_benchmark_of r lib cfg = (case r of
       Halongbay \<Rightarrow> halongbay_dispatch_benchmark lib cfg
     | PolkaSmith \<Rightarrow> polkasmith_dispatch_benchmark lib cfg
     | PolkaFoundry \<Rightarrow> polkafoundry_dispatch_benchmark lib cfg)"

lemmas evm_config_defs = evm_Config_of_def halongbay_evm_Config_def polkasmith_evm_Config_def polkafoundry_evm_Config_def

text \<open>What the library documents of \<^verbatim>\<open>EnsureAddressTruncated\<close>: the first 20 bytes of a signing account spell the address.\<close>

definition truncated_documented :: "(u8 list \<Rightarrow> H160) \<Rightarrow> ('r, 's, 'e) frontier_lib \<Rightarrow> bool" where
  "truncated_documented from_bytes lib \<longleftrightarrow>
     (\<forall>a orig. EnsureAddressTruncated lib a orig \<longleftrightarrow> (\<exists>who. orig = Signed who \<and> from_bytes (take 20 who) = a))"

text \<open>Nobody but the account an address is cut from acts for the address in the EVM, not even root; one account acts for one address only.\<close>

lemma evm_origin_unique:
  assumes "truncated_documented from_bytes lib"
  shows "\<not> CallOrigin (evm_Config_of r lib) a Root" and "\<not> WithdrawOrigin (evm_Config_of r lib) a Root"
    and "CallOrigin (evm_Config_of r lib) a orig \<Longrightarrow> WithdrawOrigin (evm_Config_of r lib) b orig \<Longrightarrow> a = b"
  using assms by (cases r; auto simp: evm_config_defs truncated_documented_def)+

lemma evm_configs_agree: "evm_Config_of r lib = (evm_Config_of q lib)\<lparr>evm_chain_id := evm_ChainId r\<rparr>"
  by (cases r; cases q) (simp_all add: evm_config_defs)

text \<open>The storage keys the benchmarks may touch freely have the length of a pallet and an item prefix and are all different.\<close>

lemma whitelist_keys:
  "distinct halongbay_whitelist" "\<forall>k \<in> set halongbay_whitelist. length k = 32"
  "polkasmith_whitelist = halongbay_whitelist" "polkafoundry_whitelist = halongbay_whitelist"
  by (simp_all add: halongbay_whitelist_def polkasmith_whitelist_def polkafoundry_whitelist_def)

text \<open>
  A benchmark request is answered with at least one batch or with an error, and with the error that the
  pallet has no benchmarks exactly when no pallet adds a batch.
\<close>

lemma dispatch_benchmark_agree: "dispatch_benchmark_of r lib cfg = halongbay_dispatch_benchmark lib cfg"
  by (cases r) (simp_all add: dispatch_benchmark_of_def halongbay_dispatch_benchmark_def polkasmith_dispatch_benchmark_def
      polkafoundry_dispatch_benchmark_def whitelist_keys(3,4))

lemma dispatch_benchmark_nonempty: "dispatch_benchmark_of r lib cfg = Inr batches \<Longrightarrow> batches \<noteq> []"
  by (auto simp: dispatch_benchmark_agree halongbay_dispatch_benchmark_def Let_def split: sum.splits if_splits)

lemma unknown_pallet_refused:
  assumes "\<And>params batches loc pallet. pallet \<in> {''frame_system'', ''pallet_balances'', ''pallet_timestamp''} \<Longrightarrow>
      add_benchmark lib params batches pallet loc = Inr batches"
  shows "dispatch_benchmark_of r lib cfg = Inl ''Benchmark not found for this pallet.''"
  by (simp add: dispatch_benchmark_agree halongbay_dispatch_benchmark_def assms)

end
