(* ===== verification/Runtime_Api.thy ===== *)
theory Runtime_Api
  imports Runtime_Compose
begin

text \<open>
  The runtime APIs (\<^verbatim>\<open>impl_runtime_apis!\<close> in the \<^verbatim>\<open>lib.rs\<close> of the three runtimes): what the node may ask a runtime.
  Every method reads the chain state and hands the question to a pallet of the library, so the methods
  of each API are a record of functions built from the library's. Each runtime repeats the text; the
  definitions repeat it too, and what they have in common is proved.
\<close>

section \<open>The library\<close>

text \<open>
  \<open>'s\<close> is the chain state and \<open>'v\<close> a value the runtime passes on without looking at it. A panic of the
  executive, as on an invalid block, is \<open>None\<close>.
\<close>

record ('s, 'block, 'header, 'xt, 'v) frame_lib =
  Executive_execute_block :: "'block \<Rightarrow> 's \<Rightarrow> 's option"
  Executive_initialize_block :: "'header \<Rightarrow> 's \<Rightarrow> 's option"
  Executive_apply_extrinsic :: "'xt \<Rightarrow> 's \<Rightarrow> ('v \<times> 's) option"
  Executive_finalize_block :: "'s \<Rightarrow> ('header \<times> 's) option"
  Executive_validate_transaction :: "'v \<Rightarrow> 'xt \<Rightarrow> 's \<Rightarrow> 'v"
  Executive_offchain_worker :: "'header \<Rightarrow> 's \<Rightarrow> 's"
  Runtime_metadata :: 'v
  create_extrinsics :: "'v \<Rightarrow> 's \<Rightarrow> 'xt list"
  check_extrinsics :: "'v \<Rightarrow> 'block \<Rightarrow> 's \<Rightarrow> 'v"
  Aura_slot_duration :: "'s \<Rightarrow> u64"
  Aura_authorities :: "'s \<Rightarrow> 'v list"
  SessionKeys_generate :: "u8 list option \<Rightarrow> 's \<Rightarrow> u8 list"
  SessionKeys_decode :: "u8 list \<Rightarrow> (u8 list \<times> u8 list) list option"
  System_account_nonce :: "u8 list \<Rightarrow> 's \<Rightarrow> u32"
  ParachainSystem_collect_collation_info :: "'s \<Rightarrow> 'v"
  TransactionPayment_query_info :: "'xt \<Rightarrow> u32 \<Rightarrow> 's \<Rightarrow> 'v"
  TransactionPayment_query_fee_details :: "'xt \<Rightarrow> u32 \<Rightarrow> 's \<Rightarrow> 'v"

text \<open>The EVM and Ethereum pallets; addresses and hashes are their bytes.\<close>

record ('s, 'v, 'x) evm_lib =
  EVM_account_basic :: "u8 list \<Rightarrow> 's \<Rightarrow> 'v"
  EVM_account_codes :: "u8 list \<Rightarrow> 's \<Rightarrow> u8 list"
  EVM_account_storages :: "'s \<Rightarrow> u8 list \<Rightarrow> u8 list \<Rightarrow> u8 list"
  U256_to_big_endian :: "U256 \<Rightarrow> u8 list"
  FeeCalculator_min_gas_price :: U256
  Ethereum_find_author :: "'s \<Rightarrow> u8 list"
  Runner_call ::
    "'s \<Rightarrow> u8 list \<Rightarrow> u8 list \<Rightarrow> u8 list \<Rightarrow> U256 \<Rightarrow> u64 \<Rightarrow> U256 option \<Rightarrow> U256 option \<Rightarrow> 'x evm_config \<Rightarrow> 'v + 'v"
  Runner_create :: "'s \<Rightarrow> u8 list \<Rightarrow> u8 list \<Rightarrow> U256 \<Rightarrow> u64 \<Rightarrow> U256 option \<Rightarrow> U256 option \<Rightarrow> 'x evm_config \<Rightarrow> 'v + 'v"
  Runner_error_into :: "'v \<Rightarrow> 'v"
  evm_Config_config :: "'x evm_config"
  Ethereum_current_transaction_statuses :: "'s \<Rightarrow> 'v list option"
  Ethereum_current_block :: "'s \<Rightarrow> 'v option"
  Ethereum_current_receipts :: "'s \<Rightarrow> 'v list option"

section \<open>The APIs\<close>

record ('s, 'block, 'header) Core_api =
  api_version :: runtime_version
  api_execute_block :: "'block \<Rightarrow> 's \<Rightarrow> 's option"
  api_initialize_block :: "'header \<Rightarrow> 's \<Rightarrow> 's option"

record ('s, 'block, 'header, 'xt, 'v) BlockBuilder_api =
  api_apply_extrinsic :: "'xt \<Rightarrow> 's \<Rightarrow> ('v \<times> 's) option"
  api_finalize_block :: "'s \<Rightarrow> ('header \<times> 's) option"
  api_inherent_extrinsics :: "'v \<Rightarrow> 's \<Rightarrow> 'xt list"
  api_check_inherents :: "'block \<Rightarrow> 'v \<Rightarrow> 's \<Rightarrow> 'v"

record ('s, 'v) Aura_api =
  api_slot_duration :: "'s \<Rightarrow> u64"
  api_authorities :: "'s \<Rightarrow> 'v list"

record 's SessionKeys_api =
  api_generate_session_keys :: "u8 list option \<Rightarrow> 's \<Rightarrow> u8 list"
  api_decode_session_keys :: "u8 list \<Rightarrow> (u8 list \<times> u8 list) list option"

record ('s, 'xt, 'v) TransactionPayment_api =
  api_query_info :: "'xt \<Rightarrow> u32 \<Rightarrow> 's \<Rightarrow> 'v"
  api_query_fee_details :: "'xt \<Rightarrow> u32 \<Rightarrow> 's \<Rightarrow> 'v"

record ('s, 'v) Ethereum_api =
  api_chain_id :: u64
  api_account_basic :: "u8 list \<Rightarrow> 's \<Rightarrow> 'v"
  api_gas_price :: U256
  api_account_code_at :: "u8 list \<Rightarrow> 's \<Rightarrow> u8 list"
  api_author :: "'s \<Rightarrow> u8 list"
  api_storage_at :: "'s \<Rightarrow> u8 list \<Rightarrow> U256 \<Rightarrow> u8 list"
  api_call :: "'s \<Rightarrow> u8 list \<Rightarrow> u8 list \<Rightarrow> u8 list \<Rightarrow> U256 \<Rightarrow> U256 \<Rightarrow> U256 option \<Rightarrow> U256 option \<Rightarrow> bool \<Rightarrow> 'v + 'v"
  api_create :: "'s \<Rightarrow> u8 list \<Rightarrow> u8 list \<Rightarrow> U256 \<Rightarrow> U256 \<Rightarrow> U256 option \<Rightarrow> U256 option \<Rightarrow> bool \<Rightarrow> 'v + 'v"
  api_current_transaction_statuses :: "'s \<Rightarrow> 'v list option"
  api_current_block :: "'s \<Rightarrow> 'v option"
  api_current_receipts :: "'s \<Rightarrow> 'v list option"
  api_current_all :: "'s \<Rightarrow> 'v option \<times> 'v list option \<times> 'v list option"

section \<open>Halongbay\<close>

definition halongbay_Core :: "('s, 'block, 'header, 'xt, 'v) frame_lib \<Rightarrow> ('s, 'block, 'header) Core_api" where
  "halongbay_Core lib =
     \<lparr>api_version = halongbay_VERSION,
      api_execute_block = (\<lambda>block. Executive_execute_block lib block),
      api_initialize_block = (\<lambda>header. Executive_initialize_block lib header)\<rparr>"

definition halongbay_BlockBuilder :: "('s, 'block, 'header, 'xt, 'v) frame_lib \<Rightarrow> ('s, 'block, 'header, 'xt, 'v) BlockBuilder_api" where
  "halongbay_BlockBuilder lib =
     \<lparr>api_apply_extrinsic = (\<lambda>extrinsic. Executive_apply_extrinsic lib extrinsic),
      api_finalize_block = Executive_finalize_block lib,
      api_inherent_extrinsics = (\<lambda>data. create_extrinsics lib data),
      api_check_inherents = (\<lambda>block data. check_extrinsics lib data block)\<rparr>"

definition halongbay_AuraApi :: "('s, 'block, 'header, 'xt, 'v) frame_lib \<Rightarrow> ('s, 'v) Aura_api" where
  "halongbay_AuraApi lib = \<lparr>api_slot_duration = Aura_slot_duration lib, api_authorities = Aura_authorities lib\<rparr>"

definition halongbay_SessionKeys :: "('s, 'block, 'header, 'xt, 'v) frame_lib \<Rightarrow> 's SessionKeys_api" where
  "halongbay_SessionKeys lib =
     \<lparr>api_generate_session_keys = (\<lambda>seed. SessionKeys_generate lib seed),
      api_decode_session_keys = (\<lambda>encoded. SessionKeys_decode lib encoded)\<rparr>"

definition halongbay_TransactionPaymentApi :: "('s, 'block, 'header, 'xt, 'v) frame_lib \<Rightarrow> ('s, 'xt, 'v) TransactionPayment_api" where
  "halongbay_TransactionPaymentApi lib =
     \<lparr>api_query_info = (\<lambda>uxt len. TransactionPayment_query_info lib uxt len),
      api_query_fee_details = (\<lambda>uxt len. TransactionPayment_query_fee_details lib uxt len)\<rparr>"

definition halongbay_metadata :: "('s, 'block, 'header, 'xt, 'v) frame_lib \<Rightarrow> 'v" where
  "halongbay_metadata lib = Runtime_metadata lib"

definition halongbay_validate_transaction :: "('s, 'block, 'header, 'xt, 'v) frame_lib \<Rightarrow> 'v \<Rightarrow> 'xt \<Rightarrow> 's \<Rightarrow> 'v" where
  "halongbay_validate_transaction lib source tx = Executive_validate_transaction lib source tx"

definition halongbay_offchain_worker :: "('s, 'block, 'header, 'xt, 'v) frame_lib \<Rightarrow> 'header \<Rightarrow> 's \<Rightarrow> 's" where
  "halongbay_offchain_worker lib header = Executive_offchain_worker lib header"

definition halongbay_account_nonce :: "('s, 'block, 'header, 'xt, 'v) frame_lib \<Rightarrow> u8 list \<Rightarrow> 's \<Rightarrow> u32" where
  "halongbay_account_nonce lib account = System_account_nonce lib account"

definition halongbay_collect_collation_info :: "('s, 'block, 'header, 'xt, 'v) frame_lib \<Rightarrow> 's \<Rightarrow> 'v" where
  "halongbay_collect_collation_info lib = ParachainSystem_collect_collation_info lib"

definition halongbay_EthereumRuntimeRPCApi :: "('s, 'v, 'x) evm_lib \<Rightarrow> ('s, 'v) Ethereum_api" where
  "halongbay_EthereumRuntimeRPCApi lib =
     \<lparr>api_chain_id = evm_ChainId Halongbay,
      api_account_basic = (\<lambda>address. EVM_account_basic lib address),
      api_gas_price = FeeCalculator_min_gas_price lib,
      api_account_code_at = (\<lambda>address. EVM_account_codes lib address),
      api_author = Ethereum_find_author lib,
      api_storage_at = (\<lambda>s. storage_at (U256_to_big_endian lib) (EVM_account_storages lib s)),
      api_call = (\<lambda>s. eth_call (Runner_call lib s) (Runner_error_into lib) (evm_Config_config lib)),
      api_create = (\<lambda>s. eth_create (Runner_create lib s) (Runner_error_into lib) (evm_Config_config lib)),
      api_current_transaction_statuses = Ethereum_current_transaction_statuses lib,
      api_current_block = Ethereum_current_block lib,
      api_current_receipts = Ethereum_current_receipts lib,
      api_current_all = current_all (Ethereum_current_block lib) (Ethereum_current_receipts lib)
        (Ethereum_current_transaction_statuses lib)\<rparr>"

section \<open>PolkaSmith\<close>

definition polkasmith_Core :: "('s, 'block, 'header, 'xt, 'v) frame_lib \<Rightarrow> ('s, 'block, 'header) Core_api" where
  "polkasmith_Core lib =
     \<lparr>api_version = polkasmith_VERSION,
      api_execute_block = (\<lambda>block. Executive_execute_block lib block),
      api_initialize_block = (\<lambda>header. Executive_initialize_block lib header)\<rparr>"

definition polkasmith_BlockBuilder :: "('s, 'block, 'header, 'xt, 'v) frame_lib \<Rightarrow> ('s, 'block, 'header, 'xt, 'v) BlockBuilder_api" where
  "polkasmith_BlockBuilder lib =
     \<lparr>api_apply_extrinsic = (\<lambda>extrinsic. Executive_apply_extrinsic lib extrinsic),
      api_finalize_block = Executive_finalize_block lib,
      api_inherent_extrinsics = (\<lambda>data. create_extrinsics lib data),
      api_check_inherents = (\<lambda>block data. check_extrinsics lib data block)\<rparr>"

definition polkasmith_AuraApi :: "('s, 'block, 'header, 'xt, 'v) frame_lib \<Rightarrow> ('s, 'v) Aura_api" where
  "polkasmith_AuraApi lib = \<lparr>api_slot_duration = Aura_slot_duration lib, api_authorities = Aura_authorities lib\<rparr>"

definition polkasmith_SessionKeys :: "('s, 'block, 'header, 'xt, 'v) frame_lib \<Rightarrow> 's SessionKeys_api" where
  "polkasmith_SessionKeys lib =
     \<lparr>api_generate_session_keys = (\<lambda>seed. SessionKeys_generate lib seed),
      api_decode_session_keys = (\<lambda>encoded. SessionKeys_decode lib encoded)\<rparr>"

definition polkasmith_TransactionPaymentApi :: "('s, 'block, 'header, 'xt, 'v) frame_lib \<Rightarrow> ('s, 'xt, 'v) TransactionPayment_api" where
  "polkasmith_TransactionPaymentApi lib =
     \<lparr>api_query_info = (\<lambda>uxt len. TransactionPayment_query_info lib uxt len),
      api_query_fee_details = (\<lambda>uxt len. TransactionPayment_query_fee_details lib uxt len)\<rparr>"

definition polkasmith_metadata :: "('s, 'block, 'header, 'xt, 'v) frame_lib \<Rightarrow> 'v" where
  "polkasmith_metadata lib = Runtime_metadata lib"

definition polkasmith_validate_transaction :: "('s, 'block, 'header, 'xt, 'v) frame_lib \<Rightarrow> 'v \<Rightarrow> 'xt \<Rightarrow> 's \<Rightarrow> 'v" where
  "polkasmith_validate_transaction lib source tx = Executive_validate_transaction lib source tx"

definition polkasmith_offchain_worker :: "('s, 'block, 'header, 'xt, 'v) frame_lib \<Rightarrow> 'header \<Rightarrow> 's \<Rightarrow> 's" where
  "polkasmith_offchain_worker lib header = Executive_offchain_worker lib header"

definition polkasmith_account_nonce :: "('s, 'block, 'header, 'xt, 'v) frame_lib \<Rightarrow> u8 list \<Rightarrow> 's \<Rightarrow> u32" where
  "polkasmith_account_nonce lib account = System_account_nonce lib account"

definition polkasmith_collect_collation_info :: "('s, 'block, 'header, 'xt, 'v) frame_lib \<Rightarrow> 's \<Rightarrow> 'v" where
  "polkasmith_collect_collation_info lib = ParachainSystem_collect_collation_info lib"

definition polkasmith_EthereumRuntimeRPCApi :: "('s, 'v, 'x) evm_lib \<Rightarrow> ('s, 'v) Ethereum_api" where
  "polkasmith_EthereumRuntimeRPCApi lib =
     \<lparr>api_chain_id = evm_ChainId PolkaSmith,
      api_account_basic = (\<lambda>address. EVM_account_basic lib address),
      api_gas_price = FeeCalculator_min_gas_price lib,
      api_account_code_at = (\<lambda>address. EVM_account_codes lib address),
      api_author = Ethereum_find_author lib,
      api_storage_at = (\<lambda>s. storage_at (U256_to_big_endian lib) (EVM_account_storages lib s)),
      api_call = (\<lambda>s. eth_call (Runner_call lib s) (Runner_error_into lib) (evm_Config_config lib)),
      api_create = (\<lambda>s. eth_create (Runner_create lib s) (Runner_error_into lib) (evm_Config_config lib)),
      api_current_transaction_statuses = Ethereum_current_transaction_statuses lib,
      api_current_block = Ethereum_current_block lib,
      api_current_receipts = Ethereum_current_receipts lib,
      api_current_all = current_all (Ethereum_current_block lib) (Ethereum_current_receipts lib)
        (Ethereum_current_transaction_statuses lib)\<rparr>"

section \<open>PolkaFoundry\<close>

definition polkafoundry_Core :: "('s, 'block, 'header, 'xt, 'v) frame_lib \<Rightarrow> ('s, 'block, 'header) Core_api" where
  "polkafoundry_Core lib =
     \<lparr>api_version = polkafoundry_VERSION,
      api_execute_block = (\<lambda>block. Executive_execute_block lib block),
      api_initialize_block = (\<lambda>header. Executive_initialize_block lib header)\<rparr>"

definition polkafoundry_BlockBuilder :: "('s, 'block, 'header, 'xt, 'v) frame_lib \<Rightarrow> ('s, 'block, 'header, 'xt, 'v) BlockBuilder_api" where
  "polkafoundry_BlockBuilder lib =
     \<lparr>api_apply_extrinsic = (\<lambda>extrinsic. Executive_apply_extrinsic lib extrinsic),
      api_finalize_block = Executive_finalize_block lib,
      api_inherent_extrinsics = (\<lambda>data. create_extrinsics lib data),
      api_check_inherents = (\<lambda>block data. check_extrinsics lib data block)\<rparr>"

definition polkafoundry_AuraApi :: "('s, 'block, 'header, 'xt, 'v) frame_lib \<Rightarrow> ('s, 'v) Aura_api" where
  "polkafoundry_AuraApi lib = \<lparr>api_slot_duration = Aura_slot_duration lib, api_authorities = Aura_authorities lib\<rparr>"

definition polkafoundry_SessionKeys :: "('s, 'block, 'header, 'xt, 'v) frame_lib \<Rightarrow> 's SessionKeys_api" where
  "polkafoundry_SessionKeys lib =
     \<lparr>api_generate_session_keys = (\<lambda>seed. SessionKeys_generate lib seed),
      api_decode_session_keys = (\<lambda>encoded. SessionKeys_decode lib encoded)\<rparr>"

definition polkafoundry_TransactionPaymentApi :: "('s, 'block, 'header, 'xt, 'v) frame_lib \<Rightarrow> ('s, 'xt, 'v) TransactionPayment_api" where
  "polkafoundry_TransactionPaymentApi lib =
     \<lparr>api_query_info = (\<lambda>uxt len. TransactionPayment_query_info lib uxt len),
      api_query_fee_details = (\<lambda>uxt len. TransactionPayment_query_fee_details lib uxt len)\<rparr>"

definition polkafoundry_metadata :: "('s, 'block, 'header, 'xt, 'v) frame_lib \<Rightarrow> 'v" where
  "polkafoundry_metadata lib = Runtime_metadata lib"

definition polkafoundry_validate_transaction :: "('s, 'block, 'header, 'xt, 'v) frame_lib \<Rightarrow> 'v \<Rightarrow> 'xt \<Rightarrow> 's \<Rightarrow> 'v" where
  "polkafoundry_validate_transaction lib source tx = Executive_validate_transaction lib source tx"

definition polkafoundry_offchain_worker :: "('s, 'block, 'header, 'xt, 'v) frame_lib \<Rightarrow> 'header \<Rightarrow> 's \<Rightarrow> 's" where
  "polkafoundry_offchain_worker lib header = Executive_offchain_worker lib header"

definition polkafoundry_account_nonce :: "('s, 'block, 'header, 'xt, 'v) frame_lib \<Rightarrow> u8 list \<Rightarrow> 's \<Rightarrow> u32" where
  "polkafoundry_account_nonce lib account = System_account_nonce lib account"

definition polkafoundry_collect_collation_info :: "('s, 'block, 'header, 'xt, 'v) frame_lib \<Rightarrow> 's \<Rightarrow> 'v" where
  "polkafoundry_collect_collation_info lib = ParachainSystem_collect_collation_info lib"

definition polkafoundry_EthereumRuntimeRPCApi :: "('s, 'v, 'x) evm_lib \<Rightarrow> ('s, 'v) Ethereum_api" where
  "polkafoundry_EthereumRuntimeRPCApi lib =
     \<lparr>api_chain_id = evm_ChainId PolkaFoundry,
      api_account_basic = (\<lambda>address. EVM_account_basic lib address),
      api_gas_price = FeeCalculator_min_gas_price lib,
      api_account_code_at = (\<lambda>address. EVM_account_codes lib address),
      api_author = Ethereum_find_author lib,
      api_storage_at = (\<lambda>s. storage_at (U256_to_big_endian lib) (EVM_account_storages lib s)),
      api_call = (\<lambda>s. eth_call (Runner_call lib s) (Runner_error_into lib) (evm_Config_config lib)),
      api_create = (\<lambda>s. eth_create (Runner_create lib s) (Runner_error_into lib) (evm_Config_config lib)),
      api_current_transaction_statuses = Ethereum_current_transaction_statuses lib,
      api_current_block = Ethereum_current_block lib,
      api_current_receipts = Ethereum_current_receipts lib,
      api_current_all = current_all (Ethereum_current_block lib) (Ethereum_current_receipts lib)
        (Ethereum_current_transaction_statuses lib)\<rparr>"

section \<open>The three runtimes answer alike\<close>

lemmas api_defs =
  halongbay_Core_def halongbay_BlockBuilder_def halongbay_AuraApi_def halongbay_SessionKeys_def halongbay_TransactionPaymentApi_def halongbay_metadata_def halongbay_validate_transaction_def halongbay_offchain_worker_def halongbay_account_nonce_def halongbay_collect_collation_info_def halongbay_EthereumRuntimeRPCApi_def
  polkasmith_Core_def polkasmith_BlockBuilder_def polkasmith_AuraApi_def polkasmith_SessionKeys_def polkasmith_TransactionPaymentApi_def polkasmith_metadata_def polkasmith_validate_transaction_def polkasmith_offchain_worker_def polkasmith_account_nonce_def polkasmith_collect_collation_info_def polkasmith_EthereumRuntimeRPCApi_def
  polkafoundry_Core_def polkafoundry_BlockBuilder_def polkafoundry_AuraApi_def polkafoundry_SessionKeys_def polkafoundry_TransactionPaymentApi_def polkafoundry_metadata_def polkafoundry_validate_transaction_def polkafoundry_offchain_worker_def polkafoundry_account_nonce_def polkafoundry_collect_collation_info_def polkafoundry_EthereumRuntimeRPCApi_def

definition Core_of :: "runtime \<Rightarrow> ('s, 'block, 'header, 'xt, 'v) frame_lib \<Rightarrow> ('s, 'block, 'header) Core_api" where
  "Core_of r = (case r of PolkaFoundry \<Rightarrow> polkafoundry_Core | PolkaSmith \<Rightarrow> polkasmith_Core | Halongbay \<Rightarrow> halongbay_Core)"

definition EthereumApi_of :: "runtime \<Rightarrow> ('s, 'v, 'x) evm_lib \<Rightarrow> ('s, 'v) Ethereum_api" where
  "EthereumApi_of r = (case r of PolkaFoundry \<Rightarrow> polkafoundry_EthereumRuntimeRPCApi
     | PolkaSmith \<Rightarrow> polkasmith_EthereumRuntimeRPCApi | Halongbay \<Rightarrow> halongbay_EthereumRuntimeRPCApi)"

text \<open>On the same library the runtimes differ, for a node that asks them, in their version and their EVM chain
  identifier and in nothing else.\<close>

lemma core_apis_agree: "Core_of r lib = (Core_of q lib)\<lparr>api_version := VERSION r\<rparr>"
  by (cases r; cases q) (simp_all add: Core_of_def api_defs VERSION_def)

lemma ethereum_apis_agree: "EthereumApi_of r lib = (EthereumApi_of q lib)\<lparr>api_chain_id := evm_ChainId r\<rparr>"
  by (cases r; cases q) (simp_all add: EthereumApi_of_def api_defs)

lemma other_apis_agree:
  "polkasmith_BlockBuilder lib = halongbay_BlockBuilder lib" "polkafoundry_BlockBuilder lib = halongbay_BlockBuilder lib"
  "polkasmith_AuraApi lib = halongbay_AuraApi lib" "polkafoundry_AuraApi lib = halongbay_AuraApi lib"
  "polkasmith_SessionKeys lib = halongbay_SessionKeys lib" "polkafoundry_SessionKeys lib = halongbay_SessionKeys lib"
  "polkasmith_TransactionPaymentApi lib = halongbay_TransactionPaymentApi lib"
  "polkafoundry_TransactionPaymentApi lib = halongbay_TransactionPaymentApi lib"
  "polkasmith_metadata lib = halongbay_metadata lib" "polkafoundry_metadata lib = halongbay_metadata lib"
  "polkasmith_validate_transaction lib = halongbay_validate_transaction lib" "polkafoundry_validate_transaction lib = halongbay_validate_transaction lib"
  "polkasmith_offchain_worker lib = halongbay_offchain_worker lib" "polkafoundry_offchain_worker lib = halongbay_offchain_worker lib"
  "polkasmith_account_nonce lib = halongbay_account_nonce lib" "polkafoundry_account_nonce lib = halongbay_account_nonce lib"
  "polkasmith_collect_collation_info lib = halongbay_collect_collation_info lib" "polkafoundry_collect_collation_info lib = halongbay_collect_collation_info lib"
  by (simp_all add: api_defs fun_eq_iff)

text \<open>
  An Ethereum transaction names the chain it is for by this identifier. PolkaFoundry has its own;
  Halongbay and PolkaSmith share one, so that nothing tells their transactions apart.
\<close>

lemma chain_ids_shared:
  "api_chain_id (EthereumApi_of PolkaSmith lib) = api_chain_id (EthereumApi_of Halongbay lib')"
  "api_chain_id (EthereumApi_of PolkaFoundry lib) \<noteq> api_chain_id (EthereumApi_of Halongbay lib')"
  by (simp_all add: EthereumApi_of_def api_defs evm_ChainId_def time_of_def polkasmith_time_def halongbay_time_def
      polkafoundry_time_def time_module_def)

section \<open>Questions to the EVM\<close>

definition estimating :: "('s, 'v, 'x) evm_lib \<Rightarrow> bool \<Rightarrow> 'x evm_config" where
  "estimating lib estimate = (evm_Config_config lib)\<lparr>evm_estimate := estimate \<or> evm_estimate (evm_Config_config lib)\<rparr>"

text \<open>A call or a creation asked over the API runs the EVM with the gas limit reduced modulo two to the
  64th and, when it is an estimate, with the estimating configuration; its errors come back as
  dispatch errors, and the reply is the EVM's own otherwise. A slot of a contract is read under the
  bytes of its index.\<close>

lemma ethereum_api_correct:
  fixes lib :: "('s, 'v, 'x) evm_lib"
  shows "api_call (EthereumApi_of r lib) s source target data value gas gas_price nonce estimate =
      map_sum (Runner_error_into lib) id (Runner_call lib s source target data value (of_nat (unat gas mod 2 ^ 64)) gas_price nonce (estimating lib estimate)) \<and>
    api_create (EthereumApi_of r lib) s source data value gas gas_price nonce estimate =
      map_sum (Runner_error_into lib) id (Runner_create lib s source data value (of_nat (unat gas mod 2 ^ 64)) gas_price nonce (estimating lib estimate)) \<and>
    api_storage_at (EthereumApi_of r lib) s a i = EVM_account_storages lib s a (U256_to_big_endian lib i) \<and>
    api_current_all (EthereumApi_of r lib) s = (api_current_block (EthereumApi_of r lib) s,
      api_current_receipts (EthereumApi_of r lib) s, api_current_transaction_statuses (EthereumApi_of r lib) s)"
proof (intro conjI)
  have gas: "(ucast gas :: u64) = of_nat (unat gas mod 2 ^ 64)" by (simp add: word_unat_eq_iff unsigned_ucast_eq unat_of_nat take_bit_eq_mod)
  have all: "EthereumApi_of r lib = (halongbay_EthereumRuntimeRPCApi lib)\<lparr>api_chain_id := evm_ChainId r\<rparr>"
    using ethereum_apis_agree [of r lib Halongbay] by (simp add: EthereumApi_of_def)
  show "api_call (EthereumApi_of r lib) s source target data value gas gas_price nonce estimate =
      map_sum (Runner_error_into lib) id (Runner_call lib s source target data value (of_nat (unat gas mod 2 ^ 64)) gas_price nonce (estimating lib estimate))"
    unfolding all gas [symmetric] estimating_def
    by (simp add: halongbay_EthereumRuntimeRPCApi_def eth_call_def evm_config_for_eq split: sum.split)
  show "api_create (EthereumApi_of r lib) s source data value gas gas_price nonce estimate =
      map_sum (Runner_error_into lib) id (Runner_create lib s source data value (of_nat (unat gas mod 2 ^ 64)) gas_price nonce (estimating lib estimate))"
    unfolding all gas [symmetric] estimating_def
    by (simp add: halongbay_EthereumRuntimeRPCApi_def eth_create_def evm_config_for_eq split: sum.split)
  show "api_storage_at (EthereumApi_of r lib) s a i = EVM_account_storages lib s a (U256_to_big_endian lib i)"
    unfolding all by (simp add: halongbay_EthereumRuntimeRPCApi_def storage_at_def)
  show "api_current_all (EthereumApi_of r lib) s = (api_current_block (EthereumApi_of r lib) s,
      api_current_receipts (EthereumApi_of r lib) s, api_current_transaction_statuses (EthereumApi_of r lib) s)"
    unfolding all by (simp add: halongbay_EthereumRuntimeRPCApi_def current_all_def)
qed

end
