(* ===== verification/Spec2Isabelle.thy ===== *)
theory Spec2Isabelle
  imports Inflation_Tests Staking_Findings Staking_Issue Staking_Minimum Mocks Client Runtime_Evm Runtime_Api
begin

text \<open>
  A verification development of Polkafoundry, a Substrate parachain: four pallets of its own (staking,
  crowdloan rewards, treasury, block authorship), three runtimes that configure pallets, and a node.

  \<^bold>\<open>The program's parts and how they interact.\<close> Accounts bond stake with the staking pallet
  (\<^verbatim>\<open>pallets/polkafoundry-staking\<close>) to become collators, others nominate collators. At the end of a block
  the hook \<^verbatim>\<open>on_finalize\<close> starts a new round when the old one has run its length: it pays the stakers of
  an earlier round from newly issued money (amount from \<^verbatim>\<open>inflation.rs\<close> and \<^verbatim>\<open>taylor_series.rs\<close>), turns locked
  stake active, gives back stake whose bonding delay is over, empties the queue of leaving collators,
  and asks the election provider for the collators of the round. The author-inherent pallet
  (\<^verbatim>\<open>pallets/author-inherent\<close>) records the author of each block from the inherent data of the node and declares
  the traits by which the staking pallet gives points to authors. The treasury
  (\<^verbatim>\<open>pallets/treasury\<close>) holds an account that anyone may donate to and root may allocate from; the crowdloan
  pallet (\<^verbatim>\<open>pallets/crowdloan-rewards\<close>) pays vested rewards from that account. The node
  (\<^verbatim>\<open>node/src\<close>) chooses a chain specification and a runtime, dispatches the command line, builds the services,
  and maintains the Ethereum filter pool and pending transactions at every imported block. The three
  runtimes (\<^verbatim>\<open>runtime/*/src/lib.rs\<close>) put the pallets together, answer the node over the runtime APIs and say what
  messages of other chains may do; Halongbay contains the crowdloan and treasury pallets.

  \<^bold>\<open>The theories.\<close>
  \<^item> \<^theory_text>\<open>Prelude\<close>: words of the widths of \<^verbatim>\<open>primitives/src/lib.rs\<close>; outcomes of dispatchable calls
    (success, error, panic); saturating arithmetic; FRAME storage maps as association lists in the
    order of iteration (\<open>smap\<close>, with the order of the hashed keys as a parameter); reachability and the
    locale \<open>inductive_invariant\<close>; the binary search of Rust's slices, specified by the locale
    \<open>slice_search\<close>.
  \<^item> \<^theory_text>\<open>Currency\<close>: the currency of FRAME as a record of operations, what its documentation says of them as
    named predicates, and a concrete ledger that satisfies them.
  \<^item> \<^theory_text>\<open>Staking_Types\<close>, \<^theory_text>\<open>Staking_Ledger\<close>: the structs of the staking pallet with all their methods, and the
    contract \<open>unbonding_ledger\<close> that the collator and the nominator ledger both satisfy.
  \<^item> \<^theory_text>\<open>Staking_Pallet\<close>, \<^theory_text>\<open>Staking_Rounds\<close>: storage, configuration, errors, events and the ten dispatchables;
    genesis, the round change and all it calls, the election data, block author points. One definition
    per function of the source, with its name; a \<^verbatim>\<open>&mut\<close> argument is returned. \<open>events\<close> is the sequence of
    \<^verbatim>\<open>deposit_event\<close> calls.
  \<^item> \<^theory_text>\<open>Staking_Frame\<close>, \<^theory_text>\<open>Staking_Invariants\<close>: what each operation leaves alone and the loops in closed form; the
    pallet as a step relation and the invariants of its reachable states. \<^theory_text>\<open>Staking_Demo\<close> is a short concrete
    run used by the witnesses.
  \<^item> \<^theory_text>\<open>Staking_Properties\<close> (calls), \<^theory_text>\<open>Staking_Round_Properties\<close> and \<^theory_text>\<open>Staking_Election_Properties\<close> (round change, election,
    genesis): the correctness of the pallet. \<^theory_text>\<open>Staking_Life\<close>: the abstract life of an account and the refinement
    of the pallet to it. \<^theory_text>\<open>Staking_Storage\<close>: the well-formedness of all storage maps. \<^theory_text>\<open>Staking_Backing\<close>: the
    stake of a paying collator is covered by its reserved balance. \<^theory_text>\<open>Staking_Releases\<close>: waiting stake comes
    back on time. \<^theory_text>\<open>Staking_Total\<close>: the total stake covers the books. \<^theory_text>\<open>Staking_Minimum\<close>: a collator keeps the minimum stake. \<^theory_text>\<open>Staking_Payout\<close> and
    \<^theory_text>\<open>Staking_Issue\<close>: how much a round may issue, for one payout and then on every run from genesis.
  \<^item> \<^theory_text>\<open>Inflation\<close>, \<^theory_text>\<open>Inflation_Correct\<close>, \<^theory_text>\<open>Inflation_Accuracy\<close>: the inflation curve over abstract \<^verbatim>\<open>PerThing\<close> and
    \<^verbatim>\<open>BigUint\<close> operations, its correctness against a signed integer series, the end of its loop and its distance
    from the exponential. \<^theory_text>\<open>Inflation_Payout\<close>: the payout of a round as issuance times part of the year times
    rate. \<^theory_text>\<open>Inflation_Tests\<close> replays the payout test.
  \<^item> \<^theory_text>\<open>Treasury\<close>, \<^theory_text>\<open>Crowdloan\<close>, \<^theory_text>\<open>Author_Inherent\<close>: the other pallets with their properties. The traits
    \<^verbatim>\<open>EventHandler\<close> and \<^verbatim>\<open>CanAuthor\<close> are the locale \<open>authorship\<close>, interpreted for \<^verbatim>\<open>()\<close> and for the staking pallet.
  \<^item> \<^theory_text>\<open>Runtime_Config\<close>, \<^theory_text>\<open>Runtime_Compose\<close>: constants, limits, weights, addresses and chain specifications; the pallet
    tables, the parameters of library pallets, the conversion of Ethereum transactions, and the dispatch
    of Halongbay's own pallets over one balance sheet. \<^theory_text>\<open>Runtime_Xcm\<close>, \<^theory_text>\<open>Runtime_Xcm_Copies\<close>: accounts, origins,
    barrier and routing for messages of other chains in the three runtimes. \<^theory_text>\<open>Runtime_Api\<close>: the runtime APIs
    as records of functions over the library's pallets. \<^theory_text>\<open>Runtime_Pallets\<close>: the configurations of the library's
    pallets as records, the checks of signed transactions, the parameters kept for staking. \<^theory_text>\<open>Runtime_Evm\<close>: the
    precompiled contracts, the EVM and Ethereum configurations, the benchmark API.
  \<^item> \<^theory_text>\<open>Node\<close>, \<^theory_text>\<open>Service\<close>, \<^theory_text>\<open>Client\<close>: the command line and the maintenance tasks; the construction of the services as
    sequences of library calls that may fail; the client wrapper and the relay chain command line.
  \<^item> \<^theory_text>\<open>Mocks\<close>: the mock configurations and block drivers of the pallets' tests, with tests replayed as lemmas.
  \<^item> \<^theory_text>\<open>Staking_Findings\<close>: behaviour of the code that its comments and tests do not suggest, as theorems.

  \<^bold>\<open>What is shown.\<close> Staking: every reachable state refines an abstract life of each
  account; a collator keeps the minimum stake, its ledger adds up, and the points of a round are those of
  its authors; the stake of an account that can pay is covered by its reserved balance at all times, and
  the stake on the books by the total the rewards are divided by; a failed call changes nothing, with the
  one exception the code has; each call does what it means to on both ledgers; stake waits at most the
  bound root keeps the bonding delay within, becomes active at the next round, and a round change
  releases exactly what is due, exits included; a round is paid once, issues exactly what it announces
  and, on every run from genesis whose elections spend no voter's stake twice, at most one and a half
  times the payout of the curve; rounds follow the block number while the settings stay; the election
  result is stored faithfully. Inflation: the limb-level division is floor division, the Taylor loop ends
  before its limit, the curve is the series it claims to be and stays close to the exponential, and the
  payout of a round is the issuance times the part of the year times the rate of the curve, up to
  rounding. Crowdloan: rewards vest, are never exceeded, and are paid in full in the end where the rest
  is not below the minimum balance. Treasury: calls of the two own pallets change its balance by root, by
  claims of contributors and by donations only, also when they come from other chains, which act as root
  only on behalf of the relay chain. Authorship: exactly one author per finalized block, and the inherent
  data round trip. Runtimes: the pallet tables are consistent, no account of the chain may send or
  execute a message, and a signed transaction is accepted only if it passes all seven checks. Node: a
  node that does not collate or names its author starts exactly what its command line asks for, chain
  operations open the compiled-in runtime whose version is reported, services start all or nothing, the
  client wrapper is transparent, pools do not leak.

  \<^bold>\<open>Arithmetic.\<close> Machine integers keep their width; a bare operator wraps, as in the release profile of the
  workspace, which sets no overflow checks. The theorems on released and claimed amounts are stated over
  \<open>unat\<close>, so that nothing is hidden by a wrap. There is no fuel: every loop of the source is bounded by a
  list or, for the binary search, by a measure; the Taylor loop runs over the 299 indices of the
  source.

  \<^bold>\<open>Parameters.\<close> Code of the Substrate, Cumulus and Frontier libraries is an argument of
  the definitions: the currency, \<^verbatim>\<open>Perbill\<close> and \<^verbatim>\<open>BigUint\<close>,
  the election provider's result, the conversion of balances to votes, database weights, the order of
  storage iteration, signature verification, the SCALE codec, the client builder and the genesis builder of
  the node, the converters of the XCM builder, the executive and the pallets behind the runtime APIs, the
  library types that the pallet configurations name, and the outcome of each library call that builds a
  service. What the theorems need of them is a named hypothesis, and the witnesses instantiate them with
  concrete functions.

  \<^bold>\<open>Not modelled.\<close> The configurations of the Aura and sudo pallets, and the associated
  types that only name a library type; the calls of library pallets; the staking and election configuration of Halongbay, which is
  commented out; the multiaddress modules of the other runtimes, copies of the modelled one that no runtime
  declares; argument parsing; build scripts and \<^verbatim>\<open>main\<close>; the mock configurations of
  library pallets and the floating point reference of the inflation tests, whose rounding the kernel has no
  theory of here.

  \<^bold>\<open>Status.\<close> Every function of the pallets, the node and the runtimes that computes
  something of its own has its definition here, but for what the previous paragraph names. What could still
  be added are more of the staking tests as replayed runs, which the general theorems already cover.
\<close>

end
